(* ===== verification/DK_Prelude.thy ===== *)
theory DK_Prelude
  imports Main "HOL-Library.Word" "HOL-Library.Sublist"
begin

text \<open>
  Shared vocabulary of the development: the machine integers of the agent, little-endian
  byte strings, decimal printing (\<^verbatim>\<open>std::to_string\<close>, \<^verbatim>\<open>operator<<\<close>) and reading
  (\<^verbatim>\<open>std::stoi\<close>, \<^verbatim>\<open>std::atoi\<close>), \<^verbatim>\<open>std::getline\<close>, and association lists that stand for
  \<^verbatim>\<open>std::unordered_map\<close> together with the order in which they are iterated.
\<close>

unbundle bit_operations_syntax

subsection \<open>Machine integers\<close>

type_synonym u8 = "8 word"
type_synonym u16 = "16 word"
type_synonym u32 = "32 word"
type_synonym u64 = "64 word"
type_synonym i32 = "32 word"  \<comment> \<open>C \<open>int\<close>: read with \<open>sint\<close>, converted to wider types with \<open>scast\<close>\<close>
type_synonym bytes = "8 word list"

named_theorems wire_simps \<open>evaluation of encoders and decoders of wire structures\<close>
named_theorems agent_defs \<open>definitions unfolded to evaluate the agent's operations\<close>

subsection \<open>Little-endian bytes\<close>

definition le_bytes :: "nat \<Rightarrow> 'a::len word \<Rightarrow> bytes" where
  "le_bytes n w = map (\<lambda>i. ucast (drop_bit (8 * i) w)) [0..<n]"

fun le_word :: "bytes \<Rightarrow> 'a::len word" where
  "le_word [] = 0"
| "le_word (b # bs) = ucast b OR push_bit 8 (le_word bs)"

lemma length_le_bytes [simp]: "length (le_bytes n w) = n"
  by (simp add: le_bytes_def)

lemma nth_le_bytes: "i < n \<Longrightarrow> le_bytes n w ! i = ucast (drop_bit (8 * i) w)"
  by (simp add: le_bytes_def)

lemma bit_le_word:
  "bit (le_word bs :: 'a::len word) k \<longleftrightarrow>
     k < LENGTH('a) \<and> k div 8 < length bs \<and> bit (bs ! (k div 8)) (k mod 8)"
proof (induction bs arbitrary: k)
  case Nil
  show ?case by simp
next
  case (Cons b bs)
  have small: "bit b k \<Longrightarrow> k < 8" for k
    using bit_imp_le_length [of b k] by simp
  show ?case
  proof (cases "k < 8")
    case True
    then show ?thesis
      by (auto simp: bit_or_iff bit_push_bit_iff bit_unsigned_iff)
  next
    case False
    then have "k div 8 = Suc ((k - 8) div 8)" "k mod 8 = (k - 8) mod 8"
      by (simp_all add: div_if mod_if)
    with False Cons.IH [of "k - 8"] small [of k] show ?thesis
      by (auto simp: bit_or_iff bit_push_bit_iff bit_unsigned_iff)
  qed
qed

lemma le_word_le_bytes [simp]:
  assumes "LENGTH('a::len) \<le> 8 * n"
  shows "le_word (le_bytes n (w :: 'a word)) = w"
proof (rule bit_word_eqI)
  fix k assume k: "k < LENGTH('a)"
  have "k div 8 < n" using k assms by simp
  moreover have "8 * (k div 8) + k mod 8 = k" by simp
  moreover have "k mod 8 < 8" by simp
  ultimately show "bit (le_word (le_bytes n w) :: 'a word) k \<longleftrightarrow> bit w k"
    using k by (simp add: bit_le_word nth_le_bytes bit_unsigned_iff bit_drop_bit_eq)
qed

lemma le_bytes_le_word [simp]:
  assumes "length bs = n" and "LENGTH('a::len) = 8 * n"
  shows "le_bytes n (le_word bs :: 'a word) = bs"
proof (rule nth_equalityI)
  show "length (le_bytes n (le_word bs :: 'a word)) = length bs"
    using assms by simp
next
  fix i assume "i < length (le_bytes n (le_word bs :: 'a word))"
  then have i: "i < n" by simp
  show "le_bytes n (le_word bs :: 'a word) ! i = bs ! i"
  proof (rule bit_word_eqI)
    fix k assume k: "k < LENGTH(8)"
    then have "(8 * i + k) div 8 = i" "(8 * i + k) mod 8 = k" "8 * i + k < 8 * n"
      using i by simp_all
    then show "bit (le_bytes n (le_word bs :: 'a word) ! i) k \<longleftrightarrow> bit (bs ! i) k"
      using i k assms by (simp add: nth_le_bytes bit_unsigned_iff bit_drop_bit_eq bit_le_word)
  qed
qed

subsection \<open>Decimal numbers\<close>

definition digit_char :: "nat \<Rightarrow> char" where
  "digit_char d = char_of (48 + d)"

definition is_digit :: "char \<Rightarrow> bool" where
  "is_digit c \<longleftrightarrow> 48 \<le> (of_char c :: nat) \<and> (of_char c :: nat) \<le> 57"

definition digit_val :: "char \<Rightarrow> nat" where
  "digit_val c = of_char c - 48"

fun show_nat :: "nat \<Rightarrow> string" where
  "show_nat n = (if n < 10 then [digit_char n] else show_nat (n div 10) @ [digit_char (n mod 10)])"

declare show_nat.simps [simp del]

definition show_int :: "int \<Rightarrow> string" where
  "show_int i = (if i < 0 then CHR ''-'' # show_nat (nat (- i)) else show_nat (nat i))"

definition read_nat :: "string \<Rightarrow> nat" where
  "read_nat s = foldl (\<lambda>a c. 10 * a + digit_val c) 0 s"

lemma of_char_digit_char [simp]: "d < 10 \<Longrightarrow> (of_char (digit_char d) :: nat) = 48 + d"
  by (simp add: digit_char_def)

lemma digit_val_digit_char [simp]: "d < 10 \<Longrightarrow> digit_val (digit_char d) = d"
  by (simp add: digit_val_def)

lemma is_digit_digit_char [simp]: "d < 10 \<Longrightarrow> is_digit (digit_char d)"
  by (simp add: is_digit_def)

lemma digit_chars:
  "digit_char 0 = CHR ''0''" "digit_char 1 = CHR ''1''" "digit_char 2 = CHR ''2''"
  "digit_char 3 = CHR ''3''" "digit_char 4 = CHR ''4''" "digit_char 5 = CHR ''5''"
  "digit_char 6 = CHR ''6''" "digit_char 7 = CHR ''7''" "digit_char 8 = CHR ''8''"
  "digit_char 9 = CHR ''9''" "digit_char (Suc 0) = CHR ''1''"
  by code_simp+

lemmas show_eval = show_nat.simps digit_chars

lemma show_nat_digits: "c \<in> set (show_nat n) \<Longrightarrow> is_digit c"
proof (induction n rule: show_nat.induct)
  case (1 n)
  then show ?case by (cases "n < 10") (auto simp: show_nat.simps [of n])
qed

lemma show_nat_not_Nil [simp]: "show_nat n \<noteq> []"
  by (subst show_nat.simps) simp

lemma read_show_nat [simp]: "read_nat (show_nat n) = n"
proof (induction n rule: show_nat.induct)
  case (1 n)
  then show ?case
    by (cases "n < 10") (auto simp: show_nat.simps [of n] read_nat_def)
qed

lemma show_nat_inj: "show_nat m = show_nat n \<Longrightarrow> m = n"
  by (metis read_show_nat)

subsection \<open>Lines\<close>

text \<open>
  \<^verbatim>\<open>std::getline(stream, line)\<close> on the unread characters \<open>s\<close>: fails exactly when nothing is
  left, otherwise yields the characters before the next newline (which it consumes) and the
  rest. A last line without a newline is delivered; an empty rest after a final newline is not.
\<close>

definition getline :: "string \<Rightarrow> (string \<times> string) option" where
  "getline s = (if s = [] then None
     else Some (takeWhile (\<lambda>c. c \<noteq> CHR 0x0A) s, drop 1 (dropWhile (\<lambda>c. c \<noteq> CHR 0x0A) s)))"

lemma getline_shorter: "getline s = Some (l, r) \<Longrightarrow> length r < length s"
proof -
  assume "getline s = Some (l, r)"
  then have s: "s \<noteq> []" and r: "r = drop 1 (dropWhile (\<lambda>c. c \<noteq> CHR 0x0A) s)"
    by (auto simp: getline_def split: if_splits)
  have "length (dropWhile (\<lambda>c. c \<noteq> CHR 0x0A) s) \<le> length s"
    by (rule length_dropWhile_le)
  moreover have "0 < length s" using s by simp
  ultimately show ?thesis unfolding r length_drop by linarith
qed

text \<open>All lines a \<^verbatim>\<open>while (std::getline(f, line))\<close> loop sees.\<close>

function lines_of :: "string \<Rightarrow> string list" where
  "lines_of s = (case getline s of None \<Rightarrow> [] | Some (l, r) \<Rightarrow> l # lines_of r)"
  by pat_completeness auto
termination
  by (relation "measure length") (auto dest: getline_shorter)

declare lines_of.simps [simp del]

lemma lines_of_Nil [simp]: "lines_of [] = []"
  by (simp add: lines_of.simps getline_def)

lemma lines_of_no_newline:
  "s \<noteq> [] \<Longrightarrow> CHR 0x0A \<notin> set s \<Longrightarrow> lines_of s = [s]"
proof -
  assume "s \<noteq> []" "CHR 0x0A \<notin> set s"
  then have tw: "takeWhile (\<lambda>c. c \<noteq> CHR 0x0A) s = s"
    and dw: "dropWhile (\<lambda>c. c \<noteq> CHR 0x0A) s = []"
    unfolding takeWhile_eq_all_conv dropWhile_eq_Nil_conv by auto
  have "getline s = Some (s, [])"
    unfolding getline_def tw dw using \<open>s \<noteq> []\<close> by simp
  then show ?thesis by (simp add: lines_of.simps [of s])
qed

lemma getline_append_newline:
  "CHR 0x0A \<notin> set l \<Longrightarrow> getline (l @ CHR 0x0A # r) = Some (l, r)"
  by (auto simp: getline_def takeWhile_append dropWhile_append takeWhile_eq_all_conv dropWhile_eq_Nil_conv)

subsection \<open>Association lists as unordered maps\<close>

text \<open>
  \<^verbatim>\<open>std::unordered_map\<close> is a finite map with an unspecified iteration order. The model keeps
  the order explicit: an association list with distinct keys, iterated from the front. A key
  inserted by \<^verbatim>\<open>operator[]\<close> goes to the end.
\<close>

fun um_set :: "'k \<Rightarrow> 'v \<Rightarrow> ('k \<times> 'v) list \<Rightarrow> ('k \<times> 'v) list" where
  "um_set k v [] = [(k, v)]"
| "um_set k v ((k', v') # m) = (if k' = k then (k, v) # m else (k', v') # um_set k v m)"

definition um_get :: "'v \<Rightarrow> ('k \<times> 'v) list \<Rightarrow> 'k \<Rightarrow> 'v" where
  "um_get d m k = (case map_of m k of None \<Rightarrow> d | Some v \<Rightarrow> v)"

definition um_keys :: "('k \<times> 'v) list \<Rightarrow> 'k list" where
  "um_keys m = map fst m"

lemma map_of_um_set [simp]: "map_of (um_set k v m) = (map_of m)(k \<mapsto> v)"
  by (induction m) (auto simp: fun_eq_iff)

lemma keys_um_set: "fst ` set (um_set k v m) = insert k (fst ` set m)"
proof (induction m)
  case Nil
  show ?case by simp
next
  case (Cons p m)
  then show ?case by (cases p) (simp add: insert_commute)
qed

lemma distinct_um_set: "distinct (map fst m) \<Longrightarrow> distinct (map fst (um_set k v m))"
proof (induction m)
  case Nil
  show ?case by simp
next
  case (Cons p m)
  then show ?case
    using keys_um_set [of k v m] by (cases p) auto
qed

lemma um_get_um_set [simp]: "um_get d (um_set k v m) k' = (if k' = k then v else um_get d m k')"
  by (simp add: um_get_def)

lemma set_um_set: "set (um_set k v m) \<subseteq> insert (k, v) (set m)"
  by (induction m) (auto split: if_splits)

lemma set_um_set_distinct:
  "distinct (map fst m) \<Longrightarrow> set (um_set k v m) = insert (k, v) {p \<in> set m. fst p \<noteq> k}"
  by (induction m) force+

lemma um_get_in_set: "map_of m k = Some v \<Longrightarrow> um_get d m k = v"
  by (simp add: um_get_def)

end
