(* ===== verification/C_Layout.thy ===== *)
theory C_Layout
  imports DK_Prelude
begin

text \<open>
  The C data model shared by the eBPF object (\<^verbatim>\<open>clang -target bpf\<close>), the kernel and the
  user-space agent (x86-64 System V): sizes, alignments and member offsets of the record types
  the sources declare. A type is data, so that the declarations of \<^verbatim>\<open>agent/ebpf/vmlinux.h\<close> and
  \<^verbatim>\<open>agent/include/event_types.h\<close> can be written down member by member and laid out by
  evaluation. Bit-fields follow the System V rule: a bit-field never crosses a boundary of its
  declared type, an unnamed one pads and does not raise the alignment of the record, and width
  0 moves to the next boundary. A packed record (\<^verbatim>\<open>__attribute__((packed))\<close>) has no padding.
\<close>

datatype ctype =
    CInt bool nat                           \<comment> \<open>signedness, bytes\<close>
  | CPtr                                    \<comment> \<open>any object or function pointer\<close>
  | CEnum "(string \<times> int) list"
  | CArray ctype nat                        \<comment> \<open>flexible and zero-length arrays have length 0\<close>
  | CStruct bool "cmember list"             \<comment> \<open>the flag: packed\<close>
  | CUnion "cmember list"
and cmember =
    Field string ctype                      \<comment> \<open>an anonymous aggregate has the empty name\<close>
  | Bits string ctype nat
  | Pad ctype nat                           \<comment> \<open>unnamed bit-field\<close>

abbreviation c_char :: ctype where "c_char \<equiv> CInt True 1"
abbreviation c_uchar :: ctype where "c_uchar \<equiv> CInt False 1"
abbreviation c_short :: ctype where "c_short \<equiv> CInt True 2"
abbreviation c_ushort :: ctype where "c_ushort \<equiv> CInt False 2"
abbreviation c_int :: ctype where "c_int \<equiv> CInt True 4"
abbreviation c_uint :: ctype where "c_uint \<equiv> CInt False 4"
abbreviation c_long :: ctype where "c_long \<equiv> CInt True 8"
abbreviation c_ulong :: ctype where "c_ulong \<equiv> CInt False 8"
abbreviation c_bool :: ctype where "c_bool \<equiv> CInt False 1"

subsection \<open>The layout algorithm\<close>

text \<open>What placement needs to know of a member: sizes and alignments in bytes.\<close>

datatype shape =
    SField nat nat                          \<comment> \<open>size, alignment\<close>
  | SBits nat nat nat                       \<comment> \<open>size and alignment of the declared type, width\<close>
  | SPad nat nat nat

definition align_up :: "nat \<Rightarrow> nat \<Rightarrow> nat" where
  "align_up n a = (if n mod a = 0 then n else n + (a - n mod a))"

definition bit_place :: "bool \<Rightarrow> nat \<Rightarrow> nat \<Rightarrow> nat \<Rightarrow> nat \<Rightarrow> nat" where
  "bit_place packed pos s a w =
     (if w = 0 then align_up pos (8 * a)
      else if \<not> packed \<and> pos mod (8 * s) + w > 8 * s then align_up pos (8 * s)
      else pos)"

text \<open>The bit offset at which a member starts, when the members before it end at \<open>pos\<close>.\<close>

fun place :: "bool \<Rightarrow> nat \<Rightarrow> shape \<Rightarrow> nat" where
  "place packed pos (SField s a) = align_up pos (8 * (if packed then 1 else a))"
| "place packed pos (SBits s a w) = bit_place packed pos s a w"
| "place packed pos (SPad s a w) = bit_place packed pos s a w"

fun width :: "shape \<Rightarrow> nat" where
  "width (SField s a) = 8 * s"
| "width (SBits s a w) = w"
| "width (SPad s a w) = w"

fun shape_align :: "shape \<Rightarrow> nat" where
  "shape_align (SField s a) = a"
| "shape_align (SBits s a w) = a"
| "shape_align (SPad s a w) = 1"

fun offsets :: "bool \<Rightarrow> nat \<Rightarrow> shape list \<Rightarrow> nat list" where
  "offsets packed pos [] = []"
| "offsets packed pos (m # ms) =
     place packed pos m # offsets packed (place packed pos m + width m) ms"

fun struct_end :: "bool \<Rightarrow> nat \<Rightarrow> shape list \<Rightarrow> nat" where
  "struct_end packed pos [] = pos"
| "struct_end packed pos (m # ms) = struct_end packed (place packed pos m + width m) ms"

fun max_align :: "shape list \<Rightarrow> nat" where
  "max_align [] = 1"
| "max_align (m # ms) = max (shape_align m) (max_align ms)"

fun max_width :: "shape list \<Rightarrow> nat" where
  "max_width [] = 0"
| "max_width (m # ms) = max (width m) (max_width ms)"

definition members_align :: "bool \<Rightarrow> shape list \<Rightarrow> nat" where
  "members_align packed ms = (if packed then 1 else max_align ms)"

definition struct_sa :: "bool \<Rightarrow> shape list \<Rightarrow> nat \<times> nat" where
  "struct_sa packed ms =
     (let a = members_align packed ms in (align_up (struct_end packed 0 ms) (8 * a) div 8, a))"

definition union_sa :: "shape list \<Rightarrow> nat \<times> nat" where
  "union_sa ms =
     (let a = members_align False ms
      in (align_up (max_width ms) (8 * a) div 8, a))"

definition enum_size :: "(string \<times> int) list \<Rightarrow> nat" where
  "enum_size es = (if list_all (\<lambda>(n, v). - 2147483648 \<le> v \<and> v < 4294967296) es then 4 else 8)"

fun sizealign :: "ctype \<Rightarrow> nat \<times> nat" and shape_of :: "cmember \<Rightarrow> shape" where
  "sizealign (CInt sg n) = (n, n)"
| "sizealign CPtr = (8, 8)"
| "sizealign (CEnum es) = (enum_size es, enum_size es)"
| "sizealign (CArray t n) = (case sizealign t of (s, a) \<Rightarrow> (n * s, a))"
| "sizealign (CStruct packed ms) = struct_sa packed (map shape_of ms)"
| "sizealign (CUnion ms) = union_sa (map shape_of ms)"
| "shape_of (Field n t) = (case sizealign t of (s, a) \<Rightarrow> SField s a)"
| "shape_of (Bits n t w) = (case sizealign t of (s, a) \<Rightarrow> SBits s a w)"
| "shape_of (Pad t w) = (case sizealign t of (s, a) \<Rightarrow> SPad s a w)"

definition c_sizeof :: "ctype \<Rightarrow> nat" where "c_sizeof t = fst (sizealign t)"
definition c_alignof :: "ctype \<Rightarrow> nat" where "c_alignof t = snd (sizealign t)"

fun member_name :: "cmember \<Rightarrow> string" where
  "member_name (Field n t) = n"
| "member_name (Bits n t w) = n"
| "member_name (Pad t w) = ''''"

fun member_type :: "cmember \<Rightarrow> ctype" where
  "member_type (Field n t) = t"
| "member_type (Bits n t w) = t"
| "member_type (Pad t w) = t"

text \<open>The members of a record with their bit offsets, in declaration order.\<close>

fun layout :: "ctype \<Rightarrow> (string \<times> nat \<times> ctype) list" where
  "layout (CStruct packed ms) =
     zip (map member_name ms) (zip (offsets packed 0 (map shape_of ms)) (map member_type ms))"
| "layout (CUnion ms) = map (\<lambda>m. (member_name m, 0, member_type m)) ms"
| "layout t = []"

definition c_offsetof :: "ctype \<Rightarrow> string \<Rightarrow> nat option" where
  "c_offsetof t f = map_option (\<lambda>(b, _). b div 8) (map_of (layout t) f)"

named_theorems layout_eval \<open>evaluation of sizes and offsets\<close>

lemma align_up_numeral [layout_eval]: "align_up n a = (if n mod a = 0 then n else n + (a - n mod a))"
  by (rule align_up_def)

declare bit_place_def [layout_eval] struct_sa_def [layout_eval] union_sa_def [layout_eval]
  members_align_def [layout_eval] enum_size_def [layout_eval] Let_def [layout_eval]

subsection \<open>What the algorithm guarantees\<close>

lemma align_up_ge: "n \<le> align_up n a"
  by (simp add: align_up_def)

lemma align_up_dvd: "0 < a \<Longrightarrow> a dvd align_up n a"
proof -
  assume a: "0 < a"
  have "n = a * (n div a) + n mod a" by simp
  then have "n + (a - n mod a) = a * (n div a) + a"
    using a mod_less_divisor [OF a, of n] by linarith
  then show ?thesis by (auto simp: align_up_def mod_eq_0_iff_dvd)
qed

lemma align_up_less: "0 < a \<Longrightarrow> align_up n a < n + a"
  by (auto simp: align_up_def)

lemma align_up_id: "a dvd n \<Longrightarrow> align_up n a = n"
  by (simp add: align_up_def)

lemma place_ge: "pos \<le> place packed pos m"
  by (cases m) (auto simp: bit_place_def align_up_ge)

text \<open>A member that occupies whole bytes; its alignment is positive.\<close>

fun byte_member :: "shape \<Rightarrow> bool" where
  "byte_member (SField s a) \<longleftrightarrow> 0 < a"
| "byte_member _ \<longleftrightarrow> False"

lemma length_offsets [simp]: "length (offsets packed pos ms) = length ms"
  by (induction ms arbitrary: pos) (auto simp: Let_def)

lemma struct_end_ge: "pos \<le> struct_end packed pos ms"
proof (induction ms arbitrary: pos)
  case (Cons m ms)
  show ?case
    using Cons [of "place packed pos m + width m"] place_ge [of pos packed m] by simp
qed simp

lemma offsets_ge: "i < length ms \<Longrightarrow> pos \<le> offsets packed pos ms ! i"
proof (induction ms arbitrary: pos i)
  case (Cons m ms)
  show ?case
  proof (cases i)
    case 0
    then show ?thesis by (simp add: Let_def place_ge)
  next
    case (Suc j)
    then have "place packed pos m + width m \<le> offsets packed (place packed pos m + width m) ms ! j"
      using Cons by simp
    with Suc place_ge [of pos packed m] show ?thesis by (simp add: Let_def)
  qed
qed simp

lemma offsets_before_end:
  "i < length ms \<Longrightarrow> offsets packed pos ms ! i + width (ms ! i) \<le> struct_end packed pos ms"
proof (induction ms arbitrary: pos i)
  case (Cons m ms)
  then show ?case
    by (cases i) (auto simp: Let_def intro: struct_end_ge)
qed simp

text \<open>Members do not overlap: each ends before the next one starts.\<close>

lemma offsets_disjoint:
  "i < j \<Longrightarrow> j < length ms \<Longrightarrow>
     offsets packed pos ms ! i + width (ms ! i) \<le> offsets packed pos ms ! j"
proof (induction ms arbitrary: pos i j)
  case (Cons m ms)
  then obtain j' where j: "j = Suc j'" by (cases j) auto
  show ?case
  proof (cases i)
    case 0
    with Cons.prems j show ?thesis
      by (auto simp: Let_def intro: offsets_ge)
  next
    case (Suc i')
    with Cons.prems j show ?thesis by (auto simp: Let_def intro: Cons.IH)
  qed
qed simp

text \<open>Every whole-byte member of an unpacked record is aligned for its type.\<close>

lemma offsets_aligned:
  "i < length ms \<Longrightarrow> ms ! i = SField s a \<Longrightarrow> 0 < a \<Longrightarrow> 8 * a dvd offsets False pos ms ! i"
proof (induction ms arbitrary: pos i)
  case (Cons m ms)
  then show ?case
    by (cases i) (auto simp: Let_def align_up_dvd)
qed simp

lemma offsets_append:
  "offsets packed pos (xs @ ys) = offsets packed pos xs @ offsets packed (struct_end packed pos xs) ys"
  by (induction xs arbitrary: pos) (auto simp: Let_def)

lemma struct_end_append [layout_eval]:
  "struct_end packed pos (xs @ ys) = struct_end packed (struct_end packed pos xs) ys"
  by (induction xs arbitrary: pos) auto

text \<open>A run of \<^verbatim>\<open>long: 64;\<close> pads: the first one moves to an 8-byte boundary.\<close>

lemma struct_end_pads [layout_eval]:
  "struct_end False pos (replicate n (SPad 8 8 64)) = (if n = 0 then pos else align_up pos 64 + 64 * n)"
proof (induction n arbitrary: pos)
  case (Suc n)
  have "bit_place False pos 8 8 64 = align_up pos 64"
    by (simp add: bit_place_def align_up_def)
  moreover have "align_up (align_up pos 64 + 64) 64 = align_up pos 64 + 64"
    by (rule align_up_id) (simp add: align_up_dvd)
  ultimately show ?case using Suc by simp
qed simp

lemma max_align_pos: "0 < max_align ms"
  by (induction ms) auto

lemma max_align_append [layout_eval]: "max_align (xs @ ys) = max (max_align xs) (max_align ys)"
  using max_align_pos [of ys] by (induction xs) (auto simp: max.assoc)

lemma max_align_pads [layout_eval]: "max_align (replicate n (SPad s a w)) = 1"
  by (induction n) auto

lemma members_align_pos: "0 < members_align packed ms"
  by (simp add: members_align_def max_align_pos)

lemma struct_sa_end: "struct_end packed 0 ms \<le> 8 * fst (struct_sa packed ms)"
proof -
  let ?a = "members_align packed ms"
  have "8 dvd align_up (struct_end packed 0 ms) (8 * ?a)"
    using align_up_dvd [of "8 * ?a" "struct_end packed 0 ms"] members_align_pos [of packed ms]
    by (auto intro: dvd_trans [of 8 "8 * ?a"])
  with align_up_ge [of "struct_end packed 0 ms" "8 * ?a"] show ?thesis
    by (simp add: struct_sa_def Let_def)
qed

lemma struct_sa_align: "snd (struct_sa packed ms) dvd fst (struct_sa packed ms)"
proof -
  let ?a = "members_align packed ms"
  have "8 * ?a dvd align_up (struct_end packed 0 ms) (8 * ?a)"
    using members_align_pos [of packed ms] by (intro align_up_dvd) simp
  then show ?thesis
    by (auto simp: struct_sa_def Let_def elim!: dvdE)
qed

lemma nth_layout_struct:
  assumes "i < length ms"
  shows "layout (CStruct packed ms) ! i =
    (member_name (ms ! i), offsets packed 0 (map shape_of ms) ! i, member_type (ms ! i))"
  using assms by simp

subsection \<open>Sound layouts\<close>

text \<open>Members in declaration order do not overlap, end inside the record, and, unless the record is
  packed, whole-byte members are aligned for their type; the size is a multiple of the alignment.\<close>

fun well_laid :: "ctype \<Rightarrow> bool" where
  "well_laid (CStruct packed ms) \<longleftrightarrow>
     (let sh = map shape_of ms; os = offsets packed 0 sh; sa = sizealign (CStruct packed ms) in
      (\<forall>j < length ms. \<forall>i < j. os ! i + width (sh ! i) \<le> os ! j) \<and>
      (\<forall>i < length ms. os ! i + width (sh ! i) \<le> 8 * fst sa) \<and>
      (packed \<or> (\<forall>i < length ms. case sh ! i of SField s a \<Rightarrow> 0 < a \<longrightarrow> 8 * a dvd os ! i | _ \<Rightarrow> True)) \<and>
      snd sa dvd fst sa)"
| "well_laid _ \<longleftrightarrow> False"

lemma struct_well_laid: "well_laid (CStruct packed ms)"
proof -
  let ?sh = "map shape_of ms" and ?os = "offsets packed 0 (map shape_of ms)"
  have "?os ! i + width (?sh ! i) \<le> ?os ! j" if "i < j" "j < length ms" for i j
    using offsets_disjoint [of i j ?sh packed 0] that by simp
  moreover have "?os ! i + width (?sh ! i) \<le> 8 * fst (struct_sa packed ?sh)" if "i < length ms" for i
    using offsets_before_end [of i ?sh packed 0] struct_sa_end [of packed ?sh] that by simp
  moreover have "packed \<or> (\<forall>i < length ms. case ?sh ! i of SField s a \<Rightarrow> 0 < a \<longrightarrow> 8 * a dvd ?os ! i | _ \<Rightarrow> True)"
    using offsets_aligned [of _ ?sh _ _ 0] by (cases packed) (auto split: shape.split)
  ultimately show ?thesis
    using struct_sa_align [of packed ?sh] by (simp add: Let_def)
qed

fun enum_value :: "ctype \<Rightarrow> string \<Rightarrow> int option" where
  "enum_value (CEnum es) n = map_of es n"
| "enum_value _ n = None"

text \<open>The offset of a member, from the end of those before it.\<close>

lemma c_offsetof_append:
  assumes "f \<notin> set (map member_name xs)" "member_name y = f"
  shows "c_offsetof (CStruct p (xs @ y # ys)) f =
    Some (place p (struct_end p 0 (map shape_of xs)) (shape_of y) div 8)"
proof -
  let ?o = "offsets p 0 (map shape_of xs)"
  have len: "length (map member_name xs) = length (zip ?o (map member_type xs))" by simp
  have none: "map_of (zip (map member_name xs) (zip ?o (map member_type xs))) f = None"
    using assms(1) unfolding map_of_zip_is_None [OF len] .
  show ?thesis
    using assms(2) by (simp add: c_offsetof_def offsets_append map_add_def none)
qed

end
