(* ===== verification/Event_Types.thy ===== *)
theory Event_Types
  imports C_Layout
begin

text \<open>
  The structures that cross a boundary of the agent as raw memory
  (\<^verbatim>\<open>agent/include/event_types.h\<close>): the ring-buffer event (read by
  \<^verbatim>\<open>reinterpret_cast\<close>), the records and the header of a dump file (written by
  \<^verbatim>\<open>ofstream::write\<close> of the object representation), and the user-space event. Each wire
  structure is given three times: as a HOL record, as a C type (\<open>c_\<close> prefix) whose layout is
  computed by \<open>C_Layout\<close>, and by an encoder/decoder that goes through that layout. The
  locale \<open>wire_format\<close> states what a fixed-width format promises and proves once that a
  concatenation of records can be read back; each structure is an instance of it.
\<close>

subsection \<open>Members of an object representation\<close>

definition member_bytes :: "ctype \<Rightarrow> string \<Rightarrow> bytes \<Rightarrow> bytes" where
  "member_bytes t f bs =
     (case map_of (layout t) f of None \<Rightarrow> []
      | Some (b, ft) \<Rightarrow> take (c_sizeof ft) (drop (b div 8) bs))"

definition set_member :: "ctype \<Rightarrow> string \<Rightarrow> bytes \<Rightarrow> bytes \<Rightarrow> bytes" where
  "set_member t f v bs =
     (case map_of (layout t) f of None \<Rightarrow> bs
      | Some (b, ft) \<Rightarrow> take (b div 8) bs @ take (c_sizeof ft) v @ drop (b div 8 + c_sizeof ft) bs)"

subsection \<open>Fixed-width wire formats\<close>

locale wire_format =
  fixes enc :: "'a \<Rightarrow> bytes" and dec :: "bytes \<Rightarrow> 'a" and wd :: nat
  assumes enc_length: "length (enc x) = wd"
    and dec_enc: "dec (enc x) = x"
    and wd_pos: "0 < wd"
begin

text \<open>A file of records: as many whole records as the bytes hold.\<close>

function dec_stream :: "bytes \<Rightarrow> 'a list" where
  "dec_stream bs = (if length bs < wd then [] else dec (take wd bs) # dec_stream (drop wd bs))"
  by pat_completeness auto
termination
  by (relation "measure length") (use wd_pos in auto)

declare dec_stream.simps [simp del]

lemma enc_inj: "enc x = enc y \<Longrightarrow> x = y"
  by (metis dec_enc)

lemma length_stream: "length (concat (map enc xs)) = wd * length xs"
  by (induction xs) (auto simp: enc_length)

lemma dec_stream_enc: "length rest < wd \<Longrightarrow> dec_stream (concat (map enc xs) @ rest) = xs"
proof (induction xs)
  case Nil
  then show ?case by (simp add: dec_stream.simps)
next
  case (Cons x xs)
  then show ?case by (simp add: dec_stream.simps [of "enc x @ _"] enc_length dec_enc)
qed

end

subsection \<open>\<^verbatim>\<open>struct KernelSyscallEvent\<close>\<close>

record KernelSyscallEvent =
  k_ts_ns :: u64
  k_pid :: u32
  k_tid :: u32
  k_cgroup_id :: u32
  k_syscall_id :: u16
  k_arg_class :: u8
  k_arg_bucket :: u8

definition c_KernelSyscallEvent :: ctype where
  "c_KernelSyscallEvent = CStruct False
    [Field ''ts_ns'' c_ulong, Field ''pid'' c_uint, Field ''tid'' c_uint, Field ''cgroup_id'' c_uint,
     Field ''syscall_id'' c_ushort, Field ''arg_class'' c_uchar, Field ''arg_bucket'' c_uchar]"

definition KernelSyscallEvent_dec :: "bytes \<Rightarrow> KernelSyscallEvent" where
  "KernelSyscallEvent_dec bs =
     \<lparr>k_ts_ns = le_word (member_bytes c_KernelSyscallEvent ''ts_ns'' bs),
      k_pid = le_word (member_bytes c_KernelSyscallEvent ''pid'' bs),
      k_tid = le_word (member_bytes c_KernelSyscallEvent ''tid'' bs),
      k_cgroup_id = le_word (member_bytes c_KernelSyscallEvent ''cgroup_id'' bs),
      k_syscall_id = le_word (member_bytes c_KernelSyscallEvent ''syscall_id'' bs),
      k_arg_class = le_word (member_bytes c_KernelSyscallEvent ''arg_class'' bs),
      k_arg_bucket = le_word (member_bytes c_KernelSyscallEvent ''arg_bucket'' bs)\<rparr>"

definition KernelSyscallEvent_enc :: "KernelSyscallEvent \<Rightarrow> bytes" where
  "KernelSyscallEvent_enc e =
     le_bytes 8 (k_ts_ns e) @ le_bytes 4 (k_pid e) @ le_bytes 4 (k_tid e) @ le_bytes 4 (k_cgroup_id e) @
     le_bytes 2 (k_syscall_id e) @ le_bytes 1 (k_arg_class e) @ le_bytes 1 (k_arg_bucket e)"

subsection \<open>\<^verbatim>\<open>struct TraceRecord\<close> and \<^verbatim>\<open>struct TraceHeader\<close>\<close>

record TraceRecord =
  delta_ts_us :: u32
  r_syscall_id :: u16
  r_arg_class :: u8
  r_arg_bucket :: u8

definition c_TraceRecord :: ctype where
  "c_TraceRecord = CStruct True
    [Field ''delta_ts_us'' c_uint, Field ''syscall_id'' c_ushort,
     Field ''arg_class'' c_uchar, Field ''arg_bucket'' c_uchar]"

definition TraceRecord_enc :: "TraceRecord \<Rightarrow> bytes" where
  "TraceRecord_enc r =
     le_bytes 4 (delta_ts_us r) @ le_bytes 2 (r_syscall_id r) @
     le_bytes 1 (r_arg_class r) @ le_bytes 1 (r_arg_bucket r)"

definition TraceRecord_dec :: "bytes \<Rightarrow> TraceRecord" where
  "TraceRecord_dec bs =
     \<lparr>delta_ts_us = le_word (member_bytes c_TraceRecord ''delta_ts_us'' bs),
      r_syscall_id = le_word (member_bytes c_TraceRecord ''syscall_id'' bs),
      r_arg_class = le_word (member_bytes c_TraceRecord ''arg_class'' bs),
      r_arg_bucket = le_word (member_bytes c_TraceRecord ''arg_bucket'' bs)\<rparr>"

text \<open>\<^verbatim>\<open>char container_id[64]\<close> is kept as its 64 bytes.\<close>

record TraceHeader =
  version :: u32
  syscall_vocab_size :: u32
  container_id :: bytes
  start_ts_ns :: u64

definition c_TraceHeader :: ctype where
  "c_TraceHeader = CStruct True
    [Field ''version'' c_uint, Field ''syscall_vocab_size'' c_uint,
     Field ''container_id'' (CArray c_char 64), Field ''start_ts_ns'' c_ulong]"

definition TraceHeader_enc :: "TraceHeader \<Rightarrow> bytes" where
  "TraceHeader_enc h =
     le_bytes 4 (version h) @ le_bytes 4 (syscall_vocab_size h) @
     container_id h @ le_bytes 8 (start_ts_ns h)"

definition TraceHeader_dec :: "bytes \<Rightarrow> TraceHeader" where
  "TraceHeader_dec bs =
     \<lparr>version = le_word (member_bytes c_TraceHeader ''version'' bs),
      syscall_vocab_size = le_word (member_bytes c_TraceHeader ''syscall_vocab_size'' bs),
      container_id = member_bytes c_TraceHeader ''container_id'' bs,
      start_ts_ns = le_word (member_bytes c_TraceHeader ''start_ts_ns'' bs)\<rparr>"

subsection \<open>\<^verbatim>\<open>struct SyscallEvent\<close>\<close>

record SyscallEvent =
  tsNs :: u64
  pid :: u32
  tid :: u32
  cgroupId :: u64
  syscallId :: u16
  argClass :: u8
  argBucket :: u8

subsection \<open>Layouts\<close>

lemma layout_KernelSyscallEvent:
  "map (\<lambda>(f, b, t). (f, b div 8, c_sizeof t)) (layout c_KernelSyscallEvent) =
     [(''ts_ns'', 0, 8), (''pid'', 8, 4), (''tid'', 12, 4), (''cgroup_id'', 16, 4),
      (''syscall_id'', 20, 2), (''arg_class'', 22, 1), (''arg_bucket'', 23, 1)]"
  by (simp add: c_KernelSyscallEvent_def c_sizeof_def layout_eval)

lemma sizeof_KernelSyscallEvent: "sizealign c_KernelSyscallEvent = (24, 8)"
  by (simp add: c_KernelSyscallEvent_def layout_eval)

lemma sizeof_TraceRecord: "sizealign c_TraceRecord = (8, 1)"
  by (simp add: c_TraceRecord_def layout_eval)

lemma sizeof_TraceHeader: "sizealign c_TraceHeader = (80, 1)"
  by (simp add: c_TraceHeader_def layout_eval)

lemma member_bytes_KernelSyscallEvent [wire_simps]:
  "member_bytes c_KernelSyscallEvent ''ts_ns'' bs = take 8 bs"
  "member_bytes c_KernelSyscallEvent ''pid'' bs = take 4 (drop 8 bs)"
  "member_bytes c_KernelSyscallEvent ''tid'' bs = take 4 (drop 12 bs)"
  "member_bytes c_KernelSyscallEvent ''cgroup_id'' bs = take 4 (drop 16 bs)"
  "member_bytes c_KernelSyscallEvent ''syscall_id'' bs = take 2 (drop 20 bs)"
  "member_bytes c_KernelSyscallEvent ''arg_class'' bs = take 1 (drop 22 bs)"
  "member_bytes c_KernelSyscallEvent ''arg_bucket'' bs = take 1 (drop 23 bs)"
  by (simp_all add: member_bytes_def c_KernelSyscallEvent_def c_sizeof_def layout_eval)

lemma member_bytes_TraceRecord [wire_simps]:
  "member_bytes c_TraceRecord ''delta_ts_us'' bs = take 4 bs"
  "member_bytes c_TraceRecord ''syscall_id'' bs = take 2 (drop 4 bs)"
  "member_bytes c_TraceRecord ''arg_class'' bs = take 1 (drop 6 bs)"
  "member_bytes c_TraceRecord ''arg_bucket'' bs = take 1 (drop 7 bs)"
  by (simp_all add: member_bytes_def c_TraceRecord_def c_sizeof_def layout_eval)

lemma member_bytes_TraceHeader [wire_simps]:
  "member_bytes c_TraceHeader ''version'' bs = take 4 bs"
  "member_bytes c_TraceHeader ''syscall_vocab_size'' bs = take 4 (drop 4 bs)"
  "member_bytes c_TraceHeader ''container_id'' bs = take 64 (drop 8 bs)"
  "member_bytes c_TraceHeader ''start_ts_ns'' bs = take 8 (drop 72 bs)"
  by (simp_all add: member_bytes_def c_TraceHeader_def c_sizeof_def layout_eval)

subsection \<open>The formats as instances\<close>

interpretation kernel_event: wire_format KernelSyscallEvent_enc KernelSyscallEvent_dec 24
  by unfold_locales
    (auto simp: KernelSyscallEvent_enc_def KernelSyscallEvent_dec_def wire_simps)

interpretation trace_record: wire_format TraceRecord_enc TraceRecord_dec 8
  by unfold_locales (auto simp: TraceRecord_enc_def TraceRecord_dec_def wire_simps)

lemma TraceHeader_enc_length:
  "length (container_id h) = 64 \<Longrightarrow> length (TraceHeader_enc h) = 80"
  by (simp add: TraceHeader_enc_def)

lemma TraceHeader_dec_enc:
  "length (container_id h) = 64 \<Longrightarrow> TraceHeader_dec (TraceHeader_enc h @ rest) = h"
  by (simp add: TraceHeader_enc_def TraceHeader_dec_def wire_simps)

end
