(* ===== verification/Kernel_Trace.thy ===== *)
theory Kernel_Trace
  imports C_Layout
begin

text \<open>
  Declarations of \<^verbatim>\<open>agent/ebpf/vmlinux.h\<close>, the kernel type header the probe is compiled against.
  The records behind the tracepoint the probe is attached to: the context \<^verbatim>\<open>struct trace_event_raw_sys_enter\<close> the handler reads, the syscall metadata and the trace-event objects of the kernel.
  Definitions follow the header member by member; \<open>sa_\<close> lemmas give size and alignment.
\<close>

subsection \<open>Declarations\<close>

definition struct_trace_entry :: ctype where
  "struct_trace_entry = CStruct False
    [Field ''type'' c_ushort,
     Field ''flags'' c_uchar,
     Field ''preempt_count'' c_uchar,
     Field ''pid'' c_int]"

definition struct_trace_event_raw_sys_enter :: ctype where
  "struct_trace_event_raw_sys_enter = CStruct False
    [Field ''ent'' struct_trace_entry,
     Field ''id'' c_long,
     Field ''args'' (CArray c_ulong 6),
     Field ''__data'' (CArray c_char 0)]"

definition struct_trace_event_raw_sys_exit :: ctype where
  "struct_trace_event_raw_sys_exit = CStruct False
    [Field ''ent'' struct_trace_entry,
     Field ''id'' c_long,
     Field ''ret'' c_long,
     Field ''__data'' (CArray c_char 0)]"

definition struct_syscall_trace_enter :: ctype where
  "struct_syscall_trace_enter = CStruct False
    [Field ''ent'' struct_trace_entry,
     Field ''nr'' c_int,
     Field ''args'' (CArray c_ulong 0)]"

definition struct_list_head :: ctype where
  "struct_list_head = CStruct False
    [Field ''next'' CPtr,
     Field ''prev'' CPtr]"

definition struct_syscall_metadata :: ctype where
  "struct_syscall_metadata = CStruct False
    [Field ''name'' CPtr,
     Field ''syscall_nr'' c_int,
     Field ''nb_args'' c_int,
     Field ''types'' CPtr,
     Field ''args'' CPtr,
     Field ''enter_fields'' struct_list_head,
     Field ''enter_event'' CPtr,
     Field ''exit_event'' CPtr]"

definition typedef___u16 :: ctype where
  "typedef___u16 = c_ushort"

definition typedef_u16 :: ctype where
  "typedef_u16 = typedef___u16"

definition typedef___u64 :: ctype where
  "typedef___u64 = c_ulong"

definition typedef_u64 :: ctype where
  "typedef_u64 = typedef___u64"

definition struct_fred_cs :: ctype where
  "struct_fred_cs = CStruct False
    [Bits ''cs'' typedef_u64 16,
     Bits ''sl'' typedef_u64 2,
     Bits ''wfe'' typedef_u64 1]"

definition struct_fred_ss :: ctype where
  "struct_fred_ss = CStruct False
    [Bits ''ss'' typedef_u64 16,
     Bits ''sti'' typedef_u64 1,
     Bits ''swevent'' typedef_u64 1,
     Bits ''nmi'' typedef_u64 1,
     Pad c_int 13,
     Bits ''vector'' typedef_u64 8,
     Pad c_short 8,
     Bits ''type'' typedef_u64 4,
     Pad c_char 4,
     Bits ''enclave'' typedef_u64 1,
     Bits ''lm'' typedef_u64 1,
     Bits ''nested'' typedef_u64 1,
     Pad c_char 1,
     Bits ''insnlen'' typedef_u64 4]"

definition struct_pt_regs :: ctype where
  "struct_pt_regs = CStruct False
    [Field ''r15'' c_ulong,
     Field ''r14'' c_ulong,
     Field ''r13'' c_ulong,
     Field ''r12'' c_ulong,
     Field ''bp'' c_ulong,
     Field ''bx'' c_ulong,
     Field ''r11'' c_ulong,
     Field ''r10'' c_ulong,
     Field ''r9'' c_ulong,
     Field ''r8'' c_ulong,
     Field ''ax'' c_ulong,
     Field ''cx'' c_ulong,
     Field ''dx'' c_ulong,
     Field ''si'' c_ulong,
     Field ''di'' c_ulong,
     Field ''orig_ax'' c_ulong,
     Field ''ip'' c_ulong,
     Field '''' (CUnion [Field ''cs'' typedef_u16,
       Field ''csx'' typedef_u64,
       Field ''fred_cs'' struct_fred_cs]),
     Field ''flags'' c_ulong,
     Field ''sp'' c_ulong,
     Field '''' (CUnion [Field ''ss'' typedef_u16,
       Field ''ssx'' typedef_u64,
       Field ''fred_ss'' struct_fred_ss])]"

definition typedef_atomic_t :: ctype where
  "typedef_atomic_t = CStruct False
    [Field ''counter'' c_int]"

definition struct_static_key :: ctype where
  "struct_static_key = CStruct False
    [Field ''enabled'' typedef_atomic_t,
     Field '''' (CUnion [Field ''type'' c_ulong,
       Field ''entries'' CPtr,
       Field ''next'' CPtr])]"

definition struct_static_key_false :: ctype where
  "struct_static_key_false = CStruct False
    [Field ''key'' struct_static_key]"

definition struct_tracepoint :: ctype where
  "struct_tracepoint = CStruct False
    [Field ''name'' CPtr,
     Field ''key'' struct_static_key_false,
     Field ''static_call_key'' CPtr,
     Field ''static_call_tramp'' CPtr,
     Field ''iterator'' CPtr,
     Field ''probestub'' CPtr,
     Field ''funcs'' CPtr,
     Field ''ext'' CPtr]"

definition struct_hlist_node :: ctype where
  "struct_hlist_node = CStruct False
    [Field ''next'' CPtr,
     Field ''pprev'' CPtr]"

definition struct_trace_event :: ctype where
  "struct_trace_event = CStruct False
    [Field ''node'' struct_hlist_node,
     Field ''type'' c_int,
     Field ''funcs'' CPtr]"

definition struct_trace_event_call :: ctype where
  "struct_trace_event_call = CStruct False
    [Field ''list'' struct_list_head,
     Field ''class'' CPtr,
     Field '''' (CUnion [Field ''name'' CPtr,
       Field ''tp'' CPtr]),
     Field ''event'' struct_trace_event,
     Field ''print_fmt'' CPtr,
     Field '''' (CUnion [Field ''module'' CPtr,
       Field ''refcnt'' typedef_atomic_t]),
     Field ''data'' CPtr,
     Field ''flags'' c_int,
     Field ''perf_refcount'' c_int,
     Field ''perf_events'' CPtr,
     Field ''prog_array'' CPtr,
     Field ''perf_perm'' CPtr]"

definition struct_trace_event_class :: ctype where
  "struct_trace_event_class = CStruct False
    [Field ''system'' CPtr,
     Field ''probe'' CPtr,
     Field ''perf_probe'' CPtr,
     Field ''reg'' CPtr,
     Field ''fields_array'' CPtr,
     Field ''get_fields'' CPtr,
     Field ''fields'' struct_list_head,
     Field ''raw_init'' CPtr]"

definition struct_refcount_struct :: ctype where
  "struct_refcount_struct = CStruct False
    [Field ''refs'' typedef_atomic_t]"

definition typedef_refcount_t :: ctype where
  "typedef_refcount_t = struct_refcount_struct"

definition struct_trace_event_file :: ctype where
  "struct_trace_event_file = CStruct False
    [Field ''list'' struct_list_head,
     Field ''event_call'' CPtr,
     Field ''filter'' CPtr,
     Field ''ei'' CPtr,
     Field ''tr'' CPtr,
     Field ''system'' CPtr,
     Field ''triggers'' struct_list_head,
     Field ''flags'' c_ulong,
     Field ''ref'' typedef_refcount_t,
     Field ''sm_ref'' typedef_atomic_t,
     Field ''tm_ref'' typedef_atomic_t]"

definition struct_trace_buffer_struct :: ctype where
  "struct_trace_buffer_struct = CStruct False
    [Field ''nesting'' c_int,
     Field ''buffer'' (CArray c_char 4096)]"

subsection \<open>Sizes and alignments\<close>

lemma sa_struct_trace_entry [layout_eval]: "sizealign struct_trace_entry = (8, 4)"
  by (simp add: struct_trace_entry_def layout_eval)

lemma sa_struct_trace_event_raw_sys_enter [layout_eval]: "sizealign struct_trace_event_raw_sys_enter = (64, 8)"
  by (simp add: struct_trace_event_raw_sys_enter_def layout_eval)

lemma sa_struct_trace_event_raw_sys_exit [layout_eval]: "sizealign struct_trace_event_raw_sys_exit = (24, 8)"
  by (simp add: struct_trace_event_raw_sys_exit_def layout_eval)

lemma sa_struct_syscall_trace_enter [layout_eval]: "sizealign struct_syscall_trace_enter = (16, 8)"
  by (simp add: struct_syscall_trace_enter_def layout_eval)

lemma sa_struct_list_head [layout_eval]: "sizealign struct_list_head = (16, 8)"
  by (simp add: struct_list_head_def layout_eval)

lemma sa_struct_syscall_metadata [layout_eval]: "sizealign struct_syscall_metadata = (64, 8)"
  by (simp add: struct_syscall_metadata_def layout_eval)

lemma sa_typedef___u16 [layout_eval]: "sizealign typedef___u16 = (2, 2)"
  by (simp add: typedef___u16_def layout_eval)

lemma sa_typedef_u16 [layout_eval]: "sizealign typedef_u16 = (2, 2)"
  by (simp add: typedef_u16_def layout_eval)

lemma sa_typedef___u64 [layout_eval]: "sizealign typedef___u64 = (8, 8)"
  by (simp add: typedef___u64_def layout_eval)

lemma sa_typedef_u64 [layout_eval]: "sizealign typedef_u64 = (8, 8)"
  by (simp add: typedef_u64_def layout_eval)

lemma sa_struct_fred_cs [layout_eval]: "sizealign struct_fred_cs = (8, 8)"
  by (simp add: struct_fred_cs_def layout_eval)

lemma sa_struct_fred_ss [layout_eval]: "sizealign struct_fred_ss = (8, 8)"
  by (simp add: struct_fred_ss_def layout_eval)

lemma sa_struct_pt_regs [layout_eval]: "sizealign struct_pt_regs = (168, 8)"
  by (simp add: struct_pt_regs_def layout_eval)

lemma sa_typedef_atomic_t [layout_eval]: "sizealign typedef_atomic_t = (4, 4)"
  by (simp add: typedef_atomic_t_def layout_eval)

lemma sa_struct_static_key [layout_eval]: "sizealign struct_static_key = (16, 8)"
  by (simp add: struct_static_key_def layout_eval)

lemma sa_struct_static_key_false [layout_eval]: "sizealign struct_static_key_false = (16, 8)"
  by (simp add: struct_static_key_false_def layout_eval)

lemma sa_struct_tracepoint [layout_eval]: "sizealign struct_tracepoint = (72, 8)"
  by (simp add: struct_tracepoint_def layout_eval)

lemma sa_struct_hlist_node [layout_eval]: "sizealign struct_hlist_node = (16, 8)"
  by (simp add: struct_hlist_node_def layout_eval)

lemma sa_struct_trace_event [layout_eval]: "sizealign struct_trace_event = (32, 8)"
  by (simp add: struct_trace_event_def layout_eval)

lemma sa_struct_trace_event_call [layout_eval]: "sizealign struct_trace_event_call = (120, 8)"
  by (simp add: struct_trace_event_call_def layout_eval)

lemma sa_struct_trace_event_class [layout_eval]: "sizealign struct_trace_event_class = (72, 8)"
  by (simp add: struct_trace_event_class_def layout_eval)

lemma sa_struct_refcount_struct [layout_eval]: "sizealign struct_refcount_struct = (4, 4)"
  by (simp add: struct_refcount_struct_def layout_eval)

lemma sa_typedef_refcount_t [layout_eval]: "sizealign typedef_refcount_t = (4, 4)"
  by (simp add: typedef_refcount_t_def layout_eval)

lemma sa_struct_trace_event_file [layout_eval]: "sizealign struct_trace_event_file = (96, 8)"
  by (simp add: struct_trace_event_file_def layout_eval)

lemma sa_struct_trace_buffer_struct [layout_eval]: "sizealign struct_trace_buffer_struct = (4100, 4)"
  by (simp add: struct_trace_buffer_struct_def layout_eval)

end
