(* ===== verification/Kernel_Task.thy ===== *)
theory Kernel_Task
  imports Kernel_Trace
begin

text \<open>
  Declarations of \<^verbatim>\<open>agent/ebpf/vmlinux.h\<close>, the kernel type header the probe is compiled against.
  \<^verbatim>\<open>struct task_struct\<close>, whose \<^verbatim>\<open>pid\<close> and \<^verbatim>\<open>tgid\<close> are what \<^verbatim>\<open>bpf_get_current_pid_tgid\<close> reports, with every type it holds by value.
  Definitions follow the header member by member; \<open>sa_\<close> lemmas give size and alignment.
\<close>

subsection \<open>Declarations\<close>

definition typedef___u32 :: ctype where
  "typedef___u32 = c_uint"

definition typedef_u32 :: ctype where
  "typedef_u32 = typedef___u32"

definition struct_thread_info :: ctype where
  "struct_thread_info = CStruct False
    [Field ''flags'' c_ulong,
     Field ''syscall_work'' c_ulong,
     Field ''status'' typedef_u32,
     Field ''cpu'' typedef_u32]"

definition struct_llist_node :: ctype where
  "struct_llist_node = CStruct False
    [Field ''next'' CPtr]"

definition struct___call_single_node :: ctype where
  "struct___call_single_node = CStruct False
    [Field ''llist'' struct_llist_node,
     Field '''' (CUnion [Field ''u_flags'' c_uint,
       Field ''a_flags'' typedef_atomic_t]),
     Field ''src'' typedef_u16,
     Field ''dst'' typedef_u16]"

definition struct_load_weight :: ctype where
  "struct_load_weight = CStruct False
    [Field ''weight'' c_ulong,
     Field ''inv_weight'' typedef_u32]"

definition struct_rb_node :: ctype where
  "struct_rb_node = CStruct False
    [Field ''__rb_parent_color'' c_ulong,
     Field ''rb_right'' CPtr,
     Field ''rb_left'' CPtr]"

definition typedef___s64 :: ctype where
  "typedef___s64 = c_long"

definition typedef_s64 :: ctype where
  "typedef_s64 = typedef___s64"

definition struct_sched_avg :: ctype where
  "struct_sched_avg = CStruct False
    [Field ''last_update_time'' typedef_u64,
     Field ''load_sum'' typedef_u64,
     Field ''runnable_sum'' typedef_u64,
     Field ''util_sum'' typedef_u32,
     Field ''period_contrib'' typedef_u32,
     Field ''load_avg'' c_ulong,
     Field ''runnable_avg'' c_ulong,
     Field ''util_avg'' c_ulong,
     Field ''util_est'' c_uint]"

definition struct_sched_entity :: ctype where
  "struct_sched_entity = CStruct False
    [Field ''load'' struct_load_weight,
     Field ''run_node'' struct_rb_node,
     Field ''deadline'' typedef_u64,
     Field ''min_vruntime'' typedef_u64,
     Field ''min_slice'' typedef_u64,
     Field ''group_node'' struct_list_head,
     Field ''on_rq'' c_uchar,
     Field ''sched_delayed'' c_uchar,
     Field ''rel_deadline'' c_uchar,
     Field ''custom_slice'' c_uchar,
     Field ''exec_start'' typedef_u64,
     Field ''sum_exec_runtime'' typedef_u64,
     Field ''prev_sum_exec_runtime'' typedef_u64,
     Field ''vruntime'' typedef_u64,
     Field ''vlag'' typedef_s64,
     Field ''slice'' typedef_u64,
     Field ''nr_migrations'' typedef_u64,
     Field ''depth'' c_int,
     Field ''parent'' CPtr,
     Field ''cfs_rq'' CPtr,
     Field ''my_q'' CPtr,
     Field ''runnable_weight'' c_ulong,
     Pad c_long 64,
     Field ''avg'' struct_sched_avg]"

definition struct_sched_rt_entity :: ctype where
  "struct_sched_rt_entity = CStruct False
    [Field ''run_list'' struct_list_head,
     Field ''timeout'' c_ulong,
     Field ''watchdog_stamp'' c_ulong,
     Field ''time_slice'' c_uint,
     Field ''on_rq'' c_ushort,
     Field ''on_list'' c_ushort,
     Field ''back'' CPtr]"

definition typedef_ktime_t :: ctype where
  "typedef_ktime_t = typedef_s64"

definition struct_timerqueue_node :: ctype where
  "struct_timerqueue_node = CStruct False
    [Field ''node'' struct_rb_node,
     Field ''expires'' typedef_ktime_t]"

definition typedef___u8 :: ctype where
  "typedef___u8 = c_uchar"

definition typedef_u8 :: ctype where
  "typedef_u8 = typedef___u8"

definition struct_hrtimer :: ctype where
  "struct_hrtimer = CStruct False
    [Field ''node'' struct_timerqueue_node,
     Field ''_softexpires'' typedef_ktime_t,
     Field ''function'' CPtr,
     Field ''base'' CPtr,
     Field ''state'' typedef_u8,
     Field ''is_rel'' typedef_u8,
     Field ''is_soft'' typedef_u8,
     Field ''is_hard'' typedef_u8]"

definition typedef_dl_server_has_tasks_f :: ctype where
  "typedef_dl_server_has_tasks_f = CPtr"

definition typedef_dl_server_pick_f :: ctype where
  "typedef_dl_server_pick_f = CPtr"

definition struct_sched_dl_entity :: ctype where
  "struct_sched_dl_entity = CStruct False
    [Field ''rb_node'' struct_rb_node,
     Field ''dl_runtime'' typedef_u64,
     Field ''dl_deadline'' typedef_u64,
     Field ''dl_period'' typedef_u64,
     Field ''dl_bw'' typedef_u64,
     Field ''dl_density'' typedef_u64,
     Field ''runtime'' typedef_s64,
     Field ''deadline'' typedef_u64,
     Field ''flags'' c_uint,
     Bits ''dl_throttled'' c_uint 1,
     Bits ''dl_yielded'' c_uint 1,
     Bits ''dl_non_contending'' c_uint 1,
     Bits ''dl_overrun'' c_uint 1,
     Bits ''dl_server'' c_uint 1,
     Bits ''dl_server_active'' c_uint 1,
     Bits ''dl_defer'' c_uint 1,
     Bits ''dl_defer_armed'' c_uint 1,
     Bits ''dl_defer_running'' c_uint 1,
     Field ''dl_timer'' struct_hrtimer,
     Field ''inactive_timer'' struct_hrtimer,
     Field ''rq'' CPtr,
     Field ''server_has_tasks'' typedef_dl_server_has_tasks_f,
     Field ''server_pick_task'' typedef_dl_server_pick_f,
     Field ''pi_se'' CPtr]"

definition struct_scx_dsq_list_node :: ctype where
  "struct_scx_dsq_list_node = CStruct False
    [Field ''node'' struct_list_head,
     Field ''flags'' typedef_u32,
     Field ''priv'' typedef_u32]"

definition typedef___s32 :: ctype where
  "typedef___s32 = c_int"

definition typedef_s32 :: ctype where
  "typedef_s32 = typedef___s32"

definition typedef_atomic64_t :: ctype where
  "typedef_atomic64_t = CStruct False
    [Field ''counter'' typedef_s64]"

definition typedef_atomic_long_t :: ctype where
  "typedef_atomic_long_t = typedef_atomic64_t"

definition typedef_bool :: ctype where
  "typedef_bool = c_bool"

definition struct_sched_ext_entity :: ctype where
  "struct_sched_ext_entity = CStruct False
    [Field ''dsq'' CPtr,
     Field ''dsq_list'' struct_scx_dsq_list_node,
     Field ''dsq_priq'' struct_rb_node,
     Field ''dsq_seq'' typedef_u32,
     Field ''dsq_flags'' typedef_u32,
     Field ''flags'' typedef_u32,
     Field ''weight'' typedef_u32,
     Field ''sticky_cpu'' typedef_s32,
     Field ''holding_cpu'' typedef_s32,
     Field ''kf_mask'' typedef_u32,
     Field ''kf_tasks'' (CArray CPtr 2),
     Field ''ops_state'' typedef_atomic_long_t,
     Field ''runnable_node'' struct_list_head,
     Field ''runnable_at'' c_ulong,
     Field ''core_sched_at'' typedef_u64,
     Field ''ddsp_dsq_id'' typedef_u64,
     Field ''ddsp_enq_flags'' typedef_u64,
     Field ''slice'' typedef_u64,
     Field ''dsq_vtime'' typedef_u64,
     Field ''disallow'' typedef_bool,
     Field ''cgrp_moving_from'' CPtr,
     Field ''tasks_node'' struct_list_head]"

definition struct_uclamp_se :: ctype where
  "struct_uclamp_se = CStruct False
    [Bits ''value'' c_uint 11,
     Bits ''bucket_id'' c_uint 3,
     Bits ''active'' c_uint 1,
     Bits ''user_defined'' c_uint 1]"

definition struct_sched_statistics :: ctype where
  "struct_sched_statistics = CStruct False
    [Field ''wait_start'' typedef_u64,
     Field ''wait_max'' typedef_u64,
     Field ''wait_count'' typedef_u64,
     Field ''wait_sum'' typedef_u64,
     Field ''iowait_count'' typedef_u64,
     Field ''iowait_sum'' typedef_u64,
     Field ''sleep_start'' typedef_u64,
     Field ''sleep_max'' typedef_u64,
     Field ''sum_sleep_runtime'' typedef_s64,
     Field ''block_start'' typedef_u64,
     Field ''block_max'' typedef_u64,
     Field ''sum_block_runtime'' typedef_s64,
     Field ''exec_max'' typedef_s64,
     Field ''slice_max'' typedef_u64,
     Field ''nr_migrations_cold'' typedef_u64,
     Field ''nr_failed_migrations_affine'' typedef_u64,
     Field ''nr_failed_migrations_running'' typedef_u64,
     Field ''nr_failed_migrations_hot'' typedef_u64,
     Field ''nr_forced_migrations'' typedef_u64,
     Field ''nr_wakeups'' typedef_u64,
     Field ''nr_wakeups_sync'' typedef_u64,
     Field ''nr_wakeups_migrate'' typedef_u64,
     Field ''nr_wakeups_local'' typedef_u64,
     Field ''nr_wakeups_remote'' typedef_u64,
     Field ''nr_wakeups_affine'' typedef_u64,
     Field ''nr_wakeups_affine_attempts'' typedef_u64,
     Field ''nr_wakeups_passive'' typedef_u64,
     Field ''nr_wakeups_idle'' typedef_u64,
     Field ''core_forceidle_sum'' typedef_u64,
     Pad c_long 64,
     Pad c_long 64,
     Pad c_long 64]"

definition struct_hlist_head :: ctype where
  "struct_hlist_head = CStruct False
    [Field ''first'' CPtr]"

definition struct_cpumask :: ctype where
  "struct_cpumask = CStruct False
    [Field ''bits'' (CArray c_ulong 128)]"

definition typedef_cpumask_t :: ctype where
  "typedef_cpumask_t = struct_cpumask"

definition union_rcu_special :: ctype where
  "union_rcu_special = CUnion
    [Field ''b'' (CStruct False [Field ''blocked'' typedef_u8,
       Field ''need_qs'' typedef_u8,
       Field ''exp_hint'' typedef_u8,
       Field ''need_mb'' typedef_u8]),
     Field ''s'' typedef_u32]"

definition struct_sched_info :: ctype where
  "struct_sched_info = CStruct False
    [Field ''pcount'' c_ulong,
     Field ''run_delay'' c_ulong,
     Field ''max_run_delay'' c_ulong,
     Field ''min_run_delay'' c_ulong,
     Field ''last_arrival'' c_ulong,
     Field ''last_queued'' c_ulong]"

definition struct_plist_node :: ctype where
  "struct_plist_node = CStruct False
    [Field ''prio'' c_int,
     Field ''prio_list'' struct_list_head,
     Field ''node_list'' struct_list_head]"

definition typedef___kernel_clockid_t :: ctype where
  "typedef___kernel_clockid_t = c_int"

definition typedef_clockid_t :: ctype where
  "typedef_clockid_t = typedef___kernel_clockid_t"

definition enum_timespec_type :: ctype where
  "enum_timespec_type = CEnum
    [(''TT_NONE'', 0),
     (''TT_NATIVE'', 1),
     (''TT_COMPAT'', 2)]"

definition struct_restart_block :: ctype where
  "struct_restart_block = CStruct False
    [Field ''arch_data'' c_ulong,
     Field ''fn'' CPtr,
     Field '''' (CUnion [Field ''futex'' (CStruct False [Field ''uaddr'' CPtr,
         Field ''val'' typedef_u32,
         Field ''flags'' typedef_u32,
         Field ''bitset'' typedef_u32,
         Field ''time'' typedef_u64,
         Field ''uaddr2'' CPtr]),
       Field ''nanosleep'' (CStruct False [Field ''clockid'' typedef_clockid_t,
         Field ''type'' enum_timespec_type,
         Field '''' (CUnion [Field ''rmtp'' CPtr,
           Field ''compat_rmtp'' CPtr]),
         Field ''expires'' typedef_u64]),
       Field ''poll'' (CStruct False [Field ''ufds'' CPtr,
         Field ''nfds'' c_int,
         Field ''has_timeout'' c_int,
         Field ''tv_sec'' c_ulong,
         Field ''tv_nsec'' c_ulong])])]"

definition typedef___kernel_pid_t :: ctype where
  "typedef___kernel_pid_t = c_int"

definition typedef_pid_t :: ctype where
  "typedef_pid_t = typedef___kernel_pid_t"

definition struct_qspinlock :: ctype where
  "struct_qspinlock = CStruct False
    [Field '''' (CUnion [Field ''val'' typedef_atomic_t,
       Field '''' (CStruct False [Field ''locked'' typedef_u8,
         Field ''pending'' typedef_u8]),
       Field '''' (CStruct False [Field ''locked_pending'' typedef_u16,
         Field ''tail'' typedef_u16])])]"

definition typedef_arch_spinlock_t :: ctype where
  "typedef_arch_spinlock_t = struct_qspinlock"

definition struct_raw_spinlock :: ctype where
  "struct_raw_spinlock = CStruct False
    [Field ''raw_lock'' typedef_arch_spinlock_t]"

definition typedef_raw_spinlock_t :: ctype where
  "typedef_raw_spinlock_t = struct_raw_spinlock"

definition struct_prev_cputime :: ctype where
  "struct_prev_cputime = CStruct False
    [Field ''utime'' typedef_u64,
     Field ''stime'' typedef_u64,
     Field ''lock'' typedef_raw_spinlock_t]"

definition struct_seqcount :: ctype where
  "struct_seqcount = CStruct False
    [Field ''sequence'' c_uint]"

definition typedef_seqcount_t :: ctype where
  "typedef_seqcount_t = struct_seqcount"

definition enum_vtime_state :: ctype where
  "enum_vtime_state = CEnum
    [(''VTIME_INACTIVE'', 0),
     (''VTIME_IDLE'', 1),
     (''VTIME_SYS'', 2),
     (''VTIME_USER'', 3),
     (''VTIME_GUEST'', 4)]"

definition struct_vtime :: ctype where
  "struct_vtime = CStruct False
    [Field ''seqcount'' typedef_seqcount_t,
     Field ''starttime'' c_ulong,
     Field ''state'' enum_vtime_state,
     Field ''cpu'' c_uint,
     Field ''utime'' typedef_u64,
     Field ''stime'' typedef_u64,
     Field ''gtime'' typedef_u64]"

definition struct_rb_root :: ctype where
  "struct_rb_root = CStruct False
    [Field ''rb_node'' CPtr]"

definition struct_rb_root_cached :: ctype where
  "struct_rb_root_cached = CStruct False
    [Field ''rb_root'' struct_rb_root,
     Field ''rb_leftmost'' CPtr]"

definition struct_timerqueue_head :: ctype where
  "struct_timerqueue_head = CStruct False
    [Field ''rb_root'' struct_rb_root_cached]"

definition struct_posix_cputimer_base :: ctype where
  "struct_posix_cputimer_base = CStruct False
    [Field ''nextevt'' typedef_u64,
     Field ''tqhead'' struct_timerqueue_head]"

definition struct_posix_cputimers :: ctype where
  "struct_posix_cputimers = CStruct False
    [Field ''bases'' (CArray struct_posix_cputimer_base 3),
     Field ''timers_active'' c_uint,
     Field ''expiry_active'' c_uint]"

definition struct_callback_head :: ctype where
  "struct_callback_head = CStruct False
    [Field ''next'' CPtr,
     Field ''func'' CPtr]"

definition struct_optimistic_spin_queue :: ctype where
  "struct_optimistic_spin_queue = CStruct False
    [Field ''tail'' typedef_atomic_t]"

definition struct_mutex :: ctype where
  "struct_mutex = CStruct False
    [Field ''owner'' typedef_atomic_long_t,
     Field ''wait_lock'' typedef_raw_spinlock_t,
     Field ''osq'' struct_optimistic_spin_queue,
     Field ''wait_list'' struct_list_head]"

definition struct_posix_cputimers_work :: ctype where
  "struct_posix_cputimers_work = CStruct False
    [Field ''work'' struct_callback_head,
     Field ''mutex'' struct_mutex,
     Field ''scheduled'' c_uint]"

definition struct_sysv_sem :: ctype where
  "struct_sysv_sem = CStruct False
    [Field ''undo_list'' CPtr]"

definition struct_sysv_shm :: ctype where
  "struct_sysv_shm = CStruct False
    [Field ''shm_clist'' struct_list_head]"

definition typedef_sigset_t :: ctype where
  "typedef_sigset_t = CStruct False
    [Field ''sig'' (CArray c_ulong 1)]"

definition struct_sigpending :: ctype where
  "struct_sigpending = CStruct False
    [Field ''list'' struct_list_head,
     Field ''signal'' typedef_sigset_t]"

definition typedef___kernel_ulong_t :: ctype where
  "typedef___kernel_ulong_t = c_ulong"

definition typedef___kernel_size_t :: ctype where
  "typedef___kernel_size_t = typedef___kernel_ulong_t"

definition typedef_size_t :: ctype where
  "typedef_size_t = typedef___kernel_size_t"

definition typedef___kernel_uid32_t :: ctype where
  "typedef___kernel_uid32_t = c_uint"

definition typedef_uid_t :: ctype where
  "typedef_uid_t = typedef___kernel_uid32_t"

definition typedef_kuid_t :: ctype where
  "typedef_kuid_t = CStruct False
    [Field ''val'' typedef_uid_t]"

definition struct_seccomp :: ctype where
  "struct_seccomp = CStruct False
    [Field ''mode'' c_int,
     Field ''filter_count'' typedef_atomic_t,
     Field ''filter'' CPtr]"

definition struct_syscall_user_dispatch :: ctype where
  "struct_syscall_user_dispatch = CStruct False
    [Field ''selector'' CPtr,
     Field ''offset'' c_ulong,
     Field ''len'' c_ulong,
     Field ''on_dispatch'' typedef_bool]"

definition struct_spinlock :: ctype where
  "struct_spinlock = CStruct False
    [Field '''' (CUnion [Field ''rlock'' struct_raw_spinlock])]"

definition typedef_spinlock_t :: ctype where
  "typedef_spinlock_t = struct_spinlock"

definition struct_wake_q_node :: ctype where
  "struct_wake_q_node = CStruct False
    [Field ''next'' CPtr]"

definition struct_task_io_accounting :: ctype where
  "struct_task_io_accounting = CStruct False
    [Field ''rchar'' typedef_u64,
     Field ''wchar'' typedef_u64,
     Field ''syscr'' typedef_u64,
     Field ''syscw'' typedef_u64,
     Field ''read_bytes'' typedef_u64,
     Field ''write_bytes'' typedef_u64,
     Field ''cancelled_write_bytes'' typedef_u64]"

definition typedef_nodemask_t :: ctype where
  "typedef_nodemask_t = CStruct False
    [Field ''bits'' (CArray c_ulong 16)]"

definition struct_seqcount_spinlock :: ctype where
  "struct_seqcount_spinlock = CStruct False
    [Field ''seqcount'' typedef_seqcount_t]"

definition typedef_seqcount_spinlock_t :: ctype where
  "typedef_seqcount_spinlock_t = struct_seqcount_spinlock"

definition struct_arch_tlbflush_unmap_batch :: ctype where
  "struct_arch_tlbflush_unmap_batch = CStruct False
    [Field ''cpumask'' struct_cpumask]"

definition struct_tlbflush_unmap_batch :: ctype where
  "struct_tlbflush_unmap_batch = CStruct False
    [Field ''arch'' struct_arch_tlbflush_unmap_batch,
     Field ''flush_required'' typedef_bool,
     Field ''writable'' typedef_bool]"

definition struct_page_frag :: ctype where
  "struct_page_frag = CStruct False
    [Field ''page'' CPtr,
     Field ''offset'' typedef___u32,
     Field ''size'' typedef___u32]"

definition struct_latency_record :: ctype where
  "struct_latency_record = CStruct False
    [Field ''backtrace'' (CArray c_ulong 12),
     Field ''count'' c_uint,
     Field ''time'' c_ulong,
     Field ''max'' c_ulong]"

definition struct_kmap_ctrl :: ctype where
  "struct_kmap_ctrl = CStruct False
    []"

definition struct_timer_list :: ctype where
  "struct_timer_list = CStruct False
    [Field ''entry'' struct_hlist_node,
     Field ''expires'' c_ulong,
     Field ''function'' CPtr,
     Field ''flags'' typedef_u32]"

definition struct_llist_head :: ctype where
  "struct_llist_head = CStruct False
    [Field ''first'' CPtr]"

definition struct_da_monitor :: ctype where
  "struct_da_monitor = CStruct False
    [Field ''monitoring'' typedef_bool,
     Field ''curr_state'' c_uint]"

definition union_rv_task_monitor :: ctype where
  "union_rv_task_monitor = CUnion
    [Field ''da_mon'' struct_da_monitor]"

definition struct_desc_struct :: ctype where
  "struct_desc_struct = CStruct False
    [Field ''limit0'' typedef_u16,
     Field ''base0'' typedef_u16,
     Bits ''base1'' typedef_u16 8,
     Bits ''type'' typedef_u16 4,
     Bits ''s'' typedef_u16 1,
     Bits ''dpl'' typedef_u16 2,
     Bits ''p'' typedef_u16 1,
     Bits ''limit1'' typedef_u16 4,
     Bits ''avl'' typedef_u16 1,
     Bits ''l'' typedef_u16 1,
     Bits ''d'' typedef_u16 1,
     Bits ''g'' typedef_u16 1,
     Bits ''base2'' typedef_u16 8]"

definition struct_thread_shstk :: ctype where
  "struct_thread_shstk = CStruct False
    [Field ''base'' typedef_u64,
     Field ''size'' typedef_u64]"

definition struct_fpu_state_perm :: ctype where
  "struct_fpu_state_perm = CStruct False
    [Field ''__state_perm'' typedef_u64,
     Field ''__state_size'' c_uint,
     Field ''__user_state_size'' c_uint]"

definition struct_fregs_state :: ctype where
  "struct_fregs_state = CStruct False
    [Field ''cwd'' typedef_u32,
     Field ''swd'' typedef_u32,
     Field ''twd'' typedef_u32,
     Field ''fip'' typedef_u32,
     Field ''fcs'' typedef_u32,
     Field ''foo'' typedef_u32,
     Field ''fos'' typedef_u32,
     Field ''st_space'' (CArray typedef_u32 20),
     Field ''status'' typedef_u32]"

definition struct_fxregs_state :: ctype where
  "struct_fxregs_state = CStruct False
    [Field ''cwd'' typedef_u16,
     Field ''swd'' typedef_u16,
     Field ''twd'' typedef_u16,
     Field ''fop'' typedef_u16,
     Field '''' (CUnion [Field '''' (CStruct False [Field ''rip'' typedef_u64,
         Field ''rdp'' typedef_u64]),
       Field '''' (CStruct False [Field ''fip'' typedef_u32,
         Field ''fcs'' typedef_u32,
         Field ''foo'' typedef_u32,
         Field ''fos'' typedef_u32])]),
     Field ''mxcsr'' typedef_u32,
     Field ''mxcsr_mask'' typedef_u32,
     Field ''st_space'' (CArray typedef_u32 32),
     Field ''xmm_space'' (CArray typedef_u32 64),
     Field ''padding'' (CArray typedef_u32 12),
     Field '''' (CUnion [Field ''padding1'' (CArray typedef_u32 12),
       Field ''sw_reserved'' (CArray typedef_u32 12)])]"

definition struct_swregs_state :: ctype where
  "struct_swregs_state = CStruct False
    [Field ''cwd'' typedef_u32,
     Field ''swd'' typedef_u32,
     Field ''twd'' typedef_u32,
     Field ''fip'' typedef_u32,
     Field ''fcs'' typedef_u32,
     Field ''foo'' typedef_u32,
     Field ''fos'' typedef_u32,
     Field ''st_space'' (CArray typedef_u32 20),
     Field ''ftop'' typedef_u8,
     Field ''changed'' typedef_u8,
     Field ''lookahead'' typedef_u8,
     Field ''no_update'' typedef_u8,
     Field ''rm'' typedef_u8,
     Field ''alimit'' typedef_u8,
     Field ''info'' CPtr,
     Field ''entry_eip'' typedef_u32]"

definition struct_xstate_header :: ctype where
  "struct_xstate_header = CStruct False
    [Field ''xfeatures'' typedef_u64,
     Field ''xcomp_bv'' typedef_u64,
     Field ''reserved'' (CArray typedef_u64 6)]"

definition struct_xregs_state :: ctype where
  "struct_xregs_state = CStruct False
    [Field ''i387'' struct_fxregs_state,
     Field ''header'' struct_xstate_header,
     Field ''extended_state_area'' (CArray typedef_u8 0)]"

definition union_fpregs_state :: ctype where
  "union_fpregs_state = CUnion
    [Field ''fsave'' struct_fregs_state,
     Field ''fxsave'' struct_fxregs_state,
     Field ''soft'' struct_swregs_state,
     Field ''xsave'' struct_xregs_state,
     Field ''__padding'' (CArray typedef_u8 4096)]"

definition struct_fpstate :: ctype where
  "struct_fpstate = CStruct False
    [Field ''size'' c_uint,
     Field ''user_size'' c_uint,
     Field ''xfeatures'' typedef_u64,
     Field ''user_xfeatures'' typedef_u64,
     Field ''xfd'' typedef_u64,
     Bits ''is_valloc'' c_uint 1,
     Bits ''is_guest'' c_uint 1,
     Bits ''is_confidential'' c_uint 1,
     Bits ''in_use'' c_uint 1,
     Pad c_long 64,
     Pad c_long 64,
     Pad c_long 64,
     Field ''regs'' union_fpregs_state]"

definition struct_fpu :: ctype where
  "struct_fpu = CStruct False
    [Field ''last_cpu'' c_uint,
     Field ''avx512_timestamp'' c_ulong,
     Field ''fpstate'' CPtr,
     Field ''__task_fpstate'' CPtr,
     Field ''perm'' struct_fpu_state_perm,
     Field ''guest_perm'' struct_fpu_state_perm,
     Field ''__fpstate'' struct_fpstate]"

definition struct_thread_struct :: ctype where
  "struct_thread_struct = CStruct False
    [Field ''tls_array'' (CArray struct_desc_struct 3),
     Field ''sp'' c_ulong,
     Field ''es'' c_ushort,
     Field ''ds'' c_ushort,
     Field ''fsindex'' c_ushort,
     Field ''gsindex'' c_ushort,
     Field ''fsbase'' c_ulong,
     Field ''gsbase'' c_ulong,
     Field ''ptrace_bps'' (CArray CPtr 4),
     Field ''virtual_dr6'' c_ulong,
     Field ''ptrace_dr7'' c_ulong,
     Field ''cr2'' c_ulong,
     Field ''trap_nr'' c_ulong,
     Field ''error_code'' c_ulong,
     Field ''io_bitmap'' CPtr,
     Field ''iopl_emul'' c_ulong,
     Bits ''iopl_warn'' c_uint 1,
     Field ''pkru'' typedef_u32,
     Field ''features'' c_ulong,
     Field ''features_locked'' c_ulong,
     Field ''shstk'' struct_thread_shstk,
     Pad c_long 64,
     Field ''fpu'' struct_fpu]"

definition struct_task_struct_members_1 :: "cmember list" where
  "struct_task_struct_members_1 =
    [Field ''thread_info'' struct_thread_info,
     Field ''__state'' c_uint,
     Field ''saved_state'' c_uint,
     Field ''stack'' CPtr,
     Field ''usage'' typedef_refcount_t,
     Field ''flags'' c_uint,
     Field ''ptrace'' c_uint,
     Field ''on_cpu'' c_int,
     Field ''wake_entry'' struct___call_single_node,
     Field ''wakee_flips'' c_uint,
     Field ''wakee_flip_decay_ts'' c_ulong,
     Field ''last_wakee'' CPtr,
     Field ''recent_used_cpu'' c_int,
     Field ''wake_cpu'' c_int,
     Field ''on_rq'' c_int,
     Field ''prio'' c_int,
     Field ''static_prio'' c_int,
     Field ''normal_prio'' c_int,
     Field ''rt_priority'' c_uint,
     Field ''se'' struct_sched_entity,
     Field ''rt'' struct_sched_rt_entity,
     Field ''dl'' struct_sched_dl_entity,
     Field ''dl_server'' CPtr,
     Field ''scx'' struct_sched_ext_entity,
     Field ''sched_class'' CPtr,
     Field ''core_node'' struct_rb_node,
     Field ''core_cookie'' c_ulong,
     Field ''core_occupation'' c_uint,
     Field ''sched_task_group'' CPtr,
     Field ''uclamp_req'' (CArray struct_uclamp_se 2),
     Field ''uclamp'' (CArray struct_uclamp_se 2),
     Pad c_long 64,
     Pad c_long 64,
     Pad c_long 64,
     Pad c_long 64,
     Pad c_long 64,
     Pad c_long 64,
     Pad c_long 64,
     Field ''stats'' struct_sched_statistics,
     Field ''preempt_notifiers'' struct_hlist_head,
     Field ''btrace_seq'' c_uint,
     Field ''policy'' c_uint,
     Field ''max_allowed_capacity'' c_ulong,
     Field ''nr_cpus_allowed'' c_int,
     Field ''cpus_ptr'' CPtr,
     Field ''user_cpus_ptr'' CPtr,
     Field ''cpus_mask'' typedef_cpumask_t,
     Field ''migration_pending'' CPtr,
     Field ''migration_disabled'' c_ushort,
     Field ''migration_flags'' c_ushort,
     Field ''trc_reader_nesting'' c_int,
     Field ''trc_ipi_to_cpu'' c_int,
     Field ''trc_reader_special'' union_rcu_special,
     Field ''trc_holdout_list'' struct_list_head,
     Field ''trc_blkd_node'' struct_list_head,
     Field ''trc_blkd_cpu'' c_int,
     Field ''sched_info'' struct_sched_info,
     Field ''tasks'' struct_list_head,
     Field ''pushable_tasks'' struct_plist_node,
     Field ''pushable_dl_tasks'' struct_rb_node,
     Field ''mm'' CPtr,
     Field ''active_mm'' CPtr,
     Field ''faults_disabled_mapping'' CPtr,
     Field ''exit_state'' c_int,
     Field ''exit_code'' c_int,
     Field ''exit_signal'' c_int,
     Field ''pdeath_signal'' c_int,
     Field ''jobctl'' c_ulong,
     Field ''personality'' c_uint,
     Bits ''sched_reset_on_fork'' c_uint 1,
     Bits ''sched_contributes_to_load'' c_uint 1,
     Bits ''sched_migrated'' c_uint 1,
     Bits ''sched_task_hot'' c_uint 1,
     Pad c_long 28,
     Bits ''sched_remote_wakeup'' c_uint 1,
     Bits ''sched_rt_mutex'' c_uint 1,
     Bits ''in_execve'' c_uint 1,
     Bits ''in_iowait'' c_uint 1,
     Bits ''restore_sigmask'' c_uint 1,
     Bits ''in_lru_fault'' c_uint 1,
     Bits ''no_cgroup_migration'' c_uint 1,
     Bits ''frozen'' c_uint 1,
     Bits ''use_memdelay'' c_uint 1,
     Bits ''in_memstall'' c_uint 1,
     Bits ''in_eventfd'' c_uint 1,
     Bits ''pasid_activated'' c_uint 1,
     Bits ''reported_split_lock'' c_uint 1,
     Bits ''in_thrashing'' c_uint 1,
     Field ''atomic_flags'' c_ulong,
     Field ''restart_block'' struct_restart_block,
     Field ''pid'' typedef_pid_t,
     Field ''tgid'' typedef_pid_t,
     Field ''stack_canary'' c_ulong,
     Field ''real_parent'' CPtr,
     Field ''parent'' CPtr,
     Field ''children'' struct_list_head,
     Field ''sibling'' struct_list_head,
     Field ''group_leader'' CPtr,
     Field ''ptraced'' struct_list_head,
     Field ''ptrace_entry'' struct_list_head,
     Field ''thread_pid'' CPtr,
     Field ''pid_links'' (CArray struct_hlist_node 4),
     Field ''thread_node'' struct_list_head,
     Field ''vfork_done'' CPtr,
     Field ''set_child_tid'' CPtr,
     Field ''clear_child_tid'' CPtr,
     Field ''worker_private'' CPtr,
     Field ''utime'' typedef_u64,
     Field ''stime'' typedef_u64,
     Field ''gtime'' typedef_u64,
     Field ''prev_cputime'' struct_prev_cputime,
     Field ''vtime'' struct_vtime,
     Field ''tick_dep_mask'' typedef_atomic_t,
     Field ''nvcsw'' c_ulong,
     Field ''nivcsw'' c_ulong,
     Field ''start_time'' typedef_u64,
     Field ''start_boottime'' typedef_u64,
     Field ''min_flt'' c_ulong,
     Field ''maj_flt'' c_ulong,
     Field ''posix_cputimers'' struct_posix_cputimers,
     Field ''posix_cputimers_work'' struct_posix_cputimers_work,
     Field ''ptracer_cred'' CPtr,
     Field ''real_cred'' CPtr,
     Field ''cred'' CPtr,
     Field ''cached_requested_key'' CPtr,
     Field ''comm'' (CArray c_char 16),
     Field ''nameidata'' CPtr,
     Field ''sysvsem'' struct_sysv_sem,
     Field ''sysvshm'' struct_sysv_shm,
     Field ''last_switch_count'' c_ulong,
     Field ''last_switch_time'' c_ulong,
     Field ''fs'' CPtr,
     Field ''files'' CPtr,
     Field ''io_uring'' CPtr,
     Field ''nsproxy'' CPtr,
     Field ''signal'' CPtr,
     Field ''sighand'' CPtr,
     Field ''blocked'' typedef_sigset_t,
     Field ''real_blocked'' typedef_sigset_t,
     Field ''saved_sigmask'' typedef_sigset_t]"

definition struct_task_struct_members_2 :: "cmember list" where
  "struct_task_struct_members_2 =
    [Field ''pending'' struct_sigpending,
     Field ''sas_ss_sp'' c_ulong,
     Field ''sas_ss_size'' typedef_size_t,
     Field ''sas_ss_flags'' c_uint,
     Field ''task_works'' CPtr,
     Field ''audit_context'' CPtr,
     Field ''loginuid'' typedef_kuid_t,
     Field ''sessionid'' c_uint,
     Field ''seccomp'' struct_seccomp,
     Field ''syscall_dispatch'' struct_syscall_user_dispatch,
     Field ''parent_exec_id'' typedef_u64,
     Field ''self_exec_id'' typedef_u64,
     Field ''alloc_lock'' typedef_spinlock_t,
     Field ''pi_lock'' typedef_raw_spinlock_t,
     Field ''wake_q'' struct_wake_q_node,
     Field ''pi_waiters'' struct_rb_root_cached,
     Field ''pi_top_task'' CPtr,
     Field ''pi_blocked_on'' CPtr,
     Field ''in_ubsan'' c_uint,
     Field ''journal_info'' CPtr,
     Field ''bio_list'' CPtr,
     Field ''plug'' CPtr,
     Field ''reclaim_state'' CPtr,
     Field ''io_context'' CPtr,
     Field ''capture_control'' CPtr,
     Field ''ptrace_message'' c_ulong,
     Field ''last_siginfo'' CPtr,
     Field ''ioac'' struct_task_io_accounting,
     Field ''psi_flags'' c_uint,
     Field ''acct_rss_mem1'' typedef_u64,
     Field ''acct_vm_mem1'' typedef_u64,
     Field ''acct_timexpd'' typedef_u64,
     Field ''mems_allowed'' typedef_nodemask_t,
     Field ''mems_allowed_seq'' typedef_seqcount_spinlock_t,
     Field ''cpuset_mem_spread_rotor'' c_int,
     Field ''cgroups'' CPtr,
     Field ''cg_list'' struct_list_head,
     Field ''closid'' typedef_u32,
     Field ''rmid'' typedef_u32,
     Field ''robust_list'' CPtr,
     Field ''compat_robust_list'' CPtr,
     Field ''pi_state_list'' struct_list_head,
     Field ''pi_state_cache'' CPtr,
     Field ''futex_exit_mutex'' struct_mutex,
     Field ''futex_state'' c_uint,
     Field ''perf_recursion'' (CArray typedef_u8 4),
     Field ''perf_event_ctxp'' CPtr,
     Field ''perf_event_mutex'' struct_mutex,
     Field ''perf_event_list'' struct_list_head,
     Field ''perf_ctx_data'' CPtr,
     Field ''mempolicy'' CPtr,
     Field ''il_prev'' c_short,
     Field ''il_weight'' typedef_u8,
     Field ''pref_node_fork'' c_short,
     Field ''numa_scan_seq'' c_int,
     Field ''numa_scan_period'' c_uint,
     Field ''numa_scan_period_max'' c_uint,
     Field ''numa_preferred_nid'' c_int,
     Field ''numa_migrate_retry'' c_ulong,
     Field ''node_stamp'' typedef_u64,
     Field ''last_task_numa_placement'' typedef_u64,
     Field ''last_sum_exec_runtime'' typedef_u64,
     Field ''numa_work'' struct_callback_head,
     Field ''numa_group'' CPtr,
     Field ''numa_faults'' CPtr,
     Field ''total_numa_faults'' c_ulong,
     Field ''numa_faults_locality'' (CArray c_ulong 3),
     Field ''numa_pages_migrated'' c_ulong,
     Field ''rseq'' CPtr,
     Field ''rseq_len'' typedef_u32,
     Field ''rseq_sig'' typedef_u32,
     Field ''rseq_event_mask'' c_ulong,
     Field ''mm_cid'' c_int,
     Field ''last_mm_cid'' c_int,
     Field ''migrate_from_cpu'' c_int,
     Field ''mm_cid_active'' c_int,
     Field ''cid_work'' struct_callback_head,
     Field ''tlb_ubc'' struct_tlbflush_unmap_batch,
     Field ''splice_pipe'' CPtr,
     Field ''task_frag'' struct_page_frag,
     Field ''delays'' CPtr,
     Field ''nr_dirtied'' c_int,
     Field ''nr_dirtied_pause'' c_int,
     Field ''dirty_paused_when'' c_ulong,
     Field ''latency_record_count'' c_int,
     Field ''latency_record'' (CArray struct_latency_record 32),
     Field ''timer_slack_ns'' typedef_u64,
     Field ''default_timer_slack_ns'' typedef_u64,
     Field ''curr_ret_stack'' c_int,
     Field ''curr_ret_depth'' c_int,
     Field ''ret_stack'' CPtr,
     Field ''ftrace_timestamp'' c_ulong,
     Field ''ftrace_sleeptime'' c_ulong,
     Field ''trace_overrun'' typedef_atomic_t,
     Field ''tracing_graph_pause'' typedef_atomic_t,
     Field ''trace_recursion'' c_ulong,
     Field ''memcg_nr_pages_over_high'' c_uint,
     Field ''active_memcg'' CPtr,
     Field ''objcg'' CPtr,
     Field ''throttle_disk'' CPtr,
     Field ''utask'' CPtr,
     Field ''sequential_io'' c_uint,
     Field ''sequential_io_avg'' c_uint,
     Field ''kmap_ctrl'' struct_kmap_ctrl,
     Field ''rcu'' struct_callback_head,
     Field ''rcu_users'' typedef_refcount_t,
     Field ''pagefault_disabled'' c_int,
     Field ''oom_reaper_list'' CPtr,
     Field ''oom_reaper_timer'' struct_timer_list,
     Field ''stack_vm_area'' CPtr,
     Field ''stack_refcount'' typedef_refcount_t,
     Field ''patch_state'' c_int,
     Field ''security'' CPtr,
     Field ''bpf_storage'' CPtr,
     Field ''bpf_ctx'' CPtr,
     Field ''bpf_net_context'' CPtr,
     Field ''mce_vaddr'' CPtr,
     Field ''mce_kflags'' typedef___u64,
     Field ''mce_addr'' typedef_u64,
     Bits ''mce_ripv'' typedef___u64 1,
     Bits ''mce_whole_page'' typedef___u64 1,
     Bits ''__mce_reserved'' typedef___u64 62,
     Field ''mce_kill_me'' struct_callback_head,
     Field ''mce_count'' c_int,
     Field ''kretprobe_instances'' struct_llist_head,
     Field ''rethooks'' struct_llist_head,
     Field ''l1d_flush_kill'' struct_callback_head,
     Field ''rv'' (CArray union_rv_task_monitor 1),
     Field ''user_event_mm'' CPtr,
     Pad c_long 64,
     Field ''thread'' struct_thread_struct]"

definition struct_task_struct :: ctype where
  "struct_task_struct = CStruct False
    (struct_task_struct_members_1 @ struct_task_struct_members_2)"

subsection \<open>Sizes and alignments\<close>

lemma sa_typedef___u32 [layout_eval]: "sizealign typedef___u32 = (4, 4)"
  by (simp add: typedef___u32_def layout_eval)

lemma sa_typedef_u32 [layout_eval]: "sizealign typedef_u32 = (4, 4)"
  by (simp add: typedef_u32_def layout_eval)

lemma sa_struct_thread_info [layout_eval]: "sizealign struct_thread_info = (24, 8)"
  by (simp add: struct_thread_info_def layout_eval)

lemma sa_struct_llist_node [layout_eval]: "sizealign struct_llist_node = (8, 8)"
  by (simp add: struct_llist_node_def layout_eval)

lemma sa_struct___call_single_node [layout_eval]: "sizealign struct___call_single_node = (16, 8)"
  by (simp add: struct___call_single_node_def layout_eval)

lemma sa_struct_load_weight [layout_eval]: "sizealign struct_load_weight = (16, 8)"
  by (simp add: struct_load_weight_def layout_eval)

lemma sa_struct_rb_node [layout_eval]: "sizealign struct_rb_node = (24, 8)"
  by (simp add: struct_rb_node_def layout_eval)

lemma sa_typedef___s64 [layout_eval]: "sizealign typedef___s64 = (8, 8)"
  by (simp add: typedef___s64_def layout_eval)

lemma sa_typedef_s64 [layout_eval]: "sizealign typedef_s64 = (8, 8)"
  by (simp add: typedef_s64_def layout_eval)

lemma sa_struct_sched_avg [layout_eval]: "sizealign struct_sched_avg = (64, 8)"
  by (simp add: struct_sched_avg_def layout_eval)

lemma sa_struct_sched_entity [layout_eval]: "sizealign struct_sched_entity = (256, 8)"
  by (simp add: struct_sched_entity_def layout_eval)

lemma sa_struct_sched_rt_entity [layout_eval]: "sizealign struct_sched_rt_entity = (48, 8)"
  by (simp add: struct_sched_rt_entity_def layout_eval)

lemma sa_typedef_ktime_t [layout_eval]: "sizealign typedef_ktime_t = (8, 8)"
  by (simp add: typedef_ktime_t_def layout_eval)

lemma sa_struct_timerqueue_node [layout_eval]: "sizealign struct_timerqueue_node = (32, 8)"
  by (simp add: struct_timerqueue_node_def layout_eval)

lemma sa_typedef___u8 [layout_eval]: "sizealign typedef___u8 = (1, 1)"
  by (simp add: typedef___u8_def layout_eval)

lemma sa_typedef_u8 [layout_eval]: "sizealign typedef_u8 = (1, 1)"
  by (simp add: typedef_u8_def layout_eval)

lemma sa_struct_hrtimer [layout_eval]: "sizealign struct_hrtimer = (64, 8)"
  by (simp add: struct_hrtimer_def layout_eval)

lemma sa_typedef_dl_server_has_tasks_f [layout_eval]: "sizealign typedef_dl_server_has_tasks_f = (8, 8)"
  by (simp add: typedef_dl_server_has_tasks_f_def layout_eval)

lemma sa_typedef_dl_server_pick_f [layout_eval]: "sizealign typedef_dl_server_pick_f = (8, 8)"
  by (simp add: typedef_dl_server_pick_f_def layout_eval)

lemma sa_struct_sched_dl_entity [layout_eval]: "sizealign struct_sched_dl_entity = (248, 8)"
  by (simp add: struct_sched_dl_entity_def layout_eval)

lemma sa_struct_scx_dsq_list_node [layout_eval]: "sizealign struct_scx_dsq_list_node = (24, 8)"
  by (simp add: struct_scx_dsq_list_node_def layout_eval)

lemma sa_typedef___s32 [layout_eval]: "sizealign typedef___s32 = (4, 4)"
  by (simp add: typedef___s32_def layout_eval)

lemma sa_typedef_s32 [layout_eval]: "sizealign typedef_s32 = (4, 4)"
  by (simp add: typedef_s32_def layout_eval)

lemma sa_typedef_atomic64_t [layout_eval]: "sizealign typedef_atomic64_t = (8, 8)"
  by (simp add: typedef_atomic64_t_def layout_eval)

lemma sa_typedef_atomic_long_t [layout_eval]: "sizealign typedef_atomic_long_t = (8, 8)"
  by (simp add: typedef_atomic_long_t_def layout_eval)

lemma sa_typedef_bool [layout_eval]: "sizealign typedef_bool = (1, 1)"
  by (simp add: typedef_bool_def layout_eval)

lemma sa_struct_sched_ext_entity [layout_eval]: "sizealign struct_sched_ext_entity = (208, 8)"
  by (simp add: struct_sched_ext_entity_def layout_eval)

lemma sa_struct_uclamp_se [layout_eval]: "sizealign struct_uclamp_se = (4, 4)"
  by (simp add: struct_uclamp_se_def layout_eval)

lemma sa_struct_sched_statistics [layout_eval]: "sizealign struct_sched_statistics = (256, 8)"
  by (simp add: struct_sched_statistics_def layout_eval)

lemma sa_struct_hlist_head [layout_eval]: "sizealign struct_hlist_head = (8, 8)"
  by (simp add: struct_hlist_head_def layout_eval)

lemma sa_struct_cpumask [layout_eval]: "sizealign struct_cpumask = (1024, 8)"
  by (simp add: struct_cpumask_def layout_eval)

lemma sa_typedef_cpumask_t [layout_eval]: "sizealign typedef_cpumask_t = (1024, 8)"
  by (simp add: typedef_cpumask_t_def layout_eval)

lemma sa_union_rcu_special [layout_eval]: "sizealign union_rcu_special = (4, 4)"
  by (simp add: union_rcu_special_def layout_eval)

lemma sa_struct_sched_info [layout_eval]: "sizealign struct_sched_info = (48, 8)"
  by (simp add: struct_sched_info_def layout_eval)

lemma sa_struct_plist_node [layout_eval]: "sizealign struct_plist_node = (40, 8)"
  by (simp add: struct_plist_node_def layout_eval)

lemma sa_typedef___kernel_clockid_t [layout_eval]: "sizealign typedef___kernel_clockid_t = (4, 4)"
  by (simp add: typedef___kernel_clockid_t_def layout_eval)

lemma sa_typedef_clockid_t [layout_eval]: "sizealign typedef_clockid_t = (4, 4)"
  by (simp add: typedef_clockid_t_def layout_eval)

lemma sa_enum_timespec_type [layout_eval]: "sizealign enum_timespec_type = (4, 4)"
  by (simp add: enum_timespec_type_def layout_eval)

lemma sa_struct_restart_block [layout_eval]: "sizealign struct_restart_block = (56, 8)"
  by (simp add: struct_restart_block_def layout_eval)

lemma sa_typedef___kernel_pid_t [layout_eval]: "sizealign typedef___kernel_pid_t = (4, 4)"
  by (simp add: typedef___kernel_pid_t_def layout_eval)

lemma sa_typedef_pid_t [layout_eval]: "sizealign typedef_pid_t = (4, 4)"
  by (simp add: typedef_pid_t_def layout_eval)

lemma sa_struct_qspinlock [layout_eval]: "sizealign struct_qspinlock = (4, 4)"
  by (simp add: struct_qspinlock_def layout_eval)

lemma sa_typedef_arch_spinlock_t [layout_eval]: "sizealign typedef_arch_spinlock_t = (4, 4)"
  by (simp add: typedef_arch_spinlock_t_def layout_eval)

lemma sa_struct_raw_spinlock [layout_eval]: "sizealign struct_raw_spinlock = (4, 4)"
  by (simp add: struct_raw_spinlock_def layout_eval)

lemma sa_typedef_raw_spinlock_t [layout_eval]: "sizealign typedef_raw_spinlock_t = (4, 4)"
  by (simp add: typedef_raw_spinlock_t_def layout_eval)

lemma sa_struct_prev_cputime [layout_eval]: "sizealign struct_prev_cputime = (24, 8)"
  by (simp add: struct_prev_cputime_def layout_eval)

lemma sa_struct_seqcount [layout_eval]: "sizealign struct_seqcount = (4, 4)"
  by (simp add: struct_seqcount_def layout_eval)

lemma sa_typedef_seqcount_t [layout_eval]: "sizealign typedef_seqcount_t = (4, 4)"
  by (simp add: typedef_seqcount_t_def layout_eval)

lemma sa_enum_vtime_state [layout_eval]: "sizealign enum_vtime_state = (4, 4)"
  by (simp add: enum_vtime_state_def layout_eval)

lemma sa_struct_vtime [layout_eval]: "sizealign struct_vtime = (48, 8)"
  by (simp add: struct_vtime_def layout_eval)

lemma sa_struct_rb_root [layout_eval]: "sizealign struct_rb_root = (8, 8)"
  by (simp add: struct_rb_root_def layout_eval)

lemma sa_struct_rb_root_cached [layout_eval]: "sizealign struct_rb_root_cached = (16, 8)"
  by (simp add: struct_rb_root_cached_def layout_eval)

lemma sa_struct_timerqueue_head [layout_eval]: "sizealign struct_timerqueue_head = (16, 8)"
  by (simp add: struct_timerqueue_head_def layout_eval)

lemma sa_struct_posix_cputimer_base [layout_eval]: "sizealign struct_posix_cputimer_base = (24, 8)"
  by (simp add: struct_posix_cputimer_base_def layout_eval)

lemma sa_struct_posix_cputimers [layout_eval]: "sizealign struct_posix_cputimers = (80, 8)"
  by (simp add: struct_posix_cputimers_def layout_eval)

lemma sa_struct_callback_head [layout_eval]: "sizealign struct_callback_head = (16, 8)"
  by (simp add: struct_callback_head_def layout_eval)

lemma sa_struct_optimistic_spin_queue [layout_eval]: "sizealign struct_optimistic_spin_queue = (4, 4)"
  by (simp add: struct_optimistic_spin_queue_def layout_eval)

lemma sa_struct_mutex [layout_eval]: "sizealign struct_mutex = (32, 8)"
  by (simp add: struct_mutex_def layout_eval)

lemma sa_struct_posix_cputimers_work [layout_eval]: "sizealign struct_posix_cputimers_work = (56, 8)"
  by (simp add: struct_posix_cputimers_work_def layout_eval)

lemma sa_struct_sysv_sem [layout_eval]: "sizealign struct_sysv_sem = (8, 8)"
  by (simp add: struct_sysv_sem_def layout_eval)

lemma sa_struct_sysv_shm [layout_eval]: "sizealign struct_sysv_shm = (16, 8)"
  by (simp add: struct_sysv_shm_def layout_eval)

lemma sa_typedef_sigset_t [layout_eval]: "sizealign typedef_sigset_t = (8, 8)"
  by (simp add: typedef_sigset_t_def layout_eval)

lemma sa_struct_sigpending [layout_eval]: "sizealign struct_sigpending = (24, 8)"
  by (simp add: struct_sigpending_def layout_eval)

lemma sa_typedef___kernel_ulong_t [layout_eval]: "sizealign typedef___kernel_ulong_t = (8, 8)"
  by (simp add: typedef___kernel_ulong_t_def layout_eval)

lemma sa_typedef___kernel_size_t [layout_eval]: "sizealign typedef___kernel_size_t = (8, 8)"
  by (simp add: typedef___kernel_size_t_def layout_eval)

lemma sa_typedef_size_t [layout_eval]: "sizealign typedef_size_t = (8, 8)"
  by (simp add: typedef_size_t_def layout_eval)

lemma sa_typedef___kernel_uid32_t [layout_eval]: "sizealign typedef___kernel_uid32_t = (4, 4)"
  by (simp add: typedef___kernel_uid32_t_def layout_eval)

lemma sa_typedef_uid_t [layout_eval]: "sizealign typedef_uid_t = (4, 4)"
  by (simp add: typedef_uid_t_def layout_eval)

lemma sa_typedef_kuid_t [layout_eval]: "sizealign typedef_kuid_t = (4, 4)"
  by (simp add: typedef_kuid_t_def layout_eval)

lemma sa_struct_seccomp [layout_eval]: "sizealign struct_seccomp = (16, 8)"
  by (simp add: struct_seccomp_def layout_eval)

lemma sa_struct_syscall_user_dispatch [layout_eval]: "sizealign struct_syscall_user_dispatch = (32, 8)"
  by (simp add: struct_syscall_user_dispatch_def layout_eval)

lemma sa_struct_spinlock [layout_eval]: "sizealign struct_spinlock = (4, 4)"
  by (simp add: struct_spinlock_def layout_eval)

lemma sa_typedef_spinlock_t [layout_eval]: "sizealign typedef_spinlock_t = (4, 4)"
  by (simp add: typedef_spinlock_t_def layout_eval)

lemma sa_struct_wake_q_node [layout_eval]: "sizealign struct_wake_q_node = (8, 8)"
  by (simp add: struct_wake_q_node_def layout_eval)

lemma sa_struct_task_io_accounting [layout_eval]: "sizealign struct_task_io_accounting = (56, 8)"
  by (simp add: struct_task_io_accounting_def layout_eval)

lemma sa_typedef_nodemask_t [layout_eval]: "sizealign typedef_nodemask_t = (128, 8)"
  by (simp add: typedef_nodemask_t_def layout_eval)

lemma sa_struct_seqcount_spinlock [layout_eval]: "sizealign struct_seqcount_spinlock = (4, 4)"
  by (simp add: struct_seqcount_spinlock_def layout_eval)

lemma sa_typedef_seqcount_spinlock_t [layout_eval]: "sizealign typedef_seqcount_spinlock_t = (4, 4)"
  by (simp add: typedef_seqcount_spinlock_t_def layout_eval)

lemma sa_struct_arch_tlbflush_unmap_batch [layout_eval]: "sizealign struct_arch_tlbflush_unmap_batch = (1024, 8)"
  by (simp add: struct_arch_tlbflush_unmap_batch_def layout_eval)

lemma sa_struct_tlbflush_unmap_batch [layout_eval]: "sizealign struct_tlbflush_unmap_batch = (1032, 8)"
  by (simp add: struct_tlbflush_unmap_batch_def layout_eval)

lemma sa_struct_page_frag [layout_eval]: "sizealign struct_page_frag = (16, 8)"
  by (simp add: struct_page_frag_def layout_eval)

lemma sa_struct_latency_record [layout_eval]: "sizealign struct_latency_record = (120, 8)"
  by (simp add: struct_latency_record_def layout_eval)

lemma sa_struct_kmap_ctrl [layout_eval]: "sizealign struct_kmap_ctrl = (0, 1)"
  by (simp add: struct_kmap_ctrl_def layout_eval)

lemma sa_struct_timer_list [layout_eval]: "sizealign struct_timer_list = (40, 8)"
  by (simp add: struct_timer_list_def layout_eval)

lemma sa_struct_llist_head [layout_eval]: "sizealign struct_llist_head = (8, 8)"
  by (simp add: struct_llist_head_def layout_eval)

lemma sa_struct_da_monitor [layout_eval]: "sizealign struct_da_monitor = (8, 4)"
  by (simp add: struct_da_monitor_def layout_eval)

lemma sa_union_rv_task_monitor [layout_eval]: "sizealign union_rv_task_monitor = (8, 4)"
  by (simp add: union_rv_task_monitor_def layout_eval)

lemma sa_struct_desc_struct [layout_eval]: "sizealign struct_desc_struct = (8, 2)"
  by (simp add: struct_desc_struct_def layout_eval)

lemma sa_struct_thread_shstk [layout_eval]: "sizealign struct_thread_shstk = (16, 8)"
  by (simp add: struct_thread_shstk_def layout_eval)

lemma sa_struct_fpu_state_perm [layout_eval]: "sizealign struct_fpu_state_perm = (16, 8)"
  by (simp add: struct_fpu_state_perm_def layout_eval)

lemma sa_struct_fregs_state [layout_eval]: "sizealign struct_fregs_state = (112, 4)"
  by (simp add: struct_fregs_state_def layout_eval)

lemma sa_struct_fxregs_state [layout_eval]: "sizealign struct_fxregs_state = (512, 8)"
  by (simp add: struct_fxregs_state_def layout_eval)

lemma sa_struct_swregs_state [layout_eval]: "sizealign struct_swregs_state = (136, 8)"
  by (simp add: struct_swregs_state_def layout_eval)

lemma sa_struct_xstate_header [layout_eval]: "sizealign struct_xstate_header = (64, 8)"
  by (simp add: struct_xstate_header_def layout_eval)

lemma sa_struct_xregs_state [layout_eval]: "sizealign struct_xregs_state = (576, 8)"
  by (simp add: struct_xregs_state_def layout_eval)

lemma sa_union_fpregs_state [layout_eval]: "sizealign union_fpregs_state = (4096, 8)"
  by (simp add: union_fpregs_state_def layout_eval)

lemma sa_struct_fpstate [layout_eval]: "sizealign struct_fpstate = (4160, 8)"
  by (simp add: struct_fpstate_def layout_eval)

lemma sa_struct_fpu [layout_eval]: "sizealign struct_fpu = (4224, 8)"
  by (simp add: struct_fpu_def layout_eval)

lemma sa_struct_thread_struct [layout_eval]: "sizealign struct_thread_struct = (4416, 8)"
  by (simp add: struct_thread_struct_def layout_eval)

lemma sa_struct_task_struct [layout_eval]: "sizealign struct_task_struct = (13888, 8)"
  by (simp add: struct_task_struct_def struct_task_struct_members_1_def struct_task_struct_members_2_def layout_eval)

end
