(* ===== verification/Kernel_Cgroup.thy ===== *)
theory Kernel_Cgroup
  imports Kernel_Task
begin

text \<open>
  Declarations of \<^verbatim>\<open>agent/ebpf/vmlinux.h\<close>, the kernel type header the probe is compiled against.
  The objects between a task and its cgroup id: \<^verbatim>\<open>css_set\<close>, \<^verbatim>\<open>cgroup\<close> and \<^verbatim>\<open>kernfs_node\<close>, with every type they hold by value.
  Definitions follow the header member by member; \<open>sa_\<close> lemmas give size and alignment.
\<close>

subsection \<open>Declarations\<close>

definition typedef_umode_t :: ctype where
  "typedef_umode_t = c_ushort"

definition struct_kernfs_elem_dir :: ctype where
  "struct_kernfs_elem_dir = CStruct False
    [Field ''subdirs'' c_ulong,
     Field ''children'' struct_rb_root,
     Field ''root'' CPtr,
     Field ''rev'' c_ulong]"

definition struct_kernfs_elem_symlink :: ctype where
  "struct_kernfs_elem_symlink = CStruct False
    [Field ''target_kn'' CPtr]"

definition typedef___kernel_loff_t :: ctype where
  "typedef___kernel_loff_t = c_long"

definition typedef_loff_t :: ctype where
  "typedef_loff_t = typedef___kernel_loff_t"

definition struct_kernfs_elem_attr :: ctype where
  "struct_kernfs_elem_attr = CStruct False
    [Field ''ops'' CPtr,
     Field ''open'' CPtr,
     Field ''size'' typedef_loff_t,
     Field ''notify_next'' CPtr]"

definition struct_kernfs_node :: ctype where
  "struct_kernfs_node = CStruct False
    [Field ''count'' typedef_atomic_t,
     Field ''active'' typedef_atomic_t,
     Field ''parent'' CPtr,
     Field ''name'' CPtr,
     Field ''rb'' struct_rb_node,
     Field ''ns'' CPtr,
     Field ''hash'' c_uint,
     Field ''flags'' c_ushort,
     Field ''mode'' typedef_umode_t,
     Field '''' (CUnion [Field ''dir'' struct_kernfs_elem_dir,
       Field ''symlink'' struct_kernfs_elem_symlink,
       Field ''attr'' struct_kernfs_elem_attr]),
     Field ''id'' typedef_u64,
     Field ''priv'' CPtr,
     Field ''iattr'' CPtr,
     Field ''rcu'' struct_callback_head]"

definition struct_css_set :: ctype where
  "struct_css_set = CStruct False
    [Field ''subsys'' (CArray CPtr 15),
     Field ''refcount'' typedef_refcount_t,
     Field ''dom_cset'' CPtr,
     Field ''dfl_cgrp'' CPtr,
     Field ''nr_tasks'' c_int,
     Field ''tasks'' struct_list_head,
     Field ''mg_tasks'' struct_list_head,
     Field ''dying_tasks'' struct_list_head,
     Field ''task_iters'' struct_list_head,
     Field ''e_cset_node'' (CArray struct_list_head 15),
     Field ''threaded_csets'' struct_list_head,
     Field ''threaded_csets_node'' struct_list_head,
     Field ''hlist'' struct_hlist_node,
     Field ''cgrp_links'' struct_list_head,
     Field ''mg_src_preload_node'' struct_list_head,
     Field ''mg_dst_preload_node'' struct_list_head,
     Field ''mg_node'' struct_list_head,
     Field ''mg_src_cgrp'' CPtr,
     Field ''mg_dst_cgrp'' CPtr,
     Field ''mg_dst_cset'' CPtr,
     Field ''dead'' typedef_bool,
     Field ''callback_head'' struct_callback_head]"

definition struct_percpu_ref :: ctype where
  "struct_percpu_ref = CStruct False
    [Field ''percpu_count_ptr'' c_ulong,
     Field ''data'' CPtr]"

definition typedef_work_func_t :: ctype where
  "typedef_work_func_t = CPtr"

definition struct_work_struct :: ctype where
  "struct_work_struct = CStruct False
    [Field ''data'' typedef_atomic_long_t,
     Field ''entry'' struct_list_head,
     Field ''func'' typedef_work_func_t]"

definition struct_rcu_work :: ctype where
  "struct_rcu_work = CStruct False
    [Field ''work'' struct_work_struct,
     Field ''rcu'' struct_callback_head,
     Field ''wq'' CPtr]"

definition struct_cgroup_subsys_state :: ctype where
  "struct_cgroup_subsys_state = CStruct False
    [Field ''cgroup'' CPtr,
     Field ''ss'' CPtr,
     Field ''refcnt'' struct_percpu_ref,
     Field ''sibling'' struct_list_head,
     Field ''children'' struct_list_head,
     Field ''rstat_css_node'' struct_list_head,
     Field ''id'' c_int,
     Field ''flags'' c_uint,
     Field ''serial_nr'' typedef_u64,
     Field ''online_cnt'' typedef_atomic_t,
     Field ''destroy_work'' struct_work_struct,
     Field ''destroy_rwork'' struct_rcu_work,
     Field ''parent'' CPtr,
     Field ''nr_descendants'' c_int]"

definition struct_cgroup_file :: ctype where
  "struct_cgroup_file = CStruct False
    [Field ''kn'' CPtr,
     Field ''notified_at'' c_ulong,
     Field ''notify_timer'' struct_timer_list]"

definition struct_cacheline_padding :: ctype where
  "struct_cacheline_padding = CStruct False
    [Field ''x'' (CArray c_char 0)]"

definition struct_task_cputime :: ctype where
  "struct_task_cputime = CStruct False
    [Field ''stime'' typedef_u64,
     Field ''utime'' typedef_u64,
     Field ''sum_exec_runtime'' c_ulong]"

definition struct_cgroup_base_stat :: ctype where
  "struct_cgroup_base_stat = CStruct False
    [Field ''cputime'' struct_task_cputime,
     Field ''forceidle_sum'' typedef_u64,
     Field ''ntime'' typedef_u64]"

definition struct_wait_queue_head :: ctype where
  "struct_wait_queue_head = CStruct False
    [Field ''lock'' typedef_spinlock_t,
     Field ''head'' struct_list_head]"

definition typedef_wait_queue_head_t :: ctype where
  "typedef_wait_queue_head_t = struct_wait_queue_head"

definition struct_cgroup_bpf :: ctype where
  "struct_cgroup_bpf = CStruct False
    [Field ''effective'' (CArray CPtr 38),
     Field ''progs'' (CArray struct_hlist_head 38),
     Field ''flags'' (CArray typedef_u8 38),
     Field ''storages'' struct_list_head,
     Field ''inactive'' CPtr,
     Field ''refcnt'' struct_percpu_ref,
     Field ''release_work'' struct_work_struct]"

definition struct_cgroup_freezer_state :: ctype where
  "struct_cgroup_freezer_state = CStruct False
    [Field ''freeze'' typedef_bool,
     Field ''e_freeze'' typedef_bool,
     Field ''nr_frozen_descendants'' c_int,
     Field ''nr_frozen_tasks'' c_int]"

definition struct_cgroup :: ctype where
  "struct_cgroup = CStruct False
    [Field ''self'' struct_cgroup_subsys_state,
     Field ''flags'' c_ulong,
     Field ''level'' c_int,
     Field ''max_depth'' c_int,
     Field ''nr_descendants'' c_int,
     Field ''nr_dying_descendants'' c_int,
     Field ''max_descendants'' c_int,
     Field ''nr_populated_csets'' c_int,
     Field ''nr_populated_domain_children'' c_int,
     Field ''nr_populated_threaded_children'' c_int,
     Field ''nr_threaded_children'' c_int,
     Field ''kill_seq'' c_uint,
     Field ''kn'' CPtr,
     Field ''procs_file'' struct_cgroup_file,
     Field ''events_file'' struct_cgroup_file,
     Field ''psi_files'' (CArray struct_cgroup_file 3),
     Field ''subtree_control'' typedef_u16,
     Field ''subtree_ss_mask'' typedef_u16,
     Field ''old_subtree_control'' typedef_u16,
     Field ''old_subtree_ss_mask'' typedef_u16,
     Field ''subsys'' (CArray CPtr 15),
     Field ''nr_dying_subsys'' (CArray c_int 15),
     Field ''root'' CPtr,
     Field ''cset_links'' struct_list_head,
     Field ''e_csets'' (CArray struct_list_head 15),
     Field ''dom_cgrp'' CPtr,
     Field ''old_dom_cgrp'' CPtr,
     Field ''rstat_cpu'' CPtr,
     Field ''rstat_css_list'' struct_list_head,
     Pad c_long 64,
     Pad c_long 64,
     Pad c_long 64,
     Pad c_long 64,
     Pad c_long 64,
     Pad c_long 64,
     Field ''_pad_'' struct_cacheline_padding,
     Field ''rstat_flush_next'' CPtr,
     Field ''last_bstat'' struct_cgroup_base_stat,
     Field ''bstat'' struct_cgroup_base_stat,
     Field ''prev_cputime'' struct_prev_cputime,
     Field ''pidlists'' struct_list_head,
     Field ''pidlist_mutex'' struct_mutex,
     Field ''offline_waitq'' typedef_wait_queue_head_t,
     Field ''release_agent_work'' struct_work_struct,
     Field ''psi'' CPtr,
     Field ''bpf'' struct_cgroup_bpf,
     Field ''freezer'' struct_cgroup_freezer_state,
     Field ''bpf_cgrp_storage'' CPtr,
     Field ''ancestors'' (CArray CPtr 0),
     Pad c_long 64,
     Pad c_long 64,
     Pad c_long 64,
     Pad c_long 64,
     Pad c_long 64,
     Pad c_long 64,
     Pad c_long 64]"

definition struct_cgroup_root :: ctype where
  "struct_cgroup_root = CStruct False
    [Field ''kf_root'' CPtr,
     Field ''subsys_mask'' c_uint,
     Field ''hierarchy_id'' c_int,
     Field ''root_list'' struct_list_head,
     Field ''rcu'' struct_callback_head,
     Pad c_long 64,
     Pad c_long 64,
     Field ''cgrp'' struct_cgroup,
     Field ''cgrp_ancestor_storage'' CPtr,
     Field ''nr_cgrps'' typedef_atomic_t,
     Field ''flags'' c_uint,
     Field ''release_agent_path'' (CArray c_char 4096),
     Field ''name'' (CArray c_char 64),
     Pad c_long 64,
     Pad c_long 64,
     Pad c_long 64,
     Pad c_long 64,
     Pad c_long 64,
     Pad c_long 64]"

definition typedef_gfp_t :: ctype where
  "typedef_gfp_t = c_uint"

definition struct_xarray :: ctype where
  "struct_xarray = CStruct False
    [Field ''xa_lock'' typedef_spinlock_t,
     Field ''xa_flags'' typedef_gfp_t,
     Field ''xa_head'' CPtr]"

definition struct_idr :: ctype where
  "struct_idr = CStruct False
    [Field ''idr_rt'' struct_xarray,
     Field ''idr_base'' c_uint,
     Field ''idr_next'' c_uint]"

definition struct_cgroup_subsys :: ctype where
  "struct_cgroup_subsys = CStruct False
    [Field ''css_alloc'' CPtr,
     Field ''css_online'' CPtr,
     Field ''css_offline'' CPtr,
     Field ''css_released'' CPtr,
     Field ''css_free'' CPtr,
     Field ''css_reset'' CPtr,
     Field ''css_killed'' CPtr,
     Field ''css_rstat_flush'' CPtr,
     Field ''css_extra_stat_show'' CPtr,
     Field ''css_local_stat_show'' CPtr,
     Field ''can_attach'' CPtr,
     Field ''cancel_attach'' CPtr,
     Field ''attach'' CPtr,
     Field ''post_attach'' CPtr,
     Field ''can_fork'' CPtr,
     Field ''cancel_fork'' CPtr,
     Field ''fork'' CPtr,
     Field ''exit'' CPtr,
     Field ''release'' CPtr,
     Field ''bind'' CPtr,
     Bits ''early_init'' typedef_bool 1,
     Bits ''implicit_on_dfl'' typedef_bool 1,
     Bits ''threaded'' typedef_bool 1,
     Field ''id'' c_int,
     Field ''name'' CPtr,
     Field ''legacy_name'' CPtr,
     Field ''root'' CPtr,
     Field ''css_idr'' struct_idr,
     Field ''cfts'' struct_list_head,
     Field ''dfl_cftypes'' CPtr,
     Field ''legacy_cftypes'' CPtr,
     Field ''depends_on'' c_uint]"

subsection \<open>Sizes and alignments\<close>

lemma sa_typedef_umode_t [layout_eval]: "sizealign typedef_umode_t = (2, 2)"
  by (simp add: typedef_umode_t_def layout_eval)

lemma sa_struct_kernfs_elem_dir [layout_eval]: "sizealign struct_kernfs_elem_dir = (32, 8)"
  by (simp add: struct_kernfs_elem_dir_def layout_eval)

lemma sa_struct_kernfs_elem_symlink [layout_eval]: "sizealign struct_kernfs_elem_symlink = (8, 8)"
  by (simp add: struct_kernfs_elem_symlink_def layout_eval)

lemma sa_typedef___kernel_loff_t [layout_eval]: "sizealign typedef___kernel_loff_t = (8, 8)"
  by (simp add: typedef___kernel_loff_t_def layout_eval)

lemma sa_typedef_loff_t [layout_eval]: "sizealign typedef_loff_t = (8, 8)"
  by (simp add: typedef_loff_t_def layout_eval)

lemma sa_struct_kernfs_elem_attr [layout_eval]: "sizealign struct_kernfs_elem_attr = (32, 8)"
  by (simp add: struct_kernfs_elem_attr_def layout_eval)

lemma sa_struct_kernfs_node [layout_eval]: "sizealign struct_kernfs_node = (136, 8)"
  by (simp add: struct_kernfs_node_def layout_eval)

lemma sa_struct_css_set [layout_eval]: "sizealign struct_css_set = (616, 8)"
  by (simp add: struct_css_set_def layout_eval)

lemma sa_struct_percpu_ref [layout_eval]: "sizealign struct_percpu_ref = (16, 8)"
  by (simp add: struct_percpu_ref_def layout_eval)

lemma sa_typedef_work_func_t [layout_eval]: "sizealign typedef_work_func_t = (8, 8)"
  by (simp add: typedef_work_func_t_def layout_eval)

lemma sa_struct_work_struct [layout_eval]: "sizealign struct_work_struct = (32, 8)"
  by (simp add: struct_work_struct_def layout_eval)

lemma sa_struct_rcu_work [layout_eval]: "sizealign struct_rcu_work = (56, 8)"
  by (simp add: struct_rcu_work_def layout_eval)

lemma sa_struct_cgroup_subsys_state [layout_eval]: "sizealign struct_cgroup_subsys_state = (208, 8)"
  by (simp add: struct_cgroup_subsys_state_def layout_eval)

lemma sa_struct_cgroup_file [layout_eval]: "sizealign struct_cgroup_file = (56, 8)"
  by (simp add: struct_cgroup_file_def layout_eval)

lemma sa_struct_cacheline_padding [layout_eval]: "sizealign struct_cacheline_padding = (0, 1)"
  by (simp add: struct_cacheline_padding_def layout_eval)

lemma sa_struct_task_cputime [layout_eval]: "sizealign struct_task_cputime = (24, 8)"
  by (simp add: struct_task_cputime_def layout_eval)

lemma sa_struct_cgroup_base_stat [layout_eval]: "sizealign struct_cgroup_base_stat = (40, 8)"
  by (simp add: struct_cgroup_base_stat_def layout_eval)

lemma sa_struct_wait_queue_head [layout_eval]: "sizealign struct_wait_queue_head = (24, 8)"
  by (simp add: struct_wait_queue_head_def layout_eval)

lemma sa_typedef_wait_queue_head_t [layout_eval]: "sizealign typedef_wait_queue_head_t = (24, 8)"
  by (simp add: typedef_wait_queue_head_t_def layout_eval)

lemma sa_struct_cgroup_bpf [layout_eval]: "sizealign struct_cgroup_bpf = (720, 8)"
  by (simp add: struct_cgroup_bpf_def layout_eval)

lemma sa_struct_cgroup_freezer_state [layout_eval]: "sizealign struct_cgroup_freezer_state = (12, 4)"
  by (simp add: struct_cgroup_freezer_state_def layout_eval)

lemma sa_struct_cgroup [layout_eval]: "sizealign struct_cgroup = (2112, 8)"
  by (simp add: struct_cgroup_def layout_eval)

lemma sa_struct_cgroup_root [layout_eval]: "sizealign struct_cgroup_root = (6400, 8)"
  by (simp add: struct_cgroup_root_def layout_eval)

lemma sa_typedef_gfp_t [layout_eval]: "sizealign typedef_gfp_t = (4, 4)"
  by (simp add: typedef_gfp_t_def layout_eval)

lemma sa_struct_xarray [layout_eval]: "sizealign struct_xarray = (16, 8)"
  by (simp add: struct_xarray_def layout_eval)

lemma sa_struct_idr [layout_eval]: "sizealign struct_idr = (24, 8)"
  by (simp add: struct_idr_def layout_eval)

lemma sa_struct_cgroup_subsys [layout_eval]: "sizealign struct_cgroup_subsys = (256, 8)"
  by (simp add: struct_cgroup_subsys_def layout_eval)

end
