(* ===== verification/Kernel_Ns.thy ===== *)
theory Kernel_Ns
  imports Kernel_Cgroup
begin

text \<open>
  Declarations of \<^verbatim>\<open>agent/ebpf/vmlinux.h\<close>, the kernel type header the probe is compiled against.
  Process identity and container boundaries: \<^verbatim>\<open>pid\<close>, the namespaces, credentials, the thread group and the address space.
  Definitions follow the header member by member; \<open>sa_\<close> lemmas give size and alignment.
\<close>

subsection \<open>Declarations\<close>

definition struct_upid :: ctype where
  "struct_upid = CStruct False
    [Field ''nr'' c_int,
     Field ''ns'' CPtr]"

definition struct_pid :: ctype where
  "struct_pid = CStruct False
    [Field ''count'' typedef_refcount_t,
     Field ''level'' c_uint,
     Field ''lock'' typedef_spinlock_t,
     Field ''stashed'' CPtr,
     Field ''ino'' typedef_u64,
     Field ''pidfs_node'' struct_rb_node,
     Field ''tasks'' (CArray struct_hlist_head 4),
     Field ''inodes'' struct_hlist_head,
     Field ''wait_pidfd'' typedef_wait_queue_head_t,
     Field ''rcu'' struct_callback_head,
     Field ''numbers'' (CArray struct_upid 0)]"

definition struct_ns_common :: ctype where
  "struct_ns_common = CStruct False
    [Field ''stashed'' CPtr,
     Field ''ops'' CPtr,
     Field ''inum'' c_uint,
     Field ''count'' typedef_refcount_t]"

definition struct_ctl_table_header :: ctype where
  "struct_ctl_table_header = CStruct False
    [Field '''' (CUnion [Field '''' (CStruct False [Field ''ctl_table'' CPtr,
         Field ''ctl_table_size'' c_int,
         Field ''used'' c_int,
         Field ''count'' c_int,
         Field ''nreg'' c_int]),
       Field ''rcu'' struct_callback_head]),
     Field ''unregistering'' CPtr,
     Field ''ctl_table_arg'' CPtr,
     Field ''root'' CPtr,
     Field ''set'' CPtr,
     Field ''parent'' CPtr,
     Field ''node'' CPtr,
     Field ''inodes'' struct_hlist_head,
     Field ''type'' (CEnum [(''SYSCTL_TABLE_TYPE_DEFAULT'', 0), (''SYSCTL_TABLE_TYPE_PERMANENTLY_EMPTY'', 1)])]"

definition struct_ctl_dir :: ctype where
  "struct_ctl_dir = CStruct False
    [Field ''header'' struct_ctl_table_header,
     Field ''root'' struct_rb_root]"

definition struct_ctl_table_set :: ctype where
  "struct_ctl_table_set = CStruct False
    [Field ''is_seen'' CPtr,
     Field ''dir'' struct_ctl_dir]"

definition struct_pid_namespace :: ctype where
  "struct_pid_namespace = CStruct False
    [Field ''idr'' struct_idr,
     Field ''rcu'' struct_callback_head,
     Field ''pid_allocated'' c_uint,
     Field ''child_reaper'' CPtr,
     Field ''pid_cachep'' CPtr,
     Field ''level'' c_uint,
     Field ''pid_max'' c_int,
     Field ''parent'' CPtr,
     Field ''bacct'' CPtr,
     Field ''user_ns'' CPtr,
     Field ''ucounts'' CPtr,
     Field ''reboot'' c_int,
     Field ''ns'' struct_ns_common,
     Field ''work'' struct_work_struct,
     Field ''set'' struct_ctl_table_set,
     Field ''sysctls'' CPtr,
     Field ''memfd_noexec_scope'' c_int]"

definition struct_nsproxy :: ctype where
  "struct_nsproxy = CStruct False
    [Field ''count'' typedef_refcount_t,
     Field ''uts_ns'' CPtr,
     Field ''ipc_ns'' CPtr,
     Field ''mnt_ns'' CPtr,
     Field ''pid_ns_for_children'' CPtr,
     Field ''net_ns'' CPtr,
     Field ''time_ns'' CPtr,
     Field ''time_ns_for_children'' CPtr,
     Field ''cgroup_ns'' CPtr]"

definition typedef___kernel_gid32_t :: ctype where
  "typedef___kernel_gid32_t = c_uint"

definition typedef_gid_t :: ctype where
  "typedef_gid_t = typedef___kernel_gid32_t"

definition typedef_kgid_t :: ctype where
  "typedef_kgid_t = CStruct False
    [Field ''val'' typedef_gid_t]"

definition typedef_kernel_cap_t :: ctype where
  "typedef_kernel_cap_t = CStruct False
    [Field ''val'' typedef_u64]"

definition struct_cred :: ctype where
  "struct_cred = CStruct False
    [Field ''usage'' typedef_atomic_long_t,
     Field ''uid'' typedef_kuid_t,
     Field ''gid'' typedef_kgid_t,
     Field ''suid'' typedef_kuid_t,
     Field ''sgid'' typedef_kgid_t,
     Field ''euid'' typedef_kuid_t,
     Field ''egid'' typedef_kgid_t,
     Field ''fsuid'' typedef_kuid_t,
     Field ''fsgid'' typedef_kgid_t,
     Field ''securebits'' c_uint,
     Field ''cap_inheritable'' typedef_kernel_cap_t,
     Field ''cap_permitted'' typedef_kernel_cap_t,
     Field ''cap_effective'' typedef_kernel_cap_t,
     Field ''cap_bset'' typedef_kernel_cap_t,
     Field ''cap_ambient'' typedef_kernel_cap_t,
     Field ''jit_keyring'' c_uchar,
     Field ''session_keyring'' CPtr,
     Field ''process_keyring'' CPtr,
     Field ''thread_keyring'' CPtr,
     Field ''request_key_auth'' CPtr,
     Field ''security'' CPtr,
     Field ''user'' CPtr,
     Field ''user_ns'' CPtr,
     Field ''ucounts'' CPtr,
     Field ''group_info'' CPtr,
     Field '''' (CUnion [Field ''non_rcu'' c_int,
       Field ''rcu'' struct_callback_head])]"

definition struct_cpu_itimer :: ctype where
  "struct_cpu_itimer = CStruct False
    [Field ''expires'' typedef_u64,
     Field ''incr'' typedef_u64]"

definition struct_task_cputime_atomic :: ctype where
  "struct_task_cputime_atomic = CStruct False
    [Field ''utime'' typedef_atomic64_t,
     Field ''stime'' typedef_atomic64_t,
     Field ''sum_exec_runtime'' typedef_atomic64_t]"

definition struct_thread_group_cputimer :: ctype where
  "struct_thread_group_cputimer = CStruct False
    [Field ''cputime_atomic'' struct_task_cputime_atomic]"

definition typedef_seqlock_t :: ctype where
  "typedef_seqlock_t = CStruct False
    [Field ''seqcount'' typedef_seqcount_spinlock_t,
     Field ''lock'' typedef_spinlock_t]"

definition struct_rlimit :: ctype where
  "struct_rlimit = CStruct False
    [Field ''rlim_cur'' typedef___kernel_ulong_t,
     Field ''rlim_max'' typedef___kernel_ulong_t]"

definition struct_pacct_struct :: ctype where
  "struct_pacct_struct = CStruct False
    [Field ''ac_flag'' c_int,
     Field ''ac_exitcode'' c_long,
     Field ''ac_mem'' c_ulong,
     Field ''ac_utime'' typedef_u64,
     Field ''ac_stime'' typedef_u64,
     Field ''ac_minflt'' c_ulong,
     Field ''ac_majflt'' c_ulong]"

definition struct_rw_semaphore :: ctype where
  "struct_rw_semaphore = CStruct False
    [Field ''count'' typedef_atomic_long_t,
     Field ''owner'' typedef_atomic_long_t,
     Field ''osq'' struct_optimistic_spin_queue,
     Field ''wait_lock'' typedef_raw_spinlock_t,
     Field ''wait_list'' struct_list_head]"

definition struct_signal_struct :: ctype where
  "struct_signal_struct = CStruct False
    [Field ''sigcnt'' typedef_refcount_t,
     Field ''live'' typedef_atomic_t,
     Field ''nr_threads'' c_int,
     Field ''quick_threads'' c_int,
     Field ''thread_head'' struct_list_head,
     Field ''wait_chldexit'' typedef_wait_queue_head_t,
     Field ''curr_target'' CPtr,
     Field ''shared_pending'' struct_sigpending,
     Field ''multiprocess'' struct_hlist_head,
     Field ''group_exit_code'' c_int,
     Field ''notify_count'' c_int,
     Field ''group_exec_task'' CPtr,
     Field ''group_stop_count'' c_int,
     Field ''flags'' c_uint,
     Field ''core_state'' CPtr,
     Bits ''is_child_subreaper'' c_uint 1,
     Bits ''has_child_subreaper'' c_uint 1,
     Field ''next_posix_timer_id'' c_uint,
     Field ''posix_timers'' struct_hlist_head,
     Field ''ignored_posix_timers'' struct_hlist_head,
     Field ''real_timer'' struct_hrtimer,
     Field ''it_real_incr'' typedef_ktime_t,
     Field ''it'' (CArray struct_cpu_itimer 2),
     Field ''cputimer'' struct_thread_group_cputimer,
     Field ''posix_cputimers'' struct_posix_cputimers,
     Field ''pids'' (CArray CPtr 4),
     Field ''tick_dep_mask'' typedef_atomic_t,
     Field ''tty_old_pgrp'' CPtr,
     Field ''leader'' c_int,
     Field ''tty'' CPtr,
     Field ''autogroup'' CPtr,
     Field ''stats_lock'' typedef_seqlock_t,
     Field ''utime'' typedef_u64,
     Field ''stime'' typedef_u64,
     Field ''cutime'' typedef_u64,
     Field ''cstime'' typedef_u64,
     Field ''gtime'' typedef_u64,
     Field ''cgtime'' typedef_u64,
     Field ''prev_cputime'' struct_prev_cputime,
     Field ''nvcsw'' c_ulong,
     Field ''nivcsw'' c_ulong,
     Field ''cnvcsw'' c_ulong,
     Field ''cnivcsw'' c_ulong,
     Field ''min_flt'' c_ulong,
     Field ''maj_flt'' c_ulong,
     Field ''cmin_flt'' c_ulong,
     Field ''cmaj_flt'' c_ulong,
     Field ''inblock'' c_ulong,
     Field ''oublock'' c_ulong,
     Field ''cinblock'' c_ulong,
     Field ''coublock'' c_ulong,
     Field ''maxrss'' c_ulong,
     Field ''cmaxrss'' c_ulong,
     Field ''ioac'' struct_task_io_accounting,
     Field ''sum_sched_runtime'' c_ulong,
     Field ''rlim'' (CArray struct_rlimit 16),
     Field ''pacct'' struct_pacct_struct,
     Field ''stats'' CPtr,
     Field ''audit_tty'' c_uint,
     Field ''tty_audit_buf'' CPtr,
     Field ''oom_flag_origin'' typedef_bool,
     Field ''oom_score_adj'' c_short,
     Field ''oom_score_adj_min'' c_short,
     Field ''oom_mm'' CPtr,
     Field ''cred_guard_mutex'' struct_mutex,
     Field ''exec_update_lock'' struct_rw_semaphore]"

definition struct_cgroup_namespace :: ctype where
  "struct_cgroup_namespace = CStruct False
    [Field ''ns'' struct_ns_common,
     Field ''user_ns'' CPtr,
     Field ''ucounts'' CPtr,
     Field ''root_cset'' CPtr]"

definition typedef_lockdep_map_p :: ctype where
  "typedef_lockdep_map_p = CStruct False
    []"

definition struct_maple_tree :: ctype where
  "struct_maple_tree = CStruct False
    [Field '''' (CUnion [Field ''ma_lock'' typedef_spinlock_t,
       Field ''ma_external_lock'' typedef_lockdep_map_p]),
     Field ''ma_flags'' c_uint,
     Field ''ma_root'' CPtr]"

definition struct_percpu_counter :: ctype where
  "struct_percpu_counter = CStruct False
    [Field ''lock'' typedef_raw_spinlock_t,
     Field ''count'' typedef_s64,
     Field ''list'' struct_list_head,
     Field ''counters'' CPtr]"

definition typedef___s16 :: ctype where
  "typedef___s16 = c_short"

definition typedef_s16 :: ctype where
  "typedef_s16 = typedef___s16"

definition typedef_mm_context_t :: ctype where
  "typedef_mm_context_t = CStruct False
    [Field ''ctx_id'' typedef_u64,
     Field ''tlb_gen'' typedef_atomic64_t,
     Field ''next_trim_cpumask'' c_ulong,
     Field ''ldt_usr_sem'' struct_rw_semaphore,
     Field ''ldt'' CPtr,
     Field ''flags'' c_ulong,
     Field ''lock'' struct_mutex,
     Field ''vdso'' CPtr,
     Field ''vdso_image'' CPtr,
     Field ''perf_rdpmc_allowed'' typedef_atomic_t,
     Field ''pkey_allocation_map'' typedef_u16,
     Field ''execute_only_pkey'' typedef_s16]"

definition struct_uprobes_state :: ctype where
  "struct_uprobes_state = CStruct False
    [Field ''xol_area'' CPtr]"

definition struct_mm_struct :: ctype where
  "struct_mm_struct = CStruct False
    [Field '''' (CStruct False [Field '''' (CStruct False [Field ''mm_count'' typedef_atomic_t,
         Pad c_long 64,
         Pad c_long 64,
         Pad c_long 64,
         Pad c_long 64,
         Pad c_long 64,
         Pad c_long 64,
         Pad c_long 64]),
       Field ''mm_mt'' struct_maple_tree,
       Field ''mmap_base'' c_ulong,
       Field ''mmap_legacy_base'' c_ulong,
       Field ''mmap_compat_base'' c_ulong,
       Field ''mmap_compat_legacy_base'' c_ulong,
       Field ''task_size'' c_ulong,
       Field ''pgd'' CPtr,
       Field ''membarrier_state'' typedef_atomic_t,
       Field ''mm_users'' typedef_atomic_t,
       Field ''pcpu_cid'' CPtr,
       Field ''mm_cid_next_scan'' c_ulong,
       Field ''nr_cpus_allowed'' c_uint,
       Field ''max_nr_cid'' typedef_atomic_t,
       Field ''cpus_allowed_lock'' typedef_raw_spinlock_t,
       Field ''pgtables_bytes'' typedef_atomic_long_t,
       Field ''map_count'' c_int,
       Field ''page_table_lock'' typedef_spinlock_t,
       Field ''mmap_lock'' struct_rw_semaphore,
       Field ''mmlist'' struct_list_head,
       Field ''mm_lock_seq'' typedef_seqcount_t,
       Field ''hiwater_rss'' c_ulong,
       Field ''hiwater_vm'' c_ulong,
       Field ''total_vm'' c_ulong,
       Field ''locked_vm'' c_ulong,
       Field ''pinned_vm'' typedef_atomic64_t,
       Field ''data_vm'' c_ulong,
       Field ''exec_vm'' c_ulong,
       Field ''stack_vm'' c_ulong,
       Field ''def_flags'' c_ulong,
       Field ''write_protect_seq'' typedef_seqcount_t,
       Field ''arg_lock'' typedef_spinlock_t,
       Field ''start_code'' c_ulong,
       Field ''end_code'' c_ulong,
       Field ''start_data'' c_ulong,
       Field ''end_data'' c_ulong,
       Field ''start_brk'' c_ulong,
       Field ''brk'' c_ulong,
       Field ''start_stack'' c_ulong,
       Field ''arg_start'' c_ulong,
       Field ''arg_end'' c_ulong,
       Field ''env_start'' c_ulong,
       Field ''env_end'' c_ulong,
       Field ''saved_auxv'' (CArray c_ulong 52),
       Field ''rss_stat'' (CArray struct_percpu_counter 4),
       Field ''binfmt'' CPtr,
       Field ''context'' typedef_mm_context_t,
       Field ''flags'' c_ulong,
       Field ''ioctx_lock'' typedef_spinlock_t,
       Field ''ioctx_table'' CPtr,
       Field ''owner'' CPtr,
       Field ''user_ns'' CPtr,
       Field ''exe_file'' CPtr,
       Field ''notifier_subscriptions'' CPtr,
       Field ''numa_next_scan'' c_ulong,
       Field ''numa_scan_offset'' c_ulong,
       Field ''numa_scan_seq'' c_int,
       Field ''tlb_flush_pending'' typedef_atomic_t,
       Field ''tlb_flush_batched'' typedef_atomic_t,
       Field ''uprobes_state'' struct_uprobes_state,
       Field ''hugetlb_usage'' typedef_atomic_long_t,
       Field ''async_put_work'' struct_work_struct,
       Field ''iommu_mm'' CPtr,
       Field ''ksm_merging_pages'' c_ulong,
       Field ''ksm_rmap_items'' c_ulong,
       Field ''ksm_zero_pages'' typedef_atomic_long_t,
       Field ''lru_gen'' (CStruct False [Field ''list'' struct_list_head,
         Field ''bitmap'' c_ulong,
         Field ''memcg'' CPtr]),
       Pad c_long 64]),
     Field ''cpu_bitmap'' (CArray c_ulong 0)]"

subsection \<open>Sizes and alignments\<close>

lemma sa_struct_upid [layout_eval]: "sizealign struct_upid = (16, 8)"
  by (simp add: struct_upid_def layout_eval)

lemma sa_struct_pid [layout_eval]: "sizealign struct_pid = (136, 8)"
  by (simp add: struct_pid_def layout_eval)

lemma sa_struct_ns_common [layout_eval]: "sizealign struct_ns_common = (24, 8)"
  by (simp add: struct_ns_common_def layout_eval)

lemma sa_struct_ctl_table_header [layout_eval]: "sizealign struct_ctl_table_header = (88, 8)"
  by (simp add: struct_ctl_table_header_def layout_eval)

lemma sa_struct_ctl_dir [layout_eval]: "sizealign struct_ctl_dir = (96, 8)"
  by (simp add: struct_ctl_dir_def layout_eval)

lemma sa_struct_ctl_table_set [layout_eval]: "sizealign struct_ctl_table_set = (104, 8)"
  by (simp add: struct_ctl_table_set_def layout_eval)

lemma sa_struct_pid_namespace [layout_eval]: "sizealign struct_pid_namespace = (288, 8)"
  by (simp add: struct_pid_namespace_def layout_eval)

lemma sa_struct_nsproxy [layout_eval]: "sizealign struct_nsproxy = (72, 8)"
  by (simp add: struct_nsproxy_def layout_eval)

lemma sa_typedef___kernel_gid32_t [layout_eval]: "sizealign typedef___kernel_gid32_t = (4, 4)"
  by (simp add: typedef___kernel_gid32_t_def layout_eval)

lemma sa_typedef_gid_t [layout_eval]: "sizealign typedef_gid_t = (4, 4)"
  by (simp add: typedef_gid_t_def layout_eval)

lemma sa_typedef_kgid_t [layout_eval]: "sizealign typedef_kgid_t = (4, 4)"
  by (simp add: typedef_kgid_t_def layout_eval)

lemma sa_typedef_kernel_cap_t [layout_eval]: "sizealign typedef_kernel_cap_t = (8, 8)"
  by (simp add: typedef_kernel_cap_t_def layout_eval)

lemma sa_struct_cred [layout_eval]: "sizealign struct_cred = (184, 8)"
  by (simp add: struct_cred_def layout_eval)

lemma sa_struct_cpu_itimer [layout_eval]: "sizealign struct_cpu_itimer = (16, 8)"
  by (simp add: struct_cpu_itimer_def layout_eval)

lemma sa_struct_task_cputime_atomic [layout_eval]: "sizealign struct_task_cputime_atomic = (24, 8)"
  by (simp add: struct_task_cputime_atomic_def layout_eval)

lemma sa_struct_thread_group_cputimer [layout_eval]: "sizealign struct_thread_group_cputimer = (24, 8)"
  by (simp add: struct_thread_group_cputimer_def layout_eval)

lemma sa_typedef_seqlock_t [layout_eval]: "sizealign typedef_seqlock_t = (8, 4)"
  by (simp add: typedef_seqlock_t_def layout_eval)

lemma sa_struct_rlimit [layout_eval]: "sizealign struct_rlimit = (16, 8)"
  by (simp add: struct_rlimit_def layout_eval)

lemma sa_struct_pacct_struct [layout_eval]: "sizealign struct_pacct_struct = (56, 8)"
  by (simp add: struct_pacct_struct_def layout_eval)

lemma sa_struct_rw_semaphore [layout_eval]: "sizealign struct_rw_semaphore = (40, 8)"
  by (simp add: struct_rw_semaphore_def layout_eval)

lemma sa_struct_signal_struct [layout_eval]: "sizealign struct_signal_struct = (1112, 8)"
  by (simp add: struct_signal_struct_def layout_eval)

lemma sa_struct_cgroup_namespace [layout_eval]: "sizealign struct_cgroup_namespace = (48, 8)"
  by (simp add: struct_cgroup_namespace_def layout_eval)

lemma sa_typedef_lockdep_map_p [layout_eval]: "sizealign typedef_lockdep_map_p = (0, 1)"
  by (simp add: typedef_lockdep_map_p_def layout_eval)

lemma sa_struct_maple_tree [layout_eval]: "sizealign struct_maple_tree = (16, 8)"
  by (simp add: struct_maple_tree_def layout_eval)

lemma sa_struct_percpu_counter [layout_eval]: "sizealign struct_percpu_counter = (40, 8)"
  by (simp add: struct_percpu_counter_def layout_eval)

lemma sa_typedef___s16 [layout_eval]: "sizealign typedef___s16 = (2, 2)"
  by (simp add: typedef___s16_def layout_eval)

lemma sa_typedef_s16 [layout_eval]: "sizealign typedef_s16 = (2, 2)"
  by (simp add: typedef_s16_def layout_eval)

lemma sa_typedef_mm_context_t [layout_eval]: "sizealign typedef_mm_context_t = (136, 8)"
  by (simp add: typedef_mm_context_t_def layout_eval)

lemma sa_struct_uprobes_state [layout_eval]: "sizealign struct_uprobes_state = (8, 8)"
  by (simp add: struct_uprobes_state_def layout_eval)

lemma sa_struct_mm_struct [layout_eval]: "sizealign struct_mm_struct = (1344, 8)"
  by (simp add: struct_mm_struct_def layout_eval)

end
