(* ===== verification/Kernel_Bpf.thy ===== *)
theory Kernel_Bpf
  imports Kernel_Ns
begin

text \<open>
  Declarations of \<^verbatim>\<open>agent/ebpf/vmlinux.h\<close>, the kernel type header the probe is compiled against.
  The BPF objects: map, program, link and helper identifiers, the ring buffer the probe reserves from, the \<^verbatim>\<open>bpf(2)\<close> attribute union and the verifier environment.
  Definitions follow the header member by member; \<open>sa_\<close> lemmas give size and alignment.
\<close>

subsection \<open>Declarations\<close>

definition struct_bpf_ringbuf_hdr :: ctype where
  "struct_bpf_ringbuf_hdr = CStruct False
    [Field ''len'' typedef_u32,
     Field ''pg_off'' typedef_u32]"

definition struct_rcuwait :: ctype where
  "struct_rcuwait = CStruct False
    [Field ''task'' CPtr]"

definition struct_irq_work :: ctype where
  "struct_irq_work = CStruct False
    [Field ''node'' struct___call_single_node,
     Field ''func'' CPtr,
     Field ''irqwait'' struct_rcuwait]"

definition struct_bpf_ringbuf_members_1 :: "cmember list" where
  "struct_bpf_ringbuf_members_1 =
    ([Field ''waitq'' typedef_wait_queue_head_t,
     Field ''work'' struct_irq_work,
     Field ''mask'' typedef_u64,
     Field ''pages'' CPtr,
     Field ''nr_pages'' c_int,
     Pad c_long 64,
     Pad c_long 64,
     Pad c_long 64,
     Pad c_long 64,
     Pad c_long 64,
     Pad c_long 64,
     Field ''spinlock'' typedef_raw_spinlock_t,
     Pad c_long 64,
     Pad c_long 64,
     Pad c_long 64,
     Pad c_long 64,
     Pad c_long 64,
     Pad c_long 64,
     Pad c_long 64,
     Field ''busy'' typedef_atomic_t] @
     replicate 487 (Pad c_long 64))"

definition struct_bpf_ringbuf_members_2 :: "cmember list" where
  "struct_bpf_ringbuf_members_2 =
    ([Field ''consumer_pos'' c_ulong] @
     replicate 511 (Pad c_long 64))"

definition struct_bpf_ringbuf_members_3 :: "cmember list" where
  "struct_bpf_ringbuf_members_3 =
    ([Field ''producer_pos'' c_ulong,
     Field ''pending_pos'' c_ulong] @
     replicate 510 (Pad c_long 64))"

definition struct_bpf_ringbuf_members_4 :: "cmember list" where
  "struct_bpf_ringbuf_members_4 =
    [Field ''data'' (CArray c_char 0)]"

definition struct_bpf_ringbuf :: ctype where
  "struct_bpf_ringbuf = CStruct False
    (struct_bpf_ringbuf_members_1 @ struct_bpf_ringbuf_members_2 @ struct_bpf_ringbuf_members_3 @ struct_bpf_ringbuf_members_4)"

definition enum_bpf_map_type :: ctype where
  "enum_bpf_map_type = CEnum
    [(''BPF_MAP_TYPE_UNSPEC'', 0),
     (''BPF_MAP_TYPE_HASH'', 1),
     (''BPF_MAP_TYPE_ARRAY'', 2),
     (''BPF_MAP_TYPE_PROG_ARRAY'', 3),
     (''BPF_MAP_TYPE_PERF_EVENT_ARRAY'', 4),
     (''BPF_MAP_TYPE_PERCPU_HASH'', 5),
     (''BPF_MAP_TYPE_PERCPU_ARRAY'', 6),
     (''BPF_MAP_TYPE_STACK_TRACE'', 7),
     (''BPF_MAP_TYPE_CGROUP_ARRAY'', 8),
     (''BPF_MAP_TYPE_LRU_HASH'', 9),
     (''BPF_MAP_TYPE_LRU_PERCPU_HASH'', 10),
     (''BPF_MAP_TYPE_LPM_TRIE'', 11),
     (''BPF_MAP_TYPE_ARRAY_OF_MAPS'', 12),
     (''BPF_MAP_TYPE_HASH_OF_MAPS'', 13),
     (''BPF_MAP_TYPE_DEVMAP'', 14),
     (''BPF_MAP_TYPE_SOCKMAP'', 15),
     (''BPF_MAP_TYPE_CPUMAP'', 16),
     (''BPF_MAP_TYPE_XSKMAP'', 17),
     (''BPF_MAP_TYPE_SOCKHASH'', 18),
     (''BPF_MAP_TYPE_CGROUP_STORAGE_DEPRECATED'', 19),
     (''BPF_MAP_TYPE_CGROUP_STORAGE'', 19),
     (''BPF_MAP_TYPE_REUSEPORT_SOCKARRAY'', 20),
     (''BPF_MAP_TYPE_PERCPU_CGROUP_STORAGE_DEPRECATED'', 21),
     (''BPF_MAP_TYPE_PERCPU_CGROUP_STORAGE'', 21),
     (''BPF_MAP_TYPE_QUEUE'', 22),
     (''BPF_MAP_TYPE_STACK'', 23),
     (''BPF_MAP_TYPE_SK_STORAGE'', 24),
     (''BPF_MAP_TYPE_DEVMAP_HASH'', 25),
     (''BPF_MAP_TYPE_STRUCT_OPS'', 26),
     (''BPF_MAP_TYPE_RINGBUF'', 27),
     (''BPF_MAP_TYPE_INODE_STORAGE'', 28),
     (''BPF_MAP_TYPE_TASK_STORAGE'', 29),
     (''BPF_MAP_TYPE_BLOOM_FILTER'', 30),
     (''BPF_MAP_TYPE_USER_RINGBUF'', 31),
     (''BPF_MAP_TYPE_CGRP_STORAGE'', 32),
     (''BPF_MAP_TYPE_ARENA'', 33),
     (''__MAX_BPF_MAP_TYPE'', 34)]"

definition enum_bpf_prog_type :: ctype where
  "enum_bpf_prog_type = CEnum
    [(''BPF_PROG_TYPE_UNSPEC'', 0),
     (''BPF_PROG_TYPE_SOCKET_FILTER'', 1),
     (''BPF_PROG_TYPE_KPROBE'', 2),
     (''BPF_PROG_TYPE_SCHED_CLS'', 3),
     (''BPF_PROG_TYPE_SCHED_ACT'', 4),
     (''BPF_PROG_TYPE_TRACEPOINT'', 5),
     (''BPF_PROG_TYPE_XDP'', 6),
     (''BPF_PROG_TYPE_PERF_EVENT'', 7),
     (''BPF_PROG_TYPE_CGROUP_SKB'', 8),
     (''BPF_PROG_TYPE_CGROUP_SOCK'', 9),
     (''BPF_PROG_TYPE_LWT_IN'', 10),
     (''BPF_PROG_TYPE_LWT_OUT'', 11),
     (''BPF_PROG_TYPE_LWT_XMIT'', 12),
     (''BPF_PROG_TYPE_SOCK_OPS'', 13),
     (''BPF_PROG_TYPE_SK_SKB'', 14),
     (''BPF_PROG_TYPE_CGROUP_DEVICE'', 15),
     (''BPF_PROG_TYPE_SK_MSG'', 16),
     (''BPF_PROG_TYPE_RAW_TRACEPOINT'', 17),
     (''BPF_PROG_TYPE_CGROUP_SOCK_ADDR'', 18),
     (''BPF_PROG_TYPE_LWT_SEG6LOCAL'', 19),
     (''BPF_PROG_TYPE_LIRC_MODE2'', 20),
     (''BPF_PROG_TYPE_SK_REUSEPORT'', 21),
     (''BPF_PROG_TYPE_FLOW_DISSECTOR'', 22),
     (''BPF_PROG_TYPE_CGROUP_SYSCTL'', 23),
     (''BPF_PROG_TYPE_RAW_TRACEPOINT_WRITABLE'', 24),
     (''BPF_PROG_TYPE_CGROUP_SOCKOPT'', 25),
     (''BPF_PROG_TYPE_TRACING'', 26),
     (''BPF_PROG_TYPE_STRUCT_OPS'', 27),
     (''BPF_PROG_TYPE_EXT'', 28),
     (''BPF_PROG_TYPE_LSM'', 29),
     (''BPF_PROG_TYPE_SK_LOOKUP'', 30),
     (''BPF_PROG_TYPE_SYSCALL'', 31),
     (''BPF_PROG_TYPE_NETFILTER'', 32),
     (''__MAX_BPF_PROG_TYPE'', 33)]"

definition struct_bpf_map :: ctype where
  "struct_bpf_map = CStruct False
    [Field ''ops'' CPtr,
     Field ''inner_map_meta'' CPtr,
     Field ''security'' CPtr,
     Field ''map_type'' enum_bpf_map_type,
     Field ''key_size'' typedef_u32,
     Field ''value_size'' typedef_u32,
     Field ''max_entries'' typedef_u32,
     Field ''map_extra'' typedef_u64,
     Field ''map_flags'' typedef_u32,
     Field ''id'' typedef_u32,
     Field ''record'' CPtr,
     Field ''numa_node'' c_int,
     Field ''btf_key_type_id'' typedef_u32,
     Field ''btf_value_type_id'' typedef_u32,
     Field ''btf_vmlinux_value_type_id'' typedef_u32,
     Field ''btf'' CPtr,
     Field ''objcg'' CPtr,
     Field ''name'' (CArray c_char 16),
     Field ''freeze_mutex'' struct_mutex,
     Field ''refcnt'' typedef_atomic64_t,
     Field ''usercnt'' typedef_atomic64_t,
     Field '''' (CUnion [Field ''work'' struct_work_struct,
       Field ''rcu'' struct_callback_head]),
     Field ''writecnt'' typedef_atomic64_t,
     Field ''owner'' (CStruct False [Field ''attach_func_proto'' CPtr,
       Field ''lock'' typedef_spinlock_t,
       Field ''type'' enum_bpf_prog_type,
       Field ''jited'' typedef_bool,
       Field ''xdp_has_frags'' typedef_bool]),
     Field ''bypass_spec_v1'' typedef_bool,
     Field ''frozen'' typedef_bool,
     Field ''free_after_mult_rcu_gp'' typedef_bool,
     Field ''free_after_rcu_gp'' typedef_bool,
     Field ''sleepable_refcnt'' typedef_atomic64_t,
     Field ''elem_count'' CPtr]"

definition struct_bpf_ringbuf_map :: ctype where
  "struct_bpf_ringbuf_map = CStruct False
    [Field ''map'' struct_bpf_map,
     Field ''rb'' CPtr]"

definition enum_bpf_func_id_values_1 :: "(string \<times> int) list" where
  "enum_bpf_func_id_values_1 =
    [(''BPF_FUNC_unspec'', 0),
     (''BPF_FUNC_map_lookup_elem'', 1),
     (''BPF_FUNC_map_update_elem'', 2),
     (''BPF_FUNC_map_delete_elem'', 3),
     (''BPF_FUNC_probe_read'', 4),
     (''BPF_FUNC_ktime_get_ns'', 5),
     (''BPF_FUNC_trace_printk'', 6),
     (''BPF_FUNC_get_prandom_u32'', 7),
     (''BPF_FUNC_get_smp_processor_id'', 8),
     (''BPF_FUNC_skb_store_bytes'', 9),
     (''BPF_FUNC_l3_csum_replace'', 10),
     (''BPF_FUNC_l4_csum_replace'', 11),
     (''BPF_FUNC_tail_call'', 12),
     (''BPF_FUNC_clone_redirect'', 13),
     (''BPF_FUNC_get_current_pid_tgid'', 14),
     (''BPF_FUNC_get_current_uid_gid'', 15),
     (''BPF_FUNC_get_current_comm'', 16),
     (''BPF_FUNC_get_cgroup_classid'', 17),
     (''BPF_FUNC_skb_vlan_push'', 18),
     (''BPF_FUNC_skb_vlan_pop'', 19),
     (''BPF_FUNC_skb_get_tunnel_key'', 20),
     (''BPF_FUNC_skb_set_tunnel_key'', 21),
     (''BPF_FUNC_perf_event_read'', 22),
     (''BPF_FUNC_redirect'', 23),
     (''BPF_FUNC_get_route_realm'', 24),
     (''BPF_FUNC_perf_event_output'', 25),
     (''BPF_FUNC_skb_load_bytes'', 26),
     (''BPF_FUNC_get_stackid'', 27),
     (''BPF_FUNC_csum_diff'', 28),
     (''BPF_FUNC_skb_get_tunnel_opt'', 29),
     (''BPF_FUNC_skb_set_tunnel_opt'', 30),
     (''BPF_FUNC_skb_change_proto'', 31),
     (''BPF_FUNC_skb_change_type'', 32),
     (''BPF_FUNC_skb_under_cgroup'', 33),
     (''BPF_FUNC_get_hash_recalc'', 34),
     (''BPF_FUNC_get_current_task'', 35),
     (''BPF_FUNC_probe_write_user'', 36),
     (''BPF_FUNC_current_task_under_cgroup'', 37),
     (''BPF_FUNC_skb_change_tail'', 38),
     (''BPF_FUNC_skb_pull_data'', 39),
     (''BPF_FUNC_csum_update'', 40),
     (''BPF_FUNC_set_hash_invalid'', 41),
     (''BPF_FUNC_get_numa_node_id'', 42),
     (''BPF_FUNC_skb_change_head'', 43),
     (''BPF_FUNC_xdp_adjust_head'', 44),
     (''BPF_FUNC_probe_read_str'', 45),
     (''BPF_FUNC_get_socket_cookie'', 46),
     (''BPF_FUNC_get_socket_uid'', 47),
     (''BPF_FUNC_set_hash'', 48),
     (''BPF_FUNC_setsockopt'', 49),
     (''BPF_FUNC_skb_adjust_room'', 50),
     (''BPF_FUNC_redirect_map'', 51),
     (''BPF_FUNC_sk_redirect_map'', 52),
     (''BPF_FUNC_sock_map_update'', 53),
     (''BPF_FUNC_xdp_adjust_meta'', 54),
     (''BPF_FUNC_perf_event_read_value'', 55),
     (''BPF_FUNC_perf_prog_read_value'', 56),
     (''BPF_FUNC_getsockopt'', 57),
     (''BPF_FUNC_override_return'', 58),
     (''BPF_FUNC_sock_ops_cb_flags_set'', 59),
     (''BPF_FUNC_msg_redirect_map'', 60),
     (''BPF_FUNC_msg_apply_bytes'', 61),
     (''BPF_FUNC_msg_cork_bytes'', 62),
     (''BPF_FUNC_msg_pull_data'', 63),
     (''BPF_FUNC_bind'', 64),
     (''BPF_FUNC_xdp_adjust_tail'', 65),
     (''BPF_FUNC_skb_get_xfrm_state'', 66),
     (''BPF_FUNC_get_stack'', 67),
     (''BPF_FUNC_skb_load_bytes_relative'', 68),
     (''BPF_FUNC_fib_lookup'', 69),
     (''BPF_FUNC_sock_hash_update'', 70),
     (''BPF_FUNC_msg_redirect_hash'', 71),
     (''BPF_FUNC_sk_redirect_hash'', 72),
     (''BPF_FUNC_lwt_push_encap'', 73),
     (''BPF_FUNC_lwt_seg6_store_bytes'', 74),
     (''BPF_FUNC_lwt_seg6_adjust_srh'', 75),
     (''BPF_FUNC_lwt_seg6_action'', 76),
     (''BPF_FUNC_rc_repeat'', 77),
     (''BPF_FUNC_rc_keydown'', 78),
     (''BPF_FUNC_skb_cgroup_id'', 79),
     (''BPF_FUNC_get_current_cgroup_id'', 80),
     (''BPF_FUNC_get_local_storage'', 81),
     (''BPF_FUNC_sk_select_reuseport'', 82),
     (''BPF_FUNC_skb_ancestor_cgroup_id'', 83),
     (''BPF_FUNC_sk_lookup_tcp'', 84),
     (''BPF_FUNC_sk_lookup_udp'', 85),
     (''BPF_FUNC_sk_release'', 86),
     (''BPF_FUNC_map_push_elem'', 87),
     (''BPF_FUNC_map_pop_elem'', 88),
     (''BPF_FUNC_map_peek_elem'', 89),
     (''BPF_FUNC_msg_push_data'', 90),
     (''BPF_FUNC_msg_pop_data'', 91),
     (''BPF_FUNC_rc_pointer_rel'', 92),
     (''BPF_FUNC_spin_lock'', 93),
     (''BPF_FUNC_spin_unlock'', 94),
     (''BPF_FUNC_sk_fullsock'', 95),
     (''BPF_FUNC_tcp_sock'', 96),
     (''BPF_FUNC_skb_ecn_set_ce'', 97),
     (''BPF_FUNC_get_listener_sock'', 98),
     (''BPF_FUNC_skc_lookup_tcp'', 99),
     (''BPF_FUNC_tcp_check_syncookie'', 100),
     (''BPF_FUNC_sysctl_get_name'', 101),
     (''BPF_FUNC_sysctl_get_current_value'', 102),
     (''BPF_FUNC_sysctl_get_new_value'', 103),
     (''BPF_FUNC_sysctl_set_new_value'', 104),
     (''BPF_FUNC_strtol'', 105),
     (''BPF_FUNC_strtoul'', 106),
     (''BPF_FUNC_sk_storage_get'', 107),
     (''BPF_FUNC_sk_storage_delete'', 108),
     (''BPF_FUNC_send_signal'', 109),
     (''BPF_FUNC_tcp_gen_syncookie'', 110),
     (''BPF_FUNC_skb_output'', 111),
     (''BPF_FUNC_probe_read_user'', 112),
     (''BPF_FUNC_probe_read_kernel'', 113),
     (''BPF_FUNC_probe_read_user_str'', 114),
     (''BPF_FUNC_probe_read_kernel_str'', 115),
     (''BPF_FUNC_tcp_send_ack'', 116),
     (''BPF_FUNC_send_signal_thread'', 117),
     (''BPF_FUNC_jiffies64'', 118),
     (''BPF_FUNC_read_branch_records'', 119),
     (''BPF_FUNC_get_ns_current_pid_tgid'', 120),
     (''BPF_FUNC_xdp_output'', 121),
     (''BPF_FUNC_get_netns_cookie'', 122),
     (''BPF_FUNC_get_current_ancestor_cgroup_id'', 123),
     (''BPF_FUNC_sk_assign'', 124),
     (''BPF_FUNC_ktime_get_boot_ns'', 125),
     (''BPF_FUNC_seq_printf'', 126),
     (''BPF_FUNC_seq_write'', 127),
     (''BPF_FUNC_sk_cgroup_id'', 128),
     (''BPF_FUNC_sk_ancestor_cgroup_id'', 129),
     (''BPF_FUNC_ringbuf_output'', 130),
     (''BPF_FUNC_ringbuf_reserve'', 131),
     (''BPF_FUNC_ringbuf_submit'', 132),
     (''BPF_FUNC_ringbuf_discard'', 133),
     (''BPF_FUNC_ringbuf_query'', 134),
     (''BPF_FUNC_csum_level'', 135),
     (''BPF_FUNC_skc_to_tcp6_sock'', 136),
     (''BPF_FUNC_skc_to_tcp_sock'', 137),
     (''BPF_FUNC_skc_to_tcp_timewait_sock'', 138),
     (''BPF_FUNC_skc_to_tcp_request_sock'', 139)]"

definition enum_bpf_func_id_values_2 :: "(string \<times> int) list" where
  "enum_bpf_func_id_values_2 =
    [(''BPF_FUNC_skc_to_udp6_sock'', 140),
     (''BPF_FUNC_get_task_stack'', 141),
     (''BPF_FUNC_load_hdr_opt'', 142),
     (''BPF_FUNC_store_hdr_opt'', 143),
     (''BPF_FUNC_reserve_hdr_opt'', 144),
     (''BPF_FUNC_inode_storage_get'', 145),
     (''BPF_FUNC_inode_storage_delete'', 146),
     (''BPF_FUNC_d_path'', 147),
     (''BPF_FUNC_copy_from_user'', 148),
     (''BPF_FUNC_snprintf_btf'', 149),
     (''BPF_FUNC_seq_printf_btf'', 150),
     (''BPF_FUNC_skb_cgroup_classid'', 151),
     (''BPF_FUNC_redirect_neigh'', 152),
     (''BPF_FUNC_per_cpu_ptr'', 153),
     (''BPF_FUNC_this_cpu_ptr'', 154),
     (''BPF_FUNC_redirect_peer'', 155),
     (''BPF_FUNC_task_storage_get'', 156),
     (''BPF_FUNC_task_storage_delete'', 157),
     (''BPF_FUNC_get_current_task_btf'', 158),
     (''BPF_FUNC_bprm_opts_set'', 159),
     (''BPF_FUNC_ktime_get_coarse_ns'', 160),
     (''BPF_FUNC_ima_inode_hash'', 161),
     (''BPF_FUNC_sock_from_file'', 162),
     (''BPF_FUNC_check_mtu'', 163),
     (''BPF_FUNC_for_each_map_elem'', 164),
     (''BPF_FUNC_snprintf'', 165),
     (''BPF_FUNC_sys_bpf'', 166),
     (''BPF_FUNC_btf_find_by_name_kind'', 167),
     (''BPF_FUNC_sys_close'', 168),
     (''BPF_FUNC_timer_init'', 169),
     (''BPF_FUNC_timer_set_callback'', 170),
     (''BPF_FUNC_timer_start'', 171),
     (''BPF_FUNC_timer_cancel'', 172),
     (''BPF_FUNC_get_func_ip'', 173),
     (''BPF_FUNC_get_attach_cookie'', 174),
     (''BPF_FUNC_task_pt_regs'', 175),
     (''BPF_FUNC_get_branch_snapshot'', 176),
     (''BPF_FUNC_trace_vprintk'', 177),
     (''BPF_FUNC_skc_to_unix_sock'', 178),
     (''BPF_FUNC_kallsyms_lookup_name'', 179),
     (''BPF_FUNC_find_vma'', 180),
     (''BPF_FUNC_loop'', 181),
     (''BPF_FUNC_strncmp'', 182),
     (''BPF_FUNC_get_func_arg'', 183),
     (''BPF_FUNC_get_func_ret'', 184),
     (''BPF_FUNC_get_func_arg_cnt'', 185),
     (''BPF_FUNC_get_retval'', 186),
     (''BPF_FUNC_set_retval'', 187),
     (''BPF_FUNC_xdp_get_buff_len'', 188),
     (''BPF_FUNC_xdp_load_bytes'', 189),
     (''BPF_FUNC_xdp_store_bytes'', 190),
     (''BPF_FUNC_copy_from_user_task'', 191),
     (''BPF_FUNC_skb_set_tstamp'', 192),
     (''BPF_FUNC_ima_file_hash'', 193),
     (''BPF_FUNC_kptr_xchg'', 194),
     (''BPF_FUNC_map_lookup_percpu_elem'', 195),
     (''BPF_FUNC_skc_to_mptcp_sock'', 196),
     (''BPF_FUNC_dynptr_from_mem'', 197),
     (''BPF_FUNC_ringbuf_reserve_dynptr'', 198),
     (''BPF_FUNC_ringbuf_submit_dynptr'', 199),
     (''BPF_FUNC_ringbuf_discard_dynptr'', 200),
     (''BPF_FUNC_dynptr_read'', 201),
     (''BPF_FUNC_dynptr_write'', 202),
     (''BPF_FUNC_dynptr_data'', 203),
     (''BPF_FUNC_tcp_raw_gen_syncookie_ipv4'', 204),
     (''BPF_FUNC_tcp_raw_gen_syncookie_ipv6'', 205),
     (''BPF_FUNC_tcp_raw_check_syncookie_ipv4'', 206),
     (''BPF_FUNC_tcp_raw_check_syncookie_ipv6'', 207),
     (''BPF_FUNC_ktime_get_tai_ns'', 208),
     (''BPF_FUNC_user_ringbuf_drain'', 209),
     (''BPF_FUNC_cgrp_storage_get'', 210),
     (''BPF_FUNC_cgrp_storage_delete'', 211),
     (''__BPF_FUNC_MAX_ID'', 212)]"

definition enum_bpf_func_id :: ctype where
  "enum_bpf_func_id = CEnum (enum_bpf_func_id_values_1 @ enum_bpf_func_id_values_2)"

definition enum_bpf_attach_type :: ctype where
  "enum_bpf_attach_type = CEnum
    [(''BPF_CGROUP_INET_INGRESS'', 0),
     (''BPF_CGROUP_INET_EGRESS'', 1),
     (''BPF_CGROUP_INET_SOCK_CREATE'', 2),
     (''BPF_CGROUP_SOCK_OPS'', 3),
     (''BPF_SK_SKB_STREAM_PARSER'', 4),
     (''BPF_SK_SKB_STREAM_VERDICT'', 5),
     (''BPF_CGROUP_DEVICE'', 6),
     (''BPF_SK_MSG_VERDICT'', 7),
     (''BPF_CGROUP_INET4_BIND'', 8),
     (''BPF_CGROUP_INET6_BIND'', 9),
     (''BPF_CGROUP_INET4_CONNECT'', 10),
     (''BPF_CGROUP_INET6_CONNECT'', 11),
     (''BPF_CGROUP_INET4_POST_BIND'', 12),
     (''BPF_CGROUP_INET6_POST_BIND'', 13),
     (''BPF_CGROUP_UDP4_SENDMSG'', 14),
     (''BPF_CGROUP_UDP6_SENDMSG'', 15),
     (''BPF_LIRC_MODE2'', 16),
     (''BPF_FLOW_DISSECTOR'', 17),
     (''BPF_CGROUP_SYSCTL'', 18),
     (''BPF_CGROUP_UDP4_RECVMSG'', 19),
     (''BPF_CGROUP_UDP6_RECVMSG'', 20),
     (''BPF_CGROUP_GETSOCKOPT'', 21),
     (''BPF_CGROUP_SETSOCKOPT'', 22),
     (''BPF_TRACE_RAW_TP'', 23),
     (''BPF_TRACE_FENTRY'', 24),
     (''BPF_TRACE_FEXIT'', 25),
     (''BPF_MODIFY_RETURN'', 26),
     (''BPF_LSM_MAC'', 27),
     (''BPF_TRACE_ITER'', 28),
     (''BPF_CGROUP_INET4_GETPEERNAME'', 29),
     (''BPF_CGROUP_INET6_GETPEERNAME'', 30),
     (''BPF_CGROUP_INET4_GETSOCKNAME'', 31),
     (''BPF_CGROUP_INET6_GETSOCKNAME'', 32),
     (''BPF_XDP_DEVMAP'', 33),
     (''BPF_CGROUP_INET_SOCK_RELEASE'', 34),
     (''BPF_XDP_CPUMAP'', 35),
     (''BPF_SK_LOOKUP'', 36),
     (''BPF_XDP'', 37),
     (''BPF_SK_SKB_VERDICT'', 38),
     (''BPF_SK_REUSEPORT_SELECT'', 39),
     (''BPF_SK_REUSEPORT_SELECT_OR_MIGRATE'', 40),
     (''BPF_PERF_EVENT'', 41),
     (''BPF_TRACE_KPROBE_MULTI'', 42),
     (''BPF_LSM_CGROUP'', 43),
     (''BPF_STRUCT_OPS'', 44),
     (''BPF_NETFILTER'', 45),
     (''BPF_TCX_INGRESS'', 46),
     (''BPF_TCX_EGRESS'', 47),
     (''BPF_TRACE_UPROBE_MULTI'', 48),
     (''BPF_CGROUP_UNIX_CONNECT'', 49),
     (''BPF_CGROUP_UNIX_SENDMSG'', 50),
     (''BPF_CGROUP_UNIX_RECVMSG'', 51),
     (''BPF_CGROUP_UNIX_GETPEERNAME'', 52),
     (''BPF_CGROUP_UNIX_GETSOCKNAME'', 53),
     (''BPF_NETKIT_PRIMARY'', 54),
     (''BPF_NETKIT_PEER'', 55),
     (''BPF_TRACE_KPROBE_SESSION'', 56),
     (''BPF_TRACE_UPROBE_SESSION'', 57),
     (''__MAX_BPF_ATTACH_TYPE'', 58)]"

definition enum_bpf_link_type :: ctype where
  "enum_bpf_link_type = CEnum
    [(''BPF_LINK_TYPE_UNSPEC'', 0),
     (''BPF_LINK_TYPE_RAW_TRACEPOINT'', 1),
     (''BPF_LINK_TYPE_TRACING'', 2),
     (''BPF_LINK_TYPE_CGROUP'', 3),
     (''BPF_LINK_TYPE_ITER'', 4),
     (''BPF_LINK_TYPE_NETNS'', 5),
     (''BPF_LINK_TYPE_XDP'', 6),
     (''BPF_LINK_TYPE_PERF_EVENT'', 7),
     (''BPF_LINK_TYPE_KPROBE_MULTI'', 8),
     (''BPF_LINK_TYPE_STRUCT_OPS'', 9),
     (''BPF_LINK_TYPE_NETFILTER'', 10),
     (''BPF_LINK_TYPE_TCX'', 11),
     (''BPF_LINK_TYPE_UPROBE_MULTI'', 12),
     (''BPF_LINK_TYPE_NETKIT'', 13),
     (''BPF_LINK_TYPE_SOCKMAP'', 14),
     (''__MAX_BPF_LINK_TYPE'', 15)]"

definition enum_bpf_cmd :: ctype where
  "enum_bpf_cmd = CEnum
    [(''BPF_MAP_CREATE'', 0),
     (''BPF_MAP_LOOKUP_ELEM'', 1),
     (''BPF_MAP_UPDATE_ELEM'', 2),
     (''BPF_MAP_DELETE_ELEM'', 3),
     (''BPF_MAP_GET_NEXT_KEY'', 4),
     (''BPF_PROG_LOAD'', 5),
     (''BPF_OBJ_PIN'', 6),
     (''BPF_OBJ_GET'', 7),
     (''BPF_PROG_ATTACH'', 8),
     (''BPF_PROG_DETACH'', 9),
     (''BPF_PROG_TEST_RUN'', 10),
     (''BPF_PROG_RUN'', 10),
     (''BPF_PROG_GET_NEXT_ID'', 11),
     (''BPF_MAP_GET_NEXT_ID'', 12),
     (''BPF_PROG_GET_FD_BY_ID'', 13),
     (''BPF_MAP_GET_FD_BY_ID'', 14),
     (''BPF_OBJ_GET_INFO_BY_FD'', 15),
     (''BPF_PROG_QUERY'', 16),
     (''BPF_RAW_TRACEPOINT_OPEN'', 17),
     (''BPF_BTF_LOAD'', 18),
     (''BPF_BTF_GET_FD_BY_ID'', 19),
     (''BPF_TASK_FD_QUERY'', 20),
     (''BPF_MAP_LOOKUP_AND_DELETE_ELEM'', 21),
     (''BPF_MAP_FREEZE'', 22),
     (''BPF_BTF_GET_NEXT_ID'', 23),
     (''BPF_MAP_LOOKUP_BATCH'', 24),
     (''BPF_MAP_LOOKUP_AND_DELETE_BATCH'', 25),
     (''BPF_MAP_UPDATE_BATCH'', 26),
     (''BPF_MAP_DELETE_BATCH'', 27),
     (''BPF_LINK_CREATE'', 28),
     (''BPF_LINK_UPDATE'', 29),
     (''BPF_LINK_GET_FD_BY_ID'', 30),
     (''BPF_LINK_GET_NEXT_ID'', 31),
     (''BPF_ENABLE_STATS'', 32),
     (''BPF_ITER_CREATE'', 33),
     (''BPF_LINK_DETACH'', 34),
     (''BPF_PROG_BIND_MAP'', 35),
     (''BPF_TOKEN_CREATE'', 36),
     (''__MAX_BPF_CMD'', 37)]"

definition enum_bpf_arg_type :: ctype where
  "enum_bpf_arg_type = CEnum
    [(''ARG_DONTCARE'', 0),
     (''ARG_CONST_MAP_PTR'', 1),
     (''ARG_PTR_TO_MAP_KEY'', 2),
     (''ARG_PTR_TO_MAP_VALUE'', 3),
     (''ARG_PTR_TO_MEM'', 4),
     (''ARG_PTR_TO_ARENA'', 5),
     (''ARG_CONST_SIZE'', 6),
     (''ARG_CONST_SIZE_OR_ZERO'', 7),
     (''ARG_PTR_TO_CTX'', 8),
     (''ARG_ANYTHING'', 9),
     (''ARG_PTR_TO_SPIN_LOCK'', 10),
     (''ARG_PTR_TO_SOCK_COMMON'', 11),
     (''ARG_PTR_TO_SOCKET'', 12),
     (''ARG_PTR_TO_BTF_ID'', 13),
     (''ARG_PTR_TO_RINGBUF_MEM'', 14),
     (''ARG_CONST_ALLOC_SIZE_OR_ZERO'', 15),
     (''ARG_PTR_TO_BTF_ID_SOCK_COMMON'', 16),
     (''ARG_PTR_TO_PERCPU_BTF_ID'', 17),
     (''ARG_PTR_TO_FUNC'', 18),
     (''ARG_PTR_TO_STACK'', 19),
     (''ARG_PTR_TO_CONST_STR'', 20),
     (''ARG_PTR_TO_TIMER'', 21),
     (''ARG_KPTR_XCHG_DEST'', 22),
     (''ARG_PTR_TO_DYNPTR'', 23),
     (''__BPF_ARG_TYPE_MAX'', 24),
     (''ARG_PTR_TO_MAP_VALUE_OR_NULL'', 259),
     (''ARG_PTR_TO_MEM_OR_NULL'', 260),
     (''ARG_PTR_TO_CTX_OR_NULL'', 264),
     (''ARG_PTR_TO_SOCKET_OR_NULL'', 268),
     (''ARG_PTR_TO_STACK_OR_NULL'', 275),
     (''ARG_PTR_TO_BTF_ID_OR_NULL'', 269),
     (''ARG_PTR_TO_UNINIT_MEM'', 67141636),
     (''ARG_PTR_TO_FIXED_SIZE_MEM'', 262148),
     (''__BPF_ARG_TYPE_LIMIT'', 134217727)]"

definition enum_bpf_reg_type :: ctype where
  "enum_bpf_reg_type = CEnum
    [(''NOT_INIT'', 0),
     (''SCALAR_VALUE'', 1),
     (''PTR_TO_CTX'', 2),
     (''CONST_PTR_TO_MAP'', 3),
     (''PTR_TO_MAP_VALUE'', 4),
     (''PTR_TO_MAP_KEY'', 5),
     (''PTR_TO_STACK'', 6),
     (''PTR_TO_PACKET_META'', 7),
     (''PTR_TO_PACKET'', 8),
     (''PTR_TO_PACKET_END'', 9),
     (''PTR_TO_FLOW_KEYS'', 10),
     (''PTR_TO_SOCKET'', 11),
     (''PTR_TO_SOCK_COMMON'', 12),
     (''PTR_TO_TCP_SOCK'', 13),
     (''PTR_TO_TP_BUFFER'', 14),
     (''PTR_TO_XDP_SOCK'', 15),
     (''PTR_TO_BTF_ID'', 16),
     (''PTR_TO_MEM'', 17),
     (''PTR_TO_ARENA'', 18),
     (''PTR_TO_BUF'', 19),
     (''PTR_TO_FUNC'', 20),
     (''CONST_PTR_TO_DYNPTR'', 21),
     (''__BPF_REG_TYPE_MAX'', 22),
     (''PTR_TO_MAP_VALUE_OR_NULL'', 260),
     (''PTR_TO_SOCKET_OR_NULL'', 267),
     (''PTR_TO_SOCK_COMMON_OR_NULL'', 268),
     (''PTR_TO_TCP_SOCK_OR_NULL'', 269),
     (''PTR_TO_BTF_ID_OR_NULL'', 272),
     (''__BPF_REG_TYPE_LIMIT'', 134217727)]"

definition enum_bpf_return_type :: ctype where
  "enum_bpf_return_type = CEnum
    [(''RET_INTEGER'', 0),
     (''RET_VOID'', 1),
     (''RET_PTR_TO_MAP_VALUE'', 2),
     (''RET_PTR_TO_SOCKET'', 3),
     (''RET_PTR_TO_TCP_SOCK'', 4),
     (''RET_PTR_TO_SOCK_COMMON'', 5),
     (''RET_PTR_TO_MEM'', 6),
     (''RET_PTR_TO_MEM_OR_BTF_ID'', 7),
     (''RET_PTR_TO_BTF_ID'', 8),
     (''__BPF_RET_TYPE_MAX'', 9),
     (''RET_PTR_TO_MAP_VALUE_OR_NULL'', 258),
     (''RET_PTR_TO_SOCKET_OR_NULL'', 259),
     (''RET_PTR_TO_TCP_SOCK_OR_NULL'', 260),
     (''RET_PTR_TO_SOCK_COMMON_OR_NULL'', 261),
     (''RET_PTR_TO_RINGBUF_MEM_OR_NULL'', 1286),
     (''RET_PTR_TO_DYNPTR_MEM_OR_NULL'', 262),
     (''RET_PTR_TO_BTF_ID_OR_NULL'', 264),
     (''RET_PTR_TO_BTF_ID_TRUSTED'', 1048584),
     (''__BPF_RET_TYPE_LIMIT'', 134217727)]"

definition struct_bpf_insn :: ctype where
  "struct_bpf_insn = CStruct False
    [Field ''code'' typedef___u8,
     Bits ''dst_reg'' typedef___u8 4,
     Bits ''src_reg'' typedef___u8 4,
     Field ''off'' typedef___s16,
     Field ''imm'' typedef___s32]"

definition struct_sock_filter :: ctype where
  "struct_sock_filter = CStruct False
    [Field ''code'' typedef___u16,
     Field ''jt'' typedef___u8,
     Field ''jf'' typedef___u8,
     Field ''k'' typedef___u32]"

definition struct_bpf_prog :: ctype where
  "struct_bpf_prog = CStruct False
    [Field ''pages'' typedef_u16,
     Bits ''jited'' typedef_u16 1,
     Bits ''jit_requested'' typedef_u16 1,
     Bits ''gpl_compatible'' typedef_u16 1,
     Bits ''cb_access'' typedef_u16 1,
     Bits ''dst_needed'' typedef_u16 1,
     Bits ''blinding_requested'' typedef_u16 1,
     Bits ''blinded'' typedef_u16 1,
     Bits ''is_func'' typedef_u16 1,
     Bits ''kprobe_override'' typedef_u16 1,
     Bits ''has_callchain_buf'' typedef_u16 1,
     Bits ''enforce_expected_attach_type'' typedef_u16 1,
     Bits ''call_get_stack'' typedef_u16 1,
     Bits ''call_get_func_ip'' typedef_u16 1,
     Bits ''tstamp_type_access'' typedef_u16 1,
     Bits ''sleepable'' typedef_u16 1,
     Field ''type'' enum_bpf_prog_type,
     Field ''expected_attach_type'' enum_bpf_attach_type,
     Field ''len'' typedef_u32,
     Field ''jited_len'' typedef_u32,
     Field ''tag'' (CArray typedef_u8 8),
     Field ''stats'' CPtr,
     Field ''active'' CPtr,
     Field ''bpf_func'' CPtr,
     Field ''aux'' CPtr,
     Field ''orig_prog'' CPtr,
     Field '''' (CUnion [Field '''' (CStruct False [Field ''__empty_insns'' (CStruct False []),
         Field ''insns'' (CArray struct_sock_filter 0)]),
       Field '''' (CStruct False [Field ''__empty_insnsi'' (CStruct False []),
         Field ''insnsi'' (CArray struct_bpf_insn 0)])])]"

definition struct_latch_tree_node :: ctype where
  "struct_latch_tree_node = CStruct False
    [Field ''node'' (CArray struct_rb_node 2)]"

definition struct_bpf_ksym :: ctype where
  "struct_bpf_ksym = CStruct False
    [Field ''start'' c_ulong,
     Field ''end'' c_ulong,
     Field ''name'' (CArray c_char 512),
     Field ''lnode'' struct_list_head,
     Field ''tnode'' struct_latch_tree_node,
     Field ''prog'' typedef_bool]"

definition struct_bpf_prog_aux :: ctype where
  "struct_bpf_prog_aux = CStruct False
    [Field ''refcnt'' typedef_atomic64_t,
     Field ''used_map_cnt'' typedef_u32,
     Field ''used_btf_cnt'' typedef_u32,
     Field ''max_ctx_offset'' typedef_u32,
     Field ''max_pkt_offset'' typedef_u32,
     Field ''max_tp_access'' typedef_u32,
     Field ''stack_depth'' typedef_u32,
     Field ''id'' typedef_u32,
     Field ''func_cnt'' typedef_u32,
     Field ''real_func_cnt'' typedef_u32,
     Field ''func_idx'' typedef_u32,
     Field ''attach_btf_id'' typedef_u32,
     Field ''ctx_arg_info_size'' typedef_u32,
     Field ''max_rdonly_access'' typedef_u32,
     Field ''max_rdwr_access'' typedef_u32,
     Field ''attach_btf'' CPtr,
     Field ''ctx_arg_info'' CPtr,
     Field ''priv_stack_ptr'' CPtr,
     Field ''dst_mutex'' struct_mutex,
     Field ''dst_prog'' CPtr,
     Field ''dst_trampoline'' CPtr,
     Field ''saved_dst_prog_type'' enum_bpf_prog_type,
     Field ''saved_dst_attach_type'' enum_bpf_attach_type,
     Field ''verifier_zext'' typedef_bool,
     Field ''dev_bound'' typedef_bool,
     Field ''offload_requested'' typedef_bool,
     Field ''attach_btf_trace'' typedef_bool,
     Field ''attach_tracing_prog'' typedef_bool,
     Field ''func_proto_unreliable'' typedef_bool,
     Field ''tail_call_reachable'' typedef_bool,
     Field ''xdp_has_frags'' typedef_bool,
     Field ''exception_cb'' typedef_bool,
     Field ''exception_boundary'' typedef_bool,
     Field ''is_extended'' typedef_bool,
     Field ''jits_use_priv_stack'' typedef_bool,
     Field ''priv_stack_requested'' typedef_bool,
     Field ''changes_pkt_data'' typedef_bool,
     Field ''prog_array_member_cnt'' typedef_u64,
     Field ''ext_mutex'' struct_mutex,
     Field ''arena'' CPtr,
     Field ''recursion_detected'' CPtr,
     Field ''attach_func_proto'' CPtr,
     Field ''attach_func_name'' CPtr,
     Field ''func'' CPtr,
     Field ''jit_data'' CPtr,
     Field ''poke_tab'' CPtr,
     Field ''kfunc_tab'' CPtr,
     Field ''kfunc_btf_tab'' CPtr,
     Field ''size_poke_tab'' typedef_u32,
     Field ''ksym'' struct_bpf_ksym,
     Field ''ops'' CPtr,
     Field ''used_maps'' CPtr,
     Field ''used_maps_mutex'' struct_mutex,
     Field ''used_btfs'' CPtr,
     Field ''prog'' CPtr,
     Field ''user'' CPtr,
     Field ''load_time'' typedef_u64,
     Field ''verified_insns'' typedef_u32,
     Field ''cgroup_atype'' c_int,
     Field ''cgroup_storage'' (CArray CPtr 2),
     Field ''name'' (CArray c_char 16),
     Field ''bpf_exception_cb'' CPtr,
     Field ''security'' CPtr,
     Field ''token'' CPtr,
     Field ''offload'' CPtr,
     Field ''btf'' CPtr,
     Field ''func_info'' CPtr,
     Field ''func_info_aux'' CPtr,
     Field ''linfo'' CPtr,
     Field ''jited_linfo'' CPtr,
     Field ''func_info_cnt'' typedef_u32,
     Field ''nr_linfo'' typedef_u32,
     Field ''linfo_idx'' typedef_u32,
     Field ''mod'' CPtr,
     Field ''num_exentries'' typedef_u32,
     Field ''extable'' CPtr,
     Field '''' (CUnion [Field ''work'' struct_work_struct,
       Field ''rcu'' struct_callback_head])]"

definition struct_bpf_link :: ctype where
  "struct_bpf_link = CStruct False
    [Field ''refcnt'' typedef_atomic64_t,
     Field ''id'' typedef_u32,
     Field ''type'' enum_bpf_link_type,
     Field ''ops'' CPtr,
     Field ''prog'' CPtr,
     Field ''sleepable'' typedef_bool,
     Field '''' (CUnion [Field ''rcu'' struct_callback_head,
       Field ''work'' struct_work_struct])]"

definition struct_bpf_map_ops :: ctype where
  "struct_bpf_map_ops = CStruct False
    [Field ''map_alloc_check'' CPtr,
     Field ''map_alloc'' CPtr,
     Field ''map_release'' CPtr,
     Field ''map_free'' CPtr,
     Field ''map_get_next_key'' CPtr,
     Field ''map_release_uref'' CPtr,
     Field ''map_lookup_elem_sys_only'' CPtr,
     Field ''map_lookup_batch'' CPtr,
     Field ''map_lookup_and_delete_elem'' CPtr,
     Field ''map_lookup_and_delete_batch'' CPtr,
     Field ''map_update_batch'' CPtr,
     Field ''map_delete_batch'' CPtr,
     Field ''map_lookup_elem'' CPtr,
     Field ''map_update_elem'' CPtr,
     Field ''map_delete_elem'' CPtr,
     Field ''map_push_elem'' CPtr,
     Field ''map_pop_elem'' CPtr,
     Field ''map_peek_elem'' CPtr,
     Field ''map_lookup_percpu_elem'' CPtr,
     Field ''map_fd_get_ptr'' CPtr,
     Field ''map_fd_put_ptr'' CPtr,
     Field ''map_gen_lookup'' CPtr,
     Field ''map_fd_sys_lookup_elem'' CPtr,
     Field ''map_seq_show_elem'' CPtr,
     Field ''map_check_btf'' CPtr,
     Field ''map_poke_track'' CPtr,
     Field ''map_poke_untrack'' CPtr,
     Field ''map_poke_run'' CPtr,
     Field ''map_direct_value_addr'' CPtr,
     Field ''map_direct_value_meta'' CPtr,
     Field ''map_mmap'' CPtr,
     Field ''map_poll'' CPtr,
     Field ''map_get_unmapped_area'' CPtr,
     Field ''map_local_storage_charge'' CPtr,
     Field ''map_local_storage_uncharge'' CPtr,
     Field ''map_owner_storage_ptr'' CPtr,
     Field ''map_redirect'' CPtr,
     Field ''map_meta_equal'' CPtr,
     Field ''map_set_for_each_callback_args'' CPtr,
     Field ''map_for_each_callback'' CPtr,
     Field ''map_mem_usage'' CPtr,
     Field ''map_btf_id'' CPtr,
     Field ''iter_seq_info'' CPtr]"

definition struct_bpf_func_proto :: ctype where
  "struct_bpf_func_proto = CStruct False
    [Field ''func'' CPtr,
     Field ''gpl_only'' typedef_bool,
     Field ''pkt_access'' typedef_bool,
     Field ''might_sleep'' typedef_bool,
     Field ''allow_fastcall'' typedef_bool,
     Field ''ret_type'' enum_bpf_return_type,
     Field '''' (CUnion [Field '''' (CStruct False [Field ''arg1_type'' enum_bpf_arg_type,
         Field ''arg2_type'' enum_bpf_arg_type,
         Field ''arg3_type'' enum_bpf_arg_type,
         Field ''arg4_type'' enum_bpf_arg_type,
         Field ''arg5_type'' enum_bpf_arg_type]),
       Field ''arg_type'' (CArray enum_bpf_arg_type 5)]),
     Field '''' (CUnion [Field '''' (CStruct False [Field ''arg1_btf_id'' CPtr,
         Field ''arg2_btf_id'' CPtr,
         Field ''arg3_btf_id'' CPtr,
         Field ''arg4_btf_id'' CPtr,
         Field ''arg5_btf_id'' CPtr]),
       Field ''arg_btf_id'' (CArray CPtr 5),
       Field '''' (CStruct False [Field ''arg1_size'' typedef_size_t,
         Field ''arg2_size'' typedef_size_t,
         Field ''arg3_size'' typedef_size_t,
         Field ''arg4_size'' typedef_size_t,
         Field ''arg5_size'' typedef_size_t]),
       Field ''arg_size'' (CArray typedef_size_t 5)]),
     Field ''ret_btf_id'' CPtr,
     Field ''allowed'' CPtr]"

definition union_bpf_attr_members_1 :: "cmember list" where
  "union_bpf_attr_members_1 =
    [Field '''' (CStruct False [Field ''map_type'' typedef___u32,
       Field ''key_size'' typedef___u32,
       Field ''value_size'' typedef___u32,
       Field ''max_entries'' typedef___u32,
       Field ''map_flags'' typedef___u32,
       Field ''inner_map_fd'' typedef___u32,
       Field ''numa_node'' typedef___u32,
       Field ''map_name'' (CArray c_char 16),
       Field ''map_ifindex'' typedef___u32,
       Field ''btf_fd'' typedef___u32,
       Field ''btf_key_type_id'' typedef___u32,
       Field ''btf_value_type_id'' typedef___u32,
       Field ''btf_vmlinux_value_type_id'' typedef___u32,
       Field ''map_extra'' typedef___u64,
       Field ''value_type_btf_obj_fd'' typedef___s32,
       Field ''map_token_fd'' typedef___s32]),
     Field '''' (CStruct False [Field ''map_fd'' typedef___u32,
       Field ''key'' typedef___u64,
       Field '''' (CUnion [Field ''value'' typedef___u64,
         Field ''next_key'' typedef___u64]),
       Field ''flags'' typedef___u64]),
     Field ''batch'' (CStruct False [Field ''in_batch'' typedef___u64,
       Field ''out_batch'' typedef___u64,
       Field ''keys'' typedef___u64,
       Field ''values'' typedef___u64,
       Field ''count'' typedef___u32,
       Field ''map_fd'' typedef___u32,
       Field ''elem_flags'' typedef___u64,
       Field ''flags'' typedef___u64]),
     Field '''' (CStruct False [Field ''prog_type'' typedef___u32,
       Field ''insn_cnt'' typedef___u32,
       Field ''insns'' typedef___u64,
       Field ''license'' typedef___u64,
       Field ''log_level'' typedef___u32,
       Field ''log_size'' typedef___u32,
       Field ''log_buf'' typedef___u64,
       Field ''kern_version'' typedef___u32,
       Field ''prog_flags'' typedef___u32,
       Field ''prog_name'' (CArray c_char 16),
       Field ''prog_ifindex'' typedef___u32,
       Field ''expected_attach_type'' typedef___u32,
       Field ''prog_btf_fd'' typedef___u32,
       Field ''func_info_rec_size'' typedef___u32,
       Field ''func_info'' typedef___u64,
       Field ''func_info_cnt'' typedef___u32,
       Field ''line_info_rec_size'' typedef___u32,
       Field ''line_info'' typedef___u64,
       Field ''line_info_cnt'' typedef___u32,
       Field ''attach_btf_id'' typedef___u32,
       Field '''' (CUnion [Field ''attach_prog_fd'' typedef___u32,
         Field ''attach_btf_obj_fd'' typedef___u32]),
       Field ''core_relo_cnt'' typedef___u32,
       Field ''fd_array'' typedef___u64,
       Field ''core_relos'' typedef___u64,
       Field ''core_relo_rec_size'' typedef___u32,
       Field ''log_true_size'' typedef___u32,
       Field ''prog_token_fd'' typedef___s32,
       Field ''fd_array_cnt'' typedef___u32]),
     Field '''' (CStruct False [Field ''pathname'' typedef___u64,
       Field ''bpf_fd'' typedef___u32,
       Field ''file_flags'' typedef___u32,
       Field ''path_fd'' typedef___s32]),
     Field '''' (CStruct False [Field '''' (CUnion [Field ''target_fd'' typedef___u32,
         Field ''target_ifindex'' typedef___u32]),
       Field ''attach_bpf_fd'' typedef___u32,
       Field ''attach_type'' typedef___u32,
       Field ''attach_flags'' typedef___u32,
       Field ''replace_bpf_fd'' typedef___u32,
       Field '''' (CUnion [Field ''relative_fd'' typedef___u32,
         Field ''relative_id'' typedef___u32]),
       Field ''expected_revision'' typedef___u64]),
     Field ''test'' (CStruct False [Field ''prog_fd'' typedef___u32,
       Field ''retval'' typedef___u32,
       Field ''data_size_in'' typedef___u32,
       Field ''data_size_out'' typedef___u32,
       Field ''data_in'' typedef___u64,
       Field ''data_out'' typedef___u64,
       Field ''repeat'' typedef___u32,
       Field ''duration'' typedef___u32,
       Field ''ctx_size_in'' typedef___u32,
       Field ''ctx_size_out'' typedef___u32,
       Field ''ctx_in'' typedef___u64,
       Field ''ctx_out'' typedef___u64,
       Field ''flags'' typedef___u32,
       Field ''cpu'' typedef___u32,
       Field ''batch_size'' typedef___u32]),
     Field '''' (CStruct False [Field '''' (CUnion [Field ''start_id'' typedef___u32,
         Field ''prog_id'' typedef___u32,
         Field ''map_id'' typedef___u32,
         Field ''btf_id'' typedef___u32,
         Field ''link_id'' typedef___u32]),
       Field ''next_id'' typedef___u32,
       Field ''open_flags'' typedef___u32]),
     Field ''info'' (CStruct False [Field ''bpf_fd'' typedef___u32,
       Field ''info_len'' typedef___u32,
       Field ''info'' typedef___u64])]"

definition union_bpf_attr_members_2 :: "cmember list" where
  "union_bpf_attr_members_2 =
    [Field ''query'' (CStruct False [Field '''' (CUnion [Field ''target_fd'' typedef___u32,
         Field ''target_ifindex'' typedef___u32]),
       Field ''attach_type'' typedef___u32,
       Field ''query_flags'' typedef___u32,
       Field ''attach_flags'' typedef___u32,
       Field ''prog_ids'' typedef___u64,
       Field '''' (CUnion [Field ''prog_cnt'' typedef___u32,
         Field ''count'' typedef___u32]),
       Field ''prog_attach_flags'' typedef___u64,
       Field ''link_ids'' typedef___u64,
       Field ''link_attach_flags'' typedef___u64,
       Field ''revision'' typedef___u64]),
     Field ''raw_tracepoint'' (CStruct False [Field ''name'' typedef___u64,
       Field ''prog_fd'' typedef___u32,
       Field ''cookie'' typedef___u64]),
     Field '''' (CStruct False [Field ''btf'' typedef___u64,
       Field ''btf_log_buf'' typedef___u64,
       Field ''btf_size'' typedef___u32,
       Field ''btf_log_size'' typedef___u32,
       Field ''btf_log_level'' typedef___u32,
       Field ''btf_log_true_size'' typedef___u32,
       Field ''btf_flags'' typedef___u32,
       Field ''btf_token_fd'' typedef___s32]),
     Field ''task_fd_query'' (CStruct False [Field ''pid'' typedef___u32,
       Field ''fd'' typedef___u32,
       Field ''flags'' typedef___u32,
       Field ''buf_len'' typedef___u32,
       Field ''buf'' typedef___u64,
       Field ''prog_id'' typedef___u32,
       Field ''fd_type'' typedef___u32,
       Field ''probe_offset'' typedef___u64,
       Field ''probe_addr'' typedef___u64]),
     Field ''link_create'' (CStruct False [Field '''' (CUnion [Field ''prog_fd'' typedef___u32,
         Field ''map_fd'' typedef___u32]),
       Field '''' (CUnion [Field ''target_fd'' typedef___u32,
         Field ''target_ifindex'' typedef___u32]),
       Field ''attach_type'' typedef___u32,
       Field ''flags'' typedef___u32,
       Field '''' (CUnion [Field ''target_btf_id'' typedef___u32,
         Field '''' (CStruct False [Field ''iter_info'' typedef___u64,
           Field ''iter_info_len'' typedef___u32]),
         Field ''perf_event'' (CStruct False [Field ''bpf_cookie'' typedef___u64]),
         Field ''kprobe_multi'' (CStruct False [Field ''flags'' typedef___u32,
           Field ''cnt'' typedef___u32,
           Field ''syms'' typedef___u64,
           Field ''addrs'' typedef___u64,
           Field ''cookies'' typedef___u64]),
         Field ''tracing'' (CStruct False [Field ''target_btf_id'' typedef___u32,
           Field ''cookie'' typedef___u64]),
         Field ''netfilter'' (CStruct False [Field ''pf'' typedef___u32,
           Field ''hooknum'' typedef___u32,
           Field ''priority'' typedef___s32,
           Field ''flags'' typedef___u32]),
         Field ''tcx'' (CStruct False [Field '''' (CUnion [Field ''relative_fd'' typedef___u32,
             Field ''relative_id'' typedef___u32]),
           Field ''expected_revision'' typedef___u64]),
         Field ''uprobe_multi'' (CStruct False [Field ''path'' typedef___u64,
           Field ''offsets'' typedef___u64,
           Field ''ref_ctr_offsets'' typedef___u64,
           Field ''cookies'' typedef___u64,
           Field ''cnt'' typedef___u32,
           Field ''flags'' typedef___u32,
           Field ''pid'' typedef___u32]),
         Field ''netkit'' (CStruct False [Field '''' (CUnion [Field ''relative_fd'' typedef___u32,
             Field ''relative_id'' typedef___u32]),
           Field ''expected_revision'' typedef___u64])])]),
     Field ''link_update'' (CStruct False [Field ''link_fd'' typedef___u32,
       Field '''' (CUnion [Field ''new_prog_fd'' typedef___u32,
         Field ''new_map_fd'' typedef___u32]),
       Field ''flags'' typedef___u32,
       Field '''' (CUnion [Field ''old_prog_fd'' typedef___u32,
         Field ''old_map_fd'' typedef___u32])]),
     Field ''link_detach'' (CStruct False [Field ''link_fd'' typedef___u32]),
     Field ''enable_stats'' (CStruct False [Field ''type'' typedef___u32]),
     Field ''iter_create'' (CStruct False [Field ''link_fd'' typedef___u32,
       Field ''flags'' typedef___u32]),
     Field ''prog_bind_map'' (CStruct False [Field ''prog_fd'' typedef___u32,
       Field ''map_fd'' typedef___u32,
       Field ''flags'' typedef___u32]),
     Field ''token_create'' (CStruct False [Field ''flags'' typedef___u32,
       Field ''bpffs_fd'' typedef___u32])]"

definition union_bpf_attr :: ctype where
  "union_bpf_attr = CUnion
    (union_bpf_attr_members_1 @ union_bpf_attr_members_2)"

definition struct_bpf_prog_info :: ctype where
  "struct_bpf_prog_info = CStruct False
    [Field ''type'' typedef___u32,
     Field ''id'' typedef___u32,
     Field ''tag'' (CArray typedef___u8 8),
     Field ''jited_prog_len'' typedef___u32,
     Field ''xlated_prog_len'' typedef___u32,
     Field ''jited_prog_insns'' typedef___u64,
     Field ''xlated_prog_insns'' typedef___u64,
     Field ''load_time'' typedef___u64,
     Field ''created_by_uid'' typedef___u32,
     Field ''nr_map_ids'' typedef___u32,
     Field ''map_ids'' typedef___u64,
     Field ''name'' (CArray c_char 16),
     Field ''ifindex'' typedef___u32,
     Bits ''gpl_compatible'' typedef___u32 1,
     Field ''netns_dev'' typedef___u64,
     Field ''netns_ino'' typedef___u64,
     Field ''nr_jited_ksyms'' typedef___u32,
     Field ''nr_jited_func_lens'' typedef___u32,
     Field ''jited_ksyms'' typedef___u64,
     Field ''jited_func_lens'' typedef___u64,
     Field ''btf_id'' typedef___u32,
     Field ''func_info_rec_size'' typedef___u32,
     Field ''func_info'' typedef___u64,
     Field ''nr_func_info'' typedef___u32,
     Field ''nr_line_info'' typedef___u32,
     Field ''line_info'' typedef___u64,
     Field ''jited_line_info'' typedef___u64,
     Field ''nr_jited_line_info'' typedef___u32,
     Field ''line_info_rec_size'' typedef___u32,
     Field ''jited_line_info_rec_size'' typedef___u32,
     Field ''nr_prog_tags'' typedef___u32,
     Field ''prog_tags'' typedef___u64,
     Field ''run_time_ns'' typedef___u64,
     Field ''run_cnt'' typedef___u64,
     Field ''recursion_misses'' typedef___u64,
     Field ''verified_insns'' typedef___u32,
     Field ''attach_btf_obj_id'' typedef___u32,
     Field ''attach_btf_id'' typedef___u32]"

definition struct_bpf_map_info :: ctype where
  "struct_bpf_map_info = CStruct False
    [Field ''type'' typedef___u32,
     Field ''id'' typedef___u32,
     Field ''key_size'' typedef___u32,
     Field ''value_size'' typedef___u32,
     Field ''max_entries'' typedef___u32,
     Field ''map_flags'' typedef___u32,
     Field ''name'' (CArray c_char 16),
     Field ''ifindex'' typedef___u32,
     Field ''btf_vmlinux_value_type_id'' typedef___u32,
     Field ''netns_dev'' typedef___u64,
     Field ''netns_ino'' typedef___u64,
     Field ''btf_id'' typedef___u32,
     Field ''btf_key_type_id'' typedef___u32,
     Field ''btf_value_type_id'' typedef___u32,
     Field ''btf_vmlinux_id'' typedef___u32,
     Field ''map_extra'' typedef___u64]"

definition struct_bpf_link_info :: ctype where
  "struct_bpf_link_info = CStruct False
    [Field ''type'' typedef___u32,
     Field ''id'' typedef___u32,
     Field ''prog_id'' typedef___u32,
     Field '''' (CUnion [Field ''raw_tracepoint'' (CStruct False [Field ''tp_name'' typedef___u64,
         Field ''tp_name_len'' typedef___u32]),
       Field ''tracing'' (CStruct False [Field ''attach_type'' typedef___u32,
         Field ''target_obj_id'' typedef___u32,
         Field ''target_btf_id'' typedef___u32]),
       Field ''cgroup'' (CStruct False [Field ''cgroup_id'' typedef___u64,
         Field ''attach_type'' typedef___u32]),
       Field ''iter'' (CStruct False [Field ''target_name'' typedef___u64,
         Field ''target_name_len'' typedef___u32,
         Field '''' (CUnion [Field ''map'' (CStruct False [Field ''map_id'' typedef___u32])]),
         Field '''' (CUnion [Field ''cgroup'' (CStruct False [Field ''cgroup_id'' typedef___u64,
             Field ''order'' typedef___u32]),
           Field ''task'' (CStruct False [Field ''tid'' typedef___u32,
             Field ''pid'' typedef___u32])])]),
       Field ''netns'' (CStruct False [Field ''netns_ino'' typedef___u32,
         Field ''attach_type'' typedef___u32]),
       Field ''xdp'' (CStruct False [Field ''ifindex'' typedef___u32]),
       Field ''struct_ops'' (CStruct False [Field ''map_id'' typedef___u32]),
       Field ''netfilter'' (CStruct False [Field ''pf'' typedef___u32,
         Field ''hooknum'' typedef___u32,
         Field ''priority'' typedef___s32,
         Field ''flags'' typedef___u32]),
       Field ''kprobe_multi'' (CStruct False [Field ''addrs'' typedef___u64,
         Field ''count'' typedef___u32,
         Field ''flags'' typedef___u32,
         Field ''missed'' typedef___u64,
         Field ''cookies'' typedef___u64]),
       Field ''uprobe_multi'' (CStruct False [Field ''path'' typedef___u64,
         Field ''offsets'' typedef___u64,
         Field ''ref_ctr_offsets'' typedef___u64,
         Field ''cookies'' typedef___u64,
         Field ''path_size'' typedef___u32,
         Field ''count'' typedef___u32,
         Field ''flags'' typedef___u32,
         Field ''pid'' typedef___u32]),
       Field ''perf_event'' (CStruct False [Field ''type'' typedef___u32,
         Field '''' (CUnion [Field ''uprobe'' (CStruct False [Field ''file_name'' typedef___u64,
             Field ''name_len'' typedef___u32,
             Field ''offset'' typedef___u32,
             Field ''cookie'' typedef___u64]),
           Field ''kprobe'' (CStruct False [Field ''func_name'' typedef___u64,
             Field ''name_len'' typedef___u32,
             Field ''offset'' typedef___u32,
             Field ''addr'' typedef___u64,
             Field ''missed'' typedef___u64,
             Field ''cookie'' typedef___u64]),
           Field ''tracepoint'' (CStruct False [Field ''tp_name'' typedef___u64,
             Field ''name_len'' typedef___u32,
             Field ''cookie'' typedef___u64]),
           Field ''event'' (CStruct False [Field ''config'' typedef___u64,
             Field ''type'' typedef___u32,
             Field ''cookie'' typedef___u64])])]),
       Field ''tcx'' (CStruct False [Field ''ifindex'' typedef___u32,
         Field ''attach_type'' typedef___u32]),
       Field ''netkit'' (CStruct False [Field ''ifindex'' typedef___u32,
         Field ''attach_type'' typedef___u32]),
       Field ''sockmap'' (CStruct False [Field ''map_id'' typedef___u32,
         Field ''attach_type'' typedef___u32])])]"

definition struct_btf_mod_pair :: ctype where
  "struct_btf_mod_pair = CStruct False
    [Field ''btf'' CPtr,
     Field ''module'' CPtr]"

definition struct_bpf_verifier_log :: ctype where
  "struct_bpf_verifier_log = CStruct False
    [Field ''start_pos'' typedef_u64,
     Field ''end_pos'' typedef_u64,
     Field ''ubuf'' CPtr,
     Field ''level'' typedef_u32,
     Field ''len_total'' typedef_u32,
     Field ''len_max'' typedef_u32,
     Field ''kbuf'' (CArray c_char 1024)]"

definition enum_priv_stack_mode :: ctype where
  "enum_priv_stack_mode = CEnum
    [(''PRIV_STACK_UNKNOWN'', 0),
     (''NO_PRIV_STACK'', 1),
     (''PRIV_STACK_ADAPTIVE'', 2)]"

definition struct_bpf_subprog_arg_info :: ctype where
  "struct_bpf_subprog_arg_info = CStruct False
    [Field ''arg_type'' enum_bpf_arg_type,
     Field '''' (CUnion [Field ''mem_size'' typedef_u32,
       Field ''btf_id'' typedef_u32])]"

definition struct_bpf_subprog_info :: ctype where
  "struct_bpf_subprog_info = CStruct False
    [Field ''start'' typedef_u32,
     Field ''linfo_idx'' typedef_u32,
     Field ''stack_depth'' typedef_u16,
     Field ''stack_extra'' typedef_u16,
     Field ''fastcall_stack_off'' typedef_s16,
     Bits ''has_tail_call'' typedef_bool 1,
     Bits ''tail_call_reachable'' typedef_bool 1,
     Bits ''has_ld_abs'' typedef_bool 1,
     Bits ''is_cb'' typedef_bool 1,
     Bits ''is_async_cb'' typedef_bool 1,
     Bits ''is_exception_cb'' typedef_bool 1,
     Bits ''args_cached'' typedef_bool 1,
     Bits ''keep_fastcall_stack'' typedef_bool 1,
     Bits ''changes_pkt_data'' typedef_bool 1,
     Field ''priv_stack_mode'' enum_priv_stack_mode,
     Field ''arg_cnt'' typedef_u8,
     Field ''args'' (CArray struct_bpf_subprog_arg_info 5)]"

definition struct_bpf_id_pair :: ctype where
  "struct_bpf_id_pair = CStruct False
    [Field ''old'' typedef_u32,
     Field ''cur'' typedef_u32]"

definition struct_bpf_idmap :: ctype where
  "struct_bpf_idmap = CStruct False
    [Field ''tmp_id_gen'' typedef_u32,
     Field ''map'' (CArray struct_bpf_id_pair 600)]"

definition struct_bpf_idset :: ctype where
  "struct_bpf_idset = CStruct False
    [Field ''count'' typedef_u32,
     Field ''ids'' (CArray typedef_u32 600)]"

definition struct_backtrack_state :: ctype where
  "struct_backtrack_state = CStruct False
    [Field ''env'' CPtr,
     Field ''frame'' typedef_u32,
     Field ''reg_masks'' (CArray typedef_u32 8),
     Field ''stack_masks'' (CArray typedef_u64 8)]"

definition typedef_sockptr_t :: ctype where
  "typedef_sockptr_t = CStruct False
    [Field '''' (CUnion [Field ''kernel'' CPtr,
       Field ''user'' CPtr]),
     Bits ''is_kernel'' typedef_bool 1]"

definition typedef_bpfptr_t :: ctype where
  "typedef_bpfptr_t = typedef_sockptr_t"

definition enum_bpf_dynptr_type :: ctype where
  "enum_bpf_dynptr_type = CEnum
    [(''BPF_DYNPTR_TYPE_INVALID'', 0),
     (''BPF_DYNPTR_TYPE_LOCAL'', 1),
     (''BPF_DYNPTR_TYPE_RINGBUF'', 2),
     (''BPF_DYNPTR_TYPE_SKB'', 3),
     (''BPF_DYNPTR_TYPE_XDP'', 4)]"

definition enum_bpf_iter_state :: ctype where
  "enum_bpf_iter_state = CEnum
    [(''BPF_ITER_STATE_INVALID'', 0),
     (''BPF_ITER_STATE_ACTIVE'', 1),
     (''BPF_ITER_STATE_DRAINED'', 2)]"

definition struct_tnum :: ctype where
  "struct_tnum = CStruct False
    [Field ''value'' typedef_u64,
     Field ''mask'' typedef_u64]"

definition enum_bpf_reg_liveness :: ctype where
  "enum_bpf_reg_liveness = CEnum
    [(''REG_LIVE_NONE'', 0),
     (''REG_LIVE_READ32'', 1),
     (''REG_LIVE_READ64'', 2),
     (''REG_LIVE_READ'', 3),
     (''REG_LIVE_WRITTEN'', 4),
     (''REG_LIVE_DONE'', 8)]"

definition struct_bpf_reg_state :: ctype where
  "struct_bpf_reg_state = CStruct False
    [Field ''type'' enum_bpf_reg_type,
     Field ''off'' typedef_s32,
     Field '''' (CUnion [Field ''range'' c_int,
       Field '''' (CStruct False [Field ''map_ptr'' CPtr,
         Field ''map_uid'' typedef_u32]),
       Field '''' (CStruct False [Field ''btf'' CPtr,
         Field ''btf_id'' typedef_u32]),
       Field '''' (CStruct False [Field ''mem_size'' typedef_u32,
         Field ''dynptr_id'' typedef_u32]),
       Field ''dynptr'' (CStruct False [Field ''type'' enum_bpf_dynptr_type,
         Field ''first_slot'' typedef_bool]),
       Field ''iter'' (CStruct False [Field ''btf'' CPtr,
         Field ''btf_id'' typedef_u32,
         Bits ''state'' enum_bpf_iter_state 2,
         Bits ''depth'' c_int 30]),
       Field ''raw'' (CStruct False [Field ''raw1'' c_ulong,
         Field ''raw2'' c_ulong]),
       Field ''subprogno'' typedef_u32]),
     Field ''var_off'' struct_tnum,
     Field ''smin_value'' typedef_s64,
     Field ''smax_value'' typedef_s64,
     Field ''umin_value'' typedef_u64,
     Field ''umax_value'' typedef_u64,
     Field ''s32_min_value'' typedef_s32,
     Field ''s32_max_value'' typedef_s32,
     Field ''u32_min_value'' typedef_u32,
     Field ''u32_max_value'' typedef_u32,
     Field ''id'' typedef_u32,
     Field ''ref_obj_id'' typedef_u32,
     Field ''parent'' CPtr,
     Field ''frameno'' typedef_u32,
     Field ''subreg_def'' typedef_s32,
     Field ''live'' enum_bpf_reg_liveness,
     Field ''precise'' typedef_bool]"

definition struct_bpf_verifier_env :: ctype where
  "struct_bpf_verifier_env = CStruct False
    [Field ''insn_idx'' typedef_u32,
     Field ''prev_insn_idx'' typedef_u32,
     Field ''prog'' CPtr,
     Field ''ops'' CPtr,
     Field ''attach_btf_mod'' CPtr,
     Field ''head'' CPtr,
     Field ''stack_size'' c_int,
     Field ''strict_alignment'' typedef_bool,
     Field ''test_state_freq'' typedef_bool,
     Field ''test_reg_invariants'' typedef_bool,
     Field ''cur_state'' CPtr,
     Field ''explored_states'' CPtr,
     Field ''free_list'' CPtr,
     Field ''used_maps'' (CArray CPtr 64),
     Field ''used_btfs'' (CArray struct_btf_mod_pair 64),
     Field ''used_map_cnt'' typedef_u32,
     Field ''used_btf_cnt'' typedef_u32,
     Field ''id_gen'' typedef_u32,
     Field ''hidden_subprog_cnt'' typedef_u32,
     Field ''exception_callback_subprog'' c_int,
     Field ''explore_alu_limits'' typedef_bool,
     Field ''allow_ptr_leaks'' typedef_bool,
     Field ''allow_uninit_stack'' typedef_bool,
     Field ''bpf_capable'' typedef_bool,
     Field ''bypass_spec_v1'' typedef_bool,
     Field ''bypass_spec_v4'' typedef_bool,
     Field ''seen_direct_write'' typedef_bool,
     Field ''seen_exception'' typedef_bool,
     Field ''insn_aux_data'' CPtr,
     Field ''prev_linfo'' CPtr,
     Field ''log'' struct_bpf_verifier_log,
     Field ''subprog_info'' (CArray struct_bpf_subprog_info 258),
     Field '''' (CUnion [Field ''idmap_scratch'' struct_bpf_idmap,
       Field ''idset_scratch'' struct_bpf_idset]),
     Field ''cfg'' (CStruct False [Field ''insn_state'' CPtr,
       Field ''insn_stack'' CPtr,
       Field ''cur_stack'' c_int]),
     Field ''bt'' struct_backtrack_state,
     Field ''insn_hist'' CPtr,
     Field ''cur_hist_ent'' CPtr,
     Field ''insn_hist_cap'' typedef_u32,
     Field ''pass_cnt'' typedef_u32,
     Field ''subprog_cnt'' typedef_u32,
     Field ''prev_insn_processed'' typedef_u32,
     Field ''insn_processed'' typedef_u32,
     Field ''prev_jmps_processed'' typedef_u32,
     Field ''jmps_processed'' typedef_u32,
     Field ''verification_time'' typedef_u64,
     Field ''max_states_per_insn'' typedef_u32,
     Field ''total_states'' typedef_u32,
     Field ''peak_states'' typedef_u32,
     Field ''longest_mark_read_walk'' typedef_u32,
     Field ''fd_array'' typedef_bpfptr_t,
     Field ''scratched_regs'' typedef_u32,
     Field ''scratched_stack_slots'' typedef_u64,
     Field ''prev_log_pos'' typedef_u64,
     Field ''prev_insn_print_pos'' typedef_u64,
     Field ''fake_reg'' (CArray struct_bpf_reg_state 2),
     Field ''tmp_str_buf'' (CArray c_char 320),
     Field ''insn_buf'' (CArray struct_bpf_insn 32),
     Field ''epilogue_buf'' (CArray struct_bpf_insn 32)]"

subsection \<open>Sizes and alignments\<close>

lemma sa_struct_bpf_ringbuf_hdr [layout_eval]: "sizealign struct_bpf_ringbuf_hdr = (8, 4)"
  by (simp add: struct_bpf_ringbuf_hdr_def layout_eval)

lemma sa_struct_rcuwait [layout_eval]: "sizealign struct_rcuwait = (8, 8)"
  by (simp add: struct_rcuwait_def layout_eval)

lemma sa_struct_irq_work [layout_eval]: "sizealign struct_irq_work = (32, 8)"
  by (simp add: struct_irq_work_def layout_eval)

lemma sa_struct_bpf_ringbuf [layout_eval]: "sizealign struct_bpf_ringbuf = (12288, 8)"
  by (simp add: struct_bpf_ringbuf_def struct_bpf_ringbuf_members_1_def struct_bpf_ringbuf_members_2_def struct_bpf_ringbuf_members_3_def struct_bpf_ringbuf_members_4_def layout_eval)

lemma sa_enum_bpf_map_type [layout_eval]: "sizealign enum_bpf_map_type = (4, 4)"
  by (simp add: enum_bpf_map_type_def layout_eval)

lemma sa_enum_bpf_prog_type [layout_eval]: "sizealign enum_bpf_prog_type = (4, 4)"
  by (simp add: enum_bpf_prog_type_def layout_eval)

lemma sa_struct_bpf_map [layout_eval]: "sizealign struct_bpf_map = (248, 8)"
  by (simp add: struct_bpf_map_def layout_eval)

lemma sa_struct_bpf_ringbuf_map [layout_eval]: "sizealign struct_bpf_ringbuf_map = (256, 8)"
  by (simp add: struct_bpf_ringbuf_map_def layout_eval)

lemma sa_enum_bpf_func_id [layout_eval]: "sizealign enum_bpf_func_id = (4, 4)"
  by (simp add: enum_bpf_func_id_def enum_bpf_func_id_values_1_def enum_bpf_func_id_values_2_def layout_eval)

lemma sa_enum_bpf_attach_type [layout_eval]: "sizealign enum_bpf_attach_type = (4, 4)"
  by (simp add: enum_bpf_attach_type_def layout_eval)

lemma sa_enum_bpf_link_type [layout_eval]: "sizealign enum_bpf_link_type = (4, 4)"
  by (simp add: enum_bpf_link_type_def layout_eval)

lemma sa_enum_bpf_cmd [layout_eval]: "sizealign enum_bpf_cmd = (4, 4)"
  by (simp add: enum_bpf_cmd_def layout_eval)

lemma sa_enum_bpf_arg_type [layout_eval]: "sizealign enum_bpf_arg_type = (4, 4)"
  by (simp add: enum_bpf_arg_type_def layout_eval)

lemma sa_enum_bpf_reg_type [layout_eval]: "sizealign enum_bpf_reg_type = (4, 4)"
  by (simp add: enum_bpf_reg_type_def layout_eval)

lemma sa_enum_bpf_return_type [layout_eval]: "sizealign enum_bpf_return_type = (4, 4)"
  by (simp add: enum_bpf_return_type_def layout_eval)

lemma sa_struct_bpf_insn [layout_eval]: "sizealign struct_bpf_insn = (8, 4)"
  by (simp add: struct_bpf_insn_def layout_eval)

lemma sa_struct_sock_filter [layout_eval]: "sizealign struct_sock_filter = (8, 4)"
  by (simp add: struct_sock_filter_def layout_eval)

lemma sa_struct_bpf_prog [layout_eval]: "sizealign struct_bpf_prog = (72, 8)"
  by (simp add: struct_bpf_prog_def layout_eval)

lemma sa_struct_latch_tree_node [layout_eval]: "sizealign struct_latch_tree_node = (48, 8)"
  by (simp add: struct_latch_tree_node_def layout_eval)

lemma sa_struct_bpf_ksym [layout_eval]: "sizealign struct_bpf_ksym = (600, 8)"
  by (simp add: struct_bpf_ksym_def layout_eval)

lemma sa_struct_bpf_prog_aux [layout_eval]: "sizealign struct_bpf_prog_aux = (1144, 8)"
  by (simp add: struct_bpf_prog_aux_def layout_eval)

lemma sa_struct_bpf_link [layout_eval]: "sizealign struct_bpf_link = (72, 8)"
  by (simp add: struct_bpf_link_def layout_eval)

lemma sa_struct_bpf_map_ops [layout_eval]: "sizealign struct_bpf_map_ops = (344, 8)"
  by (simp add: struct_bpf_map_ops_def layout_eval)

lemma sa_struct_bpf_func_proto [layout_eval]: "sizealign struct_bpf_func_proto = (96, 8)"
  by (simp add: struct_bpf_func_proto_def layout_eval)

lemma sa_union_bpf_attr [layout_eval]: "sizealign union_bpf_attr = (152, 8)"
  by (simp add: union_bpf_attr_def union_bpf_attr_members_1_def union_bpf_attr_members_2_def layout_eval)

lemma sa_struct_bpf_prog_info [layout_eval]: "sizealign struct_bpf_prog_info = (232, 8)"
  by (simp add: struct_bpf_prog_info_def layout_eval)

lemma sa_struct_bpf_map_info [layout_eval]: "sizealign struct_bpf_map_info = (88, 8)"
  by (simp add: struct_bpf_map_info_def layout_eval)

lemma sa_struct_bpf_link_info [layout_eval]: "sizealign struct_bpf_link_info = (64, 8)"
  by (simp add: struct_bpf_link_info_def layout_eval)

lemma sa_struct_btf_mod_pair [layout_eval]: "sizealign struct_btf_mod_pair = (16, 8)"
  by (simp add: struct_btf_mod_pair_def layout_eval)

lemma sa_struct_bpf_verifier_log [layout_eval]: "sizealign struct_bpf_verifier_log = (1064, 8)"
  by (simp add: struct_bpf_verifier_log_def layout_eval)

lemma sa_enum_priv_stack_mode [layout_eval]: "sizealign enum_priv_stack_mode = (4, 4)"
  by (simp add: enum_priv_stack_mode_def layout_eval)

lemma sa_struct_bpf_subprog_arg_info [layout_eval]: "sizealign struct_bpf_subprog_arg_info = (8, 4)"
  by (simp add: struct_bpf_subprog_arg_info_def layout_eval)

lemma sa_struct_bpf_subprog_info [layout_eval]: "sizealign struct_bpf_subprog_info = (64, 4)"
  by (simp add: struct_bpf_subprog_info_def layout_eval)

lemma sa_struct_bpf_id_pair [layout_eval]: "sizealign struct_bpf_id_pair = (8, 4)"
  by (simp add: struct_bpf_id_pair_def layout_eval)

lemma sa_struct_bpf_idmap [layout_eval]: "sizealign struct_bpf_idmap = (4804, 4)"
  by (simp add: struct_bpf_idmap_def layout_eval)

lemma sa_struct_bpf_idset [layout_eval]: "sizealign struct_bpf_idset = (2404, 4)"
  by (simp add: struct_bpf_idset_def layout_eval)

lemma sa_struct_backtrack_state [layout_eval]: "sizealign struct_backtrack_state = (112, 8)"
  by (simp add: struct_backtrack_state_def layout_eval)

lemma sa_typedef_sockptr_t [layout_eval]: "sizealign typedef_sockptr_t = (16, 8)"
  by (simp add: typedef_sockptr_t_def layout_eval)

lemma sa_typedef_bpfptr_t [layout_eval]: "sizealign typedef_bpfptr_t = (16, 8)"
  by (simp add: typedef_bpfptr_t_def layout_eval)

lemma sa_enum_bpf_dynptr_type [layout_eval]: "sizealign enum_bpf_dynptr_type = (4, 4)"
  by (simp add: enum_bpf_dynptr_type_def layout_eval)

lemma sa_enum_bpf_iter_state [layout_eval]: "sizealign enum_bpf_iter_state = (4, 4)"
  by (simp add: enum_bpf_iter_state_def layout_eval)

lemma sa_struct_tnum [layout_eval]: "sizealign struct_tnum = (16, 8)"
  by (simp add: struct_tnum_def layout_eval)

lemma sa_enum_bpf_reg_liveness [layout_eval]: "sizealign enum_bpf_reg_liveness = (4, 4)"
  by (simp add: enum_bpf_reg_liveness_def layout_eval)

lemma sa_struct_bpf_reg_state [layout_eval]: "sizealign struct_bpf_reg_state = (120, 8)"
  by (simp add: struct_bpf_reg_state_def layout_eval)

lemma sa_struct_bpf_verifier_env [layout_eval]: "sizealign struct_bpf_verifier_env = (25368, 8)"
  by (simp add: struct_bpf_verifier_env_def layout_eval)

end
