(* ===== verification/Ebpf_Probe.thy ===== *)
theory Ebpf_Probe
  imports Event_Types Kernel_Bpf
begin

text \<open>
  The kernel side (\<^verbatim>\<open>agent/ebpf/deepkernel.bpf.c\<close>): the syscall classifier and the tracepoint
  handler. The BPF helpers are code of the kernel and parameters of the model
  (\<open>bpf_helpers\<close>); the context and the reserved ring-buffer slot are raw memory, read and
  written through the layouts of \<^verbatim>\<open>vmlinux.h\<close> and of \<^verbatim>\<open>struct dk_syscall_event_t\<close>.
\<close>

subsection \<open>Argument classes\<close>

definition ARG_CLASS_OTHER :: u8 where "ARG_CLASS_OTHER = 0"
definition ARG_CLASS_FILE :: u8 where "ARG_CLASS_FILE = 1"
definition ARG_CLASS_NET :: u8 where "ARG_CLASS_NET = 2"
definition ARG_CLASS_PROC :: u8 where "ARG_CLASS_PROC = 3"
definition ARG_CLASS_MEM :: u8 where "ARG_CLASS_MEM = 4"

lemmas arg_class_defs = ARG_CLASS_OTHER_def ARG_CLASS_FILE_def ARG_CLASS_NET_def
  ARG_CLASS_PROC_def ARG_CLASS_MEM_def

definition classify_arg_class :: "int \<Rightarrow> u8" where
  "classify_arg_class syscall_id =
     (if syscall_id \<in> {0, 1, 2, 3, 4, 5, 6, 7, 8, 16, 17, 18, 19, 20, 21, 22, 23, 32, 33, 72,
           73, 74, 75, 76, 77, 78, 79, 80, 81, 82, 83, 84, 85, 86, 87, 88, 89, 90, 91, 92,
           93, 94, 95, 162, 213, 217, 232, 233, 253, 254, 255} \<or>
         (257 \<le> syscall_id \<and> syscall_id \<le> 270) \<or>
         syscall_id \<in> {281, 283, 284, 286, 287, 290, 291, 292, 293, 294, 306, 316, 332, 425, 426, 427, 441}
      then ARG_CLASS_FILE
      else if (41 \<le> syscall_id \<and> syscall_id \<le> 55) \<or>
         syscall_id \<in> {288, 299, 307}
      then ARG_CLASS_NET
      else if syscall_id \<in> {13, 14, 15, 24, 39, 56, 57, 58, 59, 60, 61, 62, 101, 102, 104, 105, 106, 107, 108, 109,
           110, 112, 113, 114, 121, 124, 125, 126, 131, 133, 157, 158, 186, 200, 203, 204, 231, 234, 247, 272,
           308, 322, 435}
      then ARG_CLASS_PROC
      else if syscall_id \<in> {9, 10, 11, 12, 25, 26, 27, 28, 29, 30, 31, 67, 149, 150, 151, 152, 202, 218, 319, 324,
           325, 440, 449}
      then ARG_CLASS_MEM
      else ARG_CLASS_OTHER)"

text \<open>
  The table in the comments of the classifier: the x86-64 syscalls it assigns to each class,
  by name and number.
\<close>

definition documented_file :: "(string \<times> int) list" where
  "documented_file =
    [(''read'', 0), (''write'', 1), (''open'', 2), (''close'', 3), (''stat'', 4),
     (''fstat'', 5), (''lstat'', 6), (''poll'', 7), (''lseek'', 8), (''select'', 23),
     (''pselect6'', 270), (''pread64'', 17), (''pwrite64'', 18), (''readv'', 19), (''writev'', 20),
     (''access'', 21), (''pipe'', 22), (''pipe2'', 293), (''dup'', 32), (''dup2'', 33),
     (''dup3'', 292), (''fcntl'', 72), (''flock'', 73), (''ioctl'', 16), (''fsync'', 74),
     (''fdatasync'', 75), (''sync'', 162), (''syncfs'', 306), (''truncate'', 76), (''ftruncate'', 77),
     (''getdents'', 78), (''getdents64'', 217), (''getcwd'', 79), (''chdir'', 80), (''fchdir'', 81),
     (''rename'', 82), (''mkdir'', 83), (''rmdir'', 84), (''creat'', 85), (''link'', 86),
     (''unlink'', 87), (''symlink'', 88), (''readlink'', 89), (''chmod'', 90), (''fchmod'', 91),
     (''chown'', 92), (''fchown'', 93), (''lchown'', 94), (''umask'', 95), (''epoll_create'', 213),
     (''epoll_ctl'', 233), (''epoll_wait'', 232), (''epoll_pwait'', 281), (''epoll_create1'', 291), (''epoll_pwait2'', 441),
     (''inotify_init'', 253), (''inotify_add_watch'', 254), (''inotify_rm_watch'', 255), (''inotify_init1'', 294), (''openat'', 257),
     (''mkdirat'', 258), (''mknodat'', 259), (''fchownat'', 260), (''futimesat'', 261), (''newfstatat'', 262),
     (''unlinkat'', 263), (''renameat'', 264), (''linkat'', 265), (''symlinkat'', 266), (''readlinkat'', 267),
     (''fchmodat'', 268), (''faccessat'', 269), (''renameat2'', 316), (''statx'', 332), (''eventfd'', 284),
     (''eventfd2'', 290), (''timerfd_create'', 283), (''timerfd_settime'', 286), (''timerfd_gettime'', 287), (''io_uring_setup'', 425),
     (''io_uring_enter'', 426), (''io_uring_register'', 427)]"

definition documented_net :: "(string \<times> int) list" where
  "documented_net =
    [(''socket'', 41), (''connect'', 42), (''accept'', 43), (''sendto'', 44), (''recvfrom'', 45),
     (''sendmsg'', 46), (''recvmsg'', 47), (''shutdown'', 48), (''bind'', 49), (''listen'', 50),
     (''getsockname'', 51), (''getpeername'', 52), (''socketpair'', 53), (''setsockopt'', 54), (''getsockopt'', 55),
     (''accept4'', 288), (''recvmmsg'', 299), (''sendmmsg'', 307)]"

definition documented_proc :: "(string \<times> int) list" where
  "documented_proc =
    [(''clone'', 56), (''fork'', 57), (''vfork'', 58), (''execve'', 59), (''clone3'', 435),
     (''execveat'', 322), (''exit'', 60), (''exit_group'', 231), (''wait4'', 61), (''waitid'', 247),
     (''kill'', 62), (''tkill'', 200), (''tgkill'', 234), (''rt_sigaction'', 13), (''rt_sigprocmask'', 14),
     (''rt_sigreturn'', 15), (''sigaltstack'', 131), (''rt_sigsuspend'', 133), (''getpid'', 39), (''gettid'', 186),
     (''getppid'', 110), (''getpgid'', 121), (''setpgid'', 109), (''getsid'', 124), (''setsid'', 112),
     (''getuid'', 102), (''geteuid'', 107), (''getgid'', 104), (''getegid'', 108), (''setuid'', 105),
     (''setgid'', 106), (''setreuid'', 113), (''setregid'', 114), (''prctl'', 157), (''ptrace'', 101),
     (''arch_prctl'', 158), (''sched_yield'', 24), (''sched_getaffinity'', 204), (''sched_setaffinity'', 203), (''capget'', 125),
     (''capset'', 126), (''unshare'', 272), (''setns'', 308)]"

definition documented_mem :: "(string \<times> int) list" where
  "documented_mem =
    [(''mmap'', 9), (''mprotect'', 10), (''munmap'', 11), (''brk'', 12), (''mremap'', 25),
     (''msync'', 26), (''mincore'', 27), (''madvise'', 28), (''shmget'', 29), (''shmat'', 30),
     (''shmctl'', 31), (''shmdt'', 67), (''mlock'', 149), (''munlock'', 150), (''mlockall'', 151),
     (''munlockall'', 152), (''mlock2'', 325), (''memfd_create'', 319), (''membarrier'', 324), (''process_madvise'', 440),
     (''futex'', 202), (''futex_waitv'', 449), (''set_tid_address'', 218)]"

subsection \<open>The event and its slot\<close>

definition c_dk_syscall_event_t :: ctype where
  "c_dk_syscall_event_t = CStruct False
    [Field ''ts_ns'' typedef___u64, Field ''pid'' typedef___u32, Field ''tid'' typedef___u32,
     Field ''cgroup_id'' typedef___u32, Field ''syscall_id'' typedef___u16,
     Field ''arg_class'' typedef___u8, Field ''arg_bucket'' typedef___u8]"

text \<open>The map declaration \<^verbatim>\<open>events\<close>: its type and its size in bytes.\<close>

definition events_map_type :: string where "events_map_type = ''BPF_MAP_TYPE_RINGBUF''"
definition events_max_entries :: nat where "events_max_entries = 256 * 1024"

record bpf_helpers =
  bpf_get_current_pid_tgid :: u64
  bpf_ringbuf_reserve :: "nat \<Rightarrow> bytes option"  \<comment> \<open>a slot of that size with arbitrary contents, or NULL\<close>
  bpf_ktime_get_ns :: u64
  bpf_get_current_cgroup_id :: u64

text \<open>
  The handler: the first argument is what the helpers return during this call, \<open>ctx\<close> the
  memory of the tracepoint context, \<open>submitted\<close> the slots submitted so far. The stores into
  the slot are made in the order of the code.
\<close>

definition handle_sys_enter :: "bpf_helpers \<Rightarrow> bytes \<Rightarrow> bytes list \<Rightarrow> int \<times> bytes list" where
  "handle_sys_enter h ctx submitted =
     (let pid_tgid = bpf_get_current_pid_tgid h in
      case bpf_ringbuf_reserve h (c_sizeof c_dk_syscall_event_t) of
        None \<Rightarrow> (0, submitted)
      | Some evt \<Rightarrow>
          let i = (le_word (member_bytes struct_trace_event_raw_sys_enter ''id'' ctx) :: 64 word);
              evt = set_member c_dk_syscall_event_t ''ts_ns'' (le_bytes 8 (bpf_ktime_get_ns h)) evt;
              evt = set_member c_dk_syscall_event_t ''pid'' (le_bytes 4 (ucast (drop_bit 32 pid_tgid) :: u32)) evt;
              evt = set_member c_dk_syscall_event_t ''tid'' (le_bytes 4 (ucast (pid_tgid AND 0xFFFFFFFF) :: u32)) evt;
              evt = set_member c_dk_syscall_event_t ''cgroup_id'' (le_bytes 4 (ucast (bpf_get_current_cgroup_id h) :: u32)) evt;
              evt = set_member c_dk_syscall_event_t ''syscall_id'' (le_bytes 2 (ucast i :: u16)) evt;
              evt = set_member c_dk_syscall_event_t ''arg_class'' (le_bytes 1 (classify_arg_class (sint i))) evt;
              evt = set_member c_dk_syscall_event_t ''arg_bucket'' (le_bytes 1 (0 :: u8)) evt
          in (0, submitted @ [evt]))"

subsection \<open>Layout facts\<close>

lemma layout_dk_syscall_event_t:
  "map (\<lambda>(f, b, t). (f, b div 8, c_sizeof t)) (layout c_dk_syscall_event_t) =
     [(''ts_ns'', 0, 8), (''pid'', 8, 4), (''tid'', 12, 4), (''cgroup_id'', 16, 4),
      (''syscall_id'', 20, 2), (''arg_class'', 22, 1), (''arg_bucket'', 23, 1)]"
  by (simp add: c_dk_syscall_event_t_def c_sizeof_def layout_eval)

lemma sizeof_dk_syscall_event_t: "sizealign c_dk_syscall_event_t = (24, 8)"
  by (simp add: c_dk_syscall_event_t_def layout_eval)

lemma set_member_dk [wire_simps]:
  "set_member c_dk_syscall_event_t ''ts_ns'' v bs = take 8 v @ drop 8 bs"
  "set_member c_dk_syscall_event_t ''pid'' v bs = take 8 bs @ take 4 v @ drop 12 bs"
  "set_member c_dk_syscall_event_t ''tid'' v bs = take 12 bs @ take 4 v @ drop 16 bs"
  "set_member c_dk_syscall_event_t ''cgroup_id'' v bs = take 16 bs @ take 4 v @ drop 20 bs"
  "set_member c_dk_syscall_event_t ''syscall_id'' v bs = take 20 bs @ take 2 v @ drop 22 bs"
  "set_member c_dk_syscall_event_t ''arg_class'' v bs = take 22 bs @ take 1 v @ drop 23 bs"
  "set_member c_dk_syscall_event_t ''arg_bucket'' v bs = take 23 bs @ take 1 v @ drop 24 bs"
  by (simp_all add: set_member_def c_dk_syscall_event_t_def c_sizeof_def layout_eval)

lemma ctx_id_bytes [wire_simps]:
  "member_bytes struct_trace_event_raw_sys_enter ''id'' ctx = take 8 (drop 8 ctx)"
  by (simp add: member_bytes_def struct_trace_event_raw_sys_enter_def c_sizeof_def layout_eval)

subsection \<open>The classifier\<close>

lemma documented_file_class: "list_all (\<lambda>(s, n). classify_arg_class n = ARG_CLASS_FILE) documented_file"
  by (simp add: documented_file_def classify_arg_class_def)

lemma documented_net_class: "list_all (\<lambda>(s, n). classify_arg_class n = ARG_CLASS_NET) documented_net"
  by (simp add: documented_net_def classify_arg_class_def)

lemma documented_proc_class: "list_all (\<lambda>(s, n). classify_arg_class n = ARG_CLASS_PROC) documented_proc"
  by (simp add: documented_proc_def classify_arg_class_def)

lemma documented_mem_class: "list_all (\<lambda>(s, n). classify_arg_class n = ARG_CLASS_MEM) documented_mem"
  by (simp add: documented_mem_def classify_arg_class_def)

lemma list_all_snd: "list_all (\<lambda>(s, n). P n) xs \<Longrightarrow> n \<in> snd ` set xs \<Longrightarrow> P n"
  by (auto simp: list_all_iff)

lemma arg_class_distinct:
  "distinct [ARG_CLASS_FILE, ARG_CLASS_NET, ARG_CLASS_PROC, ARG_CLASS_MEM, ARG_CLASS_OTHER]"
  by (simp add: arg_class_defs)

lemma range_at_syscalls:
  "257 \<le> n \<Longrightarrow> n \<le> 270 \<Longrightarrow>
     n \<in> {257, 258, 259, 260, 261, 262, 263, 264, 265, 266, 267, 268, 269, 270 :: int}"
  by (simp; presburger)

lemma range_socket_syscalls:
  "41 \<le> n \<Longrightarrow> n \<le> 55 \<Longrightarrow>
     n \<in> {41, 42, 43, 44, 45, 46, 47, 48, 49, 50, 51, 52, 53, 54, 55 :: int}"
  by (simp; presburger)

lemma ranges_documented:
  "{257, 258, 259, 260, 261, 262, 263, 264, 265, 266, 267, 268, 269, 270} \<subseteq> snd ` set documented_file"
  "{41, 42, 43, 44, 45, 46, 47, 48, 49, 50, 51, 52, 53, 54, 55} \<subseteq> snd ` set documented_net"
  by (simp_all add: documented_file_def documented_net_def)

lemma not_documented_class:
  "n \<notin> snd ` set documented_file \<Longrightarrow> classify_arg_class n \<noteq> ARG_CLASS_FILE"
  "n \<notin> snd ` set documented_net \<Longrightarrow> classify_arg_class n \<noteq> ARG_CLASS_NET"
  "n \<notin> snd ` set documented_proc \<Longrightarrow> classify_arg_class n \<noteq> ARG_CLASS_PROC"
  "n \<notin> snd ` set documented_mem \<Longrightarrow> classify_arg_class n \<noteq> ARG_CLASS_MEM"
proof -
  assume n: "n \<notin> snd ` set documented_file"
  then have "\<not> (257 \<le> n \<and> n \<le> 270)"
    using range_at_syscalls [of n] ranges_documented(1) by blast
  with n show "classify_arg_class n \<noteq> ARG_CLASS_FILE"
    by (simp add: classify_arg_class_def arg_class_defs documented_file_def)
next
  assume n: "n \<notin> snd ` set documented_net"
  then have "\<not> (41 \<le> n \<and> n \<le> 55)"
    using range_socket_syscalls [of n] ranges_documented(2) by blast
  with n show "classify_arg_class n \<noteq> ARG_CLASS_NET"
    by (simp add: classify_arg_class_def arg_class_defs documented_net_def)
next
  assume "n \<notin> snd ` set documented_proc"
  then show "classify_arg_class n \<noteq> ARG_CLASS_PROC"
    by (simp add: classify_arg_class_def arg_class_defs documented_proc_def)
next
  assume "n \<notin> snd ` set documented_mem"
  then show "classify_arg_class n \<noteq> ARG_CLASS_MEM"
    by (simp add: classify_arg_class_def arg_class_defs documented_mem_def)
qed

text \<open>
  C27: The classifier computes the table its comments document: a syscall number is put in the
  class FILE, NET, PROC or MEM exactly when the comments list it there (so the four lists are
  disjoint), and every other number, negative ones included, is OTHER.
\<close>

theorem classify_matches_documentation:
  "(classify_arg_class n = ARG_CLASS_FILE \<longleftrightarrow> n \<in> snd ` set documented_file) \<and>
   (classify_arg_class n = ARG_CLASS_NET \<longleftrightarrow> n \<in> snd ` set documented_net) \<and>
   (classify_arg_class n = ARG_CLASS_PROC \<longleftrightarrow> n \<in> snd ` set documented_proc) \<and>
   (classify_arg_class n = ARG_CLASS_MEM \<longleftrightarrow> n \<in> snd ` set documented_mem) \<and>
   (classify_arg_class n = ARG_CLASS_OTHER \<longleftrightarrow>
      n \<notin> snd ` set (documented_file @ documented_net @ documented_proc @ documented_mem))"
proof -
  have "classify_arg_class n \<in> {ARG_CLASS_FILE, ARG_CLASS_NET, ARG_CLASS_PROC, ARG_CLASS_MEM, ARG_CLASS_OTHER}"
    by (simp add: classify_arg_class_def)
  moreover have "n \<in> snd ` set documented_file \<Longrightarrow> classify_arg_class n = ARG_CLASS_FILE"
    by (rule list_all_snd [OF documented_file_class])
  moreover have "n \<in> snd ` set documented_net \<Longrightarrow> classify_arg_class n = ARG_CLASS_NET"
    by (rule list_all_snd [OF documented_net_class])
  moreover have "n \<in> snd ` set documented_proc \<Longrightarrow> classify_arg_class n = ARG_CLASS_PROC"
    by (rule list_all_snd [OF documented_proc_class])
  moreover have "n \<in> snd ` set documented_mem \<Longrightarrow> classify_arg_class n = ARG_CLASS_MEM"
    by (rule list_all_snd [OF documented_mem_class])
  ultimately show ?thesis
    using not_documented_class [of n] arg_class_distinct
    unfolding set_append image_Un by (metis Un_iff insert_iff singletonD distinct_length_2_or_more)
qed

subsection \<open>The handler\<close>

definition probe_event :: "bpf_helpers \<Rightarrow> 64 word \<Rightarrow> KernelSyscallEvent" where
  "probe_event h i =
     \<lparr>k_ts_ns = bpf_ktime_get_ns h,
      k_pid = ucast (drop_bit 32 (bpf_get_current_pid_tgid h)),
      k_tid = ucast (bpf_get_current_pid_tgid h),
      k_cgroup_id = ucast (bpf_get_current_cgroup_id h),
      k_syscall_id = ucast i,
      k_arg_class = classify_arg_class (sint i),
      k_arg_bucket = 0\<rparr>"

lemma low_half: "(ucast (w AND 0xFFFFFFFF :: u64) :: u32) = ucast w"
proof -
  have "w AND 0xFFFFFFFF = take_bit 32 w"
    by (simp add: take_bit_eq_mask mask_eq_exp_minus_1)
  then show ?thesis
    by (simp only:) (rule bit_word_eqI, simp add: bit_unsigned_iff bit_take_bit_iff)
qed

text \<open>Seven stores overwrite every byte of a 24-byte slot.\<close>

lemma slot_pieces:
  assumes "length (evt :: bytes) = 24"
  obtains a b c d e f g where "evt = a @ b @ c @ d @ e @ f @ g" "length a = 8" "length b = 4"
    "length c = 4" "length d = 4" "length e = 2" "length f = 1" "length g = 1"
proof
  have step: "take n (drop m evt) @ drop (n + m) evt = drop m evt" for n m
    by (metis append_take_drop_id drop_drop)
  show "evt = take 8 evt @ take 4 (drop 8 evt) @ take 4 (drop 12 evt) @ take 4 (drop 16 evt) @
      take 2 (drop 20 evt) @ take 1 (drop 22 evt) @ drop 23 evt"
    using step [of 1 22] step [of 2 20] step [of 4 16] step [of 4 12] step [of 4 8] by simp
qed (use assms in simp_all)

lemma set_member_pieces:
  "length a = 8 \<Longrightarrow> length v = 8 \<Longrightarrow> set_member c_dk_syscall_event_t ''ts_ns'' v (a @ r) = v @ r"
  "length a = 8 \<Longrightarrow> length b = 4 \<Longrightarrow> length v = 4 \<Longrightarrow>
     set_member c_dk_syscall_event_t ''pid'' v (a @ b @ r) = a @ v @ r"
  "length a = 8 \<Longrightarrow> length b = 4 \<Longrightarrow> length c = 4 \<Longrightarrow> length v = 4 \<Longrightarrow>
     set_member c_dk_syscall_event_t ''tid'' v (a @ b @ c @ r) = a @ b @ v @ r"
  "length a = 8 \<Longrightarrow> length b = 4 \<Longrightarrow> length c = 4 \<Longrightarrow> length d = 4 \<Longrightarrow> length v = 4 \<Longrightarrow>
     set_member c_dk_syscall_event_t ''cgroup_id'' v (a @ b @ c @ d @ r) = a @ b @ c @ v @ r"
  "length a = 8 \<Longrightarrow> length b = 4 \<Longrightarrow> length c = 4 \<Longrightarrow> length d = 4 \<Longrightarrow> length e = 2 \<Longrightarrow> length v = 2 \<Longrightarrow>
     set_member c_dk_syscall_event_t ''syscall_id'' v (a @ b @ c @ d @ e @ r) = a @ b @ c @ d @ v @ r"
  "length a = 8 \<Longrightarrow> length b = 4 \<Longrightarrow> length c = 4 \<Longrightarrow> length d = 4 \<Longrightarrow> length e = 2 \<Longrightarrow> length f = 1 \<Longrightarrow>
     length v = 1 \<Longrightarrow>
     set_member c_dk_syscall_event_t ''arg_class'' v (a @ b @ c @ d @ e @ f @ r) = a @ b @ c @ d @ e @ v @ r"
  "length a = 8 \<Longrightarrow> length b = 4 \<Longrightarrow> length c = 4 \<Longrightarrow> length d = 4 \<Longrightarrow> length e = 2 \<Longrightarrow> length f = 1 \<Longrightarrow>
     length g = 1 \<Longrightarrow> length v = 1 \<Longrightarrow>
     set_member c_dk_syscall_event_t ''arg_bucket'' v (a @ b @ c @ d @ e @ f @ g) = a @ b @ c @ d @ e @ f @ v"
  by (simp_all add: set_member_dk)

lemma handle_sys_enter_slot:
  assumes "bpf_ringbuf_reserve h 24 = Some evt" "length evt = 24"
    and "i = le_word (take 8 (drop 8 ctx))"
  shows "handle_sys_enter h ctx submitted =
    (0, submitted @ [KernelSyscallEvent_enc (probe_event h i)])"
proof -
  obtain a b c d e f g where "evt = a @ b @ c @ d @ e @ f @ g" "length a = 8" "length b = 4"
    "length c = 4" "length d = 4" "length e = 2" "length f = 1" "length g = 1"
    using slot_pieces [OF assms(2)] .
  then show ?thesis
    using assms(1,3)
    by (simp add: handle_sys_enter_def c_sizeof_def sizeof_dk_syscall_event_t ctx_id_bytes
        set_member_pieces Let_def KernelSyscallEvent_enc_def probe_event_def low_half)
qed

subsection \<open>Properties of the handler\<close>

text \<open>C26: Per system call the probe submits exactly one record, whose 24 bytes decode to the time, the
  process and thread id, the cgroup id, the system call number and its documented class, with
  bucket 0; the record does not depend on what the reserved slot held before, so no kernel
  memory leaks to user space. When no slot can be reserved, nothing is submitted. Both ways the
  program returns 0.\<close>

theorem probe_record:
  assumes "case bpf_ringbuf_reserve h 24 of None \<Rightarrow> True | Some slot \<Rightarrow> length slot = 24"
    and "i = le_word (member_bytes struct_trace_event_raw_sys_enter ''id'' ctx)"
  shows "handle_sys_enter h ctx submitted =
      (0, submitted @ (case bpf_ringbuf_reserve h 24 of None \<Rightarrow> [] | Some slot \<Rightarrow> [KernelSyscallEvent_enc (probe_event h i)])) \<and>
    length (KernelSyscallEvent_enc (probe_event h i)) = 24 \<and>
    KernelSyscallEvent_dec (KernelSyscallEvent_enc (probe_event h i)) = probe_event h i"
proof (cases "bpf_ringbuf_reserve h 24")
  case None
  then show ?thesis
    by (simp add: handle_sys_enter_def c_sizeof_def sizeof_dk_syscall_event_t
        kernel_event.dec_enc kernel_event.enc_length)
next
  case (Some slot)
  with assms show ?thesis
    by (simp add: handle_sys_enter_slot ctx_id_bytes kernel_event.dec_enc kernel_event.enc_length)
qed

definition sample_helpers :: bpf_helpers where
  "sample_helpers = \<lparr>bpf_get_current_pid_tgid = 0x0000002A0000002B, bpf_ringbuf_reserve = (\<lambda>n. Some (replicate n 0xFF)),
     bpf_ktime_get_ns = 5000, bpf_get_current_cgroup_id = 9\<rparr>"

theorem probe_record_witness:
  "snd (handle_sys_enter sample_helpers (replicate 8 0 @ [42, 0, 0, 0, 0, 0, 0, 0] @ replicate 48 0) []) =
     [KernelSyscallEvent_enc (probe_event sample_helpers 42)]"
proof -
  let ?ctx = "replicate 8 0 @ [42, 0, 0, 0, 0, 0, 0, 0] @ replicate 48 (0 :: u8)"
  have "(42 :: 64 word) = le_word (member_bytes struct_trace_event_raw_sys_enter ''id'' ?ctx)"
    by (simp add: ctx_id_bytes)
  from probe_record [of sample_helpers 42 ?ctx "[]"] this show ?thesis
    by (simp add: sample_helpers_def)
qed

text \<open>The identities in an event: process id and thread id are the two halves of what the kernel
  reports and determine it; of the 64-bit cgroup id only the value modulo two to the 32 is kept,
  so two cgroups are confused exactly when their ids agree modulo that; the system call number
  is kept modulo two to the 16.\<close>

theorem probe_identities:
  "unat (k_pid (probe_event h i)) * 2 ^ 32 + unat (k_tid (probe_event h i)) = unat (bpf_get_current_pid_tgid h) \<and>
   unat (k_cgroup_id (probe_event h i)) = unat (bpf_get_current_cgroup_id h) mod 2 ^ 32 \<and>
   unat (k_syscall_id (probe_event h i)) = unat i mod 2 ^ 16"
proof -
  let ?w = "bpf_get_current_pid_tgid h"
  have "unat ?w < 2 ^ 64" using unsigned_less [of ?w] by simp
  then have lt: "unat ?w div 2 ^ 32 < 2 ^ 32" by (simp add: less_mult_imp_div_less)
  have "unat (ucast (drop_bit 32 ?w) :: u32) = unat ?w div 2 ^ 32"
    using lt by (simp add: unsigned_ucast_eq take_bit_eq_mod drop_bit_eq_div unat_div)
  moreover have "unat (ucast ?w :: u32) = unat ?w mod 2 ^ 32"
    by (simp add: unsigned_ucast_eq take_bit_eq_mod)
  moreover have "unat (ucast (bpf_get_current_cgroup_id h) :: u32) = unat (bpf_get_current_cgroup_id h) mod 2 ^ 32"
    "unat (ucast i :: u16) = unat i mod 2 ^ 16"
    by (simp_all add: unsigned_ucast_eq take_bit_eq_mod)
  ultimately show ?thesis
    by (simp add: probe_event_def)
qed

end
