(* ===== verification/Kernel_Abi.thy ===== *)
theory Kernel_Abi
  imports Ebpf_Probe
begin

text \<open>
  What the probe and the agent rely on in the kernel's declarations (\<^verbatim>\<open>agent/ebpf/vmlinux.h\<close>):
  the tracepoint context, the ring buffer pages shared with user space, the numbers of the map
  type and of the helpers, and the soundness of the layout of the record types.
\<close>


text \<open>The tracepoint context the probe reads: the syscall number is the 8-byte member at offset 8,
  its six arguments follow at offset 16 and fill the record up to its 64 bytes.\<close>

lemma tracepoint_context_layout:
  "c_offsetof struct_trace_event_raw_sys_enter ''id'' = Some 8 \<and>
   c_offsetof struct_trace_event_raw_sys_enter ''args'' = Some 16 \<and>
   c_sizeof struct_trace_event_raw_sys_enter = 64"
  by (simp add: struct_trace_event_raw_sys_enter_def c_offsetof_def c_sizeof_def layout_eval)

lemma ringbuf_names:
  "''consumer_pos'' \<notin> set (map member_name struct_bpf_ringbuf_members_1)"
  "''producer_pos'' \<notin> set (map member_name (struct_bpf_ringbuf_members_1 @ struct_bpf_ringbuf_members_2))"
  "''data'' \<notin> set (map member_name (struct_bpf_ringbuf_members_1 @ struct_bpf_ringbuf_members_2 @ struct_bpf_ringbuf_members_3))"
  by (simp_all add: struct_bpf_ringbuf_members_1_def struct_bpf_ringbuf_members_2_def struct_bpf_ringbuf_members_3_def)

lemma ringbuf_ends:
  "struct_end False 0 (map shape_of struct_bpf_ringbuf_members_1) = 8 * 4096"
  "struct_end False (8 * 4096) (map shape_of struct_bpf_ringbuf_members_2) = 8 * 8192"
  "struct_end False (8 * 8192) (map shape_of struct_bpf_ringbuf_members_3) = 8 * 12288"
  by (simp_all add: struct_bpf_ringbuf_members_1_def struct_bpf_ringbuf_members_2_def
      struct_bpf_ringbuf_members_3_def layout_eval)

text \<open>The ring buffer's consumer position, its producer position and its data start on three
  different 4096-byte pages, the second, third and fourth of the record, so that user space can
  map the first writable and the others read-only.\<close>

lemma ringbuf_page_layout:
  "c_offsetof struct_bpf_ringbuf ''consumer_pos'' = Some 4096 \<and>
   c_offsetof struct_bpf_ringbuf ''producer_pos'' = Some 8192 \<and>
   c_offsetof struct_bpf_ringbuf ''data'' = Some 12288"
proof -
  let ?m1 = struct_bpf_ringbuf_members_1 and ?m2 = struct_bpf_ringbuf_members_2
    and ?m3 = struct_bpf_ringbuf_members_3 and ?m4 = struct_bpf_ringbuf_members_4
  have c: "c_offsetof (CStruct False (?m1 @ ?m2 @ ?m3 @ ?m4)) ''consumer_pos'' = Some 4096"
    using c_offsetof_append [OF ringbuf_names(1), of "Field ''consumer_pos'' c_ulong" False] ringbuf_ends(1)
    by (simp add: struct_bpf_ringbuf_members_2_def align_up_def)
  have p: "c_offsetof (CStruct False (?m1 @ ?m2 @ ?m3 @ ?m4)) ''producer_pos'' = Some 8192"
    using c_offsetof_append [OF ringbuf_names(2), of "Field ''producer_pos'' c_ulong" False] ringbuf_ends(1,2)
    by (simp add: struct_bpf_ringbuf_members_3_def align_up_def struct_end_append)
  have d: "c_offsetof (CStruct False (?m1 @ ?m2 @ ?m3 @ ?m4)) ''data'' = Some 12288"
    using c_offsetof_append [OF ringbuf_names(3), of "Field ''data'' (CArray c_char 0)" False "[]"] ringbuf_ends
    by (simp add: struct_bpf_ringbuf_members_4_def align_up_def struct_end_append)
  show ?thesis unfolding struct_bpf_ringbuf_def using c p d by simp
qed

lemma ringbuf_map_type: "enum_value enum_bpf_map_type events_map_type = Some 27"
  by code_simp

lemma helper_id_ktime_get_ns: "enum_value enum_bpf_func_id ''BPF_FUNC_ktime_get_ns'' = Some 5"
  by code_simp

lemma helper_id_get_current_pid_tgid: "enum_value enum_bpf_func_id ''BPF_FUNC_get_current_pid_tgid'' = Some 14"
  by code_simp

lemma helper_id_get_current_cgroup_id: "enum_value enum_bpf_func_id ''BPF_FUNC_get_current_cgroup_id'' = Some 80"
  by code_simp

lemma helper_id_ringbuf_reserve: "enum_value enum_bpf_func_id ''BPF_FUNC_ringbuf_reserve'' = Some 131"
  by code_simp

lemma helper_id_ringbuf_submit: "enum_value enum_bpf_func_id ''BPF_FUNC_ringbuf_submit'' = Some 132"
  by code_simp

lemmas probe_helper_ids = helper_id_ktime_get_ns helper_id_get_current_pid_tgid helper_id_get_current_cgroup_id helper_id_ringbuf_reserve helper_id_ringbuf_submit

text \<open>The event map is declared with the ring buffer map type, number 27; the five helpers the
  probe calls have the numbers of the kernel's table; and the map's size is a power of two and
  a multiple of the page size, as the kernel demands of a ring buffer, with room for 8192
  events of 24 bytes with their 8-byte headers.\<close>

theorem events_map_abi:
  "enum_value enum_bpf_map_type events_map_type = Some 27 \<and>
   map (enum_value enum_bpf_func_id)
     [''BPF_FUNC_ktime_get_ns'', ''BPF_FUNC_get_current_pid_tgid'', ''BPF_FUNC_get_current_cgroup_id'',
      ''BPF_FUNC_ringbuf_reserve'', ''BPF_FUNC_ringbuf_submit''] = [Some 5, Some 14, Some 80, Some 131, Some 132] \<and>
   events_max_entries = 2 ^ 18 \<and> 4096 dvd events_max_entries \<and>
   events_max_entries div (c_sizeof struct_bpf_ringbuf_hdr + c_sizeof c_dk_syscall_event_t) = 8192"
  by (simp add: ringbuf_map_type probe_helper_ids events_max_entries_def c_sizeof_def
      sa_struct_bpf_ringbuf_hdr sizeof_dk_syscall_event_t)

text \<open>Kernel side and user side agree on the event: the structure the probe writes and the one the
  agent reads have the same members at the same offsets with the same sizes, 24 bytes in all
  with no padding between them.\<close>

theorem event_layouts_agree:
  "map (\<lambda>(f, b, t). (f, b, c_sizeof t)) (layout c_dk_syscall_event_t) =
     map (\<lambda>(f, b, t). (f, b, c_sizeof t)) (layout c_KernelSyscallEvent) \<and>
   c_sizeof c_dk_syscall_event_t = 24 \<and> c_sizeof c_KernelSyscallEvent = 24 \<and>
   sum_list (map (\<lambda>(f, b, t). c_sizeof t) (layout c_KernelSyscallEvent)) = 24"
  by (simp add: c_dk_syscall_event_t_def c_KernelSyscallEvent_def c_sizeof_def layout_eval)

end
