(* ===== verification/Std_Regex.thy ===== *)
theory Std_Regex
  imports DK_Prelude
begin

text \<open>
  The part of \<^verbatim>\<open>std::regex\<close> (ECMAScript grammar) the agent's fixed patterns use: a pattern is a
  sequence of single-character classes and of counted repetitions of such a class, greedy or
  lazy, some of which are capture groups. Matching is backtracking in priority order, searching
  is leftmost; the result lists the captured substrings. The theory also holds the pattern
  \<^verbatim>\<open>"key"\s*:\s*"([^"]+)"\<close> which four components build to pick a string out of a JSON text.
\<close>

subsection \<open>Patterns\<close>

datatype cclass = CC bool "(char \<times> char) list"  \<comment> \<open>negated?, inclusive ranges\<close>

fun cmatch :: "cclass \<Rightarrow> char \<Rightarrow> bool" where
  "cmatch (CC neg rs) c =
     (neg \<noteq> list_ex (\<lambda>(a, b). (of_char a :: nat) \<le> of_char c \<and> (of_char c :: nat) \<le> of_char b) rs)"

datatype item =
    One cclass
  | Rep bool cclass nat "nat option" bool  \<comment> \<open>captured?, class, least, most, greedy?\<close>

type_synonym pattern = "item list"

definition chr_cls :: "char \<Rightarrow> cclass" where "chr_cls c = CC False [(c, c)]"

definition any_cls :: cclass where  \<comment> \<open>\<^verbatim>\<open>.\<close>: anything but a line terminator\<close>
  "any_cls = CC True [(CHR 0x0A, CHR 0x0A), (CHR 0x0D, CHR 0x0D)]"
definition space_cls :: cclass where  \<comment> \<open>\<^verbatim>\<open>\s\<close>\<close>
  "space_cls = CC False [(CHR 0x20, CHR 0x20), (CHR 0x09, CHR 0x0D)]"
definition digit_cls :: cclass where  \<comment> \<open>\<^verbatim>\<open>\d\<close>\<close>
  "digit_cls = CC False [(CHR ''0'', CHR ''9'')]"
definition hex_cls :: cclass where  \<comment> \<open>\<^verbatim>\<open>[a-f0-9]\<close>\<close>
  "hex_cls = CC False [(CHR ''a'', CHR ''f''), (CHR ''0'', CHR ''9'')]"
definition uid_cls :: cclass where  \<comment> \<open>\<^verbatim>\<open>[a-f0-9-]\<close>\<close>
  "uid_cls = CC False [(CHR ''a'', CHR ''f''), (CHR ''0'', CHR ''9''), (CHR ''-'', CHR ''-'')]"
definition not_quote_cls :: cclass where  \<comment> \<open>\<^verbatim>\<open>[^"]\<close>\<close>
  "not_quote_cls = CC True [(CHR 0x22, CHR 0x22)]"
definition not_slash_cls :: cclass where  \<comment> \<open>\<^verbatim>\<open>[^/]\<close>\<close>
  "not_slash_cls = CC True [(CHR ''/'', CHR ''/'')]"

definition lits :: "string \<Rightarrow> pattern" where
  "lits w = map (\<lambda>c. One (chr_cls c)) w"

subsection \<open>Matching and searching\<close>

fun first_some :: "('a \<Rightarrow> 'b option) \<Rightarrow> 'a list \<Rightarrow> 'b option" where
  "first_some f [] = None"
| "first_some f (x # xs) = (case f x of None \<Rightarrow> first_some f xs | Some y \<Rightarrow> Some y)"

definition rep_counts :: "cclass \<Rightarrow> nat \<Rightarrow> nat option \<Rightarrow> bool \<Rightarrow> string \<Rightarrow> nat list" where
  "rep_counts cc mn mx greedy s =
     (let k = length (takeWhile (cmatch cc) s);
          hi = (case mx of None \<Rightarrow> k | Some m \<Rightarrow> min k m);
          ns = [mn..<Suc hi]
      in if greedy then rev ns else ns)"

fun rmatch :: "pattern \<Rightarrow> string \<Rightarrow> string list option" where
  "rmatch [] s = Some []"
| "rmatch (One cc # p) s =
     (case s of [] \<Rightarrow> None | c # cs \<Rightarrow> if cmatch cc c then rmatch p cs else None)"
| "rmatch (Rep cap cc mn mx greedy # p) s =
     first_some (\<lambda>n. map_option (\<lambda>gs. if cap then take n s # gs else gs) (rmatch p (drop n s)))
       (rep_counts cc mn mx greedy s)"

fun regex_search :: "pattern \<Rightarrow> string \<Rightarrow> string list option" where
  "regex_search p [] = rmatch p []"
| "regex_search p (c # cs) =
     (case rmatch p (c # cs) of None \<Rightarrow> regex_search p cs | Some gs \<Rightarrow> Some gs)"

declare cmatch.simps [simp del] rmatch.simps(3) [simp del]

named_theorems regex_eval \<open>evaluation of a search on a concrete text\<close>

declare cmatch.simps [regex_eval] rmatch.simps(3) [regex_eval] rep_counts_def [regex_eval]
  Let_def [regex_eval] upt_rec [regex_eval]

subsection \<open>Facts about matching\<close>

lemma cmatch_simps [simp]:
  "cmatch (chr_cls a) c \<longleftrightarrow> c = a"
  "cmatch not_quote_cls c \<longleftrightarrow> c \<noteq> CHR 0x22"
  "cmatch not_slash_cls c \<longleftrightarrow> c \<noteq> CHR ''/''"
  "cmatch any_cls c \<longleftrightarrow> c \<noteq> CHR 0x0A \<and> c \<noteq> CHR 0x0D"
  "cmatch digit_cls c \<longleftrightarrow> is_digit c"
proof -
  have eq: "((of_char a :: nat) \<le> of_char c \<and> (of_char c :: nat) \<le> of_char a) \<longleftrightarrow> c = a" for a c
    by (metis of_char_eq_iff order_antisym order_refl)
  show "cmatch (chr_cls a) c \<longleftrightarrow> c = a"
    "cmatch not_quote_cls c \<longleftrightarrow> c \<noteq> CHR 0x22"
    "cmatch not_slash_cls c \<longleftrightarrow> c \<noteq> CHR ''/''"
    "cmatch any_cls c \<longleftrightarrow> c \<noteq> CHR 0x0A \<and> c \<noteq> CHR 0x0D"
    unfolding chr_cls_def not_quote_cls_def not_slash_cls_def any_cls_def cmatch.simps
      list_ex_iff list.set ball_simps bex_simps prod.case eq
    by auto
  show "cmatch digit_cls c \<longleftrightarrow> is_digit c"
    by (simp add: digit_cls_def is_digit_def cmatch.simps)
qed

lemma cmatch_space: "cmatch space_cls c \<longleftrightarrow> (of_char c :: nat) \<in> {9, 10, 11, 12, 13, 32}"
  by (auto simp: space_cls_def cmatch.simps)

lemma cmatch_hex: "cmatch hex_cls c \<longleftrightarrow> is_digit c \<or> 97 \<le> (of_char c :: nat) \<and> (of_char c :: nat) \<le> 102"
  by (auto simp: hex_cls_def cmatch.simps is_digit_def)

lemma cmatch_uid: "cmatch uid_cls c \<longleftrightarrow> cmatch hex_cls c \<or> c = CHR ''-''"
proof -
  have "(of_char c :: nat) = 45 \<longleftrightarrow> c = CHR ''-''"
    using of_char_eq_iff [of c "CHR ''-''", where 'a = nat] by simp
  then show ?thesis by (auto simp: uid_cls_def hex_cls_def cmatch.simps)
qed

lemma first_some_eq_Some: "first_some f xs = Some y \<Longrightarrow> \<exists>x \<in> set xs. f x = Some y"
  by (induction xs) (auto split: option.splits)

lemma first_some_None: "(\<And>x. x \<in> set xs \<Longrightarrow> f x = None) \<Longrightarrow> first_some f xs = None"
  by (induction xs) auto

lemma first_some_unique:
  "x \<in> set xs \<Longrightarrow> (\<And>y. y \<in> set xs \<Longrightarrow> y \<noteq> x \<Longrightarrow> f y = None) \<Longrightarrow> first_some f xs = f x"
proof (induction xs)
  case (Cons a xs)
  show ?case
  proof (cases "a = x")
    case True
    show ?thesis
    proof (cases "x \<in> set xs")
      case True
      with \<open>a = x\<close> Cons show ?thesis by (auto split: option.splits)
    next
      case False
      with \<open>a = x\<close> Cons.prems show ?thesis
        by (auto split: option.splits intro!: first_some_None)
    qed
  next
    case False
    with Cons show ?thesis by auto
  qed
qed simp

lemma rmatch_lits:
  "rmatch (lits w @ p) s = (if prefix w s then rmatch p (drop (length w) s) else None)"
proof (induction w arbitrary: s)
  case (Cons c w)
  then show ?case
    by (cases s) (auto simp: lits_def prefix_def)
qed (simp add: lits_def)

lemma rmatch_lits_all:
  "rmatch (lits w) s = (if prefix w s then Some [] else None)"
  using rmatch_lits [of w "[]" s] by simp

lemma set_rep_counts:
  "n \<in> set (rep_counts cc mn mx greedy s) \<longleftrightarrow>
     mn \<le> n \<and> n \<le> length (takeWhile (cmatch cc) s) \<and> (case mx of None \<Rightarrow> True | Some m \<Rightarrow> n \<le> m)"
  by (auto simp: rep_counts_def Let_def split: option.splits)

text \<open>
  A repetition followed by a character its class excludes is deterministic: it takes the whole
  run of the class.
\<close>

lemma rmatch_rep_stop:
  assumes stop: "\<not> cmatch cc a"
  shows "rmatch (Rep cap cc mn None greedy # One (chr_cls a) # p) s =
    (let k = length (takeWhile (cmatch cc) s)
     in if mn \<le> k
        then map_option (\<lambda>gs. if cap then take k s # gs else gs) (rmatch (One (chr_cls a) # p) (drop k s))
        else None)"
proof -
  let ?k = "length (takeWhile (cmatch cc) s)"
  let ?f = "\<lambda>n. map_option (\<lambda>gs. if cap then take n s # gs else gs) (rmatch (One (chr_cls a) # p) (drop n s))"
  have early: "?f n = None" if "n < ?k" for n
  proof -
    have "cmatch cc (s ! n)"
      using that nth_mem takeWhile_nth set_takeWhileD by metis
    moreover have "n < length s" using that length_takeWhile_le less_le_trans by blast
    ultimately show ?thesis
      using stop by (auto simp: Cons_nth_drop_Suc [symmetric])
  qed
  show ?thesis
  proof (cases "mn \<le> ?k")
    case True
    then have "?k \<in> set (rep_counts cc mn None greedy s)"
      by (simp add: set_rep_counts)
    then have "first_some ?f (rep_counts cc mn None greedy s) = ?f ?k"
    proof (rule first_some_unique)
      fix n assume "n \<in> set (rep_counts cc mn None greedy s)" "n \<noteq> ?k"
      then have "n < ?k" unfolding set_rep_counts by linarith
      then show "?f n = None" by (rule early)
    qed
    with True show ?thesis by (simp add: Let_def rmatch.simps(3))
  next
    case False
    then have "rep_counts cc mn None greedy s = []"
      by (simp add: rep_counts_def)
    with False show ?thesis by (simp add: Let_def rmatch.simps(3))
  qed
qed

lemma search_skip:
  "rmatch p (c # cs) = None \<Longrightarrow> regex_search p (c # cs) = regex_search p cs"
  by simp

lemma search_hit:
  "rmatch p s = Some gs \<Longrightarrow> regex_search p s = Some gs"
  by (cases s) auto

lemma search_skip_word:
  "(\<And>c cs. c \<in> set w \<Longrightarrow> rmatch p (c # cs) = None) \<Longrightarrow> regex_search p (w @ s) = regex_search p s"
  by (induction w) auto

lemma search_append_None:
  assumes "\<And>i. i < length pre \<Longrightarrow> rmatch p (drop i pre @ s) = None"
  shows "regex_search p (pre @ s) = regex_search p s"
  using assms
proof (induction pre)
  case (Cons c pre)
  have "rmatch p (c # pre @ s) = None" using Cons.prems [of 0] by simp
  moreover have "regex_search p (pre @ s) = regex_search p s"
    using Cons.prems [of "Suc _"] by (intro Cons.IH) auto
  ultimately show ?case by simp
qed simp

text \<open>What a search reports was matched at some position.\<close>

lemma search_sound:
  "regex_search p s = Some gs \<Longrightarrow> \<exists>i \<le> length s. rmatch p (drop i s) = Some gs"
proof (induction s)
  case (Cons c s)
  show ?case
  proof (cases "rmatch p (c # s)")
    case None
    with Cons obtain i where "i \<le> length s" "rmatch p (drop i s) = Some gs" by auto
    then show ?thesis by (intro exI [of _ "Suc i"]) simp
  next
    case (Some gs')
    with Cons.prems show ?thesis by (intro exI [of _ 0]) simp
  qed
qed auto

lemma search_complete:
  "i \<le> length s \<Longrightarrow> rmatch p (drop i s) \<noteq> None \<Longrightarrow> regex_search p s \<noteq> None"
proof (induction s arbitrary: i)
  case (Cons c s)
  then show ?case by (cases i) (auto split: option.splits)
qed auto

subsection \<open>Picking a string out of a JSON text\<close>

text \<open>
  The key is spliced into the pattern unescaped. All keys of the program consist of letters,
  \<^verbatim>\<open>_\<close>, and the metacharacter \<^verbatim>\<open>.\<close>, which matches any character but a line terminator.
\<close>

definition key_items :: "string \<Rightarrow> pattern" where
  "key_items key = map (\<lambda>c. One (if c = CHR ''.'' then any_cls else chr_cls c)) key"

definition json_string_pattern :: "string \<Rightarrow> pattern" where
  "json_string_pattern key =
     One (chr_cls (CHR 0x22)) # key_items key @
     [One (chr_cls (CHR 0x22)), Rep False space_cls 0 None True, One (chr_cls (CHR '':'')),
      Rep False space_cls 0 None True, One (chr_cls (CHR 0x22)),
      Rep True not_quote_cls 1 None True, One (chr_cls (CHR 0x22))]"

definition json_int_pattern :: "string \<Rightarrow> pattern" where
  "json_int_pattern key =
     One (chr_cls (CHR 0x22)) # key_items key @
     [One (chr_cls (CHR 0x22)), Rep False space_cls 0 None True, One (chr_cls (CHR '':'')),
      Rep False space_cls 0 None True, Rep True digit_cls 1 None True]"

lemma space_not_quote [simp]: "\<not> cmatch space_cls (CHR 0x22)" "\<not> cmatch space_cls (CHR '':'')"
  by (simp_all add: cmatch_space)

text \<open>The pattern without wildcards, after the quoted key: spaces, colon, spaces, string.\<close>

definition plain_key :: "string \<Rightarrow> bool" where
  "plain_key key \<longleftrightarrow> CHR ''.'' \<notin> set key"

lemma key_items_plain: "plain_key key \<Longrightarrow> key_items key = lits key"
  by (auto simp: plain_key_def key_items_def lits_def)

lemma takeWhile_not_quote:
  "CHR 0x22 \<notin> set v \<Longrightarrow> takeWhile (cmatch not_quote_cls) (v @ CHR 0x22 # rest) = v"
  by (subst takeWhile_append2) auto

lemma rmatch_json_value:
  assumes "CHR 0x22 \<notin> set v" "v \<noteq> []"
  shows "rmatch [Rep True not_quote_cls (Suc 0) None True, One (chr_cls (CHR 0x22))]
      (v @ CHR 0x22 # rest) = Some [v]"
  using assms by (simp add: rmatch_rep_stop Let_def Suc_le_eq takeWhile_not_quote)

lemma rmatch_json_string:
  assumes "plain_key key" "CHR 0x22 \<notin> set v" "v \<noteq> []"
  shows "rmatch (json_string_pattern key)
      (CHR 0x22 # key @ CHR 0x22 # CHR '':'' # CHR 0x22 # v @ CHR 0x22 # rest) = Some [v]"
  using assms
  by (simp add: json_string_pattern_def key_items_plain rmatch_lits rmatch_rep_stop Let_def
      takeWhile_not_quote Suc_le_eq)

lemma json_string_no_quote: "c \<noteq> CHR 0x22 \<Longrightarrow> rmatch (json_string_pattern key) (c # cs) = None"
  by (simp add: json_string_pattern_def)

lemma json_string_skip:
  "CHR 0x22 \<notin> set w \<Longrightarrow> regex_search (json_string_pattern key) (w @ s) = regex_search (json_string_pattern key) s"
  by (rule search_skip_word) (auto intro: json_string_no_quote)

lemma json_string_other_key:
  assumes "plain_key key" "\<not> prefix (key @ [CHR 0x22]) cs"
  shows "rmatch (json_string_pattern key) (CHR 0x22 # cs) = None"
  using assms
  by (auto simp: json_string_pattern_def key_items_plain rmatch_lits prefix_def split: list.splits)

text \<open>A quoted string that is not followed by a colon is no key.\<close>

lemma quoted_eq:
  "CHR 0x22 \<notin> set v \<Longrightarrow> CHR 0x22 \<notin> set w \<Longrightarrow> v @ CHR 0x22 # r = w @ CHR 0x22 # r' \<Longrightarrow> v = w"
  by (metis takeWhile_not_quote)

lemma json_string_not_key:
  assumes "plain_key key" "CHR 0x22 \<notin> set key" "CHR 0x22 \<notin> set v" "c \<noteq> CHR '':''" "\<not> cmatch space_cls c"
  shows "rmatch (json_string_pattern key) (CHR 0x22 # v @ CHR 0x22 # c # rest) = None"
proof (cases "v = key")
  case True
  with assms show ?thesis
    by (simp add: json_string_pattern_def key_items_plain rmatch_lits rmatch_rep_stop Let_def)
next
  case False
  then have "\<not> prefix (key @ [CHR 0x22]) (v @ CHR 0x22 # c # rest)"
    using quoted_eq [OF assms(3,2), of "c # rest"] by (auto simp: prefix_def)
  then show ?thesis by (rule json_string_other_key [OF assms(1)])
qed

text \<open>A captured value is never empty and never holds a quote.\<close>

lemma rmatch_key_items:
  "rmatch (key_items k @ p) s = Some gs \<Longrightarrow> \<exists>s'. rmatch p s' = Some gs"
  by (induction k arbitrary: s) (auto simp: key_items_def split: list.splits if_splits)

lemma rmatch_One: "rmatch (One cc # p) s = Some gs \<Longrightarrow> \<exists>s'. rmatch p s' = Some gs"
  by (auto split: list.splits if_splits)

lemma rmatch_skip_rep:
  "rmatch (Rep False cc mn mx g # p) s = Some gs \<Longrightarrow> \<exists>s'. rmatch p s' = Some gs"
  by (auto simp: rmatch.simps(3) dest!: first_some_eq_Some)

lemma rmatch_json_value_inv:
  assumes "rmatch [Rep True not_quote_cls 1 None True, One (chr_cls (CHR 0x22))] s = Some gs"
  shows "\<exists>v. gs = [v] \<and> v \<noteq> [] \<and> CHR 0x22 \<notin> set v"
proof -
  from assms obtain n where n: "1 \<le> n" "n \<le> length (takeWhile (cmatch not_quote_cls) s)"
    and gs: "gs = [take n s]"
    by (auto simp: rmatch.simps(3) set_rep_counts split: list.splits if_splits
        dest!: first_some_eq_Some)
  have "take n s = take n (takeWhile (cmatch not_quote_cls) s)"
    using n(2) by (metis append_eq_conv_conj take_take takeWhile_dropWhile_id min.absorb1)
  then have "CHR 0x22 \<notin> set (take n s)"
    by (metis cmatch_simps(2) in_set_takeD set_takeWhileD)
  moreover have "take n s \<noteq> []"
    using n length_takeWhile_le [of "cmatch not_quote_cls" s] by auto
  ultimately show ?thesis using gs by simp
qed

lemma rmatch_json_string_value:
  assumes "rmatch (json_string_pattern key) s = Some gs"
  shows "\<exists>v. gs = [v] \<and> v \<noteq> [] \<and> CHR 0x22 \<notin> set v"
  using assms unfolding json_string_pattern_def
  by (blast dest: rmatch_One rmatch_key_items rmatch_skip_rep rmatch_json_value_inv)

lemma json_string_search_value:
  assumes "regex_search (json_string_pattern key) s = Some gs"
  shows "\<exists>v. gs = [v] \<and> v \<noteq> [] \<and> CHR 0x22 \<notin> set v"
  using search_sound [OF assms] rmatch_json_string_value by blast

text \<open>The value found is that of the first occurrence of the quoted key.\<close>

definition quoted :: "string \<Rightarrow> string" where
  "quoted s = CHR 0x22 # s @ [CHR 0x22]"

lemma json_string_first:
  assumes "plain_key key" "CHR 0x22 \<notin> set v" "v \<noteq> []"
    and first: "\<And>i. i < length pre \<Longrightarrow> \<not> prefix (quoted key) (drop i pre @ quoted key @ '':'' @ quoted v @ rest)"
  shows "regex_search (json_string_pattern key) (pre @ quoted key @ '':'' @ quoted v @ rest) = Some [v]"
proof -
  let ?s = "quoted key @ '':'' @ quoted v @ rest"
  have "rmatch (json_string_pattern key) (drop i pre @ ?s) = None" if "i < length pre" for i
  proof (cases "pre ! i = CHR 0x22")
    case True
    with that have d: "drop i pre @ ?s = CHR 0x22 # drop (Suc i) pre @ ?s"
      by (simp add: Cons_nth_drop_Suc [symmetric])
    with first [OF that] have "\<not> prefix (key @ [CHR 0x22]) (drop (Suc i) pre @ ?s)"
      by (simp add: quoted_def)
    with d show ?thesis using json_string_other_key [OF assms(1)] by simp
  next
    case False
    with that show ?thesis
      by (simp add: Cons_nth_drop_Suc [symmetric] json_string_no_quote)
  qed
  then have "regex_search (json_string_pattern key) (pre @ ?s) = regex_search (json_string_pattern key) ?s"
    by (intro search_append_None)
  moreover have "regex_search (json_string_pattern key) ?s = Some [v]"
    using rmatch_json_string [OF assms(1-3)] by (intro search_hit) (simp add: quoted_def)
  ultimately show ?thesis by simp
qed

lemma rmatch_json_string_spaced:
  assumes "plain_key key" "CHR 0x22 \<notin> set v" "v \<noteq> []"
  shows "rmatch (json_string_pattern key)
      (CHR 0x22 # key @ CHR 0x22 # CHR '':'' # CHR '' '' # CHR 0x22 # v @ CHR 0x22 # rest) = Some [v]"
proof -
  have "cmatch space_cls (CHR '' '')" by (simp add: cmatch_space)
  with assms show ?thesis
    by (simp add: json_string_pattern_def key_items_plain rmatch_lits rmatch_rep_stop Let_def
        takeWhile_not_quote Suc_le_eq)
qed

text \<open>A trailing greedy counted group takes the longest run of the class that fits.\<close>

lemma first_some_rev_upt:
  assumes "mn \<le> hi" "\<And>n. mn \<le> n \<Longrightarrow> n \<le> hi \<Longrightarrow> f n \<noteq> None"
  shows "first_some f (rev [mn..<Suc hi]) = f hi"
proof -
  obtain y where "f hi = Some y" using assms by blast
  with assms(1) show ?thesis by simp
qed

lemma rmatch_rep_last:
  "rmatch [Rep True cc mn (Some mx) True] s =
     (let k = min (length (takeWhile (cmatch cc) s)) mx in if mn \<le> k then Some [take k s] else None)"
proof -
  let ?k = "min (length (takeWhile (cmatch cc) s)) mx"
  show ?thesis
  proof (cases "mn \<le> ?k")
    case True
    have "first_some (\<lambda>n. Some [take n s]) (rev [mn..<Suc ?k]) = Some [take ?k s]"
      using True by (rule first_some_rev_upt) simp
    with True show ?thesis by (simp add: rmatch.simps(3) rep_counts_def Let_def)
  next
    case False
    then show ?thesis by (simp add: rmatch.simps(3) rep_counts_def Let_def)
  qed
qed

lemma rmatch_rep_last_unbounded:
  "rmatch [Rep True cc mn None True] s =
     (let k = length (takeWhile (cmatch cc) s) in if mn \<le> k then Some [take k s] else None)"
proof -
  let ?k = "length (takeWhile (cmatch cc) s)"
  show ?thesis
  proof (cases "mn \<le> ?k")
    case True
    have "first_some (\<lambda>n. Some [take n s]) (rev [mn..<Suc ?k]) = Some [take ?k s]"
      using True by (rule first_some_rev_upt) simp
    with True show ?thesis by (simp add: rmatch.simps(3) rep_counts_def Let_def)
  next
    case False
    then show ?thesis by (simp add: rmatch.simps(3) rep_counts_def Let_def)
  qed
qed

lemma rmatch_rep_absent:
  "s = [] \<or> \<not> cmatch cc (hd s) \<Longrightarrow> rmatch (Rep False cc 0 None g # p) s = rmatch p s"
  by (cases s) (auto simp: rmatch.simps(3) rep_counts_def Let_def option.map_ident split: option.split)

text \<open>An integer value: all the digits after the colon.\<close>

lemma rmatch_json_int:
  assumes "plain_key key" "d \<noteq> []" "\<forall>c \<in> set d. is_digit c" "rest = [] \<or> \<not> is_digit (hd rest)"
  shows "rmatch (json_int_pattern key) (CHR 0x22 # key @ CHR 0x22 # CHR '':'' # d @ rest) = Some [d]"
proof -
  have tw: "takeWhile (cmatch digit_cls) (d @ rest) = d"
    using assms(3,4) by (subst takeWhile_append2) (cases rest; auto)+
  have "\<not> cmatch space_cls (hd (d @ rest))"
    using assms(2,3) by (cases d) (auto simp: cmatch_space is_digit_def)
  then have "rmatch [Rep False space_cls 0 None True, Rep True digit_cls (Suc 0) None True] (d @ rest) = Some [d]"
    using assms(2) tw by (simp add: rmatch_rep_absent rmatch_rep_last_unbounded Let_def Suc_le_eq)
  then show ?thesis
    using assms(1)
    by (simp add: json_int_pattern_def key_items_plain rmatch_lits rmatch_rep_stop Let_def)
qed

lemma json_int_no_quote: "c \<noteq> CHR 0x22 \<Longrightarrow> rmatch (json_int_pattern key) (c # cs) = None"
  by (simp add: json_int_pattern_def)

lemma json_int_skip:
  "CHR 0x22 \<notin> set w \<Longrightarrow> regex_search (json_int_pattern key) (w @ s) = regex_search (json_int_pattern key) s"
  by (rule search_skip_word) (auto intro: json_int_no_quote)

lemma json_int_other_key:
  assumes "plain_key key" "\<not> prefix (key @ [CHR 0x22]) cs"
  shows "rmatch (json_int_pattern key) (CHR 0x22 # cs) = None"
  using assms
  by (auto simp: json_int_pattern_def key_items_plain rmatch_lits prefix_def split: list.splits)

lemma json_int_not_key:
  assumes "plain_key key" "CHR 0x22 \<notin> set key" "CHR 0x22 \<notin> set v" "c \<noteq> CHR '':''" "\<not> cmatch space_cls c"
  shows "rmatch (json_int_pattern key) (CHR 0x22 # v @ CHR 0x22 # c # rest) = None"
proof (cases "v = key")
  case True
  with assms show ?thesis
    by (simp add: json_int_pattern_def key_items_plain rmatch_lits rmatch_rep_stop Let_def)
next
  case False
  then have "\<not> prefix (key @ [CHR 0x22]) (v @ CHR 0x22 # c # rest)"
    using quoted_eq [OF assms(3,2), of "c # rest"] by (auto simp: prefix_def)
  then show ?thesis by (rule json_int_other_key [OF assms(1)])
qed

text \<open>A group of exactly \<open>n\<close> characters.\<close>

lemma rmatch_rep_exact:
  "rmatch (Rep cap cc n (Some n) greedy # p) s =
    (if n \<le> length (takeWhile (cmatch cc) s)
     then map_option (\<lambda>gs. if cap then take n s # gs else gs) (rmatch p (drop n s)) else None)"
proof -
  have "rep_counts cc n (Some n) greedy s = (if n \<le> length (takeWhile (cmatch cc) s) then [n] else [])"
    by (auto simp: rep_counts_def Let_def min_def)
  then show ?thesis by (auto simp: rmatch.simps(3) split: option.split)
qed

end
