(* ===== verification/Name_Resolver.thy ===== *)
theory Name_Resolver
  imports Std_Regex
begin

text \<open>
  What the agent relies on in a container mapper, whichever of the two it uses: a name per
  cgroup id, remembered until it expires. The locale \<open>name_resolver\<close> states the contract of
  \<^verbatim>\<open>getContainerName\<close> over an abstract mapper state; its client lemmas say when two lookups
  give the same name. \<open>Docker_Mapper\<close> and \<open>Container_Mapper\<close> interpret it. The theory also
  holds the parts of the environment and the container-id patterns both mappers share.
\<close>

subsection \<open>The contract\<close>

locale name_resolver =
  fixes get_name :: "'e \<Rightarrow> 'm \<Rightarrow> u64 \<Rightarrow> u32 \<Rightarrow> string \<times> 'm"
    and cached :: "'m \<Rightarrow> u64 \<Rightarrow> (string \<times> u64) option"  \<comment> \<open>remembered name and expiry\<close>
    and check_time :: "'e \<Rightarrow> u64"
    and expiry :: "'e \<Rightarrow> 'm \<Rightarrow> u64"
  assumes hit: "cached m cg = Some (n, x) \<Longrightarrow> check_time e < x \<Longrightarrow> get_name e m cg p = (n, m)"
    and remembers: "(\<And>n x. cached m cg = Some (n, x) \<Longrightarrow> \<not> check_time e < x) \<Longrightarrow>
      get_name e m cg p = (n', m') \<Longrightarrow> cached m' cg = None \<or> cached m' cg = Some (n', expiry e m)"
    and others: "get_name e m cg p = (n', m') \<Longrightarrow> cg' \<noteq> cg \<Longrightarrow> cached m' cg' = cached m cg'"
begin

definition fresh :: "'e \<Rightarrow> 'm \<Rightarrow> u64 \<Rightarrow> bool" where
  "fresh e m cg \<longleftrightarrow> (\<exists>n x. cached m cg = Some (n, x) \<and> check_time e < x)"

text \<open>After any lookup, what is remembered for the cgroup is the name just returned.\<close>

lemma remembered_is_returned:
  assumes "get_name e m cg p = (n, m')" "cached m' cg = Some (n', x)"
  shows "n' = n"
proof (cases "fresh e m cg")
  case True
  with assms hit show ?thesis by (fastforce simp: fresh_def)
next
  case False
  with assms remembers [of m cg e p n m'] show ?thesis by (fastforce simp: fresh_def)
qed

text \<open>A second lookup before the expiry, for any process of the cgroup, gives the same name.\<close>

lemma stable:
  assumes "get_name e m cg p = (n, m')" "cached m' cg = Some (n', x)" "check_time e' < x"
  shows "get_name e' m' cg p' = (n, m')"
  using hit [OF assms(2,3)] remembered_is_returned [OF assms(1,2)] by simp

text \<open>The same across any number of lookups of other cgroups in between.\<close>

fun lookups :: "'m \<Rightarrow> ('e \<times> u64 \<times> u32) list \<Rightarrow> 'm" where
  "lookups m [] = m"
| "lookups m ((e, cg, p) # ls) = lookups (snd (get_name e m cg p)) ls"

lemma lookups_others:
  "(\<forall>(e, cg', p) \<in> set ls. cg' \<noteq> cg) \<Longrightarrow> cached (lookups m ls) cg = cached m cg"
proof (induction ls arbitrary: m)
  case (Cons l ls)
  obtain e cg' p where l: "l = (e, cg', p)" by (cases l)
  have "cached (snd (get_name e m cg' p)) cg = cached m cg"
    using others [of e m cg' p "fst (get_name e m cg' p)" "snd (get_name e m cg' p)" cg] Cons.prems l
    by auto
  with Cons l show ?case by auto
qed simp

lemma stable_interleaved:
  assumes "get_name e m cg p = (n, m')" "cached m' cg = Some (n', x)" "check_time e' < x"
    and "\<forall>(e, cg', p) \<in> set ls. cg' \<noteq> cg"
  shows "fst (get_name e' (lookups m' ls) cg p') = n"
  using hit [of "lookups m' ls" cg n' x e' p'] remembered_is_returned [OF assms(1,2)]
    lookups_others [OF assms(4)] assms(2,3) by simp

end

subsection \<open>Shared parts of the environment\<close>

datatype unix_reply = NoCurl | Reply bool string  \<comment> \<open>\<^verbatim>\<open>CURLE_OK\<close>?, body received\<close>

text \<open>\<^verbatim>\<open>ttl * 1'000'000'000ULL\<close>: the signed seconds are converted to 64 bits first.\<close>

definition ttl_ns :: "i32 \<Rightarrow> u64" where
  "ttl_ns secs = scast secs * 1000000000"

subsection \<open>Container-id patterns\<close>

definition docker_pattern :: pattern where  \<comment> \<open>\<^verbatim>\<open>docker[/-]([a-f0-9]{12,64})\<close>\<close>
  "docker_pattern = lits ''docker'' @
     [One (CC False [(CHR ''/'', CHR ''/''), (CHR ''-'', CHR ''-'')]), Rep True hex_cls 12 (Some 64) True]"

definition containerd_pattern :: pattern where  \<comment> \<open>\<^verbatim>\<open>cri-containerd-([a-f0-9]{12,64})\<close>\<close>
  "containerd_pattern = lits ''cri-containerd-'' @ [Rep True hex_cls 12 (Some 64) True]"

definition podman_pattern :: pattern where  \<comment> \<open>\<^verbatim>\<open>libpod-([a-f0-9]{12,64})\<close>\<close>
  "podman_pattern = lits ''libpod-'' @ [Rep True hex_cls 12 (Some 64) True]"

definition hex_id :: "nat \<Rightarrow> nat \<Rightarrow> string \<Rightarrow> bool" where
  "hex_id lo hi s \<longleftrightarrow> lo \<le> length s \<and> length s \<le> hi \<and> (\<forall>c \<in> set s. cmatch hex_cls c)"

lemma take_run:
  "n \<le> length (takeWhile P s) \<Longrightarrow> length (take n s) = n \<and> (\<forall>c \<in> set (take n s). P c)"
proof -
  assume n: "n \<le> length (takeWhile P s)"
  have "take n s = take n (takeWhile P s)"
    using n by (metis append_eq_conv_conj take_take takeWhile_dropWhile_id min.absorb1)
  moreover have "n \<le> length s" using n length_takeWhile_le le_trans by blast
  ultimately show ?thesis
    by (metis (no_types, lifting) in_set_takeD length_take min.absorb2 set_takeWhileD)
qed

lemma rmatch_hex_group:
  assumes "rmatch [Rep True hex_cls mn (Some mx) True] s = Some gs"
  shows "\<exists>h. gs = [h] \<and> hex_id mn mx h"
proof -
  let ?k = "min (length (takeWhile (cmatch hex_cls) s)) mx"
  have "mn \<le> ?k" and gs: "gs = [take ?k s]"
    using assms by (auto simp: rmatch_rep_last Let_def split: if_splits)
  then have "hex_id mn mx (take ?k s)"
    using take_run [of ?k "cmatch hex_cls" s] by (simp add: hex_id_def)
  with gs show ?thesis by simp
qed

lemma rmatch_prefix: "rmatch (lits w @ p) s = Some gs \<Longrightarrow> \<exists>s'. rmatch p s' = Some gs"
  by (auto simp: rmatch_lits split: if_splits)

text \<open>Whatever the three patterns capture is 12 to 64 hexadecimal digits.\<close>

lemma id_patterns_hex:
  "regex_search docker_pattern s = Some gs \<Longrightarrow> \<exists>h. gs = [h] \<and> hex_id 12 64 h"
  "regex_search containerd_pattern s = Some gs \<Longrightarrow> \<exists>h. gs = [h] \<and> hex_id 12 64 h"
  "regex_search podman_pattern s = Some gs \<Longrightarrow> \<exists>h. gs = [h] \<and> hex_id 12 64 h"
proof -
  assume "regex_search docker_pattern s = Some gs"
  then obtain i where "rmatch docker_pattern (drop i s) = Some gs" by (blast dest: search_sound)
  then obtain s' where "rmatch [Rep True hex_cls 12 (Some 64) True] s' = Some gs"
    unfolding docker_pattern_def by (blast dest: rmatch_prefix rmatch_One)
  then show "\<exists>h. gs = [h] \<and> hex_id 12 64 h" by (rule rmatch_hex_group)
next
  assume "regex_search containerd_pattern s = Some gs"
  then obtain i where "rmatch containerd_pattern (drop i s) = Some gs" by (blast dest: search_sound)
  then obtain s' where "rmatch [Rep True hex_cls 12 (Some 64) True] s' = Some gs"
    unfolding containerd_pattern_def by (blast dest: rmatch_prefix)
  then show "\<exists>h. gs = [h] \<and> hex_id 12 64 h" by (rule rmatch_hex_group)
next
  assume "regex_search podman_pattern s = Some gs"
  then obtain i where "rmatch podman_pattern (drop i s) = Some gs" by (blast dest: search_sound)
  then obtain s' where "rmatch [Rep True hex_cls 12 (Some 64) True] s' = Some gs"
    unfolding podman_pattern_def by (blast dest: rmatch_prefix)
  then show "\<exists>h. gs = [h] \<and> hex_id 12 64 h" by (rule rmatch_hex_group)
qed

text \<open>A word of the pattern that cannot start inside the text before it is found after it.\<close>

lemma search_after:
  assumes "\<And>i. i < length pre \<Longrightarrow> \<not> prefix w (drop i pre @ w @ s)"
    and "rmatch p s = Some gs"
  shows "regex_search (lits w @ p) (pre @ w @ s) = Some gs"
proof -
  have "regex_search (lits w @ p) (pre @ w @ s) = regex_search (lits w @ p) (w @ s)"
    using assms(1) by (intro search_append_None) (auto simp: rmatch_lits)
  also have "\<dots> = Some gs"
    using assms(2) by (intro search_hit) (simp add: rmatch_lits)
  finally show ?thesis .
qed

end
