(* ===== verification/Container_Mapper.thy ===== *)
theory Container_Mapper
  imports Name_Resolver
begin

text \<open>
  \<^verbatim>\<open>agent/src/container_mapper.cpp\<close>, the mapper for several container runtimes. A process is
  placed by the patterns of \<^verbatim>\<open>parseCgroup\<close>; the runtime is then asked through Docker's socket or
  through \<^verbatim>\<open>crictl\<close>, pod names come from the downward API, and answers are cached per cgroup id.
  Files, sockets, commands, environment variables and the two clock readings of a lookup are the
  environment \<open>cm_env\<close>; a lookup sees one environment.
\<close>

subsection \<open>Data\<close>

datatype Runtime = UNKNOWN | DOCKER | CONTAINERD | CRIO

record ContainerInfo =
  ci_id :: string
  ci_fullId :: string
  ci_name :: string
  ci_podName :: string
  ci_podNamespace :: string
  ci_image :: string
  ci_runtime :: Runtime

definition ContainerInfo_new :: ContainerInfo where
  "ContainerInfo_new = \<lparr>ci_id = '''', ci_fullId = '''', ci_name = '''', ci_podName = '''',
     ci_podNamespace = '''', ci_image = '''', ci_runtime = UNKNOWN\<rparr>"

record CM_Config =
  dockerSocket :: string
  containerdSocket :: string
  crioSocket :: string
  crictlPath :: string
  cacheTTLSeconds :: i32
  enableKubernetesApi :: bool
  preferPodName :: bool

definition CM_Config_default :: CM_Config where
  "CM_Config_default = \<lparr>dockerSocket = ''/var/run/docker.sock'',
     containerdSocket = ''/run/containerd/containerd.sock'', crioSocket = ''/var/run/crio/crio.sock'',
     crictlPath = ''/usr/bin/crictl'', cacheTTLSeconds = 60, enableKubernetesApi = True,
     preferPodName = True\<rparr>"

record CgroupInfo =
  containerId :: string
  podUid :: string
  cg_runtime :: Runtime

definition CgroupInfo_new :: CgroupInfo where
  "CgroupInfo_new = \<lparr>containerId = '''', podUid = '''', cg_runtime = UNKNOWN\<rparr>"

record CM_CacheEntry =
  cm_info :: ContainerInfo
  cm_expiresAtNs :: u64

record ContainerMapper =
  cm_config :: CM_Config
  detectedRuntime :: Runtime
  cm_cache :: "u64 \<rightharpoonup> CM_CacheEntry"

record cm_env =
  fileExists :: "string \<Rightarrow> bool"
  read_file :: "string \<Rightarrow> string option"  \<comment> \<open>contents, if the file can be opened\<close>
  popen :: "string \<Rightarrow> string option"  \<comment> \<open>what the command prints, if it can be started\<close>
  cm_unix_get :: "string \<Rightarrow> string \<Rightarrow> unix_reply"
  getenv :: "string \<Rightarrow> string option"
  cm_now_check :: u64
  cm_now_store :: u64

subsection \<open>Helpers: commands, sockets, JSON fields\<close>

text \<open>
  \<^verbatim>\<open>fgets(buffer, size, f)\<close>: at most \<open>size - 1\<close> characters, up to and including a newline;
  \<^verbatim>\<open>result += buffer.data()\<close> then stops at the first NUL of the chunk.
\<close>

fun fgets :: "nat \<Rightarrow> string \<Rightarrow> string \<times> string" where
  "fgets 0 s = ([], s)"
| "fgets (Suc n) [] = ([], [])"
| "fgets (Suc n) (c # cs) =
     (if c = CHR 0x0A then ([c], cs) else let (l, r) = fgets n cs in (c # l, r))"

definition c_str :: "string \<Rightarrow> string" where
  "c_str s = takeWhile (\<lambda>c. c \<noteq> CHR 0x00) s"

lemma fgets_split: "fst (fgets n s) @ snd (fgets n s) = s"
  by (induction n s rule: fgets.induct) (auto simp: Let_def split: prod.splits)

lemma fgets_progress: "0 < n \<Longrightarrow> s \<noteq> [] \<Longrightarrow> length (snd (fgets n s)) < length s"
proof -
  assume "0 < n" "s \<noteq> []"
  then have "fst (fgets n s) \<noteq> []"
    by (cases n; cases s) (auto simp: Let_def split: prod.splits)
  then show ?thesis
    using fgets_split [of n s] by (metis length_append less_add_same_cancel2 length_greater_0_conv)
qed

function fgets_loop :: "string \<Rightarrow> string" where
  "fgets_loop s = (if s = [] then [] else c_str (fst (fgets 4095 s)) @ fgets_loop (snd (fgets 4095 s)))"
  by pat_completeness auto
termination
  by (relation "measure length") (auto intro: fgets_progress)

declare fgets_loop.simps [simp del]

definition execCommand :: "cm_env \<Rightarrow> string \<Rightarrow> string" where
  "execCommand e cmd = (case popen e cmd of None \<Rightarrow> '''' | Some out \<Rightarrow> fgets_loop out)"

definition cm_httpGetUnixSocket :: "cm_env \<Rightarrow> string \<Rightarrow> string \<Rightarrow> string" where
  "cm_httpGetUnixSocket e socketPath path =
     (if \<not> fileExists e socketPath then ''''
      else case cm_unix_get e socketPath (''http://localhost'' @ path) of
        NoCurl \<Rightarrow> '''' | Reply ok response \<Rightarrow> if \<not> ok then '''' else response)"

definition extractJsonField :: "string \<Rightarrow> string \<Rightarrow> string" where
  "extractJsonField json field =
     (case regex_search (json_string_pattern field) json of Some (v # _) \<Rightarrow> v | _ \<Rightarrow> '''')"

text \<open>The patterns of \<^verbatim>\<open>queryCrictl\<close>, whose dots are escaped.\<close>

definition crictl_pattern :: "string \<Rightarrow> pattern" where
  "crictl_pattern key =
     One (chr_cls (CHR 0x22)) # lits key @
     [One (chr_cls (CHR 0x22)), Rep False space_cls 0 None True, One (chr_cls (CHR '':'')),
      Rep False space_cls 0 None True, One (chr_cls (CHR 0x22)),
      Rep True not_quote_cls 1 None True, One (chr_cls (CHR 0x22))]"

definition crictl_field :: "string \<Rightarrow> string \<Rightarrow> string" where
  "crictl_field output key =
     (case regex_search (crictl_pattern key) output of Some (v # _) \<Rightarrow> v | _ \<Rightarrow> '''')"

subsection \<open>Runtime detection\<close>

definition contains :: "string \<Rightarrow> string \<Rightarrow> bool" where  \<comment> \<open>\<^verbatim>\<open>s.find(w) != npos\<close>\<close>
  "contains w s = sublist w s"

definition detectRuntime :: "cm_env \<Rightarrow> CM_Config \<Rightarrow> Runtime" where
  "detectRuntime e c =
     (if fileExists e (dockerSocket c) then DOCKER
      else if fileExists e (containerdSocket c) then CONTAINERD
      else if fileExists e (crioSocket c) then CRIO
      else if fileExists e (crictlPath c) then
        (let result = execCommand e (crictlPath c @ '' info 2>/dev/null | head -1'') in
         if result \<noteq> [] then
           (if contains ''containerd'' result then CONTAINERD
            else if contains ''cri-o'' result then CRIO else UNKNOWN)
         else UNKNOWN)
      else UNKNOWN)"

definition ContainerMapper_new :: "cm_env \<Rightarrow> CM_Config \<Rightarrow> ContainerMapper" where
  "ContainerMapper_new e c = \<lparr>cm_config = c, detectedRuntime = detectRuntime e c, cm_cache = Map.empty\<rparr>"

definition cm_clearCache :: "ContainerMapper \<Rightarrow> ContainerMapper" where
  "cm_clearCache m = m\<lparr>cm_cache := Map.empty\<rparr>"

subsection \<open>Placing a process\<close>

definition crio_pattern :: pattern where  \<comment> \<open>\<^verbatim>\<open>crio-([a-f0-9]{12,64})\<close>\<close>
  "crio_pattern = lits ''crio-'' @ [Rep True hex_cls 12 (Some 64) True]"

definition pod_prefix :: pattern where  \<comment> \<open>\<^verbatim>\<open>kubepods[^/]*/[^/]*/pod\<close>\<close>
  "pod_prefix = lits ''kubepods'' @
     [Rep False not_slash_cls 0 None True, One (chr_cls (CHR ''/'')),
      Rep False not_slash_cls 0 None True] @ lits ''/pod''"

definition pod_pattern :: pattern where  \<comment> \<open>\<open>pod_prefix\<close>, then \<^verbatim>\<open>([a-f0-9-]{36})\<close>\<close>
  "pod_pattern = pod_prefix @ [Rep True uid_cls 36 (Some 36) True]"

definition kube_pattern :: pattern where  \<comment> \<open>\<open>pod_pattern\<close>, then \<^verbatim>\<open>/([a-f0-9]{64})\<close>\<close>
  "kube_pattern = pod_prefix @ Rep True uid_cls 36 (Some 36) True # lits ''/'' @
     [Rep True hex_cls 64 (Some 64) True]"

definition with_pod_uid :: "string \<Rightarrow> CgroupInfo \<Rightarrow> CgroupInfo" where
  "with_pod_uid line r =
     (case regex_search pod_pattern line of Some (u # _) \<Rightarrow> r\<lparr>podUid := u\<rparr> | _ \<Rightarrow> r)"

definition cgroup_of_line :: "Runtime \<Rightarrow> CgroupInfo \<Rightarrow> string \<Rightarrow> CgroupInfo option" where
  "cgroup_of_line detected result line =
     (case regex_search docker_pattern line of
        Some (h # _) \<Rightarrow> Some (result\<lparr>containerId := h, cg_runtime := DOCKER\<rparr>)
      | _ \<Rightarrow> (case regex_search containerd_pattern line of
        Some (h # _) \<Rightarrow> Some (with_pod_uid line (result\<lparr>containerId := h, cg_runtime := CONTAINERD\<rparr>))
      | _ \<Rightarrow> (case regex_search crio_pattern line of
        Some (h # _) \<Rightarrow> Some (with_pod_uid line (result\<lparr>containerId := h, cg_runtime := CRIO\<rparr>))
      | _ \<Rightarrow> (case regex_search kube_pattern line of
        Some (u # h # _) \<Rightarrow> Some (result\<lparr>podUid := u, containerId := h, cg_runtime := detected\<rparr>)
      | _ \<Rightarrow> (case regex_search podman_pattern line of
        Some (h # _) \<Rightarrow> Some (result\<lparr>containerId := h, cg_runtime := UNKNOWN\<rparr>)
      | _ \<Rightarrow> None)))))"

fun cgroup_of_lines :: "Runtime \<Rightarrow> CgroupInfo \<Rightarrow> string list \<Rightarrow> CgroupInfo" where
  "cgroup_of_lines detected result [] = result"
| "cgroup_of_lines detected result (line # ls) =
     (case cgroup_of_line detected result line of
        Some r \<Rightarrow> r | None \<Rightarrow> cgroup_of_lines detected result ls)"

definition parseCgroup :: "cm_env \<Rightarrow> ContainerMapper \<Rightarrow> u32 \<Rightarrow> CgroupInfo" where
  "parseCgroup e m pid =
     (let result = CgroupInfo_new in
      case read_file e (''/proc/'' @ show_nat (unat pid) @ ''/cgroup'') of
        None \<Rightarrow> result
      | Some text \<Rightarrow> cgroup_of_lines (detectedRuntime m) result (lines_of text))"

definition isContainer :: "cm_env \<Rightarrow> ContainerMapper \<Rightarrow> u32 \<Rightarrow> bool" where
  "isContainer e m pid = (containerId (parseCgroup e m pid) \<noteq> [])"

subsection \<open>Asking the runtime\<close>

definition shortId :: "string \<Rightarrow> string" where
  "shortId cid = (if length cid > 12 then take 12 cid else cid)"

definition queryDocker :: "cm_env \<Rightarrow> ContainerMapper \<Rightarrow> string \<Rightarrow> ContainerInfo option" where
  "queryDocker e m cid =
     (let response = cm_httpGetUnixSocket e (dockerSocket (cm_config m)) (''/containers/'' @ shortId cid @ ''/json'')
      in if response = [] then None
         else
           let name = extractJsonField response ''Name'';
               name = (if name \<noteq> [] \<and> hd name = CHR ''/'' then tl name else name);
               service = extractJsonField response ''com.docker.compose.service'';
               project = extractJsonField response ''com.docker.compose.project'';
               name = (if name = [] then
                         (if project \<noteq> [] \<and> service \<noteq> [] then project @ ''_'' @ service
                          else if service \<noteq> [] then service else name)
                       else name)
           in Some \<lparr>ci_id = shortId cid, ci_fullId = cid, ci_name = name,
                ci_podName = extractJsonField response ''io.kubernetes.pod.name'',
                ci_podNamespace = extractJsonField response ''io.kubernetes.pod.namespace'',
                ci_image = extractJsonField response ''Image'', ci_runtime = DOCKER\<rparr>)"

definition queryCrictl :: "cm_env \<Rightarrow> ContainerMapper \<Rightarrow> string \<Rightarrow> ContainerInfo option" where
  "queryCrictl e m cid =
     (if \<not> fileExists e (crictlPath (cm_config m)) then None
      else
        let output = execCommand e (crictlPath (cm_config m) @ '' inspect '' @ shortId cid @ '' 2>/dev/null'')
        in if output = [] then None
           else Some \<lparr>ci_id = shortId cid, ci_fullId = cid, ci_name = crictl_field output ''name'',
                  ci_podName = crictl_field output ''io.kubernetes.pod.name'',
                  ci_podNamespace = crictl_field output ''io.kubernetes.pod.namespace'',
                  ci_image = crictl_field output ''image'', ci_runtime = detectedRuntime m\<rparr>)"

definition queryContainerd :: "cm_env \<Rightarrow> ContainerMapper \<Rightarrow> string \<Rightarrow> ContainerInfo option" where
  "queryContainerd e m cid = queryCrictl e m cid"

definition queryCrio :: "cm_env \<Rightarrow> ContainerMapper \<Rightarrow> string \<Rightarrow> ContainerInfo option" where
  "queryCrio e m cid = queryCrictl e m cid"

definition first_line :: "string option \<Rightarrow> string" where
  "first_line f = (case f of None \<Rightarrow> '''' | Some text \<Rightarrow>
     (case getline text of None \<Rightarrow> '''' | Some (l, _) \<Rightarrow> l))"

definition k8s_token_path :: string where
  "k8s_token_path = ''/var/run/secrets/kubernetes.io/serviceaccount/token''"

definition queryKubernetes :: "cm_env \<Rightarrow> string \<Rightarrow> ContainerInfo option" where
  "queryKubernetes e uid =
     (let podName = first_line (read_file e ''/etc/podinfo/name'');
          podNamespace = first_line (read_file e ''/etc/podinfo/namespace'')
      in if fileExists e ''/etc/podinfo/name'' \<and> podName \<noteq> [] then
           Some (ContainerInfo_new\<lparr>ci_podName := podName, ci_podNamespace := podNamespace\<rparr>)
         else (case getenv e ''KUBERNETES_POD_NAME'' of
           Some podName \<Rightarrow> Some (ContainerInfo_new\<lparr>ci_podName := podName,
             ci_podNamespace := (case getenv e ''KUBERNETES_NAMESPACE'' of Some ns \<Rightarrow> ns | None \<Rightarrow> ''default'')\<rparr>)
         | None \<Rightarrow>
             if \<not> fileExists e k8s_token_path then None
             else (case read_file e k8s_token_path of None \<Rightarrow> None | Some token \<Rightarrow> None)))"

subsection \<open>Lookup\<close>

definition query_runtime :: "cm_env \<Rightarrow> ContainerMapper \<Rightarrow> CgroupInfo \<Rightarrow> ContainerInfo option" where
  "query_runtime e m cgroup =
     (case cg_runtime cgroup of
        DOCKER \<Rightarrow> queryDocker e m (containerId cgroup)
      | CONTAINERD \<Rightarrow> queryCrictl e m (containerId cgroup)
      | CRIO \<Rightarrow> queryCrictl e m (containerId cgroup)
      | UNKNOWN \<Rightarrow>
          (case queryDocker e m (containerId cgroup) of
             None \<Rightarrow> queryCrictl e m (containerId cgroup) | Some info \<Rightarrow> Some info))"

definition basicInfo :: "CgroupInfo \<Rightarrow> ContainerInfo" where
  "basicInfo cgroup = \<lparr>ci_id = take 12 (containerId cgroup), ci_fullId = containerId cgroup,
     ci_name = take 12 (containerId cgroup), ci_podName = '''', ci_podNamespace = '''',
     ci_image = '''', ci_runtime = cg_runtime cgroup\<rparr>"

definition resolve_info :: "cm_env \<Rightarrow> ContainerMapper \<Rightarrow> CgroupInfo \<Rightarrow> ContainerInfo" where
  "resolve_info e m cgroup =
     (case query_runtime e m cgroup of
        None \<Rightarrow> basicInfo cgroup
      | Some info \<Rightarrow>
          if enableKubernetesApi (cm_config m) \<and> podUid cgroup \<noteq> [] then
            (case queryKubernetes e (podUid cgroup) of
               Some k8s \<Rightarrow> info\<lparr>ci_podName := ci_podName k8s, ci_podNamespace := ci_podNamespace k8s\<rparr>
             | None \<Rightarrow> info)
          else info)"

definition cm_miss :: "cm_env \<Rightarrow> ContainerMapper \<Rightarrow> u64 \<Rightarrow> u32 \<Rightarrow> ContainerInfo option \<times> ContainerMapper" where
  "cm_miss e m cgroupId pid =
     (let cgroup = parseCgroup e m pid in
      if containerId cgroup = [] then (None, m)
      else let info = resolve_info e m cgroup in
        (Some info, m\<lparr>cm_cache := (cm_cache m)(cgroupId \<mapsto>
           \<lparr>cm_info = info, cm_expiresAtNs = cm_now_store e + ttl_ns (cacheTTLSeconds (cm_config m))\<rparr>)\<rparr>))"

definition getContainerInfo :: "cm_env \<Rightarrow> ContainerMapper \<Rightarrow> u64 \<Rightarrow> u32 \<Rightarrow> ContainerInfo option \<times> ContainerMapper" where
  "getContainerInfo e m cgroupId pid =
     (case cm_cache m cgroupId of
        Some entry \<Rightarrow>
          if cm_now_check e < cm_expiresAtNs entry then (Some (cm_info entry), m)
          else cm_miss e (m\<lparr>cm_cache := (cm_cache m)(cgroupId := None)\<rparr>) cgroupId pid
      | None \<Rightarrow> cm_miss e m cgroupId pid)"

definition display_name :: "CM_Config \<Rightarrow> ContainerInfo \<Rightarrow> string" where
  "display_name c info =
     (if preferPodName c \<and> ci_podName info \<noteq> [] then
        (if ci_podNamespace info \<noteq> [] \<and> ci_podNamespace info \<noteq> ''default''
         then ci_podNamespace info @ ''/'' @ ci_podName info else ci_podName info)
      else if ci_name info \<noteq> [] then ci_name info
      else ci_id info)"

definition cm_getContainerName :: "cm_env \<Rightarrow> ContainerMapper \<Rightarrow> u64 \<Rightarrow> u32 \<Rightarrow> string \<times> ContainerMapper" where
  "cm_getContainerName e m cgroupId pid =
     (case getContainerInfo e m cgroupId pid of
        (None, m') \<Rightarrow> ('''', m')
      | (Some info, m') \<Rightarrow> (display_name (cm_config m) info, m'))"

subsection \<open>Container and pod ids\<close>

lemma crio_pattern_hex:
  "regex_search crio_pattern s = Some gs \<Longrightarrow> \<exists>h. gs = [h] \<and> hex_id 12 64 h"
proof -
  assume "regex_search crio_pattern s = Some gs"
  then obtain i where "rmatch crio_pattern (drop i s) = Some gs" by (blast dest: search_sound)
  then obtain s' where "rmatch [Rep True hex_cls 12 (Some 64) True] s' = Some gs"
    unfolding crio_pattern_def by (blast dest: rmatch_prefix)
  then show ?thesis by (rule rmatch_hex_group)
qed

lemma rmatch_pod_prefix: "rmatch (pod_prefix @ p) s = Some gs \<Longrightarrow> \<exists>s'. rmatch p s' = Some gs"
proof -
  assume "rmatch (pod_prefix @ p) s = Some gs"
  then have "rmatch (lits ''kubepods'' @ Rep False not_slash_cls 0 None True # One (chr_cls (CHR ''/'')) #
      Rep False not_slash_cls 0 None True # (lits ''/pod'' @ p)) s = Some gs"
    by (simp add: pod_prefix_def)
  then show ?thesis by (blast dest: rmatch_prefix rmatch_skip_rep rmatch_One)
qed

definition pod_uid :: "string \<Rightarrow> bool" where
  "pod_uid u \<longleftrightarrow> length u = 36 \<and> (\<forall>c \<in> set u. cmatch uid_cls c)"

lemma rmatch_uid_group:
  assumes "rmatch (Rep True uid_cls 36 (Some 36) True # p) s = Some gs"
  shows "\<exists>u hs s'. gs = u # hs \<and> pod_uid u \<and> rmatch p s' = Some hs"
proof -
  from assms obtain n hs where n: "36 \<le> n" "n \<le> 36" "n \<le> length (takeWhile (cmatch uid_cls) s)"
    and "rmatch p (drop n s) = Some hs" "gs = take n s # hs"
    by (auto simp: rmatch.simps(3) set_rep_counts dest!: first_some_eq_Some)
  moreover have "pod_uid (take n s)"
    using take_run [OF n(3)] n(1,2) by (simp add: pod_uid_def)
  ultimately show ?thesis by blast
qed

lemma pod_pattern_uid: "regex_search pod_pattern s = Some gs \<Longrightarrow> \<exists>u hs. gs = u # hs \<and> pod_uid u"
proof -
  assume "regex_search pod_pattern s = Some gs"
  then obtain i where "rmatch pod_pattern (drop i s) = Some gs" by (blast dest: search_sound)
  then show ?thesis
    unfolding pod_pattern_def by (blast dest: rmatch_pod_prefix rmatch_uid_group)
qed

lemma kube_pattern_groups:
  "regex_search kube_pattern s = Some gs \<Longrightarrow> \<exists>u h. gs = [u, h] \<and> pod_uid u \<and> hex_id 64 64 h"
proof -
  assume "regex_search kube_pattern s = Some gs"
  then obtain i where "rmatch kube_pattern (drop i s) = Some gs" by (blast dest: search_sound)
  then obtain s\<^sub>1 where "rmatch (Rep True uid_cls 36 (Some 36) True # lits ''/'' @
      [Rep True hex_cls 64 (Some 64) True]) s\<^sub>1 = Some gs"
    unfolding kube_pattern_def by (blast dest: rmatch_pod_prefix)
  from rmatch_uid_group [OF this] obtain u hs s' where "gs = u # hs" "pod_uid u"
    "rmatch (lits ''/'' @ [Rep True hex_cls 64 (Some 64) True]) s' = Some hs" by blast
  then show ?thesis by (blast dest: rmatch_prefix rmatch_hex_group)
qed

definition placed :: "CgroupInfo \<Rightarrow> bool" where
  "placed r \<longleftrightarrow> hex_id 12 64 (containerId r) \<and> (podUid r = [] \<or> pod_uid (podUid r))"

lemma placed_make [simp]:
  "placed \<lparr>containerId = h, podUid = u, cg_runtime = rt\<rparr> \<longleftrightarrow> hex_id 12 64 h \<and> (u = [] \<or> pod_uid u)"
  by (simp add: placed_def)

lemma with_pod_uid_placed:
  assumes "hex_id 12 64 h"
  shows "placed (with_pod_uid line \<lparr>containerId = h, podUid = [], cg_runtime = rt\<rparr>)"
proof (cases "regex_search pod_pattern line")
  case None
  with assms show ?thesis by (simp add: with_pod_uid_def)
next
  case (Some gs)
  with pod_pattern_uid obtain u hs where "gs = u # hs" "pod_uid u" by blast
  with Some assms show ?thesis by (simp add: with_pod_uid_def)
qed

lemma cgroup_of_line_placed:
  assumes "cgroup_of_line d CgroupInfo_new line = Some r"
  shows "placed r"
proof -
  note ids = id_patterns_hex [of line] crio_pattern_hex [of line] kube_pattern_groups [of line]
  have wide: "hex_id 64 64 h \<Longrightarrow> hex_id 12 64 h" for h by (simp add: hex_id_def)
  show ?thesis
    using assms ids unfolding cgroup_of_line_def CgroupInfo_new_def
    by (auto intro: wide intro!: with_pod_uid_placed split: option.splits list.splits)
qed

lemma parseCgroup_placed: "parseCgroup e m pid = CgroupInfo_new \<or> placed (parseCgroup e m pid)"
proof -
  have "cgroup_of_lines d CgroupInfo_new ls = CgroupInfo_new \<or> placed (cgroup_of_lines d CgroupInfo_new ls)" for d ls
    by (induction ls) (auto split: option.splits dest: cgroup_of_line_placed)
  then show ?thesis by (simp add: parseCgroup_def Let_def split: option.split)
qed

subsection \<open>What a lookup returns and remembers\<close>

definition identified :: "ContainerInfo \<Rightarrow> bool" where
  "identified info \<longleftrightarrow> hex_id 12 64 (ci_fullId info) \<and> ci_id info = take 12 (ci_fullId info)"

lemma shortId_take: "shortId c = take 12 c"
  by (simp add: shortId_def)

lemma queryDocker_ids:
  "queryDocker e m c = Some info \<Longrightarrow> ci_fullId info = c \<and> ci_id info = take 12 c"
  by (auto simp: queryDocker_def shortId_take Let_def split: if_splits)

lemma queryCrictl_ids:
  "queryCrictl e m c = Some info \<Longrightarrow> ci_fullId info = c \<and> ci_id info = take 12 c"
  by (auto simp: queryCrictl_def shortId_take Let_def split: if_splits)

lemma resolve_info_ids:
  "ci_fullId (resolve_info e m cg) = containerId cg \<and> ci_id (resolve_info e m cg) = take 12 (containerId cg)"
proof (cases "query_runtime e m cg")
  case None
  then show ?thesis by (simp add: resolve_info_def basicInfo_def)
next
  case (Some info)
  then have "ci_fullId info = containerId cg \<and> ci_id info = take 12 (containerId cg)"
    by (auto simp: query_runtime_def split: Runtime.splits option.splits dest: queryDocker_ids queryCrictl_ids)
  with Some show ?thesis by (simp add: resolve_info_def split: option.split)
qed

lemma display_name_nonempty: "identified info \<Longrightarrow> display_name c info \<noteq> []"
  by (auto simp: identified_def display_name_def hex_id_def)

lemma cm_miss_cases:
  assumes "cm_miss e m cg p = (r, m')"
  obtains (outside) "r = None" "m' = m" "\<not> isContainer e m p"
  | (inside) info where "r = Some info" "isContainer e m p" "info = resolve_info e m (parseCgroup e m p)"
      "m' = m\<lparr>cm_cache := (cm_cache m)(cg \<mapsto> \<lparr>cm_info = info,
         cm_expiresAtNs = cm_now_store e + ttl_ns (cacheTTLSeconds (cm_config m))\<rparr>)\<rparr>"
  using assms by (auto simp: cm_miss_def isContainer_def Let_def split: if_splits)

lemma resolve_info_identified:
  "isContainer e m p \<Longrightarrow> identified (resolve_info e m (parseCgroup e m p))"
  using parseCgroup_placed [of e m p] resolve_info_ids [of e m "parseCgroup e m p"]
  by (auto simp: isContainer_def identified_def placed_def CgroupInfo_new_def)

text \<open>The mappers the program can build: a new one, and what lookups and cache clearing make of it.\<close>

inductive cm_reachable :: "ContainerMapper \<Rightarrow> bool" where
  new: "cm_reachable (ContainerMapper_new e c)"
| lookup: "cm_reachable m \<Longrightarrow> cm_reachable (snd (getContainerInfo e m cg p))"
| clear: "cm_reachable m \<Longrightarrow> cm_reachable (cm_clearCache m)"

definition cm_inv :: "ContainerMapper \<Rightarrow> bool" where
  "cm_inv m \<longleftrightarrow> (\<forall>cg entry. cm_cache m cg = Some entry \<longrightarrow> identified (cm_info entry))"

lemma cm_miss_inv: "cm_inv m \<Longrightarrow> cm_miss e m cg p = (r, m') \<Longrightarrow> cm_inv m' \<and> (\<forall>info. r = Some info \<longrightarrow> identified info)"
  by (erule cm_miss_cases) (auto simp: cm_inv_def resolve_info_identified)

lemma getContainerInfo_inv:
  assumes "cm_inv m" "getContainerInfo e m cg p = (r, m')"
  shows "cm_inv m' \<and> (\<forall>info. r = Some info \<longrightarrow> identified info)"
proof -
  have inv': "cm_inv (m\<lparr>cm_cache := (cm_cache m)(cg := None)\<rparr>)" using assms(1) by (simp add: cm_inv_def)
  show ?thesis
    using assms cm_miss_inv [OF assms(1), of e cg p] cm_miss_inv [OF inv', of e cg p]
    by (auto simp: getContainerInfo_def cm_inv_def split: option.splits if_splits)
qed

lemma cm_reachable_inv: "cm_reachable m \<Longrightarrow> cm_inv m"
proof (induction rule: cm_reachable.induct)
  case (new e c)
  show ?case by (simp add: ContainerMapper_new_def cm_inv_def)
next
  case (lookup m e cg p)
  then show ?case using getContainerInfo_inv [of m e cg p] by (metis prod.collapse)
next
  case (clear m)
  show ?case by (simp add: cm_clearCache_def cm_inv_def)
qed

definition cm_cached :: "ContainerMapper \<Rightarrow> u64 \<Rightarrow> (string \<times> u64) option" where
  "cm_cached m cg = map_option (\<lambda>c. (display_name (cm_config m) (cm_info c), cm_expiresAtNs c)) (cm_cache m cg)"

definition cm_expiry :: "cm_env \<Rightarrow> ContainerMapper \<Rightarrow> u64" where
  "cm_expiry e m = cm_now_store e + ttl_ns (cacheTTLSeconds (cm_config m))"

lemma cm_cached_None [simp]: "cm_cache m cg = None \<Longrightarrow> cm_cached m cg = None"
  by (simp add: cm_cached_def)

definition cm_forget :: "ContainerMapper \<Rightarrow> u64 \<Rightarrow> ContainerMapper" where
  "cm_forget m cg = m\<lparr>cm_cache := (cm_cache m)(cg := None)\<rparr>"

lemma cm_forget_simps [simp]:
  "cm_config (cm_forget m cg) = cm_config m"
  "cm_cache (cm_forget m cg) = (cm_cache m)(cg := None)"
  "cm_expiry e (cm_forget m cg) = cm_expiry e m"
  "cm_cached (cm_forget m cg) = (cm_cached m)(cg := None)"
  by (simp_all add: cm_forget_def cm_expiry_def cm_cached_def fun_eq_iff)

lemma cm_miss_cached:
  "cm_miss e m cg p = (r, m') \<Longrightarrow>
     (r = None \<and> m' = m) \<or>
     (\<exists>info. r = Some info \<and> cm_cached m' = (cm_cached m)(cg \<mapsto> (display_name (cm_config m) info, cm_expiry e m)))"
  by (erule cm_miss_cases) (auto simp: cm_cached_def cm_expiry_def fun_eq_iff)

lemma cm_getContainerName_stale:
  assumes "\<And>n x. cm_cached m cg = Some (n, x) \<Longrightarrow> \<not> cm_now_check e < x"
    and "cm_getContainerName e m cg p = (n', m')"
  obtains (keep) r m\<^sub>0 where "m\<^sub>0 = m \<and> cm_cache m cg = None \<or> m\<^sub>0 = cm_forget m cg" "cm_miss e m\<^sub>0 cg p = (r, m')"
    "n' = (case r of None \<Rightarrow> '''' | Some info \<Rightarrow> display_name (cm_config m) info)"
proof (cases "cm_cache m cg")
  case None
  then have "cm_getContainerName e m cg p = (case cm_miss e m cg p of (None, m') \<Rightarrow> ('''', m')
      | (Some info, m') \<Rightarrow> (display_name (cm_config m) info, m'))"
    by (simp add: cm_getContainerName_def getContainerInfo_def)
  with None assms(2) that [of m] show ?thesis by (auto split: prod.splits option.splits)
next
  case (Some entry)
  with assms(1) have "\<not> cm_now_check e < cm_expiresAtNs entry" by (simp add: cm_cached_def)
  with Some have "cm_getContainerName e m cg p = (case cm_miss e (cm_forget m cg) cg p of (None, m') \<Rightarrow> ('''', m')
      | (Some info, m') \<Rightarrow> (display_name (cm_config m) info, m'))"
    by (simp add: cm_getContainerName_def getContainerInfo_def cm_forget_def)
  with assms(2) that [of "cm_forget m cg"] show ?thesis by (auto split: prod.splits option.splits)
qed

interpretation multi: name_resolver cm_getContainerName cm_cached cm_now_check cm_expiry
proof
  show hit: "cm_cached m cg = Some (n, x) \<Longrightarrow> cm_now_check e < x \<Longrightarrow> cm_getContainerName e m cg p = (n, m)"
    for m cg n x e p
    by (auto simp: cm_cached_def cm_getContainerName_def getContainerInfo_def)
  show "cm_cached m' cg = None \<or> cm_cached m' cg = Some (n', cm_expiry e m)"
    if "\<And>n x. cm_cached m cg = Some (n, x) \<Longrightarrow> \<not> cm_now_check e < x"
      "cm_getContainerName e m cg p = (n', m')" for m cg e p n' m'
    using that
    by (rule cm_getContainerName_stale) (auto dest!: cm_miss_cached)
  show "cm_cached m' cg' = cm_cached m cg'"
    if "cm_getContainerName e m cg p = (n', m')" "cg' \<noteq> cg" for e m cg p n' m' cg'
  proof (cases "\<exists>n x. cm_cached m cg = Some (n, x) \<and> cm_now_check e < x")
    case True
    with that hit show ?thesis by force
  next
    case False
    then have "\<And>n x. cm_cached m cg = Some (n, x) \<Longrightarrow> \<not> cm_now_check e < x" by blast
    from this that(1) show ?thesis
      by (rule cm_getContainerName_stale) (use that(2) in \<open>auto dest!: cm_miss_cached\<close>)
  qed
qed

lemma getContainerName_fst:
  "fst (cm_getContainerName e m cg p) =
     (case fst (getContainerInfo e m cg p) of None \<Rightarrow> '''' | Some info \<Rightarrow> display_name (cm_config m) info)"
  by (simp add: cm_getContainerName_def split: prod.split option.split)

subsection \<open>Properties\<close>

text \<open>Placing a process either finds nothing, leaving the default value, or finds a container id
  of 12 to 64 hexadecimal digits with a pod id that is empty or 36 characters of
  hexadecimal digits and dashes; the process counts as a container process in exactly the second case.\<close>

theorem parseCgroup_shape:
  "if isContainer e m pid
   then hex_id 12 64 (containerId (parseCgroup e m pid)) \<and>
     (podUid (parseCgroup e m pid) = [] \<or> pod_uid (podUid (parseCgroup e m pid)))
   else parseCgroup e m pid = CgroupInfo_new"
  using parseCgroup_placed [of e m pid]
  by (auto simp: isContainer_def placed_def CgroupInfo_new_def hex_id_def)

definition empty_host :: cm_env where
  "empty_host = \<lparr>fileExists = (\<lambda>_. False), read_file = (\<lambda>_. None), popen = (\<lambda>_. None),
     cm_unix_get = (\<lambda>_ _. NoCurl), getenv = (\<lambda>_. None), cm_now_check = 5, cm_now_store = 6\<rparr>"

definition crio_host :: cm_env where
  "crio_host = empty_host\<lparr>read_file := (\<lambda>f. if f = ''/proc/42/cgroup'' then Some ''crio-0123456789abcdef'' else None)\<rparr>"



text \<open>A name the mapper resolved for a cgroup is what every later lookup of that cgroup returns,
  for any process and whichever other cgroups were looked up in between, until its expiry.\<close>

theorem container_name_stable:
  assumes "cm_getContainerName e m cg p = (n, m')" "cm_cache m' cg = Some entry"
    and "cm_now_check e' < cm_expiresAtNs entry" "\<forall>(e, cg', p) \<in> set ls. cg' \<noteq> cg"
  shows "fst (cm_getContainerName e' (multi.lookups m' ls) cg p') = n"
  using assms by (intro multi.stable_interleaved [of e m cg p n m' _ "cm_expiresAtNs entry"])
    (auto simp: cm_cached_def)

theorem container_name_stable_witness:
  "fst (cm_getContainerName empty_host
     (multi.lookups \<lparr>cm_config = CM_Config_default, detectedRuntime = UNKNOWN,
        cm_cache = [7 \<mapsto> \<lparr>cm_info = ContainerInfo_new\<lparr>ci_name := ''web''\<rparr>, cm_expiresAtNs = 100\<rparr>]\<rparr>
        [(empty_host, 8, 3)]) 7 9) = ''web''"
proof -
  let ?m = "\<lparr>cm_config = CM_Config_default, detectedRuntime = UNKNOWN,
    cm_cache = [7 \<mapsto> \<lparr>cm_info = ContainerInfo_new\<lparr>ci_name := ''web''\<rparr>, cm_expiresAtNs = 100\<rparr>]\<rparr>"
  have "cm_getContainerName empty_host ?m 7 1 = (''web'', ?m)"
    by (simp add: cm_getContainerName_def getContainerInfo_def empty_host_def display_name_def
        ContainerInfo_new_def)
  then show ?thesis
    by (rule container_name_stable [where entry = "\<lparr>cm_info = ContainerInfo_new\<lparr>ci_name := ''web''\<rparr>, cm_expiresAtNs = 100\<rparr>"])
      (simp_all add: empty_host_def)
qed

lemma c_str_id: "CHR 0x00 \<notin> set s \<Longrightarrow> c_str s = s"
  by (auto simp: c_str_def takeWhile_eq_all_conv)

text \<open>The output of a command without NUL bytes is returned complete, however long its lines
  are compared with the 4096-byte buffer and whether or not it ends in a newline.\<close>

lemma execCommand_complete:
  assumes "popen e cmd = Some out" "CHR 0x00 \<notin> set out"
  shows "execCommand e cmd = out"
proof -
  have "fgets_loop s = s" if "CHR 0x00 \<notin> set s" for s
    using that
  proof (induction s rule: fgets_loop.induct)
    case (1 s)
    show ?case
    proof (cases "s = []")
      case False
      have "set s = set (fst (fgets 4095 s)) \<union> set (snd (fgets 4095 s))"
        by (metis fgets_split set_append)
      with 1 False show ?thesis by (simp add: fgets_loop.simps [of s] c_str_id fgets_split)
    qed (simp add: fgets_loop.simps)
  qed
  with assms show ?thesis by (simp add: execCommand_def)
qed

end
