(* ===== verification/Pod_Names.thy ===== *)
theory Pod_Names
  imports Container_Mapper
begin

text \<open>
  The lookup of \<^verbatim>\<open>agent/src/container_mapper.cpp\<close> end to end on a Kubernetes node: from the cgroup
  file of a process, through \<^verbatim>\<open>crictl inspect\<close>, to the pod name the agent uses as container id; and
  what the names become when the agent's own pod is announced through the downward API.
\<close>

subsection \<open>Fields of the answer of crictl\<close>

text \<open>\<open>first_field key out v\<close>: the first quoted \<open>key\<close> in \<open>out\<close> is followed by the value \<open>v\<close>, in the
  layout \<^verbatim>\<open>crictl\<close> prints.\<close>

definition first_field :: "string \<Rightarrow> string \<Rightarrow> string \<Rightarrow> bool" where
  "first_field key out v \<longleftrightarrow> v \<noteq> [] \<and> CHR 0x22 \<notin> set v \<and>
     (\<exists>pre rest. out = pre @ quoted key @ '': '' @ quoted v @ rest \<and>
        (\<forall>i < length pre. \<not> prefix (quoted key) (drop i out)))"

lemma crictl_pattern_lits:
  "crictl_pattern key = lits (quoted key) @
     [Rep False space_cls 0 None True, One (chr_cls (CHR '':'')), Rep False space_cls 0 None True,
      One (chr_cls (CHR 0x22)), Rep True not_quote_cls 1 None True, One (chr_cls (CHR 0x22))]"
  by (simp add: crictl_pattern_def quoted_def lits_def)

lemma crictl_field_first:
  assumes "first_field key out v"
  shows "crictl_field out key = v"
proof -
  obtain pre rest where out: "out = pre @ quoted key @ '': '' @ quoted v @ rest"
    and first: "\<forall>i < length pre. \<not> prefix (quoted key) (drop i out)"
    and v: "v \<noteq> []" "CHR 0x22 \<notin> set v"
    using assms by (auto simp: first_field_def)
  have "cmatch space_cls (CHR '' '')" by (simp add: cmatch_space)
  with v have "rmatch [Rep False space_cls 0 None True, One (chr_cls (CHR '':'')), Rep False space_cls 0 None True,
      One (chr_cls (CHR 0x22)), Rep True not_quote_cls 1 None True, One (chr_cls (CHR 0x22))]
      ('': '' @ quoted v @ rest) = Some [v]"
    by (simp add: quoted_def rmatch_rep_stop Let_def takeWhile_not_quote Suc_le_eq)
  then have "regex_search (crictl_pattern key) out = Some [v]"
    unfolding crictl_pattern_lits out
    by (rule search_after [rotated]) (use first in \<open>auto simp: out\<close>)
  then show ?thesis by (simp add: crictl_field_def)
qed

subsection \<open>The scope of a containerd container\<close>

text \<open>A cgroup line of a container that containerd runs under the systemd cgroup driver: some slices,
  then the scope named after the container. The name \<^verbatim>\<open>docker\<close> does not occur, and the scope is the
  first of its kind.\<close>

definition containerd_scope :: "string \<Rightarrow> string \<Rightarrow> string \<Rightarrow> bool" where
  "containerd_scope slices h line \<longleftrightarrow> line = slices @ ''cri-containerd-'' @ h @ ''.scope'' \<and>
     hex_id 12 64 h \<and> CHR 0x0A \<notin> set slices \<and> \<not> sublist ''docker'' line \<and>
     (\<forall>i < length slices. \<not> prefix ''cri-containerd-'' (drop i line))"

lemma search_docker_None:
  assumes "\<not> sublist ''docker'' s"
  shows "regex_search docker_pattern s = None"
proof (rule ccontr)
  assume "regex_search docker_pattern s \<noteq> None"
  then obtain gs i where "rmatch docker_pattern (drop i s) = Some gs" by (auto dest: search_sound)
  then have "prefix ''docker'' (drop i s)"
    unfolding docker_pattern_def by (simp only: rmatch_lits option.distinct split: if_splits)
  then have "sublist ''docker'' s"
    by (metis append_take_drop_id prefix_def sublist_def)
  with assms show False ..
qed

lemma containerd_scope_found:
  assumes "containerd_scope slices h line"
  shows "regex_search containerd_pattern line = Some [h]"
proof -
  have hex: "\<forall>c \<in> set h. cmatch hex_cls c" and len: "12 \<le> length h" "length h \<le> 64"
    and line: "line = slices @ ''cri-containerd-'' @ h @ ''.scope''"
    and first: "\<forall>i < length slices. \<not> prefix ''cri-containerd-'' (drop i line)"
    using assms by (auto simp: containerd_scope_def hex_id_def)
  have "takeWhile (cmatch hex_cls) (h @ ''.scope'') = h"
    using hex by (subst takeWhile_append2) (auto simp: cmatch_hex is_digit_def)
  with len have "rmatch [Rep True hex_cls 12 (Some 64) True] (h @ ''.scope'') = Some [h]"
    by (simp add: rmatch_rep_last Let_def)
  then show ?thesis
    unfolding containerd_pattern_def line
    by (rule search_after [rotated]) (use first in \<open>auto simp: line\<close>)
qed

lemma containerd_scope_placed:
  assumes "containerd_scope slices h line"
    and "read_file e (''/proc/'' @ show_nat (unat pid) @ ''/cgroup'') = Some (line @ CHR 0x0A # ls)"
  shows "parseCgroup e m pid =
    with_pod_uid line (CgroupInfo_new\<lparr>containerId := h, cg_runtime := CONTAINERD\<rparr>)"
proof -
  have "CHR 0x0A \<notin> set line"
    using assms(1) by (auto simp: containerd_scope_def hex_id_def cmatch_hex is_digit_def)
  then have "lines_of (line @ CHR 0x0A # ls) = line # lines_of ls"
    by (subst lines_of.simps) (simp add: getline_append_newline)
  moreover have "regex_search docker_pattern line = None"
    using assms(1) unfolding containerd_scope_def by (elim conjE) (rule search_docker_None)
  ultimately show ?thesis
    using assms containerd_scope_found [OF assms(1)]
    by (simp add: parseCgroup_def cgroup_of_line_def)
qed

text \<open>What a lookup of an uncached cgroup answers once the process is placed and the runtime has
  answered: the name of that answer, with the agent's own pod put over it if there is a pod id.\<close>

lemma lookup_uncached:
  assumes "cm_cache m cg = None" "containerId (parseCgroup e m pid) \<noteq> []"
  shows "cm_getContainerName e m cg pid =
    (let info = resolve_info e m (parseCgroup e m pid) in
     (display_name (cm_config m) info, m\<lparr>cm_cache := (cm_cache m)(cg \<mapsto>
        \<lparr>cm_info = info, cm_expiresAtNs = cm_expiry e m\<rparr>)\<rparr>))"
  using assms by (simp add: cm_getContainerName_def getContainerInfo_def cm_miss_def cm_expiry_def Let_def)

subsection \<open>Properties\<close>

text \<open>C33: Resolution of a pod end to end: a process whose cgroup file begins with the scope of a
  containerd container is given the namespace and name of the pod that \<^verbatim>\<open>crictl\<close> reports for the
  first twelve digits of the container, whatever else the output holds and however long it is, and
  every lookup of that cgroup before the expiry gives the same name. The agent's own pod must not be
  announced to it when the process has a pod id.\<close>

theorem pod_resolved:
  assumes scope: "containerd_scope slices h line"
    and cgf: "read_file e (''/proc/'' @ show_nat (unat pid) @ ''/cgroup'') = Some (line @ CHR 0x0A # ls)"
    and crictl: "fileExists e (crictlPath (cm_config m))"
      "popen e (crictlPath (cm_config m) @ '' inspect '' @ take 12 h @ '' 2>/dev/null'') = Some out"
      "CHR 0x00 \<notin> set out"
    and pod: "first_field ''io.kubernetes.pod.name'' out n" "first_field ''io.kubernetes.pod.namespace'' out ns"
    and "preferPodName (cm_config m)" "cm_cache m cg = None"
    and own: "podUid (parseCgroup e m pid) = [] \<or> queryKubernetes e (podUid (parseCgroup e m pid)) = None"
    and name: "name = (if ns = ''default'' then n else ns @ ''/'' @ n)"
  shows "fst (cm_getContainerName e m cg pid) = name \<and>
    (cm_now_check e' < cm_expiry e m \<longrightarrow>
       fst (cm_getContainerName e' (snd (cm_getContainerName e m cg pid)) cg pid') = name)"
proof -
  let ?cg = "parseCgroup e m pid" and ?info = "resolve_info e m (parseCgroup e m pid)"
  have h: "h \<noteq> []" using scope by (auto simp: containerd_scope_def hex_id_def)
  have id: "containerId ?cg = h" "cg_runtime ?cg = CONTAINERD"
    unfolding containerd_scope_placed [OF scope cgf]
    by (simp_all add: with_pod_uid_def CgroupInfo_new_def split: option.split list.split)
  have "out \<noteq> []" using pod(1) by (auto simp: first_field_def quoted_def)
  then have q: "queryCrictl e m h = Some \<lparr>ci_id = take 12 h, ci_fullId = h, ci_name = crictl_field out ''name'',
      ci_podName = n, ci_podNamespace = ns, ci_image = crictl_field out ''image'', ci_runtime = detectedRuntime m\<rparr>"
    using crictl execCommand_complete [OF crictl(2,3)]
    by (simp add: queryCrictl_def shortId_take crictl_field_first [OF pod(1)] crictl_field_first [OF pod(2)])
  have "n \<noteq> []" "ns \<noteq> []" using pod by (auto simp: first_field_def)
  with q id own assms(8) have shown: "display_name (cm_config m) ?info = name"
    by (auto simp: name resolve_info_def query_runtime_def display_name_def)
  note found = lookup_uncached [of m cg e pid, unfolded id(1), OF assms(9) h]
  then have "cm_cached (snd (cm_getContainerName e m cg pid)) cg = Some (name, cm_expiry e m)"
    using shown by (simp add: cm_cached_def Let_def)
  with found shown multi.hit show ?thesis by (simp add: Let_def)
qed

definition pod_answer :: string where
  "pod_answer = ''{'' @ quoted ''io.kubernetes.pod.name'' @ '': '' @ quoted ''web-1'' @ '', '' @
     quoted ''io.kubernetes.pod.namespace'' @ '': '' @ quoted ''shop'' @ ''}''"

definition pod_node :: "string \<Rightarrow> cm_env" where  \<comment> \<open>a node on which process 42 has the given cgroup line\<close>
  "pod_node line = empty_host\<lparr>
     fileExists := (\<lambda>f. f = ''/usr/bin/crictl''),
     read_file := (\<lambda>f. if f = ''/proc/42/cgroup'' then Some (line @ [CHR 0x0A]) else None),
     popen := (\<lambda>cmd. Some pod_answer)\<rparr>"

definition crictl_mapper :: ContainerMapper where
  "crictl_mapper = \<lparr>cm_config = CM_Config_default, detectedRuntime = CONTAINERD, cm_cache = Map.empty\<rparr>"

theorem pod_resolved_witness:
  "fst (cm_getContainerName (pod_node ''0::/kubepods.slice/cri-containerd-0123456789abcdef.scope'') crictl_mapper 7 42) = ''shop/web-1''"
proof -
  let ?line = "''0::/kubepods.slice/cri-containerd-0123456789abcdef.scope''"
  let ?name = "''{'' @ quoted ''io.kubernetes.pod.name'' @ '': '' @ quoted ''web-1'' @ '', ''"
  let ?ns = "quoted ''io.kubernetes.pod.namespace'' @ '': '' @ quoted ''shop'' @ ''}''"
  have "containerd_scope ''0::/kubepods.slice/'' ''0123456789abcdef'' ?line"
    by (simp add: containerd_scope_def hex_id_def cmatch_hex is_digit_def sublist_Cons_right
        All_less_Suc numeral_nat)
  moreover have "first_field ''io.kubernetes.pod.name'' pod_answer ''web-1''"
    unfolding first_field_def
    by (intro conjI exI [of _ "''{''"] exI [of _ "'', '' @ ?ns"])
      (simp_all add: pod_answer_def quoted_def All_less_Suc numeral_nat)
  moreover have "first_field ''io.kubernetes.pod.namespace'' pod_answer ''shop''"
    unfolding first_field_def
    by (intro conjI exI [of _ ?name] exI [of _ "''}''"])
      (simp_all add: pod_answer_def quoted_def All_less_Suc numeral_nat)
  ultimately show ?thesis
    by (intro pod_resolved [where out = pod_answer and ls = "[]", THEN conjunct1])
      (assumption | simp add: pod_node_def crictl_mapper_def CM_Config_default_def show_eval queryKubernetes_def
        empty_host_def k8s_token_path_def first_line_def pod_answer_def quoted_def)+
qed

text \<open>C35: The name of every pod becomes that of the agent's pod: when the agent's environment names
  its own pod, as the documented deployment makes it, then every process that is placed with a pod id
  and known to its runtime is given the agent's pod as its name, so all such containers share one
  name, whatever the runtime reported.\<close>

theorem pods_take_agent_name:
  assumes "podUid (parseCgroup e m pid) \<noteq> []" "query_runtime e m (parseCgroup e m pid) \<noteq> None"
    and "enableKubernetesApi (cm_config m)" "preferPodName (cm_config m)" "cm_cache m cg = None"
    and "\<not> fileExists e ''/etc/podinfo/name''"
    and "getenv e ''KUBERNETES_POD_NAME'' = Some own" "own \<noteq> []"
    and "getenv e ''KUBERNETES_NAMESPACE'' = Some ns" "ns \<notin> {'''', ''default''}"
  shows "fst (cm_getContainerName e m cg pid) = ns @ ''/'' @ own"
proof -
  obtain info where "query_runtime e m (parseCgroup e m pid) = Some info" using assms(2) by blast
  moreover have "queryKubernetes e (podUid (parseCgroup e m pid)) =
      Some (ContainerInfo_new\<lparr>ci_podName := own, ci_podNamespace := ns\<rparr>)"
    using assms(6,7,9) by (simp add: queryKubernetes_def)
  ultimately have "display_name (cm_config m) (resolve_info e m (parseCgroup e m pid)) = ns @ ''/'' @ own"
    using assms by (simp add: resolve_info_def display_name_def ContainerInfo_new_def)
  moreover have "containerId (parseCgroup e m pid) \<noteq> []"
    using assms(1) parseCgroup_placed [of e m pid] by (auto simp: placed_def hex_id_def CgroupInfo_new_def)
  ultimately show ?thesis using lookup_uncached [of m cg e pid] assms(5) by (simp add: Let_def)
qed

definition pod_line :: string where  \<comment> \<open>the cgroup of a pod under the cgroupfs driver\<close>
  "pod_line = ''0::/kubepods/burstable/pod0a1b2c3d-0000-1111-2222-0123456789ab/0123456789abcdef0123456789abcdef0123456789abcdef0123456789abcdef''"

definition agent_node :: cm_env where
  "agent_node = (pod_node pod_line)\<lparr>getenv := [''KUBERNETES_POD_NAME'' \<mapsto> ''agent-0'', ''KUBERNETES_NAMESPACE'' \<mapsto> ''monitoring'']\<rparr>"

theorem pods_take_agent_name_witness:
  "fst (cm_getContainerName agent_node crictl_mapper 7 42) = ''monitoring/agent-0''"
proof -
  have cgf: "read_file agent_node (''/proc/'' @ show_nat 42 @ ''/cgroup'') = Some (pod_line @ [CHR 0x0A])"
    by (simp add: agent_node_def pod_node_def show_eval)
  have "CHR 0x0A \<notin> set pod_line" by (simp add: pod_line_def)
  then have lines: "lines_of (pod_line @ [CHR 0x0A]) = [pod_line]"
    by (subst lines_of.simps) (simp add: getline_append_newline)
  have "regex_search docker_pattern pod_line = None"
    "regex_search containerd_pattern pod_line = None" "regex_search crio_pattern pod_line = None"
    by (simp_all add: pod_line_def docker_pattern_def containerd_pattern_def crio_pattern_def lits_def)
  moreover have "regex_search kube_pattern pod_line =
      Some [''0a1b2c3d-0000-1111-2222-0123456789ab'', ''0123456789abcdef0123456789abcdef0123456789abcdef0123456789abcdef'']"
    by (simp add: pod_line_def kube_pattern_def pod_prefix_def lits_def rmatch_rep_stop rmatch_rep_exact Let_def
        cmatch_uid cmatch_hex is_digit_def)
  ultimately have p: "parseCgroup agent_node crictl_mapper 42 =
      \<lparr>containerId = ''0123456789abcdef0123456789abcdef0123456789abcdef0123456789abcdef'',
       podUid = ''0a1b2c3d-0000-1111-2222-0123456789ab'', cg_runtime = CONTAINERD\<rparr>"
    by (simp add: parseCgroup_def cgf [simplified] lines cgroup_of_line_def CgroupInfo_new_def crictl_mapper_def)
  have "execCommand agent_node cmd \<noteq> []" for cmd
    by (subst execCommand_complete [where out = pod_answer])
      (simp_all add: agent_node_def pod_node_def pod_answer_def quoted_def)
  then have "queryCrictl agent_node crictl_mapper h \<noteq> None" for h
    by (simp add: queryCrictl_def agent_node_def pod_node_def crictl_mapper_def CM_Config_default_def Let_def)
  then have known: "query_runtime agent_node crictl_mapper (parseCgroup agent_node crictl_mapper 42) \<noteq> None"
    "podUid (parseCgroup agent_node crictl_mapper 42) \<noteq> []"
    by (simp_all add: p query_runtime_def)
  have node: "\<not> fileExists agent_node ''/etc/podinfo/name''" "getenv agent_node ''KUBERNETES_POD_NAME'' = Some ''agent-0''"
    "getenv agent_node ''KUBERNETES_NAMESPACE'' = Some ''monitoring''"
    by (simp_all add: agent_node_def pod_node_def)
  show ?thesis
    by (subst pods_take_agent_name [OF known(2,1) _ _ _ node(1,2) _ node(3)])
      (simp_all add: crictl_mapper_def CM_Config_default_def)
qed

text \<open>A pod of the guaranteed class has no component for its class in the path, and the pattern asks for
  one: its processes are not placed.\<close>

lemma guaranteed_pod_unplaced:
  "cgroup_of_line d r ''0::/kubepods/pod0a1b2c3d-0000-1111-2222-0123456789ab/0123456789abcdef0123456789abcdef0123456789abcdef0123456789abcdef'' = None"
  by (simp add: cgroup_of_line_def docker_pattern_def containerd_pattern_def crio_pattern_def podman_pattern_def
      kube_pattern_def pod_prefix_def lits_def rmatch_rep_stop rmatch_rep_exact Let_def)

end
