(* ===== verification/Java_Float.thy ===== *)
theory Java_Float
  imports Complex_Main
begin

text \<open>
  Java's \<^verbatim>\<open>float\<close> and \<^verbatim>\<open>double\<close>: a finite value is the rational number it denotes, and each operation
  is the exact operation followed by rounding to the nearest representable value, ties to even, with
  gradual underflow. Infinities and NaN do not arise in the code modelled here: no operand reaches
  the overflow threshold and no divisor is zero. The sign of a zero is not represented.
\<close>

subsection \<open>Binary exponent\<close>

fun nat_log2 :: "nat \<Rightarrow> nat" where
  "nat_log2 n = (if n \<le> 1 then 0 else Suc (nat_log2 (n div 2)))"

declare nat_log2.simps [simp del]

lemma nat_log2_bounds: "0 < n \<Longrightarrow> 2 ^ nat_log2 n \<le> n \<and> n < 2 ^ Suc (nat_log2 n)"
proof (induction n rule: nat_log2.induct)
  case (1 n)
  show ?case
  proof (cases "n \<le> 1")
    case True
    with 1 show ?thesis by (simp add: nat_log2.simps [of n])
  next
    case False
    define k :: nat where "k = 2 ^ nat_log2 (n div 2)"
    from False 1 have "k \<le> n div 2" "n div 2 < 2 * k" by (simp_all add: k_def)
    then have "2 * k \<le> n \<and> n < 4 * k" by presburger
    with False show ?thesis by (simp add: nat_log2.simps [of n] k_def)
  qed
qed

definition exponent :: "rat \<Rightarrow> int" where  \<comment> \<open>of a positive number\<close>
  "exponent q = (let (a, b) = quotient_of q; d = int (nat_log2 (nat a)) - int (nat_log2 (nat b))
     in if 2 powi d \<le> q then d else d - 1)"

lemma exponent_bounds:
  assumes "0 < q"
  shows "2 powi exponent q \<le> q \<and> q < 2 powi (exponent q + 1)"
proof -
  obtain a b where ab: "quotient_of q = (a, b)" by fastforce
  then have q: "q = of_int a / of_int b" and b: "0 < b" by (simp_all add: quotient_of_div quotient_of_denom_pos)
  with assms have a: "0 < a" by (simp add: zero_less_divide_iff)
  let ?la = "nat_log2 (nat a)" and ?lb = "nat_log2 (nat b)"
  have ints: "2 ^ ?la \<le> a" "a < 2 ^ Suc ?la" "2 ^ ?lb \<le> b" "b < 2 ^ Suc ?lb"
    using nat_log2_bounds [of "nat a"] nat_log2_bounds [of "nat b"] a b
    by (simp_all add: le_nat_iff nat_less_iff del: power_Suc)
  have A: "2 ^ ?la \<le> (of_int a :: rat)" "(of_int a :: rat) < 2 ^ Suc ?la"
    and B: "2 ^ ?lb \<le> (of_int b :: rat)" "(of_int b :: rat) < 2 ^ Suc ?lb"
    using ints by (metis of_int_le_iff of_int_less_iff of_int_numeral of_int_power)+
  let ?d = "int ?la - int ?lb"
  have "q < 2 ^ Suc ?la / 2 ^ ?lb"
    unfolding q using A B a b by (intro frac_less) simp_all
  also have "\<dots> = 2 powi (?d + 1)" by (simp add: power_int_diff power_int_add)
  finally have up: "q < 2 powi (?d + 1)" .
  have "(2 :: rat) powi (?d - 1) = 2 ^ ?la / 2 ^ Suc ?lb" by (simp add: power_int_diff)
  also have "\<dots> < q" unfolding q using A B a b by (intro frac_less2) simp_all
  finally have low: "2 powi (?d - 1) \<le> q" by simp
  from up low show ?thesis by (simp add: exponent_def ab Let_def)
qed

lemma power_int_mono_two: "(2 :: rat) powi m \<le> 2 powi n \<longleftrightarrow> m \<le> n"
  using power_int_strict_increasing [of m n "2 :: rat"] power_int_strict_increasing [of n m "2 :: rat"]
  by (cases m n rule: linorder_cases) auto

lemma exponent_mono:
  assumes "0 < x" "x \<le> y"
  shows "exponent x \<le> exponent y"
proof -
  have "2 powi exponent x \<le> x" "y < 2 powi (exponent y + 1)"
    using exponent_bounds [of x] exponent_bounds [of y] assms by simp_all
  with assms(2) have "\<not> 2 powi (exponent y + 1) \<le> (2 :: rat) powi exponent x" by linarith
  then show ?thesis by (simp add: power_int_mono_two)
qed

lemma exponent_one [simp]: "exponent 1 = 0"
  by (simp add: exponent_def nat_log2.simps)

subsection \<open>Rounding to integers and to floating-point numbers\<close>

definition round_even :: "rat \<Rightarrow> int" where
  "round_even q = (let f = \<lfloor>q\<rfloor>; r = q - of_int f in
     if r < 1 / 2 then f else if 1 / 2 < r then f + 1 else if even f then f else f + 1)"

lemma round_even_int [simp]: "round_even (of_int n) = n"
  by (simp add: round_even_def)

lemma round_even_near: "\<lfloor>q\<rfloor> \<le> round_even q \<and> round_even q \<le> \<lfloor>q\<rfloor> + 1"
  by (simp add: round_even_def Let_def)

lemma round_even_mono:
  assumes "x \<le> y"
  shows "round_even x \<le> round_even y"
proof (cases "\<lfloor>x\<rfloor> = \<lfloor>y\<rfloor>")
  case True
  with assms show ?thesis by (auto simp: round_even_def Let_def)
next
  case False
  with assms have "\<lfloor>x\<rfloor> + 1 \<le> \<lfloor>y\<rfloor>" using floor_mono [of x y] by simp
  with round_even_near [of x] round_even_near [of y] show ?thesis by linarith
qed

text \<open>Precision \<open>p\<close>, smallest exponent \<open>emin\<close> of the last place.\<close>

definition last_place :: "nat \<Rightarrow> int \<Rightarrow> rat \<Rightarrow> int" where
  "last_place p emin x = max (exponent x - int p + 1) emin"

definition round_fp :: "nat \<Rightarrow> int \<Rightarrow> rat \<Rightarrow> rat" where
  "round_fp p emin x =
     (if x = 0 then 0
      else let e = last_place p emin \<bar>x\<bar> in of_int (round_even (x / 2 powi e)) * 2 powi e)"

definition f32 :: "rat \<Rightarrow> rat" where "f32 = round_fp 24 (- 149)"
definition f64 :: "rat \<Rightarrow> rat" where "f64 = round_fp 53 (- 1074)"

text \<open>Multiples of the last place, such as integers of at most \<open>p\<close> bits, are kept.\<close>

lemma round_fp_multiple:
  assumes "\<bar>x\<bar> = of_int n * 2 powi last_place p emin \<bar>x\<bar>"
  shows "round_fp p emin x = x"
proof -
  define s :: rat where "s = 2 powi last_place p emin \<bar>x\<bar>"
  have "s \<noteq> 0" by (simp add: s_def)
  obtain m where m: "x = of_int m * s"
  proof (cases "0 \<le> x")
    case True
    with assms that [of n] show ?thesis by (simp add: s_def)
  next
    case False
    with assms that [of "- n"] show ?thesis by (simp add: s_def)
  qed
  have "round_fp p emin x = (if x = 0 then 0 else of_int (round_even (x / s)) * s)"
    by (simp add: round_fp_def s_def Let_def)
  also have "\<dots> = x" using m \<open>s \<noteq> 0\<close> by simp
  finally show ?thesis .
qed

lemma two_powi_nat: "0 \<le> k \<Longrightarrow> (2 :: rat) powi k = of_int (2 ^ nat k)"
  by (simp add: power_int_def)

lemma round_fp_dyadic:
  assumes "n < 2 ^ p" "emin \<le> - int k"
  shows "round_fp p emin (of_nat n / 2 ^ k) = of_nat n / 2 ^ k"
proof (cases "n = 0")
  case False
  let ?x = "of_nat n / 2 ^ k :: rat" and ?e = "last_place p emin (of_nat n / 2 ^ k)"
  have "(2 :: rat) powi (exponent ?x + int k) = 2 powi exponent ?x * 2 ^ k" by (simp add: power_int_add)
  also have "\<dots> \<le> of_nat n" using exponent_bounds [of ?x] False by (simp add: pos_le_divide_eq)
  also have "(of_nat n :: rat) < of_nat (2 ^ p)" using assms(1) by (simp only: of_nat_less_iff)
  finally have "\<not> (2 :: rat) powi int p \<le> 2 powi (exponent ?x + int k)" by simp
  then have "exponent ?x + int k < int p" unfolding power_int_mono_two by simp
  with assms(2) have e: "?e \<le> - int k" by (simp add: last_place_def)
  then have "(2 :: rat) powi (- ?e) = 2 ^ nat (- ?e - int k) * 2 ^ k"
    using power_int_add [of "2 :: rat" "- ?e - int k" "int k"] by (simp add: two_powi_nat)
  then have "(2 :: rat) powi ?e = inverse (2 ^ nat (- ?e - int k) * 2 ^ k)" by (metis inverse_inverse_eq power_int_minus)
  then have "?x = of_int (int n * 2 ^ nat (- ?e - int k)) * 2 powi ?e" by (simp add: divide_inverse)
  then show ?thesis by (intro round_fp_multiple) (simp only: abs_of_nonneg of_nat_0_le_iff divide_nonneg_nonneg zero_le_power zero_le_numeral)
qed (simp add: round_fp_def)

lemma round_fp_nat: "n < 2 ^ p \<Longrightarrow> emin \<le> 0 \<Longrightarrow> round_fp p emin (of_nat n) = of_nat n"
  using round_fp_dyadic [of n p emin 0] by simp

lemma f32_nat: "n < 16777216 \<Longrightarrow> f32 (of_nat n) = of_nat n"
  by (simp add: f32_def round_fp_nat)

lemma f64_nat: "n < 9007199254740992 \<Longrightarrow> f64 (of_nat n) = of_nat n"
  by (simp add: f64_def round_fp_nat)

text \<open>Rounding keeps the order of non-negative numbers, so it stays between representable bounds.\<close>

lemma round_fp_nonneg: "0 \<le> x \<Longrightarrow> 0 \<le> round_fp p emin x"
  using round_even_mono [of 0 "x / 2 powi last_place p emin \<bar>x\<bar>"] round_even_int [of 0]
  by (simp add: round_fp_def Let_def)

lemma round_fp_ge_power:
  assumes "0 < y" "emin < last_place p emin y" "0 < p"
  shows "2 powi exponent y \<le> round_fp p emin y"
proof -
  let ?e = "last_place p emin y"
  have e: "exponent y = ?e + int (p - 1)" using assms(2,3) by (auto simp: last_place_def)
  have split: "(2 :: rat) powi exponent y = of_int (2 ^ (p - 1)) * 2 powi ?e"
    unfolding e by (simp add: power_int_add mult.commute)
  have "of_int (2 ^ (p - 1)) \<le> y / 2 powi ?e"
    using exponent_bounds [OF assms(1)] unfolding split by (simp add: pos_le_divide_eq)
  then have "2 ^ (p - 1) \<le> round_even (y / 2 powi ?e)" using round_even_mono round_even_int by metis
  then have "of_int (2 ^ (p - 1)) * (2 :: rat) powi ?e \<le> of_int (round_even (y / 2 powi ?e)) * 2 powi ?e"
    by (simp only: mult_right_mono of_int_le_iff zero_le_power_int zero_le_numeral)
  with assms(1) split show ?thesis by (simp add: round_fp_def Let_def)
qed

lemma round_fp_le_power:
  assumes "0 < x" "x \<le> 2 powi k" "last_place p emin x \<le> k"
  shows "round_fp p emin x \<le> 2 powi k"
proof -
  let ?e = "last_place p emin x"
  have split: "(2 :: rat) powi k = of_int (2 ^ nat (k - ?e)) * 2 powi ?e"
    using assms(3) power_int_add [of "2 :: rat" "k - ?e" ?e] two_powi_nat [of "k - ?e"] by simp
  have "x / 2 powi ?e \<le> of_int (2 ^ nat (k - ?e))"
    using assms(2) unfolding split by (simp add: pos_divide_le_eq)
  then have "round_even (x / 2 powi ?e) \<le> 2 ^ nat (k - ?e)" using round_even_mono round_even_int by metis
  then have "of_int (round_even (x / 2 powi ?e)) * (2 :: rat) powi ?e \<le> of_int (2 ^ nat (k - ?e)) * 2 powi ?e"
    by (simp only: mult_right_mono of_int_le_iff zero_le_power_int zero_le_numeral)
  with assms(1) split show ?thesis by (simp add: round_fp_def Let_def)
qed

lemma round_fp_mono:
  assumes "0 \<le> x" "x \<le> y" "0 < p"
  shows "round_fp p emin x \<le> round_fp p emin y"
proof (cases "x = 0")
  case True
  then show ?thesis using round_fp_nonneg [of y p emin] assms by (simp add: round_fp_def)
next
  case False
  with assms have pos: "0 < x" "0 < y" by simp_all
  let ?ex = "last_place p emin x" and ?ey = "last_place p emin y"
  have le: "?ex \<le> ?ey" using exponent_mono [OF pos(1) assms(2)] by (simp add: last_place_def)
  show ?thesis
  proof (cases "?ex = ?ey")
    case True
    have "round_even (x / 2 powi ?ey) \<le> round_even (y / 2 powi ?ey)"
      using assms(2) by (intro round_even_mono divide_right_mono) simp_all
    with pos True show ?thesis by (simp add: round_fp_def Let_def mult_right_mono)
  next
    case False
    with le have less: "?ex < ?ey" by simp
    then have exp: "exponent x < exponent y" "emin < ?ey" by (auto simp: last_place_def)
    have "x \<le> 2 powi exponent y"
    proof -
      have "x < 2 powi (exponent x + 1)" using exponent_bounds [OF pos(1)] by simp
      also have "\<dots> \<le> 2 powi exponent y" using exp(1) power_int_mono_two by simp
      finally show ?thesis by simp
    qed
    moreover have "?ex \<le> exponent y" using less assms(3) exp(2) by (auto simp: last_place_def)
    ultimately have "round_fp p emin x \<le> 2 powi exponent y" using pos(1) by (intro round_fp_le_power)
    also have "\<dots> \<le> round_fp p emin y" using pos(2) exp(2) assms(3) by (intro round_fp_ge_power)
    finally show ?thesis .
  qed
qed

lemma f32_mono: "0 \<le> x \<Longrightarrow> x \<le> y \<Longrightarrow> f32 x \<le> f32 y"
  and f64_mono: "0 \<le> x \<Longrightarrow> x \<le> y \<Longrightarrow> f64 x \<le> f64 y"
  by (simp_all add: f32_def f64_def round_fp_mono)

lemma f32_nonneg: "0 \<le> x \<Longrightarrow> 0 \<le> f32 x" and f64_nonneg: "0 \<le> x \<Longrightarrow> 0 \<le> f64 x"
  by (simp_all add: f32_def f64_def round_fp_nonneg)

lemma f32_unit: "0 \<le> x \<Longrightarrow> x \<le> 1 \<Longrightarrow> 0 \<le> f32 x \<and> f32 x \<le> 1"
  using f32_mono [of x 1] f32_nonneg [of x] f32_nat [of 1] by simp

lemma f64_unit: "0 \<le> x \<Longrightarrow> x \<le> 1 \<Longrightarrow> 0 \<le> f64 x \<and> f64 x \<le> 1"
  using f64_mono [of x 1] f64_nonneg [of x] f64_nat [of 1] by simp

text \<open>Rounding respects representable bounds.\<close>

lemma f64_dyadic_le:
  "0 \<le> x \<Longrightarrow> x \<le> of_nat n / 2 ^ k \<Longrightarrow> n < 9007199254740992 \<Longrightarrow> k \<le> 1074 \<Longrightarrow> f64 x \<le> of_nat n / 2 ^ k"
  using f64_mono [of x "of_nat n / 2 ^ k"] round_fp_dyadic [of n 53 "- 1074" k] by (simp add: f64_def)

lemma f64_dyadic_ge:
  "of_nat n / 2 ^ k \<le> x \<Longrightarrow> n < 9007199254740992 \<Longrightarrow> k \<le> 1074 \<Longrightarrow> of_nat n / 2 ^ k \<le> f64 x"
  using f64_mono [of "of_nat n / 2 ^ k" x] round_fp_dyadic [of n 53 "- 1074" k] by (simp add: f64_def)

lemma f64_grid_le: "0 \<le> x \<Longrightarrow> x \<le> of_nat n / 1024 \<Longrightarrow> n < 9007199254740992 \<Longrightarrow> f64 x \<le> of_nat n / 1024"
  using f64_dyadic_le [of x n 10] by simp

lemma f64_grid_ge: "of_nat n / 1024 \<le> x \<Longrightarrow> n < 9007199254740992 \<Longrightarrow> of_nat n / 1024 \<le> f64 x"
  using f64_dyadic_ge [of n 10 x] by simp

text \<open>Rounding is symmetric.\<close>

lemma round_even_minus: "round_even (- q) = - round_even q"
proof (cases "q = of_int \<lfloor>q\<rfloor>")
  case True
  then show ?thesis by (metis of_int_minus round_even_int)
next
  case False
  then have "\<lceil>q\<rceil> = \<lfloor>q\<rfloor> + 1" by (metis ceiling_altdef)
  then have "\<lfloor>- q\<rfloor> = - \<lfloor>q\<rfloor> - 1" by (simp add: floor_minus)
  then show ?thesis by (auto simp: round_even_def Let_def)
qed

lemma f64_minus: "f64 (- x) = - f64 x" and f32_minus: "f32 (- x) = - f32 x"
  by (simp_all add: f64_def f32_def round_fp_def Let_def round_even_minus)

lemma f64_neg_ge:
  assumes "- (of_nat n / 2 ^ k) \<le> x" "n < 9007199254740992" "k \<le> 1074"
  shows "- (of_nat n / 2 ^ k) \<le> f64 x"
proof (cases "0 \<le> x")
  case True
  then have "0 \<le> f64 x" by (rule f64_nonneg)
  moreover have "- (of_nat n / 2 ^ k :: rat) \<le> 0" by simp
  ultimately show ?thesis by linarith
next
  case False
  then show ?thesis using f64_dyadic_le [of "- x" n k] assms by (simp add: f64_minus)
qed

lemma f32_neg_ge:
  assumes "- (of_nat n / 2 ^ k) \<le> x" "n < 16777216" "k \<le> 149"
  shows "- (of_nat n / 2 ^ k) \<le> f32 x"
proof (cases "0 \<le> x")
  case True
  then have "0 \<le> f32 x" by (rule f32_nonneg)
  moreover have "- (of_nat n / 2 ^ k :: rat) \<le> 0" by simp
  ultimately show ?thesis by linarith
next
  case False
  then show ?thesis
    using f32_mono [of "- x" "of_nat n / 2 ^ k"] round_fp_dyadic [of n 24 "- 149" k] assms by (simp add: f32_minus) (simp add: f32_def)
qed

text \<open>The share of a part in a whole, computed in single precision.\<close>

lemma f32_share:
  assumes "m \<le> n" "0 < n"
  shows "0 \<le> f32 (f32 (of_nat m) / f32 (of_nat n)) \<and> f32 (f32 (of_nat m) / f32 (of_nat n)) \<le> 1"
proof (rule f32_unit)
  have "1 \<le> f32 (of_nat n)" using f32_mono [of 1 "of_nat n"] f32_nat [of 1] assms(2) by simp
  moreover have "0 \<le> f32 (of_nat m)" "f32 (of_nat m) \<le> f32 (of_nat n)"
    using assms(1) by (simp_all add: f32_mono f32_nonneg)
  ultimately show "0 \<le> f32 (of_nat m) / f32 (of_nat n)" "f32 (of_nat m) / f32 (of_nat n) \<le> 1" by simp_all
qed

subsection \<open>Rounding twice\<close>

text \<open>A quotient of small numbers rounded to double and then to single precision is the quotient rounded to
  single precision: it cannot come so close to the middle of two neighbours that the first rounding
  reaches it.\<close>

lemma round_even_frac:
  assumes "2 * x \<notin> \<int>"
  shows "round_even x = (\<lfloor>2 * x\<rfloor> + 1) div 2"
proof -
  let ?f = "\<lfloor>x\<rfloor>" and ?r = "x - of_int \<lfloor>x\<rfloor>"
  have r: "0 \<le> ?r" "?r < 1" by linarith+
  have "?r \<noteq> 1 / 2"
  proof
    assume "?r = 1 / 2"
    then have "2 * x = of_int (2 * ?f + 1)" by (simp add: algebra_simps)
    with assms show False by (metis Ints_of_int)
  qed
  then consider "?r < 1 / 2" | "1 / 2 < ?r" by linarith
  then show ?thesis
  proof cases
    case 1
    with r have "\<lfloor>2 * x\<rfloor> = 2 * ?f" by linarith
    with 1 show ?thesis by (simp add: round_even_def Let_def)
  next
    case 2
    with r have "\<lfloor>2 * x\<rfloor> = 2 * ?f + 1" by linarith
    with 2 show ?thesis by (simp add: round_even_def Let_def)
  qed
qed

lemma round_even_error: "\<bar>of_int (round_even z) - z\<bar> \<le> 1 / 2"
  unfolding round_even_def Let_def by (auto simp: abs_if) linarith+

lemma exponent_unique:
  assumes "2 powi d \<le> y" "y < 2 powi (d + 1)"
  shows "exponent y = d"
proof -
  have "0 < (2 :: rat) powi d" by simp
  then have "0 < y" using assms(1) by linarith
  then have b: "2 powi exponent y \<le> y" "y < 2 powi (exponent y + 1)" using exponent_bounds by blast+
  have "\<not> (2 :: rat) powi (d + 1) \<le> 2 powi exponent y" "\<not> (2 :: rat) powi (exponent y + 1) \<le> 2 powi d"
    using b assms by linarith+
  then show ?thesis unfolding power_int_mono_two by simp
qed

lemma quotient_exponent:
  assumes "0 < m" "0 < n" "m < 2 ^ 24" "n < 2 ^ 24" "q = of_nat m / of_nat n"
  shows "- 24 \<le> exponent q \<and> exponent q \<le> 23"
proof -
  have mn: "1 \<le> (of_nat m :: rat)" "(of_nat m :: rat) < 2 ^ 24" "1 \<le> (of_nat n :: rat)" "(of_nat n :: rat) < 2 ^ 24"
    using assms(1-4) by (simp_all add: of_nat_less_numeral_iff Suc_leI)
  have "0 < q" using assms(1,2,5) by simp
  then have b: "2 powi exponent q \<le> q" "q < 2 powi (exponent q + 1)" using exponent_bounds by blast+
  have "q < 2 ^ 24 / 1" unfolding assms(5) using mn by (intro frac_less) simp_all
  then have "\<not> (2 :: rat) powi 24 \<le> 2 powi exponent q" using b(1) by simp
  moreover have "1 / 2 ^ 24 < q" unfolding assms(5) using mn by (intro frac_less2) simp_all
  then have "\<not> (2 :: rat) powi (exponent q + 1) \<le> 2 powi (- 24)" using b(2) by (simp add: power_int_minus inverse_eq_divide)
  ultimately show ?thesis unfolding power_int_mono_two by simp
qed

lemma f32_f64_quotient:
  assumes "0 < m" "0 < n" "m < 2 ^ 24" "n < 2 ^ 24" "q = of_nat m / of_nat n"
  shows "f32 (f64 q) = f32 q"
proof -
  define E where "E = exponent q"
  note E = quotient_exponent [OF assms, folded E_def]
  have q: "0 < q" using assms(1,2,5) by simp
  have bounds: "2 powi E \<le> q" "q < 2 powi (E + 1)" using exponent_bounds [OF q] by (simp_all add: E_def)
  define s :: rat where "s = 2 powi (E - 23)"
  have s: "0 < s" by (simp add: s_def)
  have e64: "(2 :: rat) powi (E - 52) = s / 2 ^ 29"
    unfolding s_def using power_int_diff [of "2 :: rat" "E - 23" 29] by simp
  have places: "last_place 24 (- 149) \<bar>q\<bar> = E - 23" "last_place 53 (- 1074) \<bar>q\<bar> = E - 52"
    using E q by (simp_all add: last_place_def E_def [symmetric])
  have f32q: "f32 q = of_int (round_even (q / s)) * s"
    using q by (simp only: f32_def round_fp_def places(1) s_def Let_def) simp
  have f64q: "f64 q = of_int (round_even (q / (s / 2 ^ 29))) * (s / 2 ^ 29)"
    using q by (simp only: f64_def round_fp_def places(2) e64 Let_def) simp
  show ?thesis
  proof (cases "2 * (q / s) \<in> \<int>")
    case True
    then obtain k where "2 * (q / s) = of_int k" by (auto elim: Ints_cases)
    then have "\<bar>q\<bar> = of_int (k * 2 ^ 28) * 2 powi last_place 53 (- 1074) \<bar>q\<bar>"
      unfolding places(2) e64 using s q by (simp add: field_simps)
    then have "f64 q = q" unfolding f64_def by (rule round_fp_multiple)
    then show ?thesis by simp
  next
    case False
    define y where "y = f64 q"
    define k where "k = \<lfloor>2 * (q / s)\<rfloor>"
    have near: "\<bar>2 * (y / s) - 2 * (q / s)\<bar> \<le> 1 / 2 ^ 29"
      using round_even_error [of "q / (s / 2 ^ 29)"] s unfolding y_def f64q by (simp add: field_simps abs_if split: if_splits)
    have gap: "1 / 2 ^ 24 < \<bar>2 * (q / s) - of_int j\<bar>" for j
    proof -
      define M where "M = int m * 2 ^ nat (24 - E)"
      have "2 * (q / s) = q * 2 powi (24 - E)"
        unfolding s_def using power_int_diff [of "2 :: rat" 1 "E - 23"] by (simp add: field_simps)
      also have "\<dots> = of_int M / of_nat n" unfolding assms(5) M_def using E by (simp add: two_powi_nat)
      finally have x: "2 * (q / s) = of_int M / of_nat n" .
      have "M - j * int n \<noteq> 0"
      proof
        assume "M - j * int n = 0"
        then have "2 * (q / s) = of_int j" unfolding x using assms(2) by simp
        with False show False by simp
      qed
      then have one: "1 \<le> \<bar>of_int (M - j * int n) :: rat\<bar>" by linarith
      have N: "0 < (of_nat n :: rat)" "(of_nat n :: rat) < 2 ^ 24" using assms(2,4) by (simp_all add: of_nat_less_numeral_iff)
      have "1 / 2 ^ 24 < 1 / (of_nat n :: rat)" using N by (intro divide_strict_left_mono) simp_all
      also have "\<dots> \<le> \<bar>of_int (M - j * int n)\<bar> / of_nat n" using one N(1) by (intro divide_right_mono) simp_all
      also have "\<dots> = \<bar>of_int (M - j * int n) / of_nat n\<bar>" by simp
      also have "of_int (M - j * int n) / of_nat n = 2 * (q / s) - of_int j" unfolding x using assms(2) by (simp add: diff_divide_distrib)
      finally show ?thesis .
    qed
    have k: "of_int k \<le> 2 * (q / s)" "2 * (q / s) < of_int k + 1" unfolding k_def by linarith+
    have inside: "of_int k < 2 * (y / s)" "2 * (y / s) < of_int k + 1"
      using near gap [of k] gap [of "k + 1"] k by (auto simp: abs_if split: if_splits)
    then have "\<lfloor>2 * (y / s)\<rfloor> = k" by linarith
    moreover have "2 * (y / s) \<notin> \<int>" using inside by (auto elim!: Ints_cases)
    ultimately have same: "round_even (y / s) = round_even (q / s)"
      using False by (simp add: round_even_frac k_def)
    have pw: "(2 :: rat) powi E = 2 ^ 23 * s" "(2 :: rat) powi (E + 1) = 2 ^ 24 * s"
      unfolding s_def using power_int_add [of "2 :: rat" 23 "E - 23"] power_int_add [of "2 :: rat" 24 "E - 23"] by (simp_all add: add.commute)
    have "2 ^ 24 \<le> k" unfolding k_def le_floor_iff using bounds(1) s unfolding pw by (simp add: field_simps)
    moreover have "k < 2 ^ 25" unfolding k_def floor_less_iff using bounds(2) s unfolding pw by (simp add: field_simps)
    ultimately have "16777216 \<le> k" "k + 1 \<le> 33554432" by simp_all
    then have "16777216 < 2 * (y / s)" "2 * (y / s) < 33554432" using inside by linarith+
    then have "2 powi E \<le> y" "y < 2 powi (E + 1)" unfolding pw using s by (simp_all add: field_simps)
    moreover from this have "exponent y = E" by (rule exponent_unique)
    moreover have "0 < (2 :: rat) powi E" by simp
    ultimately have "exponent y = E" "0 < y" by linarith+
    then have "f32 y = of_int (round_even (y / s)) * s"
      using E by (simp add: f32_def round_fp_def last_place_def s_def Let_def)
    then show ?thesis using same f32q by (simp add: y_def)
  qed
qed

end
