(* ===== verification/Serialization.thy ===== *)
theory Serialization
  imports Event_Types Std_Regex
begin

text \<open>
  \<^verbatim>\<open>agent/src/serialization.cpp\<close>: the delta-encoded dump record and the two JSON payloads the
  agent posts. An output stream is the string written to it; unsigned 64-bit values are printed
  in decimal. A reader for window payloads (\<open>parse_window\<close>) gives the payload its meaning.
\<close>

abbreviation dq :: string where "dq \<equiv> [CHR 0x22]"

definition show_word :: "'a::len word \<Rightarrow> string" where
  "show_word w = show_nat (unat w)"

definition nsToUs :: "u64 \<Rightarrow> u64" where
  "nsToUs ns = ns div 1000"

definition makeTraceRecord :: "SyscallEvent \<Rightarrow> u64 \<Rightarrow> TraceRecord" where
  "makeTraceRecord evt prevTsNs =
     \<lparr>delta_ts_us = ucast (nsToUs (tsNs evt - prevTsNs)),
      r_syscall_id = syscallId evt,
      r_arg_class = argClass evt,
      r_arg_bucket = argBucket evt\<rparr>"

definition record_json :: "u64 \<Rightarrow> SyscallEvent \<Rightarrow> string" where
  "record_json windowStartTsNs ev =
     (let deltaUs = nsToUs (tsNs ev - windowStartTsNs) in
      ''{'' @
      dq @ ''delta_ts_us'' @ dq @ '':'' @ show_word deltaUs @ '','' @
      dq @ ''syscall_id'' @ dq @ '':'' @ show_word (syscallId ev) @ '','' @
      dq @ ''arg_class'' @ dq @ '':'' @ show_word (argClass ev) @ '','' @
      dq @ ''arg_bucket'' @ dq @ '':'' @ show_word (argBucket ev) @
      ''}'')"

fun records_json :: "u64 \<Rightarrow> bool \<Rightarrow> SyscallEvent list \<Rightarrow> string" where
  "records_json start is_first [] = ''''"
| "records_json start is_first (ev # evs) =
     (if is_first then '''' else '','') @ record_json start ev @ records_json start False evs"

definition buildWindowJson :: "string \<Rightarrow> string \<Rightarrow> u64 \<Rightarrow> SyscallEvent list \<Rightarrow> string" where
  "buildWindowJson agentId containerId windowStartTsNs events =
     ''{'' @
     dq @ ''version'' @ dq @ '':1,'' @
     dq @ ''agent_id'' @ dq @ '':'' @ dq @ agentId @ dq @ '','' @
     dq @ ''container_id'' @ dq @ '':'' @ dq @ containerId @ dq @ '','' @
     dq @ ''window_start_ts_ns'' @ dq @ '':'' @ show_word windowStartTsNs @ '','' @
     dq @ ''records'' @ dq @ '':['' @
     records_json windowStartTsNs True events @
     '']'' @ ''}''"

definition buildDumpCompleteJson ::
  "string \<Rightarrow> string \<Rightarrow> string \<Rightarrow> u64 \<Rightarrow> i32 \<Rightarrow> u64 \<Rightarrow> string" where
  "buildDumpCompleteJson agentId containerId dumpPath startTsNs durationSec recordCount =
     ''{'' @
     dq @ ''agent_id'' @ dq @ '':'' @ dq @ agentId @ dq @ '','' @
     dq @ ''container_id'' @ dq @ '':'' @ dq @ containerId @ dq @ '','' @
     dq @ ''dump_path'' @ dq @ '':'' @ dq @ dumpPath @ dq @ '','' @
     dq @ ''start_ts_ns'' @ dq @ '':'' @ show_word startTsNs @ '','' @
     dq @ ''duration_sec'' @ dq @ '':'' @ show_int (sint durationSec) @ '','' @
     dq @ ''record_count'' @ dq @ '':'' @ show_word recordCount @
     ''}''"

subsection \<open>A reader for window payloads\<close>

definition expect :: "string \<Rightarrow> string \<Rightarrow> string option" where
  "expect w s = (if prefix w s then Some (drop (length w) s) else None)"

definition parse_num :: "string \<Rightarrow> (nat \<times> string) option" where
  "parse_num s = (let d = takeWhile is_digit s in
     if d = [] then None else Some (read_nat d, drop (length d) s))"

definition parse_str :: "string \<Rightarrow> (string \<times> string) option" where
  "parse_str s = Option.bind (expect dq s)
     (\<lambda>s. Option.bind (expect dq (dropWhile (\<lambda>c. c \<noteq> CHR 0x22) s))
       (\<lambda>r. Some (takeWhile (\<lambda>c. c \<noteq> CHR 0x22) s, r)))"

text \<open>One record: delta, syscall number, class, bucket.\<close>

type_synonym window_record = "nat \<times> nat \<times> nat \<times> nat"

definition parse_record :: "string \<Rightarrow> (window_record \<times> string) option" where
  "parse_record s =
     Option.bind (expect (''{'' @ dq @ ''delta_ts_us'' @ dq @ '':'') s) (\<lambda>s.
     Option.bind (parse_num s) (\<lambda>(d, s).
     Option.bind (expect ('','' @ dq @ ''syscall_id'' @ dq @ '':'') s) (\<lambda>s.
     Option.bind (parse_num s) (\<lambda>(n, s).
     Option.bind (expect ('','' @ dq @ ''arg_class'' @ dq @ '':'') s) (\<lambda>s.
     Option.bind (parse_num s) (\<lambda>(c, s).
     Option.bind (expect ('','' @ dq @ ''arg_bucket'' @ dq @ '':'') s) (\<lambda>s.
     Option.bind (parse_num s) (\<lambda>(b, s).
     Option.bind (expect ''}'' s) (\<lambda>s. Some ((d, n, c, b), s))))))))))"

text \<open>The comma-separated records up to the closing bracket; \<open>fuel\<close> bounds their number.\<close>

fun parse_records :: "nat \<Rightarrow> string \<Rightarrow> (window_record list \<times> string) option" where
  "parse_records 0 s = None"
| "parse_records (Suc fuel) s =
     (case expect '']'' s of Some r \<Rightarrow> Some ([], r)
      | None \<Rightarrow>
          Option.bind (parse_record (case expect '','' s of Some r \<Rightarrow> r | None \<Rightarrow> s)) (\<lambda>(x, s).
          Option.bind (parse_records fuel s) (\<lambda>(xs, r). Some (x # xs, r))))"

definition parse_window ::
  "string \<Rightarrow> (string \<times> string \<times> nat \<times> window_record list) option" where
  "parse_window s =
     Option.bind (expect (''{'' @ dq @ ''version'' @ dq @ '':1,'' @ dq @ ''agent_id'' @ dq @ '':'') s) (\<lambda>s.
     Option.bind (parse_str s) (\<lambda>(a, s).
     Option.bind (expect ('','' @ dq @ ''container_id'' @ dq @ '':'') s) (\<lambda>s.
     Option.bind (parse_str s) (\<lambda>(c, s).
     Option.bind (expect ('','' @ dq @ ''window_start_ts_ns'' @ dq @ '':'') s) (\<lambda>s.
     Option.bind (parse_num s) (\<lambda>(t, s).
     Option.bind (expect ('','' @ dq @ ''records'' @ dq @ '':['') s) (\<lambda>s.
     Option.bind (parse_records (length s) s) (\<lambda>(xs, s).
     Option.bind (expect ''}'' s) (\<lambda>s. if s = [] then Some (a, c, t, xs) else None)))))))))"

subsection \<open>Reading what was printed\<close>

lemma expect_append [simp]: "expect w (w @ s) = Some s"
  by (simp add: expect_def)

lemma expect_neq: "expect (c # w) (c' # s) = (if c = c' then expect w s else None)"
  by (auto simp: expect_def)

lemma takeWhile_digits:
  "\<not> is_digit c \<Longrightarrow> takeWhile is_digit (show_nat n @ c # s) = show_nat n"
  using show_nat_digits by (subst takeWhile_append2) auto

lemma parse_num_show [simp]: "\<not> is_digit c \<Longrightarrow> parse_num (show_word w @ c # s) = Some (unat w, c # s)"
  by (simp add: parse_num_def show_word_def takeWhile_digits)

lemma parse_str_quoted:
  "CHR 0x22 \<notin> set v \<Longrightarrow> parse_str (CHR 0x22 # v @ CHR 0x22 # s) = Some (v, s)"
proof -
  assume v: "CHR 0x22 \<notin> set v"
  then have "takeWhile (\<lambda>c. c \<noteq> CHR 0x22) (v @ CHR 0x22 # s) = v"
    by (subst takeWhile_append2) auto
  moreover have "dropWhile (\<lambda>c. c \<noteq> CHR 0x22) (v @ CHR 0x22 # s) = CHR 0x22 # s"
    using v by (subst dropWhile_append2) auto
  ultimately show ?thesis by (simp add: parse_str_def expect_def)
qed

definition record_of :: "u64 \<Rightarrow> SyscallEvent \<Rightarrow> window_record" where
  "record_of start ev =
     (unat (nsToUs (tsNs ev - start)), unat (syscallId ev), unat (argClass ev), unat (argBucket ev))"

lemma not_digit_simps [simp]:
  "\<not> is_digit (CHR '','')" "\<not> is_digit (CHR ''}'')" "\<not> is_digit (CHR '']'')" "\<not> is_digit (CHR 0x22)"
  by (simp_all add: is_digit_def)

lemma parse_record_json: "parse_record (record_json start ev @ s) = Some (record_of start ev, s)"
  by (simp add: parse_record_def record_json_def record_of_def Let_def expect_def)

lemma record_json_hd: "record_json start ev @ s = CHR ''{'' # tl (record_json start ev @ s)"
  by (simp add: record_json_def Let_def)

lemma parse_records_json:
  "length evs < fuel \<Longrightarrow>
   parse_records fuel (records_json start is_first evs @ CHR '']'' # s) = Some (map (record_of start) evs, s)"
proof (induction evs arbitrary: fuel is_first)
  case Nil
  then show ?case by (cases fuel) (auto simp: expect_def)
next
  case (Cons ev evs)
  then obtain n where n: "fuel = Suc n" "length evs < n" by (cases fuel) auto
  let ?r = "record_json start ev @ records_json start False evs @ CHR '']'' # s"
  have "expect '']'' (records_json start is_first (ev # evs) @ CHR '']'' # s) = None"
    by (subst records_json.simps) (simp add: record_json_def Let_def expect_def)
  moreover have "(case expect '','' (records_json start is_first (ev # evs) @ CHR '']'' # s)
      of Some r \<Rightarrow> r | None \<Rightarrow> records_json start is_first (ev # evs) @ CHR '']'' # s) = ?r"
    by (cases is_first) (simp_all add: expect_def record_json_def Let_def)
  ultimately show ?case
    using n Cons.IH [of n False] by (simp add: parse_record_json del: records_json.simps)
qed

lemma records_json_length: "length evs \<le> length (records_json start is_first evs)"
proof (induction evs arbitrary: is_first)
  case (Cons ev evs)
  have "Suc 0 \<le> length (record_json start ev)" by (simp add: record_json_def Let_def)
  then show ?case
    using Cons [of False] unfolding records_json.simps length_append list.size by linarith
qed simp

lemma parse_window_json:
  assumes "CHR 0x22 \<notin> set agentId" "CHR 0x22 \<notin> set containerId"
  shows "parse_window (buildWindowJson agentId containerId start evs) =
    Some (agentId, containerId, unat start, map (record_of start) evs)"
proof -
  have "length evs < length (records_json start True evs @ CHR '']'' # ''}'')"
    using records_json_length [of evs start True] by simp
  note recs = parse_records_json [OF this, where s = "''}''"]
  show ?thesis
    using assms recs
    by (simp add: parse_window_def buildWindowJson_def parse_str_quoted expect_def)
qed

text \<open>
  A window payload can be read back: from the text of \<^verbatim>\<open>buildWindowJson\<close> one recovers the
  agent and container identifiers (which must be free of double quotes), the window start, and,
  in order, the microsecond delta, syscall number, class and bucket of every event of the window.
\<close>

theorem window_json_roundtrip:
  assumes "CHR 0x22 \<notin> set agentId" "CHR 0x22 \<notin> set containerId"
  shows "parse_window (buildWindowJson agentId containerId start evs) =
    Some (agentId, containerId, unat start, map (record_of start) evs)"
  using assms by (rule parse_window_json)

theorem window_json_roundtrip_witness:
  "parse_window (buildWindowJson ''node-1'' ''web'' 5000
     [\<lparr>tsNs = 7000, pid = 1, tid = 1, cgroupId = 9, syscallId = 42, argClass = 2, argBucket = 0\<rparr>]) =
   Some (''node-1'', ''web'', 5000, [(2, 42, 2, 0)])"
  using window_json_roundtrip [of "''node-1''" "''web''" 5000
     "[\<lparr>tsNs = 7000, pid = 1, tid = 1, cgroupId = 9, syscallId = 42, argClass = 2, argBucket = 0\<rparr>]"]
  by (simp add: record_of_def nsToUs_def)

end
