(* ===== verification/Agent_Config.thy ===== *)
theory Agent_Config
  imports DK_Prelude
begin

text \<open>
  \<^verbatim>\<open>agent/include/config.h\<close> and \<^verbatim>\<open>agent/src/config.cpp\<close>: the agent's settings, their
  defaults, and how each is overridden from the process environment. The environment is a
  function from variable names to values; an unset variable is \<open>None\<close>.
\<close>

record AgentConfig =
  agentId :: string
  serverUrl :: string
  nodeName :: string
  shortWindowSec :: i32
  sendIntervalSec :: i32
  minEventsPerWindow :: i32
  longDumpDefaultDurationSec :: i32
  dumpDir :: string
  syscallVocabSize :: i32
  autoBaselineDump :: bool
  containerRuntime :: string
  dockerSocketPath :: string
  containerdSocketPath :: string
  crioSocketPath :: string
  crictlPath :: string
  containerMapCacheTTL :: i32
  useLegacyDockerMapper :: bool
  enableKubernetesApi :: bool
  preferPodName :: bool
  agentListenPort :: i32
  containerFilterRegex :: string
  policyDir :: string
  policyEnforcementMode :: string

definition default_config :: AgentConfig where
  "default_config =
     \<lparr>agentId = ''node-1'', serverUrl = ''http://localhost:9090'', nodeName = ''worker-01'',
      shortWindowSec = 5, sendIntervalSec = 5, minEventsPerWindow = 20,
      longDumpDefaultDurationSec = 1200, dumpDir = ''/var/lib/deepkernel/dumps'',
      syscallVocabSize = 256, autoBaselineDump = False,
      containerRuntime = ''docker'', dockerSocketPath = ''/var/run/docker.sock'',
      containerdSocketPath = ''/run/containerd/containerd.sock'',
      crioSocketPath = ''/var/run/crio/crio.sock'', crictlPath = ''/usr/bin/crictl'',
      containerMapCacheTTL = 60, useLegacyDockerMapper = True, enableKubernetesApi = False,
      preferPodName = False, agentListenPort = 8082, containerFilterRegex = '''',
      policyDir = ''/var/lib/deepkernel/policies'', policyEnforcementMode = ''ERRNO''\<rparr>"

type_synonym environment = "string \<Rightarrow> string option"

subsection \<open>\<^verbatim>\<open>std::atoi\<close>\<close>

text \<open>
  Optional white space, an optional sign, digits; the value is converted as glibc does it
  (\<^verbatim>\<open>(int) strtol(s, NULL, 10)\<close>: clamped to 64 bits, then truncated to 32).
\<close>

definition is_space :: "char \<Rightarrow> bool" where
  "is_space c \<longleftrightarrow> (of_char c :: nat) = 32 \<or> 9 \<le> (of_char c :: nat) \<and> (of_char c :: nat) \<le> 13"

definition strtol :: "string \<Rightarrow> int" where
  "strtol s =
     (let s1 = dropWhile is_space s;
          neg = (case s1 of c # _ \<Rightarrow> c = CHR ''-'' | [] \<Rightarrow> False);
          s2 = (case s1 of c # r \<Rightarrow> if c = CHR ''-'' \<or> c = CHR ''+'' then r else s1 | [] \<Rightarrow> []);
          v = int (read_nat (takeWhile is_digit s2))
      in max (- (2 ^ 63)) (min (2 ^ 63 - 1) (if neg then - v else v)))"

definition atoi :: "string \<Rightarrow> i32" where
  "atoi s = word_of_int (strtol s)"

subsection \<open>Reading the environment\<close>

definition envOrDefault :: "environment \<Rightarrow> string \<Rightarrow> string \<Rightarrow> string" where
  "envOrDefault getenv key fallback =
     (case getenv key of Some val \<Rightarrow> if val \<noteq> [] then val else fallback | None \<Rightarrow> fallback)"

definition envOrDefaultInt :: "environment \<Rightarrow> string \<Rightarrow> i32 \<Rightarrow> i32" where
  "envOrDefaultInt getenv key fallback =
     (case getenv key of Some val \<Rightarrow> if val \<noteq> [] then atoi val else fallback | None \<Rightarrow> fallback)"

definition envOrDefaultBool :: "environment \<Rightarrow> string \<Rightarrow> bool \<Rightarrow> bool" where
  "envOrDefaultBool getenv key fallback =
     (case getenv key of
        Some s \<Rightarrow> if s \<noteq> [] then s = ''1'' \<or> s = ''true'' \<or> s = ''yes'' \<or> s = ''on'' else fallback
      | None \<Rightarrow> fallback)"

definition loadConfig :: "environment \<Rightarrow> AgentConfig" where
  "loadConfig getenv =
     (let cfg = default_config in
      cfg\<lparr>agentId := envOrDefault getenv ''DK_AGENT_ID'' (agentId cfg),
          serverUrl := envOrDefault getenv ''DK_SERVER_URL'' (serverUrl cfg),
          nodeName := envOrDefault getenv ''DK_NODE_NAME'' (nodeName cfg),
          shortWindowSec := envOrDefaultInt getenv ''DK_SHORT_WINDOW_SEC'' (shortWindowSec cfg),
          sendIntervalSec := envOrDefaultInt getenv ''DK_SEND_INTERVAL_SEC'' (sendIntervalSec cfg),
          minEventsPerWindow := envOrDefaultInt getenv ''DK_MIN_EVENTS_PER_WINDOW'' (minEventsPerWindow cfg),
          longDumpDefaultDurationSec :=
            envOrDefaultInt getenv ''DK_LONG_DUMP_DURATION_SEC'' (longDumpDefaultDurationSec cfg),
          dumpDir := envOrDefault getenv ''DK_DUMP_DIR'' (dumpDir cfg),
          syscallVocabSize := envOrDefaultInt getenv ''DK_SYSCALL_VOCAB_SIZE'' (syscallVocabSize cfg),
          autoBaselineDump := envOrDefaultBool getenv ''DK_AUTO_BASELINE_DUMP'' (autoBaselineDump cfg),
          useLegacyDockerMapper := envOrDefaultBool getenv ''DK_USE_LEGACY_MAPPER'' (useLegacyDockerMapper cfg),
          containerRuntime := envOrDefault getenv ''DK_CONTAINER_RUNTIME'' (containerRuntime cfg),
          dockerSocketPath := envOrDefault getenv ''DK_DOCKER_SOCKET'' (dockerSocketPath cfg),
          containerdSocketPath := envOrDefault getenv ''DK_CONTAINERD_SOCKET'' (containerdSocketPath cfg),
          crioSocketPath := envOrDefault getenv ''DK_CRIO_SOCKET'' (crioSocketPath cfg),
          crictlPath := envOrDefault getenv ''DK_CRICTL_PATH'' (crictlPath cfg),
          containerMapCacheTTL := envOrDefaultInt getenv ''DK_CONTAINER_CACHE_TTL'' (containerMapCacheTTL cfg),
          enableKubernetesApi := envOrDefaultBool getenv ''DK_ENABLE_K8S_API'' (enableKubernetesApi cfg),
          preferPodName := envOrDefaultBool getenv ''DK_PREFER_POD_NAME'' (preferPodName cfg),
          agentListenPort := envOrDefaultInt getenv ''DK_AGENT_LISTEN_PORT'' (agentListenPort cfg),
          containerFilterRegex := envOrDefault getenv ''DK_CONTAINER_FILTER'' (containerFilterRegex cfg),
          policyDir := envOrDefault getenv ''DK_POLICY_DIR'' (policyDir cfg),
          policyEnforcementMode :=
            envOrDefault getenv ''DK_POLICY_ENFORCEMENT_MODE'' (policyEnforcementMode cfg)\<rparr>)"

subsection \<open>Facts\<close>

lemma digit_not_space: "is_digit c \<Longrightarrow> \<not> is_space c"
  by (simp add: is_digit_def is_space_def)

lemma show_nat_hd: "is_digit (hd (show_nat n))"
  by (rule show_nat_digits [of _ n]) simp

lemma takeWhile_show_nat: "takeWhile is_digit (show_nat n) = show_nat n"
  using show_nat_digits by (auto simp: takeWhile_eq_all_conv)

lemma strtol_show_nat: "n < 2 ^ 63 \<Longrightarrow> strtol (show_nat n) = int n"
proof -
  assume n: "n < 2 ^ 63"
  obtain c r where s: "show_nat n = c # r" by (cases "show_nat n") auto
  have d: "is_digit c" using show_nat_hd [of n] s by simp
  then have "c \<noteq> CHR ''-''" "c \<noteq> CHR ''+''" by (auto simp: is_digit_def)
  moreover have "dropWhile is_space (show_nat n) = show_nat n"
    using d digit_not_space s by simp
  moreover have "int n < 2 ^ 63" using n by (metis of_nat_less_iff of_nat_numeral of_nat_power)
  ultimately show ?thesis
    using takeWhile_show_nat [of n] s read_show_nat [of n] by (simp add: strtol_def Let_def)
qed

lemma strtol_show_neg: "n < 2 ^ 63 \<Longrightarrow> strtol (CHR ''-'' # show_nat n) = - int n"
proof -
  assume n: "n < 2 ^ 63"
  then have "int n < 2 ^ 63" by (metis of_nat_less_iff of_nat_numeral of_nat_power)
  then show ?thesis
    by (simp add: strtol_def Let_def is_space_def takeWhile_show_nat)
qed

lemma atoi_show_int:
  assumes "- (2 ^ 31) \<le> i" "i < 2 ^ 31"
  shows "sint (atoi (show_int i)) = i"
proof -
  have "strtol (show_int i) = i"
  proof (cases "i < 0")
    case True
    then have "nat (- i) < 2 ^ 63" using assms by simp
    with True show ?thesis by (simp add: show_int_def strtol_show_neg)
  next
    case False
    then have "nat i < 2 ^ 63" using assms by simp
    with False show ?thesis by (simp add: show_int_def strtol_show_nat)
  qed
  then show ?thesis
    using assms by (simp add: atoi_def sint_word_ariths(1) signed_of_int signed_take_bit_int_eq_self)
qed

lemma show_int_not_Nil: "show_int i \<noteq> []"
  by (simp add: show_int_def)

text \<open>An environment that sets every setting of a configuration.\<close>

definition show_bool :: "bool \<Rightarrow> string" where
  "show_bool x = (if x then ''true'' else ''false'')"

definition env_of :: "AgentConfig \<Rightarrow> environment" where
  "env_of c = map_of
     [(''DK_AGENT_ID'', agentId c), (''DK_SERVER_URL'', serverUrl c), (''DK_NODE_NAME'', nodeName c),
      (''DK_SHORT_WINDOW_SEC'', show_int (sint (shortWindowSec c))),
      (''DK_SEND_INTERVAL_SEC'', show_int (sint (sendIntervalSec c))),
      (''DK_MIN_EVENTS_PER_WINDOW'', show_int (sint (minEventsPerWindow c))),
      (''DK_LONG_DUMP_DURATION_SEC'', show_int (sint (longDumpDefaultDurationSec c))),
      (''DK_DUMP_DIR'', dumpDir c), (''DK_SYSCALL_VOCAB_SIZE'', show_int (sint (syscallVocabSize c))),
      (''DK_AUTO_BASELINE_DUMP'', show_bool (autoBaselineDump c)),
      (''DK_USE_LEGACY_MAPPER'', show_bool (useLegacyDockerMapper c)),
      (''DK_CONTAINER_RUNTIME'', containerRuntime c), (''DK_DOCKER_SOCKET'', dockerSocketPath c),
      (''DK_CONTAINERD_SOCKET'', containerdSocketPath c), (''DK_CRIO_SOCKET'', crioSocketPath c),
      (''DK_CRICTL_PATH'', crictlPath c), (''DK_CONTAINER_CACHE_TTL'', show_int (sint (containerMapCacheTTL c))),
      (''DK_ENABLE_K8S_API'', show_bool (enableKubernetesApi c)), (''DK_PREFER_POD_NAME'', show_bool (preferPodName c)),
      (''DK_AGENT_LISTEN_PORT'', show_int (sint (agentListenPort c))),
      (''DK_CONTAINER_FILTER'', containerFilterRegex c), (''DK_POLICY_DIR'', policyDir c),
      (''DK_POLICY_ENFORCEMENT_MODE'', policyEnforcementMode c)]"

lemma atoi_show_sint: "atoi (show_int (sint w)) = w"
proof -
  have "- (2 ^ 31) \<le> sint w" "sint w < 2 ^ 31" using sint_ge [of w] sint_less [of w] by simp_all
  from atoi_show_int [OF this] show ?thesis by (rule signed_word_eqI)
qed

lemma env_set:
  "getenv key = Some v \<Longrightarrow> v \<noteq> [] \<Longrightarrow> envOrDefault getenv key d = v"
  "getenv key = Some (show_int (sint w)) \<Longrightarrow> envOrDefaultInt getenv key i = w"
  "getenv key = Some (show_bool x) \<Longrightarrow> envOrDefaultBool getenv key y = x"
  by (simp_all add: envOrDefault_def envOrDefaultInt_def envOrDefaultBool_def show_int_not_Nil atoi_show_sint show_bool_def)

text \<open>
  Every setting can be given through the environment. For any configuration whose texts are not
  empty (the container filter may be), the environment that sets each variable to the decimal or
  textual form of its setting is read back to exactly that configuration; no variable affects
  another setting, negative numbers and the full range of \<^verbatim>\<open>int\<close> included.
\<close>

theorem config_roundtrip:
  assumes "list_all (\<lambda>s. s \<noteq> []) [agentId c, serverUrl c, nodeName c, dumpDir c, containerRuntime c, dockerSocketPath c,
     containerdSocketPath c, crioSocketPath c, crictlPath c, policyDir c, policyEnforcementMode c]"
  shows "loadConfig (env_of c) = c"
proof -
  have filter: "envOrDefault (env_of c) ''DK_CONTAINER_FILTER'' '''' = containerFilterRegex c"
    by (simp add: envOrDefault_def env_of_def)
  have texts: "envOrDefault (env_of c) ''DK_AGENT_ID'' x = agentId c" "envOrDefault (env_of c) ''DK_SERVER_URL'' x = serverUrl c"
    "envOrDefault (env_of c) ''DK_NODE_NAME'' x = nodeName c" "envOrDefault (env_of c) ''DK_DUMP_DIR'' x = dumpDir c"
    "envOrDefault (env_of c) ''DK_CONTAINER_RUNTIME'' x = containerRuntime c"
    "envOrDefault (env_of c) ''DK_DOCKER_SOCKET'' x = dockerSocketPath c"
    "envOrDefault (env_of c) ''DK_CONTAINERD_SOCKET'' x = containerdSocketPath c"
    "envOrDefault (env_of c) ''DK_CRIO_SOCKET'' x = crioSocketPath c"
    "envOrDefault (env_of c) ''DK_CRICTL_PATH'' x = crictlPath c"
    "envOrDefault (env_of c) ''DK_POLICY_DIR'' x = policyDir c"
    "envOrDefault (env_of c) ''DK_POLICY_ENFORCEMENT_MODE'' x = policyEnforcementMode c" for x
    by (rule env_set(1); use assms in \<open>simp add: env_of_def\<close>)+
  have ints: "envOrDefaultInt (env_of c) ''DK_SHORT_WINDOW_SEC'' i = shortWindowSec c"
    "envOrDefaultInt (env_of c) ''DK_SEND_INTERVAL_SEC'' i = sendIntervalSec c"
    "envOrDefaultInt (env_of c) ''DK_MIN_EVENTS_PER_WINDOW'' i = minEventsPerWindow c"
    "envOrDefaultInt (env_of c) ''DK_LONG_DUMP_DURATION_SEC'' i = longDumpDefaultDurationSec c"
    "envOrDefaultInt (env_of c) ''DK_SYSCALL_VOCAB_SIZE'' i = syscallVocabSize c"
    "envOrDefaultInt (env_of c) ''DK_CONTAINER_CACHE_TTL'' i = containerMapCacheTTL c"
    "envOrDefaultInt (env_of c) ''DK_AGENT_LISTEN_PORT'' i = agentListenPort c" for i
    by (rule env_set(2); simp add: env_of_def)+
  have bools: "envOrDefaultBool (env_of c) ''DK_AUTO_BASELINE_DUMP'' y = autoBaselineDump c"
    "envOrDefaultBool (env_of c) ''DK_USE_LEGACY_MAPPER'' y = useLegacyDockerMapper c"
    "envOrDefaultBool (env_of c) ''DK_ENABLE_K8S_API'' y = enableKubernetesApi c"
    "envOrDefaultBool (env_of c) ''DK_PREFER_POD_NAME'' y = preferPodName c" for y
    by (rule env_set(3); simp add: env_of_def)+
  have "containerFilterRegex default_config = ''''" by (simp add: default_config_def)
  then show ?thesis unfolding loadConfig_def Let_def by (simp add: texts ints bools filter)
qed

theorem config_roundtrip_witness:
  "loadConfig (env_of (default_config\<lparr>shortWindowSec := - 7, useLegacyDockerMapper := False, containerFilterRegex := ''web''\<rparr>)) =
     default_config\<lparr>shortWindowSec := - 7, useLegacyDockerMapper := False, containerFilterRegex := ''web''\<rparr>"
  by (rule config_roundtrip) (simp add: default_config_def)

lemma loadConfig_sel:
  "shortWindowSec (loadConfig e) = envOrDefaultInt e ''DK_SHORT_WINDOW_SEC'' 5"
  "minEventsPerWindow (loadConfig e) = envOrDefaultInt e ''DK_MIN_EVENTS_PER_WINDOW'' 20"
  "useLegacyDockerMapper (loadConfig e) = envOrDefaultBool e ''DK_USE_LEGACY_MAPPER'' True"
  "containerMapCacheTTL (loadConfig e) = envOrDefaultInt e ''DK_CONTAINER_CACHE_TTL'' 60"
  "policyEnforcementMode (loadConfig e) = envOrDefault e ''DK_POLICY_ENFORCEMENT_MODE'' ''ERRNO''"
  by (simp_all add: loadConfig_def default_config_def Let_def)

lemma loadConfig_empty: "loadConfig Map.empty = default_config"
  by (simp add: loadConfig_def default_config_def Let_def envOrDefault_def envOrDefaultInt_def
      envOrDefaultBool_def)

end
