(* ===== verification/Agent_Server.thy ===== *)
theory Agent_Server
  imports Serialization Agent_Config
begin

text \<open>
  \<^verbatim>\<open>agent/src/agent_server.cpp\<close>: the agent's control endpoint. One call of \<^verbatim>\<open>recv\<close> per
  connection, a minimal HTTP and JSON reader, three routes, two callbacks. The callbacks act on a
  state \<open>'s\<close> the server knows nothing of; the locale \<open>control_handlers\<close> states what it relies on.
  The accept loop is a function of what \<^verbatim>\<open>select\<close>, \<^verbatim>\<open>accept\<close> and \<^verbatim>\<open>recv\<close> deliver in
  each of its iterations.
\<close>

subsection \<open>Requests and responses\<close>

record HttpRequest =
  req_method :: string
  req_path :: string
  req_body :: string

abbreviation cr :: char where "cr \<equiv> CHR 0x0D"
abbreviation lf :: char where "lf \<equiv> CHR 0x0A"
abbreviation crlf :: string where "crlf \<equiv> [cr, lf]"

text \<open>\<^verbatim>\<open>stream >> word\<close>: leading white space is skipped, the word ends at the next white space.\<close>

definition next_word :: "string \<Rightarrow> string \<times> string" where
  "next_word s = (let s = dropWhile is_space s
     in (takeWhile (\<lambda>c. \<not> is_space c) s, dropWhile (\<lambda>c. \<not> is_space c) s))"

function skip_headers :: "string \<Rightarrow> string" where
  "skip_headers s = (case getline s of
      None \<Rightarrow> s
    | Some (line, r) \<Rightarrow> if line \<noteq> [cr] \<and> line \<noteq> [] then skip_headers r else r)"
  by pat_completeness auto
termination
  by (relation "measure length") (auto dest: getline_shorter)

declare skip_headers.simps [simp del]

definition parseRequest :: "string \<Rightarrow> HttpRequest" where
  "parseRequest raw =
     (let (line, r) = (case getline raw of None \<Rightarrow> ('''', raw) | Some p \<Rightarrow> p);
          (meth, rest) = next_word line;
          (path, _) = next_word rest
      in \<lparr>req_method = meth, req_path = path, req_body = concat (lines_of (skip_headers r))\<rparr>)"

definition sendResponse :: "nat \<Rightarrow> string \<Rightarrow> string \<Rightarrow> string" where
  "sendResponse statusCode statusText body =
     ''HTTP/1.1 '' @ show_nat statusCode @ '' '' @ statusText @ crlf @
     ''Content-Type: application/json'' @ crlf @
     ''Content-Length: '' @ show_nat (length body) @ crlf @
     ''Connection: close'' @ crlf @
     crlf @
     body"

definition as_extractJsonString :: "string \<Rightarrow> string \<Rightarrow> string" where
  "as_extractJsonString json key =
     (case regex_search (json_string_pattern key) json of Some (v # _) \<Rightarrow> v | _ \<Rightarrow> '''')"

text \<open>\<^verbatim>\<open>std::stoi\<close> on digits throws exactly when the value exceeds \<^verbatim>\<open>INT_MAX\<close>.\<close>

definition extractJsonInt :: "string \<Rightarrow> string \<Rightarrow> i32 \<Rightarrow> i32" where
  "extractJsonInt json key defaultVal =
     (case regex_search (json_int_pattern key) json of
        Some (d # _) \<Rightarrow> if read_nat d \<le> 2147483647 then of_nat (read_nat d) else defaultVal
      | _ \<Rightarrow> defaultVal)"

subsection \<open>Routing\<close>

text \<open>The callbacks, \<open>None\<close> while unset. A long-dump callback that throws is \<open>None\<close>: no code
  on the server thread catches the exception, so the process ends.\<close>

record 's handlers =
  longDumpHandler :: "('s \<Rightarrow> string \<Rightarrow> i32 \<Rightarrow> string \<Rightarrow> 's option) option"
  policyHandler :: "('s \<Rightarrow> string \<Rightarrow> string \<Rightarrow> string \<Rightarrow> string \<Rightarrow> bool \<times> 's) option"

definition route_long_dump :: "'s handlers \<Rightarrow> 's \<Rightarrow> HttpRequest \<Rightarrow> ('s \<times> string) option" where
  "route_long_dump h s req =
     (let containerId = as_extractJsonString (req_body req) ''container_id'';
          durationSec = extractJsonInt (req_body req) ''duration_sec'' 1200;
          reason = as_extractJsonString (req_body req) ''reason''
      in if containerId = [] then
           Some (s, sendResponse 400 ''Bad Request'' (''{'' @ quoted ''error'' @ '':'' @ quoted ''container_id required'' @ ''}''))
         else
           map_option (\<lambda>s'. (s', sendResponse 202 ''Accepted'' (''{'' @ quoted ''status'' @ '':'' @ quoted ''dump_requested'' @ ''}'')))
             (case longDumpHandler h of None \<Rightarrow> Some s | Some f \<Rightarrow> f s containerId durationSec reason))"

definition route_policy :: "'s handlers \<Rightarrow> 's \<Rightarrow> HttpRequest \<Rightarrow> 's \<times> string" where
  "route_policy h s req =
     (let containerId = as_extractJsonString (req_body req) ''container_id'';
          policyId = as_extractJsonString (req_body req) ''policy_id'';
          policyType = as_extractJsonString (req_body req) ''type''
      in if containerId = [] \<or> policyId = [] then
           (s, sendResponse 400 ''Bad Request''
              (''{'' @ quoted ''error'' @ '':'' @ quoted ''container_id and policy_id required'' @ ''}''))
         else
           let (success, s') = (case policyHandler h of None \<Rightarrow> (True, s)
                 | Some f \<Rightarrow> f s containerId policyId policyType (req_body req))
           in if success then
                (s', sendResponse 200 ''OK''
                   (''{'' @ quoted ''status'' @ '':'' @ quoted ''APPLIED'' @ '','' @ quoted ''policy_id'' @ '':'' @ quoted policyId @ ''}''))
              else
                (s', sendResponse 500 ''Internal Server Error''
                   (''{'' @ quoted ''status'' @ '':'' @ quoted ''FAILED'' @ '','' @ quoted ''policy_id'' @ '':'' @ quoted policyId @ ''}'')))"

definition route :: "'s handlers \<Rightarrow> 's \<Rightarrow> HttpRequest \<Rightarrow> ('s \<times> string) option" where
  "route h s req =
     (if req_method req = ''GET'' \<and> req_path req = ''/health'' then
        Some (s, sendResponse 200 ''OK'' (''{'' @ quoted ''status'' @ '':'' @ quoted ''healthy'' @ ''}''))
      else if req_method req = ''POST'' \<and> req_path req = ''/long-dump-requests'' then route_long_dump h s req
      else if req_method req = ''POST'' \<and> req_path req = ''/policies'' then Some (route_policy h s req)
      else Some (s, sendResponse 404 ''Not Found'' (''{'' @ quoted ''error'' @ '':'' @ quoted ''not found'' @ ''}'')))"

text \<open>\<open>received\<close> is what the socket holds when \<^verbatim>\<open>recv\<close> is called, empty for an error or a closed
  connection; the buffer takes 8191 bytes. The second result is the response sent, if any.\<close>

definition handleClient :: "'s handlers \<Rightarrow> 's \<Rightarrow> string \<Rightarrow> ('s \<times> string option) option" where
  "handleClient h s received =
     (if received = [] then Some (s, None)
      else map_option (\<lambda>(s', resp). (s', Some resp)) (route h s (parseRequest (take 8191 received))))"

subsection \<open>Server life cycle\<close>

datatype poll_result = SelectError | SelectTimeout | AcceptError | Connection string

text \<open>One entry per iteration: the value of \<^verbatim>\<open>running_\<close> it sees, then what the socket delivers.
  The result carries the responses sent; \<open>None\<close> when a callback ended the process.\<close>

fun serverLoop :: "'s handlers \<Rightarrow> 's \<Rightarrow> (bool \<times> poll_result) list \<Rightarrow> ('s \<times> string list) option" where
  "serverLoop h s [] = Some (s, [])"
| "serverLoop h s ((running, p) # ps) =
     (if \<not> running then Some (s, [])
      else case p of
        SelectError \<Rightarrow> Some (s, [])
      | SelectTimeout \<Rightarrow> serverLoop h s ps
      | AcceptError \<Rightarrow> serverLoop h s ps
      | Connection received \<Rightarrow>
          (case handleClient h s received of
             None \<Rightarrow> None
           | Some (s', resp) \<Rightarrow>
               map_option (\<lambda>(s'', rs). (s'', (case resp of None \<Rightarrow> rs | Some r \<Rightarrow> r # rs))) (serverLoop h s' ps)))"

record AgentServer =
  port :: i32
  serverFd :: int
  running :: bool
  thread_joinable :: bool

definition AgentServer_new :: "i32 \<Rightarrow> AgentServer" where
  "AgentServer_new p = \<lparr>port = p, serverFd = - 1, running = False, thread_joinable = False\<rparr>"

text \<open>Arguments: the results of \<^verbatim>\<open>socket\<close>, \<^verbatim>\<open>bind\<close> and \<^verbatim>\<open>listen\<close>. Assigning to a joinable
  thread ends the process (\<open>None\<close>).\<close>

definition server_start :: "int \<Rightarrow> int \<Rightarrow> int \<Rightarrow> AgentServer \<Rightarrow> (bool \<times> AgentServer) option" where
  "server_start sock bnd lst srv =
     (let srv = srv\<lparr>serverFd := sock\<rparr> in
      if sock < 0 then Some (False, srv)
      else if bnd < 0 then Some (False, srv\<lparr>serverFd := - 1\<rparr>)
      else if lst < 0 then Some (False, srv\<lparr>serverFd := - 1\<rparr>)
      else if thread_joinable srv then None
      else Some (True, srv\<lparr>running := True, thread_joinable := True\<rparr>))"

definition server_stop :: "AgentServer \<Rightarrow> AgentServer" where
  "server_stop srv =
     (let srv = srv\<lparr>running := False\<rparr>;
          srv = (if serverFd srv \<ge> 0 then srv\<lparr>serverFd := - 1\<rparr> else srv)
      in if thread_joinable srv then srv\<lparr>thread_joinable := False\<rparr> else srv)"

definition isRunning :: "AgentServer \<Rightarrow> bool" where
  "isRunning srv = running srv"

subsection \<open>Reading requests\<close>

lemma concat_lines: "concat (lines_of s) = filter (\<lambda>c. c \<noteq> lf) s"
proof (induction s rule: lines_of.induct)
  case (1 s)
  let ?P = "\<lambda>c. c \<noteq> lf"
  show ?case
  proof (cases "s = []")
    case False
    then have g: "getline s = Some (takeWhile ?P s, drop 1 (dropWhile ?P s))" by (simp add: getline_def)
    have "filter ?P (drop 1 (dropWhile ?P s)) = filter ?P (dropWhile ?P s)"
    proof (cases "dropWhile ?P s")
      case Nil
      then show ?thesis unfolding Nil by simp
    next
      case (Cons c cs)
      then have "c = lf" using hd_dropWhile [of ?P s] by simp
      with Cons show ?thesis by simp
    qed
    moreover have "filter ?P (takeWhile ?P s) = takeWhile ?P s"
      by (auto simp: filter_id_conv dest: set_takeWhileD)
    ultimately have "filter ?P s = takeWhile ?P s @ filter ?P (drop 1 (dropWhile ?P s))"
      by (metis filter_append takeWhile_dropWhile_id)
    moreover have "lines_of s = takeWhile ?P s # lines_of (drop 1 (dropWhile ?P s))"
      unfolding lines_of.simps [of s] g by simp
    ultimately show ?thesis using 1 [OF g refl] by simp
  qed simp
qed

lemma skip_headers_line:
  assumes "lf \<notin> set l" "l \<noteq> [cr]" "l \<noteq> []"
  shows "skip_headers (l @ lf # r) = skip_headers r"
  using assms getline_append_newline [of l r] by (simp add: skip_headers.simps [of "l @ lf # r"])

lemma skip_headers_end: "skip_headers (crlf @ r) = r"
  using getline_append_newline [of "[cr]" r] by (simp add: skip_headers.simps [of "cr # lf # r"])

lemma skip_headers_lines:
  "\<forall>h \<in> set hs. h \<noteq> [] \<and> lf \<notin> set h \<Longrightarrow>
   skip_headers (concat (map (\<lambda>h. h @ crlf) hs) @ crlf @ body) = body"
proof (induction hs)
  case Nil
  then show ?case using skip_headers_end [of body] by simp
next
  case (Cons h hs)
  then show ?case using skip_headers_line [of "h @ [cr]"] by simp
qed

lemma next_word_word:
  assumes "w \<noteq> []" "\<forall>c \<in> set w. \<not> is_space c" "is_space c"
  shows "next_word (w @ c # r) = (w, c # r)"
proof -
  have "dropWhile is_space (w @ c # r) = w @ c # r"
    using assms(1,2) by (cases w) auto
  then show ?thesis using assms(2,3) by (simp add: next_word_def Let_def takeWhile_append2 dropWhile_append2)
qed

lemma next_word_skip: "is_space c \<Longrightarrow> next_word (c # s) = next_word s"
  by (simp add: next_word_def)

definition http_request :: "string \<Rightarrow> string \<Rightarrow> string list \<Rightarrow> string \<Rightarrow> string" where
  "http_request meth path headers body =
     meth @ '' '' @ path @ '' HTTP/1.1'' @ crlf @ concat (map (\<lambda>h. h @ crlf) headers) @ crlf @ body"

definition token :: "string \<Rightarrow> bool" where
  "token w \<longleftrightarrow> w \<noteq> [] \<and> list_all (\<lambda>c. \<not> is_space c) w"

definition header_line :: "string \<Rightarrow> bool" where
  "header_line h \<longleftrightarrow> h \<noteq> [] \<and> lf \<notin> set h"

lemma request_parsed:
  assumes "token meth" "token path" "list_all header_line headers"
  shows "parseRequest (http_request meth path headers body) =
    \<lparr>req_method = meth, req_path = path, req_body = filter (\<lambda>c. c \<noteq> lf) body\<rparr>"
proof -
  let ?line = "meth @ '' '' @ path @ '' HTTP/1.1'' @ [cr]"
  let ?r = "concat (map (\<lambda>h. h @ crlf) headers) @ crlf @ body"
  have sp: "is_space (CHR '' '')" "is_space lf" by (simp_all add: is_space_def)
  have "lf \<notin> set ?line" using assms(1,2) sp by (auto simp: token_def list_all_iff)
  then have "getline (?line @ lf # ?r) = Some (?line, ?r)" by (rule getline_append_newline)
  moreover have "next_word ?line = (meth, CHR '' '' # path @ '' HTTP/1.1'' @ [cr])"
    using assms(1) sp next_word_word [of meth "CHR '' ''" "path @ '' HTTP/1.1'' @ [cr]"]
    by (simp add: token_def list_all_iff)
  moreover have "next_word (CHR '' '' # path @ '' HTTP/1.1'' @ [cr]) = (path, '' HTTP/1.1'' @ [cr])"
    using assms(2) sp next_word_word [of path "CHR '' ''" "''HTTP/1.1'' @ [cr]"]
    by (simp add: token_def list_all_iff next_word_skip)
  moreover have "skip_headers ?r = body"
    using assms(3) by (intro skip_headers_lines) (auto simp: list_all_iff header_line_def)
  ultimately show ?thesis
    by (simp add: parseRequest_def http_request_def concat_lines Let_def)
qed

text \<open>A well-formed HTTP request is read back to its method, its path and its body, whatever
  header lines it carries; the newlines of the body are dropped.\<close>

theorem request_roundtrip:
  assumes "token meth" "token path" "list_all header_line headers"
  shows "parseRequest (http_request meth path headers body) =
    \<lparr>req_method = meth, req_path = path, req_body = filter (\<lambda>c. c \<noteq> lf) body\<rparr>"
  using assms by (rule request_parsed)

theorem request_roundtrip_witness:
  "parseRequest (http_request ''GET'' ''/health'' [''Host: agent''] '''') =
     \<lparr>req_method = ''GET'', req_path = ''/health'', req_body = ''''\<rparr>"
  by (subst request_roundtrip) (simp_all add: token_def is_space_def header_line_def)

subsection \<open>Responses\<close>

lemma lines_of_line: "lf \<notin> set l \<Longrightarrow> lines_of (l @ lf # r) = l # lines_of r"
  using getline_append_newline [of l r] by (simp add: lines_of.simps [of "l @ lf # r"])

lemma show_nat_no_lf: "lf \<notin> set (show_nat n)"
  using show_nat_digits [of lf n] by (auto simp: is_digit_def)

text \<open>A response is framed correctly: status line, length header and body.\<close>

definition framed :: "nat \<Rightarrow> string \<Rightarrow> string \<Rightarrow> bool" where
  "framed statusCode body resp \<longleftrightarrow>
     prefix (''HTTP/1.1 '' @ show_nat statusCode @ '' '') resp \<and>
     lines_of resp ! 2 = ''Content-Length: '' @ show_nat (length body) @ [cr] \<and>
     skip_headers resp = body"

lemma sendResponse_framed:
  assumes "lf \<notin> set statusText"
  shows "framed code body (sendResponse code statusText body)"
proof -
  let ?l0 = "''HTTP/1.1 '' @ show_nat code @ '' '' @ statusText"
  let ?l2 = "''Content-Length: '' @ show_nat (length body)"
  let ?hs = "[?l0, ''Content-Type: application/json'', ?l2, ''Connection: close'']"
  have eq: "sendResponse code statusText body = concat (map (\<lambda>h. h @ crlf) ?hs) @ crlf @ body"
    by (simp add: sendResponse_def)
  have nolf: "lf \<notin> set ?l0" "lf \<notin> set ?l2" using assms show_nat_no_lf by auto
  have "skip_headers (sendResponse code statusText body) = body"
    unfolding eq using nolf by (intro skip_headers_lines) auto
  moreover have eq': "sendResponse code statusText body =
      (?l0 @ [cr]) @ lf # (''Content-Type: application/json'' @ [cr]) @ lf # (?l2 @ [cr]) @ lf #
      ''Connection: close'' @ crlf @ crlf @ body"
    by (simp add: sendResponse_def)
  have line: "lf \<notin> set (?l0 @ [cr])" "lf \<notin> set (''Content-Type: application/json'' @ [cr])" "lf \<notin> set (?l2 @ [cr])"
    using nolf by auto
  have "lines_of (sendResponse code statusText body) =
      (?l0 @ [cr]) # (''Content-Type: application/json'' @ [cr]) # (?l2 @ [cr]) #
      lines_of (''Connection: close'' @ crlf @ crlf @ body)"
    by (simp only: eq' lines_of_line [OF line(1)] lines_of_line [OF line(2)] lines_of_line [OF line(3)])
  ultimately show ?thesis by (simp add: framed_def sendResponse_def)
qed

definition is_response :: "string \<Rightarrow> bool" where
  "is_response resp \<longleftrightarrow> (\<exists>code \<in> {200, 202, 400, 404, 500}. \<exists>body. framed code body resp)"

lemma is_response_code:
  "code \<in> {200, 202, 400, 404, 500} \<Longrightarrow> lf \<notin> set text \<Longrightarrow> is_response (sendResponse code text body)"
  unfolding is_response_def using sendResponse_framed by blast

lemma is_response_send [simp]:
  "is_response (sendResponse 200 ''OK'' body)" "is_response (sendResponse 202 ''Accepted'' body)"
  "is_response (sendResponse 400 ''Bad Request'' body)" "is_response (sendResponse 404 ''Not Found'' body)"
  "is_response (sendResponse 500 ''Internal Server Error'' body)"
  by (rule is_response_code; simp)+

lemma route_framed: "route h s req = Some (s', resp) \<Longrightarrow> is_response resp"
  unfolding route_def route_long_dump_def route_policy_def Let_def
  by (auto split: if_splits prod.splits)

text \<open>C30: Whatever bytes a client sends, the server either sends no response (only when nothing
  was received) or one correctly framed HTTP response whose length header equals the length of
  its body, with one of the five status codes of the protocol.\<close>

theorem every_response_framed:
  assumes "handleClient h s received = Some (s', resp)"
  shows "(resp = None) = (received = []) \<and>
    (case resp of None \<Rightarrow> s' = s | Some r \<Rightarrow> \<exists>code \<in> {200, 202, 400, 404, 500}. \<exists>body. framed code body r)"
  using assms route_framed [of h s "parseRequest (take 8191 received)"]
  by (auto simp: handleClient_def is_response_def split: if_splits)

theorem every_response_framed_witness:
  "\<exists>s' r. handleClient \<lparr>longDumpHandler = None, policyHandler = None\<rparr> (0 :: nat) ''PUT /x'' = Some (s', Some r) \<and>
     (\<exists>code \<in> {200, 202, 400, 404, 500}. \<exists>body. framed code body r)"
proof -
  let ?h = "\<lparr>longDumpHandler = None, policyHandler = None\<rparr>"
  have "route ?h (0 :: nat) req \<noteq> None" for req
    by (simp add: route_def route_long_dump_def Let_def)
  then obtain s' r where "route ?h (0 :: nat) (parseRequest ''PUT /x'') = Some (s', r)" by fastforce
  then have "handleClient ?h (0 :: nat) ''PUT /x'' = Some (s', Some r)" by (simp add: handleClient_def)
  with every_response_framed [OF this] show ?thesis by auto
qed

subsection \<open>What the server relies on in its callbacks\<close>

locale control_handlers =
  fixes on_dump :: "'s \<Rightarrow> string \<Rightarrow> i32 \<Rightarrow> string \<Rightarrow> 's option"
    and on_policy :: "'s \<Rightarrow> string \<Rightarrow> string \<Rightarrow> string \<Rightarrow> string \<Rightarrow> bool \<times> 's"
    and inv :: "'s \<Rightarrow> bool"
  assumes dump_inv: "inv s \<Longrightarrow> on_dump s c d r = Some s' \<Longrightarrow> inv s'"
    and policy_inv: "inv s \<Longrightarrow> on_policy s c q t b = (ok, s') \<Longrightarrow> inv s'"
begin

abbreviation hs where "hs \<equiv> \<lparr>longDumpHandler = Some on_dump, policyHandler = Some on_policy\<rparr>"

lemma route_inv: "inv s \<Longrightarrow> route hs s req = Some (s', resp) \<Longrightarrow> inv s'"
  unfolding route_def route_long_dump_def route_policy_def Let_def
  by (auto split: if_splits prod.splits dest: dump_inv policy_inv)

lemma client_inv: "inv s \<Longrightarrow> handleClient hs s received = Some (s', resp) \<Longrightarrow> inv s'"
  by (auto simp: handleClient_def split: if_splits dest: route_inv)

text \<open>A served connection keeps the invariant, and so does any run of the accept loop.\<close>

lemma loop_inv: "inv s \<Longrightarrow> serverLoop hs s ps = Some (s', rs) \<Longrightarrow> inv s'"
proof (induction ps arbitrary: s s' rs)
  case (Cons p ps)
  obtain running q where p: "p = (running, q)" by (cases p)
  show ?case
  proof (cases "running \<and> (\<exists>received. q = Connection received)")
    case True
    then obtain received s1 resp rs1 where "handleClient hs s received = Some (s1, resp)"
      "serverLoop hs s1 ps = Some (s', rs1)"
      using Cons.prems(2) p by (auto split: option.splits)
    then show ?thesis using Cons.IH Cons.prems(1) client_inv by blast
  next
    case False
    with Cons p show ?thesis by (cases q) (auto split: if_splits)
  qed
qed simp

end

subsection \<open>A long-dump request\<close>

definition dump_request_json :: "string \<Rightarrow> nat \<Rightarrow> string \<Rightarrow> string" where
  "dump_request_json c n r =
     ''{'' @ quoted ''container_id'' @ '':'' @ quoted c @ '','' @
     quoted ''duration_sec'' @ '':'' @ show_nat n @ '','' @
     quoted ''reason'' @ '':'' @ quoted r @ ''}''"

definition plain_text :: "string \<Rightarrow> bool" where
  "plain_text s \<longleftrightarrow> s \<noteq> [] \<and> CHR 0x22 \<notin> set s \<and> lf \<notin> set s"

lemma dump_request_container:
  assumes "plain_text c"
  shows "as_extractJsonString (dump_request_json c n r) ''container_id'' = c"
proof -
  have plain: "plain_key ''container_id''" by (simp add: plain_key_def)
  have "CHR 0x22 \<notin> set c" "c \<noteq> []" using assms by (simp_all add: plain_text_def)
  from search_hit [OF rmatch_json_string [OF plain this], simplified] show ?thesis
    by (simp add: as_extractJsonString_def dump_request_json_def quoted_def json_string_no_quote)
qed

lemma dump_request_reason:
  assumes "plain_text c" "plain_text r"
  shows "as_extractJsonString (dump_request_json c n r) ''reason'' = r"
proof -
  have plain: "plain_key ''reason''" by (simp add: plain_key_def)
  have c: "CHR 0x22 \<notin> set c" and r: "CHR 0x22 \<notin> set r" "r \<noteq> []"
    using assms by (simp_all add: plain_text_def)
  note hit = search_hit [OF rmatch_json_string [OF plain r], simplified]
  have val: "rmatch (json_string_pattern ''reason'') (CHR 0x22 # c @ CHR 0x22 # CHR '','' # s) = None" for s
    using c by (intro json_string_not_key [OF plain]) (simp_all add: cmatch_space)
  have num: "CHR 0x22 \<notin> set (show_nat n)"
    using show_nat_digits [of "CHR 0x22" n] by (auto simp: is_digit_def)
  show ?thesis
    using c num
    by (simp add: as_extractJsonString_def dump_request_json_def quoted_def json_string_no_quote
        json_string_other_key [OF plain] val json_string_skip hit)
qed

lemma dump_request_duration:
  assumes "plain_text c" "n \<le> 2147483647"
  shows "extractJsonInt (dump_request_json c n r) ''duration_sec'' d = of_nat n"
proof -
  have plain: "plain_key ''duration_sec''" by (simp add: plain_key_def)
  have c: "CHR 0x22 \<notin> set c" using assms by (simp add: plain_text_def)
  have val: "rmatch (json_int_pattern ''duration_sec'') (CHR 0x22 # c @ CHR 0x22 # CHR '','' # s) = None" for s
    using c by (intro json_int_not_key [OF plain]) (simp_all add: cmatch_space)
  have "rmatch (json_int_pattern ''duration_sec'') (CHR 0x22 # ''duration_sec'' @ CHR 0x22 # CHR '':'' # show_nat n @ CHR '','' # s)
      = Some [show_nat n]" for s
    using show_nat_digits by (intro rmatch_json_int [OF plain]) auto
  note hit = search_hit [OF this, simplified]
  show ?thesis
    using c assms(2)
    by (simp add: extractJsonInt_def dump_request_json_def quoted_def json_int_no_quote
        json_int_other_key [OF plain] val json_int_skip hit)
qed

lemma post_parsed:
  assumes "token path" "list_all header_line headers" "lf \<notin> set body"
  shows "parseRequest (http_request ''POST'' path headers body) =
    \<lparr>req_method = ''POST'', req_path = path, req_body = body\<rparr>"
proof -
  have "filter (\<lambda>c. c \<noteq> lf) body = body" using assms(3) by (auto simp: filter_id_conv)
  moreover have "token ''POST''" by (simp add: token_def is_space_def)
  ultimately show ?thesis using assms(1,2) by (simp add: request_parsed)
qed

lemma dump_request_parsed:
  assumes "plain_text c" "plain_text r" "list_all header_line headers"
  shows "parseRequest (http_request ''POST'' ''/long-dump-requests'' headers (dump_request_json c n r)) =
    \<lparr>req_method = ''POST'', req_path = ''/long-dump-requests'', req_body = dump_request_json c n r\<rparr>"
proof -
  have "lf \<notin> set (dump_request_json c n r)"
    using assms(1,2) show_nat_no_lf by (auto simp: dump_request_json_def quoted_def plain_text_def)
  moreover have "token ''/long-dump-requests''" by (simp add: token_def is_space_def)
  ultimately show ?thesis using assms(3) by (simp add: post_parsed)
qed

text \<open>What a post with a readable body does, however the body is laid out.\<close>

lemma dump_body_handled:
  assumes "list_all header_line headers" "received = http_request ''POST'' ''/long-dump-requests'' headers body"
    and "length received \<le> 8191" "lf \<notin> set body" "longDumpHandler h = Some f"
    and "as_extractJsonString body ''container_id'' = c" "c \<noteq> []"
    and "extractJsonInt body ''duration_sec'' 1200 = d" "as_extractJsonString body ''reason'' = r"
  shows "handleClient h s received =
    map_option (\<lambda>s'. (s', Some (sendResponse 202 ''Accepted'' (''{'' @ quoted ''status'' @ '':'' @ quoted ''dump_requested'' @ ''}''))))
      (f s c d r)"
proof -
  have "token ''/long-dump-requests''" by (simp add: token_def is_space_def)
  then have req: "parseRequest received = \<lparr>req_method = ''POST'', req_path = ''/long-dump-requests'', req_body = body\<rparr>"
    unfolding assms(2) using assms(1,4) by (rule post_parsed)
  have "received \<noteq> []" using assms(2) by (simp add: http_request_def)
  then show ?thesis
    using assms(3,5-) req
    by (simp add: handleClient_def route_def route_long_dump_def Let_def option.map_comp comp_def)
qed

lemma dump_request_handled:
  assumes "plain_text c" "plain_text r" "n \<le> 2147483647" "list_all header_line headers"
    and "received = http_request ''POST'' ''/long-dump-requests'' headers (dump_request_json c n r)"
    and "length received \<le> 8191" "longDumpHandler h = Some f"
  shows "handleClient h s received =
    map_option (\<lambda>s'. (s', Some (sendResponse 202 ''Accepted'' (''{'' @ quoted ''status'' @ '':'' @ quoted ''dump_requested'' @ ''}''))))
      (f s c (of_nat n) r)"
proof (rule dump_body_handled [OF assms(4-6) _ assms(7)])
  show "lf \<notin> set (dump_request_json c n r)"
    using assms(1,2) show_nat_no_lf by (auto simp: dump_request_json_def quoted_def plain_text_def)
  show "c \<noteq> []" using assms(1) by (simp add: plain_text_def)
qed (use assms(1-3) in \<open>simp_all add: dump_request_container dump_request_reason dump_request_duration\<close>)

lemma policy_body_handled:
  assumes "list_all header_line headers" "received = http_request ''POST'' ''/policies'' headers body"
    and "length received \<le> 8191" "lf \<notin> set body" "policyHandler h = Some f"
    and "as_extractJsonString body ''container_id'' = c" "c \<noteq> []"
    and "as_extractJsonString body ''policy_id'' = q" "q \<noteq> []" "as_extractJsonString body ''type'' = t"
    and "f s c q t body = (ok, s')"
  shows "handleClient h s received = Some (s', Some
    (if ok then sendResponse 200 ''OK'' (''{'' @ quoted ''status'' @ '':'' @ quoted ''APPLIED'' @ '','' @ quoted ''policy_id'' @ '':'' @ quoted q @ ''}'')
     else sendResponse 500 ''Internal Server Error'' (''{'' @ quoted ''status'' @ '':'' @ quoted ''FAILED'' @ '','' @ quoted ''policy_id'' @ '':'' @ quoted q @ ''}'')))"
proof -
  have "token ''/policies''" by (simp add: token_def is_space_def)
  then have req: "parseRequest received = \<lparr>req_method = ''POST'', req_path = ''/policies'', req_body = body\<rparr>"
    unfolding assms(2) using assms(1,4) by (rule post_parsed)
  have "received \<noteq> []" using assms(2) by (simp add: http_request_def)
  then show ?thesis
    using assms(3,5-) req by (simp add: handleClient_def route_def route_policy_def Let_def)
qed

subsection \<open>A request in two segments\<close>

lemma no_member_in_empty: "as_extractJsonString [] key = []"
  by (simp add: as_extractJsonString_def json_string_pattern_def)

text \<open>The server reads a connection once. If the head of a control request arrives before its
  body (or the body only after the first 8191 bytes), the request is answered with status 400
  and has no effect, however well formed the body that follows.\<close>

theorem split_request_rejected:
  assumes "path \<in> {''/long-dump-requests'', ''/policies''}" "list_all header_line headers"
    and "head = http_request ''POST'' path headers []" "received = head \<or> length head = 8191 \<and> received = head @ body"
    and "length head \<le> 8191"
  shows "\<exists>text. handleClient h s received = Some (s, Some (sendResponse 400 ''Bad Request'' text))"
proof -
  have tok: "token path" using assms(1) by (auto simp: token_def is_space_def)
  have "take 8191 received = head" using assms(4,5) by auto
  moreover have "parseRequest head = \<lparr>req_method = ''POST'', req_path = path, req_body = []\<rparr>"
    using post_parsed [OF tok assms(2), of "[]"] assms(3) by simp
  moreover have "received \<noteq> []" using assms(3,4) by (auto simp: http_request_def)
  ultimately show ?thesis
    using assms(1)
    by (auto simp: handleClient_def route_def route_long_dump_def route_policy_def no_member_in_empty Let_def)
qed

theorem split_request_rejected_witness:
  "\<exists>text. handleClient \<lparr>longDumpHandler = None, policyHandler = None\<rparr> (0 :: nat)
     (http_request ''POST'' ''/policies'' [''Host: a''] []) = Some (0, Some (sendResponse 400 ''Bad Request'' text))"
  by (rule split_request_rejected [OF _ _ refl disjI1 [OF refl]]) (simp_all add: header_line_def http_request_def)

subsection \<open>Life cycle\<close>

text \<open>The server's owner starts it and stops it.\<close>

inductive server_step :: "AgentServer \<Rightarrow> AgentServer \<Rightarrow> bool" where
  start: "server_start sock bnd lst srv = Some (ok, srv') \<Longrightarrow> server_step srv srv'"
| stop: "server_step srv (server_stop srv)"

inductive server_reachable :: "AgentServer \<Rightarrow> bool" where
  new: "server_reachable (AgentServer_new p)"
| step: "server_reachable srv \<Longrightarrow> server_step srv srv' \<Longrightarrow> server_reachable srv'"

inductive_cases server_stepE: "server_step srv srv'"



end
