(* ===== verification/Json_Text.thy ===== *)
theory Json_Text
  imports Agent_Server
begin

text \<open>
  JSON texts as the management server sends them, and what the agent's patterns find in them. The
  agent does not parse JSON: it searches for a quoted key followed by a value. The locale
  \<open>key_search\<close> says what such a pattern needs to satisfy, and shows that the search returns the first
  member of that name in document order whose value has the wanted form.
\<close>

subsection \<open>Values and their compact text\<close>

datatype json = JNull | JBool bool | JNum int | JStr string | JArr "json list" | JObj "(string \<times> json) list"

fun json_text :: "json \<Rightarrow> string"
  and elems_text :: "json list \<Rightarrow> string"
  and members_text :: "(string \<times> json) list \<Rightarrow> string" where
  "json_text JNull = ''null''"
| "json_text (JBool b) = (if b then ''true'' else ''false'')"
| "json_text (JNum i) = show_int i"
| "json_text (JStr s) = quoted s"
| "json_text (JArr js) = ''['' @ elems_text js @ '']''"
| "json_text (JObj ms) = ''{'' @ members_text ms @ ''}''"
| "elems_text [] = ''''"
| "elems_text (j # js) = json_text j @ (if js = [] then '''' else '','' @ elems_text js)"
| "members_text [] = ''''"
| "members_text ((k, j) # ms) = quoted k @ '':'' @ json_text j @ (if ms = [] then '''' else '','' @ members_text ms)"

text \<open>Strings that need no escape; keys that start with no punctuation.\<close>

definition plain_string :: "string \<Rightarrow> bool" where
  "plain_string s \<longleftrightarrow> list_all (\<lambda>c. c \<noteq> CHR 0x22 \<and> c \<noteq> CHR 0x5C \<and> 32 \<le> (of_char c :: nat)) s"

fun json_plain :: "json \<Rightarrow> bool" where
  "json_plain (JStr s) = plain_string s"
| "json_plain (JArr js) = list_all json_plain js"
| "json_plain (JObj ms) = list_all (\<lambda>(k, j). plain_string k \<and> json_plain j) ms"
| "json_plain _ = True"

text \<open>The first member named \<open>key\<close> whose value \<open>val\<close> accepts, in document order.\<close>

fun first_member :: "(json \<Rightarrow> 'a option) \<Rightarrow> string \<Rightarrow> json \<Rightarrow> 'a option"
  and first_in :: "(json \<Rightarrow> 'a option) \<Rightarrow> string \<Rightarrow> json list \<Rightarrow> 'a option"
  and first_of :: "(json \<Rightarrow> 'a option) \<Rightarrow> string \<Rightarrow> (string \<times> json) list \<Rightarrow> 'a option" where
  "first_member val key (JArr js) = first_in val key js"
| "first_member val key (JObj ms) = first_of val key ms"
| "first_member val key _ = None"
| "first_in val key [] = None"
| "first_in val key (j # js) =
     (case first_member val key j of Some v \<Rightarrow> Some v | None \<Rightarrow> first_in val key js)"
| "first_of val key [] = None"
| "first_of val key ((k, j) # ms) =
     (case (if k = key then val j else None) of Some v \<Rightarrow> Some v
      | None \<Rightarrow> (case first_member val key j of Some v \<Rightarrow> Some v | None \<Rightarrow> first_of val key ms))"

definition closing :: "string \<Rightarrow> bool" where  \<comment> \<open>what can follow a value\<close>
  "closing s \<longleftrightarrow> s = [] \<or> hd s \<in> {CHR '','', CHR '']'', CHR ''}''}"

definition search_key :: "string \<Rightarrow> bool" where
  "search_key key \<longleftrightarrow> plain_key key \<and> key \<noteq> [] \<and> CHR 0x22 \<notin> set key \<and>
     hd key \<notin> {CHR '':'', CHR '','', CHR '']'', CHR ''}''}"

lemma closing_simps [simp]: "closing []" "closing (CHR '','' # s)" "closing (CHR '']'' # s)" "closing (CHR ''}'' # s)"
  by (simp_all add: closing_def)

lemma plain_string_quote: "plain_string s \<Longrightarrow> CHR 0x22 \<notin> set s"
  by (auto simp: plain_string_def list_all_iff)

subsection \<open>Searching for a key\<close>

locale key_search =
  fixes pat :: "string \<Rightarrow> pattern" and val :: "json \<Rightarrow> string list option"
  assumes no_quote: "c \<noteq> CHR 0x22 \<Longrightarrow> rmatch (pat key) (c # cs) = None"
    and empty: "rmatch (pat key) [] = None"
    and other_key: "search_key key \<Longrightarrow> \<not> prefix (key @ [CHR 0x22]) cs \<Longrightarrow> rmatch (pat key) (CHR 0x22 # cs) = None"
    and no_colon: "search_key key \<Longrightarrow> closing s \<Longrightarrow> rmatch (pat key) (quoted key @ s) = None"
    and at_key: "search_key key \<Longrightarrow> json_plain j \<Longrightarrow> closing s \<Longrightarrow>
      rmatch (pat key) (quoted key @ CHR '':'' # json_text j @ s) = val j"
begin

lemma skip: "CHR 0x22 \<notin> set w \<Longrightarrow> regex_search (pat key) (w @ s) = regex_search (pat key) s"
  by (rule search_skip_word) (auto intro: no_quote)

text \<open>At the closing quote of a string nothing matches.\<close>

lemma after_string:
  assumes "search_key key" "closing s \<or> (\<exists>r. s = CHR '':'' # r)"
  shows "rmatch (pat key) (CHR 0x22 # s) = None"
proof (rule other_key [OF assms(1)])
  show "\<not> prefix (key @ [CHR 0x22]) s"
    using assms by (cases key; cases s) (auto simp: search_key_def closing_def)
qed

text \<open>A whole string, when its opening quote does not match.\<close>

lemma skip_string:
  assumes "search_key key" "CHR 0x22 \<notin> set w" "rmatch (pat key) (quoted w @ s) = None"
    and "closing s \<or> (\<exists>r. s = CHR '':'' # r)"
  shows "regex_search (pat key) (quoted w @ s) = regex_search (pat key) s"
proof -
  have "regex_search (pat key) (quoted w @ s) = regex_search (pat key) (w @ CHR 0x22 # s)"
    using assms(3) by (simp add: quoted_def search_skip)
  also have "\<dots> = regex_search (pat key) (CHR 0x22 # s)" using assms(2) by (rule skip)
  also have "\<dots> = regex_search (pat key) s" using after_string [OF assms(1,4)] by (rule search_skip)
  finally show ?thesis .
qed

lemma different_key:
  assumes "search_key key" "CHR 0x22 \<notin> set w" "w \<noteq> key"
  shows "rmatch (pat key) (quoted w @ s) = None"
proof -
  have "\<not> prefix (key @ [CHR 0x22]) (w @ CHR 0x22 # s)"
    using assms quoted_eq [of w key] by (auto simp: prefix_def search_key_def)
  then show ?thesis using other_key [OF assms(1)] by (simp add: quoted_def)
qed

lemma skip_value_string:
  assumes "search_key key" "plain_string w" "closing s"
  shows "regex_search (pat key) (quoted w @ s) = regex_search (pat key) s"
proof (rule skip_string)
  show "rmatch (pat key) (quoted w @ s) = None"
    using assms no_colon different_key plain_string_quote by (cases "w = key") auto
qed (use assms plain_string_quote in auto)

lemma search_text:
  assumes "search_key key"
  shows "json_plain j \<Longrightarrow> closing s \<Longrightarrow> regex_search (pat key) (json_text j @ s) =
      (case first_member val key j of Some v \<Rightarrow> Some v | None \<Rightarrow> regex_search (pat key) s)"
    and "list_all json_plain js \<Longrightarrow> closing s \<Longrightarrow> regex_search (pat key) (elems_text js @ s) =
      (case first_in val key js of Some v \<Rightarrow> Some v | None \<Rightarrow> regex_search (pat key) s)"
    and "list_all (\<lambda>(k, j). plain_string k \<and> json_plain j) ms \<Longrightarrow> closing s \<Longrightarrow>
      regex_search (pat key) (members_text ms @ s) =
      (case first_of val key ms of Some v \<Rightarrow> Some v | None \<Rightarrow> regex_search (pat key) s)"
proof (induction j and js and ms arbitrary: s and s and s rule: json_text_elems_text_members_text.induct)
  case 1
  show ?case using skip [of "''null''" key s] by simp
next
  case (2 b)
  show ?case using skip [of "''true''" key s] skip [of "''false''" key s] by simp
next
  case (3 i)
  have "CHR 0x22 \<notin> set (show_nat n)" for n using show_nat_digits [of "CHR 0x22" n] by (auto simp: is_digit_def)
  then have "CHR 0x22 \<notin> set (show_int i)" by (simp add: show_int_def)
  then show ?case by (simp add: skip)
next
  case (4 w)
  then show ?case using skip_value_string [OF assms] by simp
next
  case (5 js)
  then show ?case
    using skip [of "''[''" key] skip [of "'']''" key] by (simp split: option.split)
next
  case (6 ms)
  then show ?case
    using skip [of "''{''" key] skip [of "''}''" key] by (simp split: option.split)
next
  case 7
  then show ?case by simp
next
  case (8 j js)
  then show ?case
    using skip [of "'',''" key] by (cases "js = []") (simp_all split: option.split)
next
  case 9
  then show ?case by simp
next
  case (10 k j ms s)
  define t where "t = (if ms = [] then '''' else '','' @ members_text ms) @ s"
  have whole: "members_text ((k, j) # ms) @ s = quoted k @ CHR '':'' # json_text j @ t" by (simp add: t_def)
  have k: "CHR 0x22 \<notin> set k" and j: "json_plain j" using "10.prems" plain_string_quote by auto
  have cl: "closing t" using "10.prems"(2) by (simp add: t_def)
  have tail: "regex_search (pat key) t =
      (case first_of val key ms of Some v \<Rightarrow> Some v | None \<Rightarrow> regex_search (pat key) s)"
    using "10.IH"(2) "10.prems" skip [of "'',''" key "members_text ms @ s"] by (cases "ms = []") (auto simp: t_def)
  have here: "rmatch (pat key) (quoted k @ CHR '':'' # json_text j @ t) = (if k = key then val j else None)"
    using at_key [OF assms j cl] different_key [OF assms k] by auto
  show ?case
  proof (cases "if k = key then val j else None")
    case (Some v)
    with here have "regex_search (pat key) (quoted k @ CHR '':'' # json_text j @ t) = Some v"
      by (intro search_hit) simp
    with Some show ?thesis by (simp add: whole del: members_text.simps)
  next
    case None
    with here have "regex_search (pat key) (quoted k @ CHR '':'' # json_text j @ t) = regex_search (pat key) (json_text j @ t)"
      using skip_string [OF assms k] skip [of "'':''" key] by simp
    with None "10.IH"(1) [OF j cl] tail show ?thesis by (simp add: whole del: members_text.simps split: option.splits)
  qed
qed

lemma search_object:
  assumes "search_key key" "json_plain j"
  shows "regex_search (pat key) (json_text j) = first_member val key j"
  using search_text(1) [OF assms, of "[]"] empty by (simp split: option.splits)

end

text \<open>The two patterns of the program.\<close>

fun string_value :: "json \<Rightarrow> string list option" where
  "string_value (JStr s) = (if s = [] then None else Some [s])"
| "string_value _ = None"

fun digits_value :: "json \<Rightarrow> string list option" where
  "digits_value (JNum i) = (if i < 0 then None else Some [show_nat (nat i)])"
| "digits_value _ = None"

lemma show_nat_Cons:
  obtains c cs where "show_nat n = c # cs" "is_digit c"
  using show_nat_not_Nil [of n] show_nat_digits [of "hd (show_nat n)" n] by (metis list.collapse list.set_sel(1))

lemma digit_outside_space: "is_digit c \<Longrightarrow> \<not> cmatch space_cls c"
  by (auto simp: cmatch_space is_digit_def)

text \<open>How the text of a value starts.\<close>

lemma text_start:
  obtains (str) w where "j = JStr w"
  | (num) i where "j = JNum i" "0 \<le> i"
  | (other) c cs where "json_text j = c # cs" "\<not> cmatch space_cls c" "c \<noteq> CHR 0x22" "\<not> is_digit c"
      "string_value j = None" "digits_value j = None"
proof (cases j)
  case (JNum i)
  then show ?thesis
    using num [of i] other [of "CHR ''-''" "show_nat (nat (- i))"]
    by (cases "i < 0") (simp_all add: show_int_def cmatch_space is_digit_def)
next
  case (JBool b)
  then show ?thesis using other [of "if b then CHR ''t'' else CHR ''f''" "if b then ''rue'' else ''alse''"]
    by (simp add: cmatch_space is_digit_def)
qed (use str other in \<open>simp_all add: cmatch_space is_digit_def\<close>)

interpretation string_search: key_search json_string_pattern string_value
proof
  fix key cs s j and c :: char
  show "c \<noteq> CHR 0x22 \<Longrightarrow> rmatch (json_string_pattern key) (c # cs) = None" by (rule json_string_no_quote)
  show "rmatch (json_string_pattern key) [] = None" by (simp add: json_string_pattern_def)
  assume key: "search_key key"
  then have plain: "plain_key key" "CHR 0x22 \<notin> set key" by (simp_all add: search_key_def)
  show "\<not> prefix (key @ [CHR 0x22]) cs \<Longrightarrow> rmatch (json_string_pattern key) (CHR 0x22 # cs) = None"
    by (rule json_string_other_key [OF plain(1)])
  show "closing s \<Longrightarrow> rmatch (json_string_pattern key) (quoted key @ s) = None"
    using plain json_string_not_key [OF plain plain(2)]
    by (cases s) (auto simp: closing_def quoted_def cmatch_space json_string_pattern_def key_items_plain rmatch_lits
        rmatch_rep_stop)
  assume j: "json_plain j"
  show "rmatch (json_string_pattern key) (quoted key @ CHR '':'' # json_text j @ s) = string_value j"
  proof (cases j rule: text_start)
    case (str w)
    with j plain_string_quote have "CHR 0x22 \<notin> set w" by simp
    with str plain rmatch_json_string [OF plain(1), of w s] show ?thesis
      by (cases "w = []") (simp_all add: quoted_def json_string_pattern_def key_items_plain rmatch_lits
          rmatch_rep_stop Let_def)
  next
    case (num i)
    obtain c cs where "show_nat (nat i) = c # cs" "is_digit c" by (rule show_nat_Cons)
    moreover from this have "c \<noteq> CHR 0x22" by (auto simp: is_digit_def)
    ultimately show ?thesis
      using num plain digit_outside_space
      by (simp add: show_int_def quoted_def json_string_pattern_def key_items_plain rmatch_lits rmatch_rep_stop Let_def)
  next
    case (other c cs)
    with plain show ?thesis
      by (simp add: quoted_def json_string_pattern_def key_items_plain rmatch_lits rmatch_rep_stop Let_def)
  qed
qed

interpretation digits_search: key_search json_int_pattern digits_value
proof
  fix key cs s j and c :: char
  show "c \<noteq> CHR 0x22 \<Longrightarrow> rmatch (json_int_pattern key) (c # cs) = None" by (rule json_int_no_quote)
  show "rmatch (json_int_pattern key) [] = None" by (simp add: json_int_pattern_def)
  assume key: "search_key key"
  then have plain: "plain_key key" "CHR 0x22 \<notin> set key" by (simp_all add: search_key_def)
  show "\<not> prefix (key @ [CHR 0x22]) cs \<Longrightarrow> rmatch (json_int_pattern key) (CHR 0x22 # cs) = None"
    by (rule json_int_other_key [OF plain(1)])
  show "closing s \<Longrightarrow> rmatch (json_int_pattern key) (quoted key @ s) = None"
    using plain json_int_not_key [OF plain plain(2)]
    by (cases s) (auto simp: closing_def quoted_def cmatch_space json_int_pattern_def key_items_plain rmatch_lits
        rmatch_rep_stop)
  assume j: "json_plain j" and s: "closing s"
  have none: "rmatch (json_int_pattern key) (quoted key @ CHR '':'' # c # cs) = None"
    if "\<not> cmatch space_cls c" "\<not> is_digit c" for c cs
    using that plain
    by (simp add: quoted_def json_int_pattern_def key_items_plain rmatch_lits rmatch_rep_stop Let_def
        rmatch_rep_absent rmatch_rep_last_unbounded)
  show "rmatch (json_int_pattern key) (quoted key @ CHR '':'' # json_text j @ s) = digits_value j"
  proof (cases j rule: text_start)
    case (str w)
    with none show ?thesis by (simp add: quoted_def is_digit_def)
  next
    case (num i)
    have "rmatch (json_int_pattern key) (CHR 0x22 # key @ CHR 0x22 # CHR '':'' # show_nat (nat i) @ s) = Some [show_nat (nat i)]"
      using s show_nat_digits by (intro rmatch_json_int [OF plain(1)]) (auto simp: closing_def is_digit_def)
    with num show ?thesis by (simp add: show_int_def quoted_def)
  next
    case (other c cs)
    with none show ?thesis by simp
  qed
qed

text \<open>The agent's two extraction functions on any JSON text.\<close>

lemma extract_string:
  "search_key key \<Longrightarrow> json_plain j \<Longrightarrow>
   as_extractJsonString (json_text j) key = (case first_member string_value key j of Some (v # _) \<Rightarrow> v | _ \<Rightarrow> '''')"
  by (simp add: as_extractJsonString_def string_search.search_object)

lemma extract_int:
  "search_key key \<Longrightarrow> json_plain j \<Longrightarrow>
   extractJsonInt (json_text j) key d = (case first_member digits_value key j of
     Some (v # _) \<Rightarrow> if read_nat v \<le> 2147483647 then of_nat (read_nat v) else d | _ \<Rightarrow> d)"
  by (simp add: extractJsonInt_def digits_search.search_object)

text \<open>Members of an object may come in any order: what counts is that the key occurs once.\<close>

lemma first_of_once:
  assumes "(key, j) \<in> set ms" "val j = Some v"
    and "\<And>k i. (k, i) \<in> set ms \<Longrightarrow> (k, i) \<noteq> (key, j) \<Longrightarrow> k \<noteq> key \<and> first_member val key i = None"
  shows "first_of val key ms = Some v"
  using assms(1,3)
proof (induction ms)
  case (Cons m ms)
  obtain k i where m: "m = (k, i)" by (cases m)
  show ?case
  proof (cases "m = (key, j)")
    case True
    with assms(2) show ?thesis by simp
  next
    case False
    with Cons.prems(2) [of k i] m have "k \<noteq> key" "first_member val key i = None" by auto
    moreover have "first_of val key ms = Some v"
    proof (rule Cons.IH)
      show "(key, j) \<in> set ms" using Cons.prems(1) False by auto
    qed (use Cons.prems(2) in auto)
    ultimately show ?thesis using m by simp
  qed
qed simp

text \<open>No newline in a text without control characters.\<close>

lemma plain_string_lf:
  assumes "plain_string s"
  shows "lf \<notin> set s"
proof
  assume "lf \<in> set s"
  with assms have "32 \<le> (of_char lf :: nat)" unfolding plain_string_def list_all_iff by blast
  then show False by simp
qed

lemma text_no_lf:
  "json_plain j \<Longrightarrow> lf \<notin> set (json_text j)"
  "list_all json_plain js \<Longrightarrow> lf \<notin> set (elems_text js)"
  "list_all (\<lambda>(k, j). plain_string k \<and> json_plain j) ms \<Longrightarrow> lf \<notin> set (members_text ms)"
proof (induction j and js and ms rule: json_text_elems_text_members_text.induct)
  case (3 i)
  show ?case using show_nat_no_lf by (simp add: show_int_def)
next
  case (4 w)
  then show ?case by (simp add: quoted_def plain_string_lf)
next
  case (10 k j ms)
  then show ?case by (cases "ms = []") (simp_all add: quoted_def plain_string_lf)
next
  case (8 j js)
  then show ?case by (cases "js = []") simp_all
qed simp_all

end
