(* ===== verification/Server_Training.thy ===== *)
theory Server_Training
  imports Json_Text
begin

text \<open>
  The model registry and the training service of the management server
  (\<^verbatim>\<open>server/core/.../ModelRegistryService.java\<close>, \<^verbatim>\<open>TrainingService.java\<close>). A Java method is a function
  on the state of its object; a Java \<open>int\<close> is a 32-bit word; an exception is the left alternative of a
  sum; \<open>null\<close> is \<open>None\<close>. What other services answer is a parameter: \<open>det\<close> is the anomaly
  detection port, \<open>None\<close> while it is not injected, and \<open>ctrl\<close> is the outcome of a call to the agent.
\<close>

subsection \<open>Data\<close>

datatype java_exn = NullPointerException | IndexOutOfBounds | ClassCastException | PortException

datatype ModelStatus = UNTRAINED | READY | TRAINING | ERROR

record ModelMeta =
  mm_modelId :: string
  mm_containerId :: string
  mm_version :: i32
  mm_featureVersion :: string
  mm_status :: ModelStatus

record ModelVersion =
  mv_modelId :: string
  mv_containerId :: string
  mv_version :: i32
  mv_featureVersion :: string
  mv_trainedAt :: int
  mv_status :: ModelStatus
  mv_metrics :: "(string \<times> json) list"

type_synonym registry = "string \<rightharpoonup> ModelVersion list"
type_synonym detection_port = "(string \<Rightarrow> java_exn + ModelMeta option) option"

record LongDumpComplete =
  lc_agentId :: "string option"
  lc_containerId :: "string option"
  lc_dumpPath :: "string option"
  lc_startTs :: "int option"
  lc_durationSec :: i32

subsection \<open>The registry\<close>

definition reg_update :: "int \<Rightarrow> registry \<Rightarrow> string \<Rightarrow> string \<Rightarrow> i32 \<Rightarrow> string \<Rightarrow> ModelStatus \<Rightarrow> registry" where
  "reg_update now versions containerId modelId ver featureVersion status =
     (let mv = \<lparr>mv_modelId = modelId, mv_containerId = containerId, mv_version = ver,
            mv_featureVersion = featureVersion, mv_trainedAt = now, mv_status = status, mv_metrics = []\<rparr>;
          old = (case versions containerId of None \<Rightarrow> [] | Some l \<Rightarrow> l)
      in versions(containerId \<mapsto> old @ [mv]))"

definition meta_of :: "ModelVersion \<Rightarrow> ModelMeta" where
  "meta_of v = \<lparr>mm_modelId = mv_modelId v, mm_containerId = mv_containerId v, mm_version = mv_version v,
     mm_featureVersion = mv_featureVersion v, mm_status = mv_status v\<rparr>"

definition unset_meta :: "string \<Rightarrow> ModelMeta" where
  "unset_meta containerId = \<lparr>mm_modelId = ''unset'', mm_containerId = containerId, mm_version = 0,
     mm_featureVersion = ''v1'', mm_status = UNTRAINED\<rparr>"

definition getMeta :: "detection_port \<Rightarrow> int \<Rightarrow> registry \<Rightarrow> string \<Rightarrow> ModelMeta \<times> registry" where
  "getMeta det now versions containerId =
     (case versions containerId of
        Some (v # vs) \<Rightarrow> (meta_of (last (v # vs)), versions)
      | _ \<Rightarrow>
          (case det of
             None \<Rightarrow> (unset_meta containerId, versions)
           | Some ask \<Rightarrow>
               (case ask containerId of
                  Inr (Some remoteMeta) \<Rightarrow>
                    if mm_status remoteMeta \<noteq> UNTRAINED then
                      (remoteMeta, reg_update now versions containerId (mm_modelId remoteMeta) (mm_version remoteMeta)
                         (mm_featureVersion remoteMeta) (mm_status remoteMeta))
                    else (unset_meta containerId, versions)
                | _ \<Rightarrow> (unset_meta containerId, versions))))"

definition setStatus :: "registry \<Rightarrow> string \<Rightarrow> i32 \<Rightarrow> ModelStatus \<Rightarrow> registry" where
  "setStatus versions containerId ver status =
     (case versions containerId of
        None \<Rightarrow> versions
      | Some [] \<Rightarrow> versions
      | Some l \<Rightarrow>
          let latest = last l in
          if mv_version latest \<noteq> ver then versions
          else versions(containerId \<mapsto> l[length l - 1 := latest\<lparr>mv_status := status\<rparr>]))"

definition removeLatest :: "registry \<Rightarrow> string \<Rightarrow> registry" where
  "removeLatest versions containerId =
     (case versions containerId of
        None \<Rightarrow> versions
      | Some [] \<Rightarrow> versions
      | Some l \<Rightarrow> (if butlast l = [] then versions(containerId := None) else versions(containerId \<mapsto> butlast l)))"

fun sync_loop :: "(string \<Rightarrow> java_exn + ModelMeta option) \<Rightarrow> int \<Rightarrow> string list \<Rightarrow> registry \<Rightarrow> nat \<Rightarrow> nat \<times> registry" where
  "sync_loop ask now [] versions synced = (synced, versions)"
| "sync_loop ask now (containerId # ids) versions synced =
     (case ask containerId of
        Inr (Some meta) \<Rightarrow>
          if mm_status meta \<noteq> UNTRAINED then
            sync_loop ask now ids (reg_update now versions containerId (mm_modelId meta) (mm_version meta)
              (mm_featureVersion meta) (mm_status meta)) (Suc synced)
          else sync_loop ask now ids versions synced
      | _ \<Rightarrow> sync_loop ask now ids versions synced)"

definition syncFromMlService :: "detection_port \<Rightarrow> int \<Rightarrow> string list \<Rightarrow> registry \<Rightarrow> nat \<times> registry" where
  "syncFromMlService det now containerIds versions =
     (case det of None \<Rightarrow> (0, versions) | Some ask \<Rightarrow> sync_loop ask now containerIds versions 0)"

definition reg_list :: "registry \<Rightarrow> string \<Rightarrow> ModelVersion list" where
  "reg_list versions containerId = (case versions containerId of None \<Rightarrow> [] | Some l \<Rightarrow> l)"

definition reg_clearCache :: "registry \<Rightarrow> registry" where
  "reg_clearCache versions = Map.empty"

subsection \<open>The training service\<close>

record Training =
  tr_versions :: registry
  tr_jobs :: "string \<rightharpoonup> i32"  \<comment> \<open>containers whose dump is awaited, with the version to finish\<close>

definition Training_new :: Training where
  "Training_new = \<lparr>tr_versions = Map.empty, tr_jobs = Map.empty\<rparr>"

definition train :: "int \<Rightarrow> java_exn + unit \<Rightarrow> Training \<Rightarrow> string \<Rightarrow> Training" where
  "train now outcome s containerId =
     (case outcome of
        Inl _ \<Rightarrow> s
      | Inr _ \<Rightarrow> s\<lparr>tr_versions := reg_update now (tr_versions s) containerId (''model-'' @ containerId) 1 ''v1'' READY\<rparr>)"

definition startOrchestratedTraining ::
  "detection_port \<Rightarrow> int \<Rightarrow> java_exn + unit \<Rightarrow> Training \<Rightarrow> string \<Rightarrow> (java_exn + unit) \<times> Training" where
  "startOrchestratedTraining det now ctrl s containerId =
     (let (meta, versions) = getMeta det now (tr_versions s) containerId;
          nextVersion = mm_version meta + 1;
          s = s\<lparr>tr_versions := reg_update now versions containerId (''model-'' @ containerId) nextVersion ''v1'' TRAINING,
                tr_jobs := (tr_jobs s)(containerId \<mapsto> nextVersion)\<rparr>
      in case ctrl of
           Inr _ \<Rightarrow> (Inr (), s)
         | Inl ex \<Rightarrow> (Inl ex, s\<lparr>tr_jobs := (tr_jobs s)(containerId := None),
                              tr_versions := removeLatest (tr_versions s) containerId\<rparr>))"

text \<open>\<^verbatim>\<open>setStatus\<close> raises no exception, so the handler around it in \<^verbatim>\<open>handleDumpComplete\<close> is never entered.\<close>

definition training_handleDumpComplete :: "Training \<Rightarrow> string \<Rightarrow> Training" where
  "training_handleDumpComplete s containerId =
     (case tr_jobs s containerId of
        None \<Rightarrow> s
      | Some ver \<Rightarrow> s\<lparr>tr_jobs := (tr_jobs s)(containerId := None),
                          tr_versions := setStatus (tr_versions s) containerId ver READY\<rparr>)"

subsection \<open>The latest version of a container's model\<close>

definition latest :: "registry \<Rightarrow> string \<Rightarrow> ModelVersion option" where
  "latest versions k = (case reg_list versions k of [] \<Rightarrow> None | l \<Rightarrow> Some (last l))"

lemma latest_last: "versions k = Some l \<Longrightarrow> l \<noteq> [] \<Longrightarrow> latest versions k = Some (last l)"
  by (simp add: latest_def reg_list_def split: list.split)

lemma latest_update [simp]:
  "latest (reg_update now versions k m v f st) k = Some \<lparr>mv_modelId = m, mv_containerId = k, mv_version = v,
     mv_featureVersion = f, mv_trainedAt = now, mv_status = st, mv_metrics = []\<rparr>"
  by (subst latest_last) (auto simp: reg_update_def Let_def)

lemma update_other [simp]: "j \<noteq> k \<Longrightarrow> reg_update now versions k m v f st j = versions j"
  by (simp add: reg_update_def Let_def)

lemma setStatus_other [simp]: "j \<noteq> k \<Longrightarrow> setStatus versions k v st j = versions j"
  by (simp add: setStatus_def Let_def split: option.split list.split)

lemma removeLatest_other [simp]: "j \<noteq> k \<Longrightarrow> removeLatest versions k j = versions j"
  by (simp add: removeLatest_def split: option.split list.split)

lemma latest_cong: "versions k = versions' k \<Longrightarrow> latest versions k = latest versions' k"
  by (simp add: latest_def reg_list_def)

lemma latest_setStatus:
  assumes "latest versions k = Some mv" "mv_version mv = v"
  shows "latest (setStatus versions k v st) k = Some (mv\<lparr>mv_status := st\<rparr>)"
proof -
  obtain x xs where l: "versions k = Some (x # xs)" and mv: "last (x # xs) = mv"
    using assms(1) by (auto simp: latest_def reg_list_def split: option.splits list.splits)
  let ?l = "(x # xs)[length (x # xs) - 1 := mv\<lparr>mv_status := st\<rparr>]"
  have "setStatus versions k v st k = Some ?l"
    using l mv assms(2) by (simp add: setStatus_def Let_def)
  moreover have "last ?l = mv\<lparr>mv_status := st\<rparr>" by (subst last_list_update) auto
  moreover have "?l \<noteq> []" by (simp split: nat.split)
  ultimately show ?thesis using latest_last [of "setStatus versions k v st" k ?l] by metis
qed

lemma getMeta_latest:
  "latest versions k = Some mv \<Longrightarrow> getMeta det now versions k = (meta_of mv, versions)"
  by (auto simp: latest_def reg_list_def getMeta_def split: option.splits list.splits)

lemma getMeta_other: "j \<noteq> k \<Longrightarrow> snd (getMeta det now versions k) j = versions j"
  by (simp add: getMeta_def split: option.split list.split sum.split)

lemma sync_loop_other: "k \<notin> set ids \<Longrightarrow> snd (sync_loop ask now ids versions n) k = versions k"
  by (induction ask now ids versions n rule: sync_loop.induct) (auto split: option.splits sum.splits)

subsection \<open>Runs of the service\<close>

datatype training_op =
    Start int "java_exn + unit" string
  | Complete string
  | DirectTrain int "java_exn + unit" string
  | Query int string
  | Sync int "string list"
  | ClearModels

fun training_step :: "detection_port \<Rightarrow> training_op \<Rightarrow> Training \<Rightarrow> Training" where
  "training_step det (Start now ctrl k) s = snd (startOrchestratedTraining det now ctrl s k)"
| "training_step det (Complete k) s = training_handleDumpComplete s k"
| "training_step det (DirectTrain now outcome k) s = train now outcome s k"
| "training_step det (Query now k) s = s\<lparr>tr_versions := snd (getMeta det now (tr_versions s) k)\<rparr>"
| "training_step det (Sync now ids) s = s\<lparr>tr_versions := snd (syncFromMlService det now ids (tr_versions s))\<rparr>"
| "training_step det ClearModels s = s\<lparr>tr_versions := reg_clearCache (tr_versions s)\<rparr>"

text \<open>Operations that leave the model of \<open>k\<close> alone once it has a version.\<close>

fun spares :: "string \<Rightarrow> training_op \<Rightarrow> bool" where
  "spares k (Start now ctrl j) = (j \<noteq> k)"
| "spares k (Complete j) = (j \<noteq> k)"
| "spares k (DirectTrain now outcome j) = (j \<noteq> k)"
| "spares k (Query now j) = True"
| "spares k (Sync now ids) = (k \<notin> set ids)"
| "spares k ClearModels = False"

lemma training_step_spares:
  assumes "spares k op" "latest (tr_versions s) k = Some mv"
  shows "tr_versions (training_step det op s) k = tr_versions s k \<and> tr_jobs (training_step det op s) k = tr_jobs s k"
  using assms(1)
proof (cases op)
  case (Start now ctrl j)
  with assms(1) show ?thesis
    by (auto simp: startOrchestratedTraining_def case_prod_unfold Let_def getMeta_other split: sum.split)
next
  case (Complete j)
  with assms(1) show ?thesis by (auto simp: training_handleDumpComplete_def split: option.split)
next
  case (DirectTrain now outcome j)
  with assms(1) show ?thesis by (auto simp: train_def split: sum.split)
next
  case (Query now j)
  then show ?thesis
    by (cases "j = k") (auto simp: getMeta_latest [OF assms(2)] getMeta_other)
next
  case (Sync now ids)
  with assms(1) show ?thesis by (auto simp: syncFromMlService_def sync_loop_other split: option.split)
next
  case ClearModels
  with assms(1) show ?thesis by simp
qed

lemma training_run_spares:
  "list_all (spares k) ops \<Longrightarrow> latest (tr_versions s) k = Some mv \<Longrightarrow>
   tr_versions (fold (training_step det) ops s) k = tr_versions s k \<and> tr_jobs (fold (training_step det) ops s) k = tr_jobs s k"
proof (induction ops arbitrary: s)
  case (Cons op ops)
  then have step: "tr_versions (training_step det op s) k = tr_versions s k"
    "tr_jobs (training_step det op s) k = tr_jobs s k" using training_step_spares [of k op s mv det] by auto
  then have "latest (tr_versions (training_step det op s)) k = Some mv" using Cons.prems(2) latest_cong by metis
  with Cons step show ?case by simp
qed simp

lemma started_latest:
  assumes "startOrchestratedTraining det now (Inr ()) s k = (Inr (), s')"
    and "v = mm_version (fst (getMeta det now (tr_versions s) k)) + 1"
  shows "tr_jobs s' k = Some v" "\<exists>mv. latest (tr_versions s') k = Some mv \<and> mv_version mv = v \<and> mv_status mv = TRAINING"
  using assms by (auto simp: startOrchestratedTraining_def case_prod_unfold Let_def)

lemma completed_latest:
  assumes "tr_jobs s k = Some v" "latest (tr_versions s) k = Some mv" "mv_version mv = v"
  shows "latest (tr_versions (training_handleDumpComplete s k)) k = Some (mv\<lparr>mv_status := READY\<rparr>)"
    "tr_jobs (training_handleDumpComplete s k) k = None"
  using assms latest_setStatus [OF assms(2,3)] by (simp_all add: training_handleDumpComplete_def)

subsection \<open>Properties\<close>

text \<open>C24: Training that is started and reported back finishes. From any state, a training that was
  requested for a container is under way with the next version number, and stays so through any
  operations on other containers and any status queries; when the completion of the
  container's dump is then handled, that very version becomes ready and the job is gone.\<close>

theorem training_finishes:
  assumes "startOrchestratedTraining det now (Inr ()) s k = (Inr (), s1)"
    and "v = mm_version (fst (getMeta det now (tr_versions s) k)) + 1"
    and "list_all (spares k) ops" "s2 = fold (training_step det) ops s1"
  shows "map_option mv_status (latest (tr_versions s2) k) = Some TRAINING \<and>
    map_option (\<lambda>mv. (mv_version mv, mv_status mv)) (latest (tr_versions (training_handleDumpComplete s2 k)) k) = Some (v, READY) \<and>
    tr_jobs (training_handleDumpComplete s2 k) k = None"
proof -
  obtain mv where mv: "latest (tr_versions s1) k = Some mv" "mv_version mv = v" "mv_status mv = TRAINING"
    using started_latest(2) [OF assms(1,2)] by blast
  have same: "tr_versions s2 k = tr_versions s1 k" "tr_jobs s2 k = Some v"
    using training_run_spares [OF assms(3) mv(1), of det] started_latest(1) [OF assms(1,2)] by (simp_all add: assms(4))
  then have "latest (tr_versions s2) k = Some mv" using latest_cong mv(1) by metis
  with completed_latest [OF same(2) this mv(2)] mv show ?thesis by simp
qed

theorem training_finishes_witness:
  "map_option (\<lambda>mv. (mv_version mv, mv_status mv)) (latest (tr_versions (training_handleDumpComplete
     (training_step None (Start 6 (Inr ()) ''db'') (training_step None (Start 5 (Inr ()) ''web'') Training_new)) ''web'')) ''web'') = Some (1, READY)"
proof -
  let ?s1 = "training_step None (Start 5 (Inr ()) ''web'') Training_new"
  have start: "startOrchestratedTraining None 5 (Inr ()) Training_new ''web'' = (Inr (), ?s1)"
    by (simp add: startOrchestratedTraining_def case_prod_unfold Let_def)
  have v: "1 = mm_version (fst (getMeta None 5 (tr_versions Training_new) ''web'')) + 1"
    by (simp add: Training_new_def getMeta_def unset_meta_def)
  have "list_all (spares ''web'') [Start 6 (Inr ()) ''db'']" by simp
  from training_finishes [OF start v this refl] show ?thesis by simp
qed

text \<open>A failed request is rolled back: the registry is as the version query left it, and there is no job.\<close>

lemma failed_start_rolled_back:
  assumes "startOrchestratedTraining det now (Inl ex) s k = (r, s')"
  shows "r = Inl ex \<and> tr_jobs s' k = None \<and>
    (\<forall>j. reg_list (tr_versions s') j = reg_list (snd (getMeta det now (tr_versions s) k)) j)"
proof -
  have "reg_list (removeLatest (reg_update now versions k m v f st) k) j = reg_list versions j" for versions m v f st j
    by (auto simp: reg_list_def removeLatest_def reg_update_def Let_def split: option.split list.split)
      (metis butlast.simps(2) butlast_snoc)
  with assms show ?thesis by (auto simp: startOrchestratedTraining_def case_prod_unfold Let_def)
qed

end
