(* ===== verification/Server_Features.thy ===== *)
theory Server_Features
  imports Java_Float Server_Training "HOL-Library.Signed_Division"
begin

text \<open>
  Feature extraction on the management server: \<^verbatim>\<open>FeatureExtractor.java\<close> turns a short window into the
  594 numbers the anomaly detector sees. Java \<open>int\<close> and \<open>long\<close> values of a window are words; arrays are
  lists of fixed length, and an index outside raises \<open>IndexOutOfBounds\<close>; the counters are integers, which
  cannot overflow because a Java list holds fewer than \<open>2 ^ 31\<close> elements. \<^verbatim>\<open>Math.log\<close> is a parameter \<open>jlog\<close>.
\<close>

subsection \<open>Windows as the server reads them\<close>

record TraceRecordDto =
  jt_deltaTsUs :: i32
  jt_syscallId :: i32
  jt_argClass :: i32
  jt_argBucket :: i32

record ShortWindowPayload =
  sw_version :: i32
  sw_agentId :: "string option"
  sw_containerId :: "string option"
  sw_windowStartTsNs :: u64
  sw_records :: "TraceRecordDto list option"

subsection \<open>Alphabet and buckets\<close>

definition mapSyscallToAlphabet :: "i32 \<Rightarrow> nat" where
  "mapSyscallToAlphabet syscallIdRaw =
     (let n = sint syscallIdRaw in
      if n = 59 then 0
      else if n \<in> {2, 257} then 1
      else if n = 0 then 2
      else if n = 1 then 3
      else if n = 3 then 4
      else if n \<in> {4, 5} then 5
      else if n = 42 then 6
      else if n = 43 then 7
      else if n \<in> {44, 46} then 8
      else if n \<in> {45, 47} then 9
      else if n \<in> {41, 49, 50} then 10
      else if n \<in> {57, 56} then 11
      else if n \<in> {9, 10} then 12
      else if n \<in> {90, 91} then 13
      else if n \<in> {87, 84} then 14
      else if n = 82 then 15
      else if n \<in> {102, 105} then 16
      else if n = 160 then 17
      else if n = 101 then 18
      else if n \<in> {165, 166} then 19
      else if n = 12 then 20
      else if n = 78 then 21
      else if n = 162 then 22
      else 23)"

definition mapBucket :: "i32 \<Rightarrow> i32 \<Rightarrow> nat" where
  "mapBucket cls bkt =
     (let idx = sint (cls * 4 + bkt) smod 12 in if idx < 0 \<or> idx \<ge> 12 then 11 else nat idx)"

subsection \<open>Counting\<close>

record Counts =
  fc_transitions :: "rat list list"
  fc_outgoing :: "int list"
  fc_buckets :: "int list"
  fc_fileOps :: int
  fc_netOps :: int
  fc_procOps :: int
  fc_otherOps :: int
  fc_lastTs :: u64

definition Counts_new :: "u64 \<Rightarrow> Counts" where
  "Counts_new firstTs = \<lparr>fc_transitions = replicate 24 (replicate 24 0), fc_outgoing = replicate 24 0,
     fc_buckets = replicate 12 0, fc_fileOps = 0, fc_netOps = 0, fc_procOps = 0, fc_otherOps = 0, fc_lastTs = firstTs\<rparr>"

definition array_upd :: "nat \<Rightarrow> ('a \<Rightarrow> 'a) \<Rightarrow> 'a list \<Rightarrow> java_exn + 'a list" where  \<comment> \<open>\<open>xs[i] = f(xs[i])\<close>\<close>
  "array_upd i f xs = (if i < length xs then Inr (xs[i := f (xs ! i)]) else Inl IndexOutOfBounds)"

definition array_get :: "nat \<Rightarrow> 'a list \<Rightarrow> java_exn + 'a" where
  "array_get i xs = (if i < length xs then Inr (xs ! i) else Inl IndexOutOfBounds)"

definition bind_exn :: "java_exn + 'a \<Rightarrow> ('a \<Rightarrow> java_exn + 'b) \<Rightarrow> java_exn + 'b" where
  "bind_exn r f = (case r of Inl e \<Rightarrow> Inl e | Inr x \<Rightarrow> f x)"

definition count_class :: "i32 \<Rightarrow> Counts \<Rightarrow> Counts" where
  "count_class cls c =
     (if cls = 0 then c\<lparr>fc_fileOps := fc_fileOps c + 1\<rparr>
      else if cls = 1 then c\<lparr>fc_netOps := fc_netOps c + 1\<rparr>
      else if cls = 2 then c\<lparr>fc_procOps := fc_procOps c + 1\<rparr>
      else c\<lparr>fc_otherOps := fc_otherOps c + 1\<rparr>)"

definition count_transition :: "TraceRecordDto option \<Rightarrow> nat \<Rightarrow> Counts \<Rightarrow> java_exn + Counts" where
  "count_transition prev currId c =
     (case prev of
        None \<Rightarrow> Inr c
      | Some prev \<Rightarrow>
          let prevId = mapSyscallToAlphabet (jt_syscallId prev) in
          bind_exn (array_get prevId (fc_transitions c)) (\<lambda>row.
          bind_exn (array_upd currId (\<lambda>v. f64 (v + 1)) row) (\<lambda>row'.
          bind_exn (array_upd prevId (\<lambda>_. row') (fc_transitions c)) (\<lambda>ts.
          bind_exn (array_upd prevId (\<lambda>n. n + 1) (fc_outgoing c)) (\<lambda>out.
          Inr (c\<lparr>fc_transitions := ts, fc_outgoing := out\<rparr>))))))"

text \<open>The body of the loop over the records, and the loop; \<open>prev\<close> is the record before.\<close>

definition count_record :: "u64 \<Rightarrow> TraceRecordDto option \<Rightarrow> TraceRecordDto \<Rightarrow> Counts \<Rightarrow> java_exn + Counts" where
  "count_record start prev r c =
     (let currId = mapSyscallToAlphabet (jt_syscallId r);
          bucket = mapBucket (jt_argClass r) (jt_argBucket r)
      in bind_exn (array_upd bucket (\<lambda>n. n + 1) (fc_buckets c)) (\<lambda>bs.
         let c = count_class (jt_argClass r) (c\<lparr>fc_buckets := bs\<rparr>);
             c = c\<lparr>fc_lastTs := start + scast (jt_deltaTsUs r) * 1000\<rparr>
         in count_transition prev currId c))"

fun count_loop :: "u64 \<Rightarrow> TraceRecordDto option \<Rightarrow> TraceRecordDto list \<Rightarrow> Counts \<Rightarrow> java_exn + Counts" where
  "count_loop start prev [] c = Inr c"
| "count_loop start prev (r # rs) c = bind_exn (count_record start prev r c) (count_loop start (Some r) rs)"

subsection \<open>The vector\<close>

definition normalize :: "rat list list \<Rightarrow> int list \<Rightarrow> rat list list" where
  "normalize transitions outgoing =
     map (\<lambda>(row, n). if n = 0 then row else map (\<lambda>v. f64 (v / of_int n)) row) (zip transitions outgoing)"

text \<open>One step of the double loop over the cells: number of pairs seen and entropy.\<close>

definition entropy_step :: "(rat \<Rightarrow> rat) \<Rightarrow> int \<Rightarrow> rat \<times> int \<Rightarrow> int \<times> rat \<Rightarrow> int \<times> rat" where
  "entropy_step jlog totalTransitions = (\<lambda>(v, n) (uniqueTwoGrams, entropy).
     if v > 0 then
       let count = f64 (v * of_int n);
           p = f64 (count / of_int totalTransitions)
       in (uniqueTwoGrams + 1, f64 (entropy - f64 (p * jlog (f64 (p + f64 (1 / 10 ^ 12))))))
     else (uniqueTwoGrams, entropy))"

definition pad :: "rat list \<Rightarrow> rat list" where
  "pad vec = take 594 (vec @ replicate (594 - length vec) 0)"

definition feature_values :: "(rat \<Rightarrow> rat) \<Rightarrow> u64 \<Rightarrow> int \<Rightarrow> Counts \<Rightarrow> rat list" where
  "feature_values jlog firstTs size_n c =
     (let transitions = normalize (fc_transitions c) (fc_outgoing c);
          totalTransitions = max (size_n - 1) 1;
          cells = concat (map (\<lambda>(row, n). map (\<lambda>v. (v, n)) row) (zip transitions (fc_outgoing c)));
          (uniqueTwoGrams, entropy) = fold (entropy_step jlog totalTransitions) cells (0, 0);
          fileRatio = (if size_n = 0 then 0 else f32 (f32 (of_int (fc_fileOps c)) / f32 (of_int size_n)));
          netRatio = (if size_n = 0 then 0 else f32 (f32 (of_int (fc_netOps c)) / f32 (of_int size_n)));
          durationSec = f64 (f64 (of_int (sint (fc_lastTs c - firstTs))) / 1000000000);
          meanInterArrival = (if size_n > 0 then f64 (durationSec / of_int size_n) else 0);
          bucketTotal = max size_n 1
      in pad (map (\<lambda>(v, n). f32 v) cells @
           [f32 (of_int uniqueTwoGrams), f32 entropy, fileRatio, netRatio, f32 durationSec, f32 meanInterArrival] @
           map (\<lambda>n. f32 (f32 (of_int n) / f32 (of_int bucketTotal))) (fc_buckets c)))"

definition fe_extract :: "(rat \<Rightarrow> rat) \<Rightarrow> ShortWindowPayload \<Rightarrow> java_exn + rat list" where
  "fe_extract jlog payload =
     (case sw_records payload of
        None \<Rightarrow> Inr []
      | Some [] \<Rightarrow> Inr []
      | Some records \<Rightarrow>
          let firstTs = sw_windowStartTsNs payload in
          bind_exn (count_loop firstTs None records (Counts_new firstTs)) (\<lambda>c.
            Inr (feature_values jlog firstTs (int (length records)) c)))"

subsection \<open>What the loop counts\<close>

fun pairs :: "'a list \<Rightarrow> ('a \<times> 'a) list" where  \<comment> \<open>neighbours\<close>
  "pairs (a # b # xs) = (a, b) # pairs (b # xs)"
| "pairs _ = []"

lemma pairs_snoc: "xs \<noteq> [] \<Longrightarrow> pairs (xs @ [y]) = pairs xs @ [(last xs, y)]"
  by (induction xs rule: pairs.induct) auto

lemma length_pairs: "length (pairs xs) = length xs - 1"
  by (induction xs rule: pairs.induct) auto

definition letter :: "TraceRecordDto \<Rightarrow> nat" where
  "letter r = mapSyscallToAlphabet (jt_syscallId r)"

definition transitions_seen :: "TraceRecordDto list \<Rightarrow> nat \<Rightarrow> nat \<Rightarrow> nat" where
  "transitions_seen rs i j = length (filter (\<lambda>(a, b). letter a = i \<and> letter b = j) (pairs rs))"

definition outgoing_seen :: "TraceRecordDto list \<Rightarrow> nat \<Rightarrow> nat" where
  "outgoing_seen rs i = length (filter (\<lambda>(a, b). letter a = i) (pairs rs))"

definition bucket_seen :: "TraceRecordDto list \<Rightarrow> nat \<Rightarrow> nat" where
  "bucket_seen rs b = length (filter (\<lambda>r. mapBucket (jt_argClass r) (jt_argBucket r) = b) rs)"

definition class_seen :: "TraceRecordDto list \<Rightarrow> i32 \<Rightarrow> nat" where
  "class_seen rs k = length (filter (\<lambda>r. jt_argClass r = k) rs)"

definition counted_pairs :: "TraceRecordDto list \<Rightarrow> Counts \<Rightarrow> bool" where
  "counted_pairs rs c \<longleftrightarrow>
     fc_transitions c = map (\<lambda>i. map (\<lambda>j. of_nat (transitions_seen rs i j)) [0..<24]) [0..<24] \<and>
     fc_outgoing c = map (\<lambda>i. int (outgoing_seen rs i)) [0..<24]"

definition counted_single :: "TraceRecordDto list \<Rightarrow> Counts \<Rightarrow> bool" where
  "counted_single rs c \<longleftrightarrow> fc_buckets c = map (\<lambda>b. int (bucket_seen rs b)) [0..<12] \<and>
     fc_fileOps c = int (class_seen rs 0) \<and> fc_netOps c = int (class_seen rs 1) \<and> fc_procOps c = int (class_seen rs 2)"

lemma letter_less: "letter r < 24"
  by (simp add: letter_def mapSyscallToAlphabet_def Let_def)

lemma mapBucket_less: "mapBucket a b < 12"
  by (auto simp: mapBucket_def Let_def)

lemma map_upt_update: "(map f [0..<n])[i := v] = map (f(i := v)) [0..<n]"
  by (rule nth_equalityI) (auto simp: nth_list_update)

lemma array_upd_upt:
  "i < n \<Longrightarrow> array_upd i g (map f [0..<n]) = Inr (map (f(i := g (f i))) [0..<n])"
  by (simp add: array_upd_def map_upt_update)

lemma transitions_snoc:
  "xs \<noteq> [] \<Longrightarrow> transitions_seen (xs @ [r]) i j =
     transitions_seen xs i j + (if letter (last xs) = i \<and> letter r = j then 1 else 0)"
  by (simp add: transitions_seen_def pairs_snoc)

lemma outgoing_snoc:
  "xs \<noteq> [] \<Longrightarrow> outgoing_seen (xs @ [r]) i = outgoing_seen xs i + (if letter (last xs) = i then 1 else 0)"
  by (simp add: outgoing_seen_def pairs_snoc)

lemma length_filter_conj: "length (filter (\<lambda>x. P x \<and> Q x) xs) \<le> length (filter P xs)"
  by (induction xs) auto

lemma transitions_le: "transitions_seen rs i j \<le> outgoing_seen rs i"
  using length_filter_conj [of "\<lambda>p. letter (fst p) = i" "\<lambda>p. letter (snd p) = j" "pairs rs"]
  by (simp add: transitions_seen_def outgoing_seen_def case_prod_unfold)

lemma count_transition_counted:
  assumes "counted_pairs xs c" "length xs < 2147483648"
    and "prev = (if xs = [] then None else Some (last xs))"
  shows "\<exists>ts out. count_transition prev (letter r) c = Inr (c\<lparr>fc_transitions := ts, fc_outgoing := out\<rparr>) \<and>
    counted_pairs (xs @ [r]) (c\<lparr>fc_transitions := ts, fc_outgoing := out\<rparr>)"
proof (cases "xs = []")
  case True
  with assms show ?thesis
    by (intro exI [of _ "fc_transitions c"] exI [of _ "fc_outgoing c"])
      (simp add: count_transition_def counted_pairs_def transitions_seen_def outgoing_seen_def)
next
  case False
  have small: "transitions_seen xs i j < 9007199254740991" for i j
    using length_filter_le [of _ "pairs xs"] assms(2) length_pairs [of xs]
    by (fastforce simp: transitions_seen_def intro: le_less_trans)
  have inc: "f64 (of_nat (transitions_seen xs i j) + 1) = of_nat (transitions_seen xs i j + 1)" for i j
    using f64_nat [of "transitions_seen xs i j + 1"] small [of i j] by (simp add: add.commute)
  show ?thesis
    using assms(1,3) False letter_less [of r] letter_less [of "last xs"]
    by (simp add: count_transition_def counted_pairs_def letter_def [symmetric] array_get_def bind_exn_def array_upd_upt
        inc transitions_snoc outgoing_snoc Let_def fun_eq_iff cong: map_cong)
qed

lemma count_record_counted:
  assumes "counted_pairs xs c" "counted_single xs c" "length xs < 2147483648"
    and "prev = (if xs = [] then None else Some (last xs))"
  shows "\<exists>c'. count_record start prev r c = Inr c' \<and> counted_pairs (xs @ [r]) c' \<and> counted_single (xs @ [r]) c' \<and>
    fc_lastTs c' = start + scast (jt_deltaTsUs r) * 1000"
proof -
  let ?b = "mapBucket (jt_argClass r) (jt_argBucket r)"
  let ?bs = "map (\<lambda>b. int (bucket_seen (xs @ [r]) b)) [0..<12]"
  define c1 where "c1 = (count_class (jt_argClass r) (c\<lparr>fc_buckets := ?bs\<rparr>))\<lparr>fc_lastTs := start + scast (jt_deltaTsUs r) * 1000\<rparr>"
  have bs: "array_upd ?b (\<lambda>n. n + 1) (fc_buckets c) = Inr ?bs"
    using assms(2) mapBucket_less by (auto simp: counted_single_def array_upd_upt bucket_seen_def)
  have "counted_pairs xs c1" using assms(1) by (simp add: counted_pairs_def c1_def count_class_def)
  from count_transition_counted [OF this assms(3,4)] obtain ts out where
    tr: "count_transition prev (letter r) c1 = Inr (c1\<lparr>fc_transitions := ts, fc_outgoing := out\<rparr>)"
    "counted_pairs (xs @ [r]) (c1\<lparr>fc_transitions := ts, fc_outgoing := out\<rparr>)" by blast
  have "count_record start prev r c = count_transition prev (letter r) c1"
    by (simp add: count_record_def bs bind_exn_def letter_def c1_def Let_def)
  moreover have "counted_single (xs @ [r]) (c1\<lparr>fc_transitions := ts, fc_outgoing := out\<rparr>)"
    using assms(2) by (simp add: c1_def count_class_def counted_single_def class_seen_def)
  moreover have "fc_lastTs c1 = start + scast (jt_deltaTsUs r) * 1000" by (simp add: c1_def)
  ultimately show ?thesis using tr by simp
qed

lemma count_loop_counted:
  assumes "counted_pairs xs c" "counted_single xs c" "length xs + length rs < 2147483648"
    and "prev = (if xs = [] then None else Some (last xs))"
  shows "\<exists>c'. count_loop start prev rs c = Inr c' \<and> counted_pairs (xs @ rs) c' \<and> counted_single (xs @ rs) c'"
  using assms
proof (induction rs arbitrary: xs c prev)
  case (Cons r rs)
  then obtain c1 where c1: "count_record start prev r c = Inr c1" "counted_pairs (xs @ [r]) c1" "counted_single (xs @ [r]) c1"
    using count_record_counted [of xs c prev start r] by auto
  moreover have "\<exists>c'. count_loop start (Some r) rs c1 = Inr c' \<and> counted_pairs ((xs @ [r]) @ rs) c' \<and> counted_single ((xs @ [r]) @ rs) c'"
    using c1 Cons.prems(3) by (intro Cons.IH) simp_all
  ultimately show ?case by (simp add: bind_exn_def)
qed simp

lemma counted_new: "counted_pairs [] (Counts_new t)" "counted_single [] (Counts_new t)"
  by (simp_all add: counted_pairs_def counted_single_def Counts_new_def transitions_seen_def outgoing_seen_def bucket_seen_def
      class_seen_def map_replicate_const)

subsection \<open>The vector of a window\<close>

lemma length_grid: "length (concat (map (\<lambda>i. map (f i) [0..<n]) [0..<m])) = m * n"
  by (induction m) auto

lemma nth_grid:
  assumes "i < m" "j < n"
  shows "concat (map (\<lambda>i. map (f i) [0..<n]) [0..<m]) ! (n * i + j) = f i j"
  using assms
proof (induction m)
  case (Suc m)
  show ?case
  proof (cases "i < m")
    case True
    then have "n * i + j < n * Suc i" using Suc.prems by simp
    also have "\<dots> \<le> n * m" using True by (intro mult_le_mono2) simp
    finally have "n * i + j < m * n" by (simp add: mult.commute)
    with True Suc show ?thesis by (simp add: nth_append length_grid)
  next
    case False
    with Suc.prems have "i = m" by simp
    with Suc.prems show ?thesis by (simp add: nth_append length_grid mult.commute)
  qed
qed simp

text \<open>The estimated probability that call \<open>j\<close> follows call \<open>i\<close>, and the share of \<open>m\<close> in \<open>n\<close>, as computed.\<close>

definition markov_cell :: "TraceRecordDto list \<Rightarrow> nat \<Rightarrow> nat \<Rightarrow> rat" where
  "markov_cell rs i j =
     (if outgoing_seen rs i = 0 then 0 else f64 (of_nat (transitions_seen rs i j) / of_nat (outgoing_seen rs i)))"

definition share :: "nat \<Rightarrow> nat \<Rightarrow> rat" where
  "share m n = f32 (f32 (of_nat m) / f32 (of_nat n))"

lemma normalize_counted:
  assumes "counted_pairs rs c"
  shows "normalize (fc_transitions c) (fc_outgoing c) = map (\<lambda>i. map (markov_cell rs i) [0..<24]) [0..<24]"
proof -
  have "transitions_seen rs i j = 0" if "outgoing_seen rs i = 0" for i j
    using transitions_le [of rs i j] that by simp
  with assms show ?thesis
    by (simp add: normalize_def counted_pairs_def zip_map_map zip_same_conv_map markov_cell_def)
qed

lemma markov_cell_unit: "0 \<le> markov_cell rs i j \<and> markov_cell rs i j \<le> 1"
  using transitions_le [of rs i j] by (auto simp: markov_cell_def intro!: f64_unit)

text \<open>The pairs of cell value and row total that the double loop visits.\<close>

definition cells :: "TraceRecordDto list \<Rightarrow> (rat \<times> int) list" where
  "cells rs = concat (map (\<lambda>i. map (\<lambda>j. (markov_cell rs i j, int (outgoing_seen rs i))) [0..<24]) [0..<24])"

definition vector_of :: "(rat \<Rightarrow> rat) \<Rightarrow> rat \<Rightarrow> TraceRecordDto list \<Rightarrow> rat list" where
  "vector_of jlog secs rs =
     (let n = length rs;
          (u, h) = fold (entropy_step jlog (max (int n - 1) 1)) (cells rs) (0, 0)
      in map (\<lambda>(v, _). f32 v) (cells rs) @
         [f32 (of_int u), f32 h, share (class_seen rs 0) n, share (class_seen rs 1) n, f32 secs, f32 (f64 (secs / of_nat n))] @
         map (\<lambda>b. share (bucket_seen rs b) n) [0..<12])"

lemma length_vector: "length (vector_of jlog secs rs) = 594"
  by (simp add: vector_of_def cells_def length_grid Let_def case_prod_unfold)

lemma pad_id: "length vec = 594 \<Longrightarrow> pad vec = vec"
  by (simp add: pad_def)

text \<open>The duration that the extractor reports: the delta of the last record, in seconds.\<close>

definition duration_of :: "TraceRecordDto list \<Rightarrow> rat" where
  "duration_of rs = f64 (f64 (of_int (sint (scast (jt_deltaTsUs (last rs)) * 1000 :: u64))) / 1000000000)"

lemma count_loop_last:
  "rs \<noteq> [] \<Longrightarrow> count_loop start prev rs c = Inr c' \<Longrightarrow> fc_lastTs c' = start + scast (jt_deltaTsUs (last rs)) * 1000"
proof (induction rs arbitrary: prev c)
  case (Cons r rs)
  obtain c1 where c1: "count_record start prev r c = Inr c1" "count_loop start (Some r) rs c1 = Inr c'"
    using Cons.prems(2) by (auto simp: bind_exn_def split: sum.splits)
  have "fc_lastTs c1 = start + scast (jt_deltaTsUs r) * 1000"
    using c1(1) by (auto simp: count_record_def count_transition_def bind_exn_def Let_def split: sum.splits option.splits)
  with Cons.IH [OF _ c1(2)] c1(2) show ?case by (cases rs) auto
qed simp

lemma extract_vector_duration:
  assumes "sw_records p = Some rs" "rs \<noteq> []" "length rs < 2147483648"
  shows "fe_extract jlog p = Inr (vector_of jlog (duration_of rs) rs)"
proof -
  let ?t = "sw_windowStartTsNs p"
  obtain c where loop: "count_loop ?t None rs (Counts_new ?t) = Inr c" and c: "counted_pairs rs c" "counted_single rs c"
    using count_loop_counted [OF counted_new, of rs None ?t ?t] assms(3) by auto
  have "fe_extract jlog p = Inr (feature_values jlog ?t (int (length rs)) c)"
    using assms(1,2) loop by (cases rs) (simp_all add: fe_extract_def bind_exn_def Let_def del: count_loop.simps)
  moreover have cells: "concat (map (\<lambda>(row, n). map (\<lambda>v. (v, n)) row)
      (zip (normalize (fc_transitions c) (fc_outgoing c)) (fc_outgoing c))) = cells rs"
    unfolding normalize_counted [OF c(1)] using c(1)
    by (simp add: counted_pairs_def cells_def zip_map_map zip_same_conv_map comp_def)
  have secs: "f64 (f64 (of_int (sint (fc_lastTs c - ?t))) / 1000000000) = duration_of rs"
    using count_loop_last [OF assms(2) loop] by (simp add: duration_of_def)
  have n: "int (length rs) \<noteq> 0" "0 < int (length rs)" "max (int (length rs)) 1 = int (length rs)"
    using assms(2) by (cases rs; simp)+
  have "feature_values jlog ?t (int (length rs)) c = pad (vector_of jlog (duration_of rs) rs)"
    unfolding feature_values_def vector_of_def cells secs Let_def using c(2) n
    by (simp add: counted_single_def share_def case_prod_unfold comp_def)
  ultimately show ?thesis using length_vector pad_id by metis
qed

lemma extract_vector:
  assumes "sw_records p = Some rs" "rs \<noteq> []" "length rs < 2147483648"
  shows "\<exists>secs. fe_extract jlog p = Inr (vector_of jlog secs rs)"
  using extract_vector_duration [OF assms] by blast

lemma vector_nth:
  "i < 24 \<Longrightarrow> j < 24 \<Longrightarrow> vector_of jlog secs rs ! (24 * i + j) = f32 (markov_cell rs i j)"
  "vector_of jlog secs rs ! 577 = f32 (snd (fold (entropy_step jlog (max (int (length rs) - 1) 1)) (cells rs) (0, 0)))"
  "vector_of jlog secs rs ! 578 = share (class_seen rs 0) (length rs)"
  "vector_of jlog secs rs ! 579 = share (class_seen rs 1) (length rs)"
  "b < 12 \<Longrightarrow> vector_of jlog secs rs ! (582 + b) = share (bucket_seen rs b) (length rs)"
proof -
  have len: "length (cells rs) = 576" by (simp add: cells_def length_grid)
  show "vector_of jlog secs rs ! (24 * i + j) = f32 (markov_cell rs i j)" if "i < 24" "j < 24"
  proof -
    have "24 * i + j < 576" using that by simp
    with len have "vector_of jlog secs rs ! (24 * i + j) = f32 (fst (cells rs ! (24 * i + j)))"
      by (simp add: vector_of_def nth_append Let_def case_prod_unfold)
    moreover have "cells rs ! (24 * i + j) = (markov_cell rs i j, int (outgoing_seen rs i))"
      unfolding cells_def using that by (rule nth_grid)
    ultimately show ?thesis by simp
  qed
  show "vector_of jlog secs rs ! 577 = f32 (snd (fold (entropy_step jlog (max (int (length rs) - 1) 1)) (cells rs) (0, 0)))"
    "vector_of jlog secs rs ! 578 = share (class_seen rs 0) (length rs)"
    "vector_of jlog secs rs ! 579 = share (class_seen rs 1) (length rs)"
    using len by (simp_all add: vector_of_def nth_append Let_def case_prod_unfold)
  show "b < 12 \<Longrightarrow> vector_of jlog secs rs ! (582 + b) = share (bucket_seen rs b) (length rs)"
    using len by (simp add: vector_of_def nth_append nth_Cons' Let_def case_prod_unfold)
qed

lemma share_unit: "m \<le> n \<Longrightarrow> 0 < n \<Longrightarrow> 0 \<le> share m n \<and> share m n \<le> 1"
  using f32_share [of m n] by (simp add: share_def)

lemma seen_le: "class_seen rs k \<le> length rs" "bucket_seen rs b \<le> length rs"
  by (simp_all add: class_seen_def bucket_seen_def)

text \<open>Every neighbouring pair leaves one letter for one letter.\<close>

lemma transitions_sum: "(\<Sum>j < 24. transitions_seen rs i j) = outgoing_seen rs i"
proof -
  have "(\<Sum>j < 24. length (filter (\<lambda>(a, b). letter a = i \<and> letter b = j) ps)) = length (filter (\<lambda>(a, b). letter a = i) ps)" for ps
  proof (induction ps)
    case (Cons p ps)
    obtain a b where p: "p = (a, b)" by (cases p)
    have "(\<Sum>j < 24. length (filter (\<lambda>(a, b). letter a = i \<and> letter b = j) (p # ps))) =
        (\<Sum>j < 24. (if letter a = i \<and> letter b = j then 1 else 0) + length (filter (\<lambda>(a, b). letter a = i \<and> letter b = j) ps))"
      by (intro sum.cong) (simp_all add: p)
    also have "\<dots> = (\<Sum>j < 24. if letter a = i \<and> letter b = j then 1 else 0) + length (filter (\<lambda>(a, b). letter a = i) ps)"
      by (simp add: sum.distrib Cons.IH)
    also have "(\<Sum>j < 24. if letter a = i \<and> letter b = j then 1 else 0) = (if letter a = i then 1 else 0 :: nat)"
      using letter_less [of b] by (cases "letter a = i") (simp_all add: sum.delta)
    finally show ?case by (simp add: p)
  qed simp
  then show ?thesis by (simp add: transitions_seen_def outgoing_seen_def)
qed

subsection \<open>Properties\<close>

text \<open>C23: Feature extraction never fails and has the documented layout. For every window with records, whatever
  their numbers, classes and buckets (also negative or beyond the tables), no array index is out of
  range and the vector has 594 entries: the row-wise transition estimates, then among the six
  statistics the shares of argument classes 0 and 1, then the twelve bucket shares. The estimates of
  a row come from counts that add up to the row total, and estimates and shares lie between 0 and 1
  after rounding.\<close>

theorem features_layout:
  assumes "sw_records p = Some rs" "rs \<noteq> []" "length rs < 2147483648"
  shows "\<exists>vec. fe_extract jlog p = Inr vec \<and> length vec = 594 \<and>
    (\<forall>i < 24. (\<Sum>j < 24. transitions_seen rs i j) = outgoing_seen rs i \<and>
       (\<forall>j < 24. vec ! (24 * i + j) = f32 (markov_cell rs i j) \<and> 0 \<le> vec ! (24 * i + j) \<and> vec ! (24 * i + j) \<le> 1)) \<and>
    vec ! 578 = share (class_seen rs 0) (length rs) \<and> 0 \<le> vec ! 578 \<and> vec ! 578 \<le> 1 \<and>
    vec ! 579 = share (class_seen rs 1) (length rs) \<and> 0 \<le> vec ! 579 \<and> vec ! 579 \<le> 1 \<and>
    (\<forall>b < 12. vec ! (582 + b) = share (bucket_seen rs b) (length rs) \<and> 0 \<le> vec ! (582 + b) \<and> vec ! (582 + b) \<le> 1)"
proof -
  obtain secs where v: "fe_extract jlog p = Inr (vector_of jlog secs rs)" using extract_vector [OF assms] by blast
  have n: "0 < length rs" using assms(2) by simp
  have "0 \<le> f32 (markov_cell rs i j) \<and> f32 (markov_cell rs i j) \<le> 1" for i j
    using markov_cell_unit [of rs i j] by (intro f32_unit) simp_all
  moreover have "0 \<le> share (class_seen rs k) (length rs) \<and> share (class_seen rs k) (length rs) \<le> 1"
    "0 \<le> share (bucket_seen rs b) (length rs) \<and> share (bucket_seen rs b) (length rs) \<le> 1" for k b
    using seen_le n share_unit by blast+
  ultimately show ?thesis
    using v by (intro exI [of _ "vector_of jlog secs rs"]) (simp add: vector_nth length_vector transitions_sum)
qed

theorem features_layout_witness:
  "\<exists>vec. fe_extract (\<lambda>x. x) \<lparr>sw_version = 1, sw_agentId = Some ''agent-1'', sw_containerId = Some ''container-1'',
       sw_windowStartTsNs = 1000000, sw_records = Some [\<lparr>jt_deltaTsUs = 0, jt_syscallId = 59, jt_argClass = 2, jt_argBucket = 1\<rparr>,
         \<lparr>jt_deltaTsUs = 100, jt_syscallId = 2, jt_argClass = 0, jt_argBucket = 0\<rparr>]\<rparr> = Inr vec \<and> length vec = 594"
proof -
  let ?rs = "[\<lparr>jt_deltaTsUs = 0, jt_syscallId = 59, jt_argClass = 2, jt_argBucket = 1\<rparr>,
    \<lparr>jt_deltaTsUs = 100, jt_syscallId = 2, jt_argClass = 0, jt_argBucket = 0\<rparr>] :: TraceRecordDto list"
  let ?p = "\<lparr>sw_version = 1, sw_agentId = Some ''agent-1'', sw_containerId = Some ''container-1'',
    sw_windowStartTsNs = 1000000, sw_records = Some ?rs\<rparr>"
  have "sw_records ?p = Some ?rs" "?rs \<noteq> []" "length ?rs < 2147483648" by simp_all
  from features_layout [OF this, of "\<lambda>x. x"] show ?thesis by blast
qed

end
