(* ===== verification/Server_Anomaly.thy ===== *)
theory Server_Anomaly
  imports Server_Features
begin

text \<open>
  Anomaly detection on the management server: the heuristic of \<^verbatim>\<open>InProcessIsolationForestAdapter.java\<close>
  and \<^verbatim>\<open>HybridAnomalyAdapter.java\<close>, which prefers the remote service and falls back to the heuristic.
  Double arithmetic is rounded after every operation (\<open>f64\<close>), single arithmetic by \<open>f32\<close>; a decimal
  literal is the double next to it (\<open>dbl\<close>). The answers of the remote service are parameters.
\<close>

subsection \<open>The heuristic\<close>

definition dbl :: "rat \<Rightarrow> rat" where  \<comment> \<open>the double that a decimal literal denotes\<close>
  "dbl q = f64 q"

record BaselineStats =
  bl_avgNetRatio :: rat
  bl_avgEntropy :: rat
  bl_avgUniqueTwoGrams :: rat

definition getMarkovCell :: "rat list \<Rightarrow> nat \<Rightarrow> nat \<Rightarrow> rat" where
  "getMarkovCell values from_id to_id =
     (let idx = 24 * from_id + to_id in if idx \<ge> length values then 0 else values ! idx)"

definition any_to :: "rat list \<Rightarrow> nat \<Rightarrow> rat" where  \<comment> \<open>the two loops over the column of a call\<close>
  "any_to values k = fold (\<lambda>i acc. f32 (acc + getMarkovCell values i k)) [0..<24] 0"

definition add_when :: "bool \<Rightarrow> rat \<Rightarrow> rat \<Rightarrow> rat" where
  "add_when b d acc = (if b then f64 (acc + d) else acc)"

definition checkSuspiciousSyscallPatterns :: "rat list \<Rightarrow> rat" where
  "checkSuspiciousSyscallPatterns values =
     (if length values < 576 then 0
      else
        let execveToConnect = getMarkovCell values 0 6;
            execveToSocket = getMarkovCell values 0 10;
            s = add_when (execveToConnect > dbl (1 / 10) \<or> execveToSocket > dbl (1 / 10)) (dbl (3 / 10)) 0;
            s = add_when (any_to values 18 > dbl (1 / 100)) (dbl (2 / 5)) s;
            s = add_when (any_to values 19 > dbl (1 / 100)) (dbl (3 / 10)) s;
            s = add_when (getMarkovCell values 11 11 > dbl (3 / 10)) (dbl (2 / 5)) s
        in min 1 s)"

definition computeBaselineDeviation :: "rat list \<Rightarrow> BaselineStats \<Rightarrow> rat" where
  "computeBaselineDeviation values b =
     (let d = add_when (length values > 579) (f64 (\<bar>f64 (values ! 579 - bl_avgNetRatio b)\<bar> * dbl (3 / 10))) 0;
          d = add_when (length values > 577) (f64 (f64 (\<bar>f64 (values ! 577 - bl_avgEntropy b)\<bar> / 4) * dbl (2 / 5))) d;
          d = add_when (length values > 576) (f64 (f64 (\<bar>f64 (values ! 576 - bl_avgUniqueTwoGrams b)\<bar> / 50) * dbl (3 / 10))) d
      in min 1 d)"

definition net_term :: "rat list \<Rightarrow> rat \<Rightarrow> rat" where
  "net_term values score =
     (if length values > 579 \<and> values ! 579 > dbl (2 / 5)
      then f64 (score + f64 (f64 (f64 (values ! 579 - dbl (2 / 5)) / f64 (1 - dbl (2 / 5))) * dbl (1 / 5)))
      else score)"

definition entropy_term :: "rat list \<Rightarrow> rat \<Rightarrow> rat" where
  "entropy_term values score =
     (if length values > 577 then
        let entropy = values ! 577 in
        if entropy < 1 then f64 (score + f64 (f64 (f64 (1 - entropy) / 1) * dbl (3 / 20)))
        else if entropy > 4 then f64 (score + min (f64 (f64 (entropy - 4) / 2)) (dbl (3 / 20)))
        else score
      else score)"

definition unique_term :: "rat list \<Rightarrow> rat \<Rightarrow> rat" where
  "unique_term values score =
     (if length values > 576 \<and> values ! 576 > 50
      then f64 (score + min (f64 (f32 (values ! 576 - 50) / 100)) (dbl (3 / 20)))
      else score)"

definition baseline_term :: "BaselineStats option \<Rightarrow> rat list \<Rightarrow> rat \<Rightarrow> rat" where
  "baseline_term baseline values score =
     (case baseline of None \<Rightarrow> score
      | Some b \<Rightarrow> f64 (score + f64 (computeBaselineDeviation values b * dbl (1 / 5))))"

definition calculateHeuristicScore :: "BaselineStats option \<Rightarrow> rat list \<Rightarrow> rat" where
  "calculateHeuristicScore baseline values =
     min 1 (baseline_term baseline values (unique_term values (entropy_term values (net_term values
       (f64 (0 + f64 (checkSuspiciousSyscallPatterns values * dbl (3 / 10))))))))"

record LocalEngine =
  lo_models :: "string \<rightharpoonup> ModelMeta"
  lo_baselines :: "string \<rightharpoonup> BaselineStats"

definition local_scoreWindow :: "LocalEngine \<Rightarrow> string \<Rightarrow> rat list \<Rightarrow> rat \<times> bool" where
  "local_scoreWindow eng containerId values =
     (if values = [] then (0, False)
      else let score = calculateHeuristicScore (lo_baselines eng containerId) values
           in (score, score > dbl (3 / 5)))"

text \<open>The sums of the loop over the training data, with the number of vectors that count.\<close>

definition baseline_step :: "rat list \<Rightarrow> rat \<times> rat \<times> rat \<times> nat \<Rightarrow> rat \<times> rat \<times> rat \<times> nat" where
  "baseline_step v = (\<lambda>(sumNetRatio, sumEntropy, sumUnique, count).
     if length v > 581
     then (f64 (sumNetRatio + v ! 579), f64 (sumEntropy + v ! 577), f64 (sumUnique + v ! 576), count + 1)
     else (sumNetRatio, sumEntropy, sumUnique, count))"

definition computeBaseline :: "rat list list \<Rightarrow> BaselineStats" where
  "computeBaseline trainingData =
     (let (sumNetRatio, sumEntropy, sumUnique, count) = fold baseline_step trainingData (0, 0, 0, 0) in
      if count = 0 then \<lparr>bl_avgNetRatio = dbl (1 / 10), bl_avgEntropy = 2, bl_avgUniqueTwoGrams = 20\<rparr>
      else \<lparr>bl_avgNetRatio = f64 (sumNetRatio / of_nat count), bl_avgEntropy = f64 (sumEntropy / of_nat count),
             bl_avgUniqueTwoGrams = f64 (sumUnique / of_nat count)\<rparr>)"

definition local_trainModel :: "LocalEngine \<Rightarrow> string \<Rightarrow> rat list list option \<Rightarrow> LocalEngine" where
  "local_trainModel eng containerId trainingData =
     (let currentVersion = (case lo_models eng containerId of None \<Rightarrow> 0 | Some m \<Rightarrow> mm_version m);
          eng = (case trainingData of
                   Some (v # vs) \<Rightarrow> eng\<lparr>lo_baselines := (lo_baselines eng)(containerId \<mapsto> computeBaseline (v # vs))\<rparr>
                 | _ \<Rightarrow> eng)
      in eng\<lparr>lo_models := (lo_models eng)(containerId \<mapsto> \<lparr>mm_modelId = ''model-'' @ containerId,
           mm_containerId = containerId, mm_version = currentVersion + 1, mm_featureVersion = ''v1'', mm_status = READY\<rparr>)\<rparr>)"

definition local_getModelMeta :: "LocalEngine \<Rightarrow> string \<Rightarrow> ModelMeta option" where
  "local_getModelMeta eng containerId = lo_models eng containerId"

subsection \<open>Bounds of the score\<close>

lemma dbl_nonneg [simp]: "0 \<le> q \<Longrightarrow> 0 \<le> dbl q"
  by (simp add: dbl_def f64_nonneg)

lemma dbl_le: "0 \<le> q \<Longrightarrow> q \<le> of_nat n / 1024 \<Longrightarrow> n < 9007199254740992 \<Longrightarrow> dbl q \<le> of_nat n / 1024"
  and dbl_ge: "of_nat n / 1024 \<le> q \<Longrightarrow> n < 9007199254740992 \<Longrightarrow> of_nat n / 1024 \<le> dbl q"
  unfolding dbl_def by (rule f64_grid_le f64_grid_ge; assumption)+

lemma add_when_nonneg: "0 \<le> s \<Longrightarrow> 0 \<le> d \<Longrightarrow> 0 \<le> add_when b d s"
  by (simp add: add_when_def f64_nonneg)

lemma suspicion_unit:
  "0 \<le> checkSuspiciousSyscallPatterns values \<and> checkSuspiciousSyscallPatterns values \<le> 1"
  by (simp add: checkSuspiciousSyscallPatterns_def Let_def add_when_nonneg)

lemma deviation_unit: "0 \<le> computeBaselineDeviation values b \<and> computeBaselineDeviation values b \<le> 1"
  by (simp add: computeBaselineDeviation_def Let_def add_when_nonneg f64_nonneg)

lemma net_scale_pos: "0 < f64 (1 - dbl (2 / 5))" "dbl (2 / 5) \<le> 1"
proof -
  have "dbl (2 / 5) \<le> 410 / 1024" using dbl_le [of "2 / 5" 410] by simp
  then have "614 / 1024 \<le> f64 (1 - dbl (2 / 5))" using f64_grid_ge [of 614 "1 - dbl (2 / 5)"] by simp
  then show "0 < f64 (1 - dbl (2 / 5))" by simp
  show "dbl (2 / 5) \<le> 1" using dbl_le [of "2 / 5" 1024] by simp
qed

lemma terms_nonneg:
  assumes "0 \<le> s"
  shows "0 \<le> net_term values s" "0 \<le> entropy_term values s" "0 \<le> unique_term values s" "0 \<le> baseline_term bl values s"
  using assms deviation_unit net_scale_pos
  by (auto simp: net_term_def entropy_term_def unique_term_def baseline_term_def Let_def
      intro!: f64_nonneg f32_nonneg add_nonneg_nonneg mult_nonneg_nonneg divide_nonneg_nonneg
      intro: less_imp_le split: option.split)

lemma score_unit: "0 \<le> calculateHeuristicScore bl values \<and> calculateHeuristicScore bl values \<le> 1"
proof -
  have "0 \<le> f64 (0 + f64 (checkSuspiciousSyscallPatterns values * dbl (3 / 10)))"
    using suspicion_unit by (intro f64_nonneg) (simp add: f64_nonneg)
  then show ?thesis by (simp add: calculateHeuristicScore_def terms_nonneg)
qed

subsection \<open>What the heuristic adds at most\<close>

lemma f64_add_le:
  "0 \<le> s \<Longrightarrow> s \<le> of_nat m / 1024 \<Longrightarrow> 0 \<le> d \<Longrightarrow> d \<le> of_nat n / 1024 \<Longrightarrow> m + n < 9007199254740992 \<Longrightarrow>
   f64 (s + d) \<le> of_nat (m + n) / 1024"
  by (intro f64_grid_le) (auto simp: add_divide_distrib)

lemma f64_scale_le:
  "0 \<le> s \<Longrightarrow> s \<le> a \<Longrightarrow> 0 \<le> d \<Longrightarrow> d \<le> b \<Longrightarrow> a * b \<le> of_nat n / 1024 \<Longrightarrow> n < 9007199254740992 \<Longrightarrow>
   f64 (s * d) \<le> of_nat n / 1024"
  by (intro f64_grid_le order_trans [OF mult_mono [of s a d b]]) auto

lemma net_term_le:
  assumes "0 \<le> s" "s \<le> of_nat m / 1024" "values ! 579 \<le> 1" "m < 1024"
  shows "net_term values s \<le> of_nat (m + 205) / 1024"
proof (cases "length values > 579 \<and> values ! 579 > dbl (2 / 5)")
  case True
  define x where "x = values ! 579 - dbl (2 / 5)"
  have "0 \<le> x" "x \<le> 1 - dbl (2 / 5)" using True assms(3) by (simp_all add: x_def)
  then have "0 \<le> f64 x" "f64 x \<le> f64 (1 - dbl (2 / 5))" by (simp_all add: f64_nonneg f64_mono)
  with net_scale_pos have "0 \<le> f64 x / f64 (1 - dbl (2 / 5))" "f64 x / f64 (1 - dbl (2 / 5)) \<le> 1" by simp_all
  note unit = f64_unit [OF this]
  have "dbl (1 / 5) \<le> 205 / 1024" using dbl_le [of "1 / 5" 205] by simp
  then have "f64 (f64 (f64 x / f64 (1 - dbl (2 / 5))) * dbl (1 / 5)) \<le> of_nat 205 / 1024"
    using unit by (intro f64_scale_le [where a = 1 and b = "205 / 1024"]) simp_all
  then have "f64 (s + f64 (f64 (f64 x / f64 (1 - dbl (2 / 5))) * dbl (1 / 5))) \<le> of_nat (m + 205) / 1024"
    using unit assms(1,2,4) by (intro f64_add_le f64_nonneg) simp_all
  with True show ?thesis by (simp add: net_term_def x_def)
qed (use assms in \<open>auto simp: net_term_def field_simps\<close>)

lemma entropy_term_le:
  assumes "0 \<le> s" "s \<le> of_nat m / 1024" "- (1 / 128) \<le> values ! 577" "m < 1024"
  shows "entropy_term values s \<le> of_nat (m + 156) / 1024"
proof -
  let ?h = "values ! 577"
  have c: "dbl (3 / 20) \<le> 154 / 1024" using dbl_le [of "3 / 20" 154] by simp
  have "f64 (s + f64 (f64 (f64 (1 - ?h) / 1) * dbl (3 / 20))) \<le> of_nat (m + 156) / 1024" if "?h < 1"
  proof -
    have "f64 (1 - ?h) \<le> of_nat 1032 / 1024" using that assms(3) by (intro f64_grid_le) simp_all
    then have "f64 (f64 (1 - ?h) / 1) \<le> of_nat 1032 / 1024" using that by (intro f64_grid_le) (simp_all add: f64_nonneg)
    then have "f64 (f64 (f64 (1 - ?h) / 1) * dbl (3 / 20)) \<le> of_nat 156 / 1024"
      using that c by (intro f64_scale_le [where a = "1032 / 1024" and b = "154 / 1024"]) (simp_all add: f64_nonneg)
    with assms that show ?thesis by (intro f64_add_le) (simp_all add: f64_nonneg)
  qed
  moreover have "f64 (s + min (f64 (f64 (?h - 4) / 2)) (dbl (3 / 20))) \<le> of_nat (m + 156) / 1024" if "?h > 4"
    using assms that c by (intro f64_add_le) (auto simp: f64_nonneg)
  moreover have "s \<le> of_nat (m + 156) / 1024" using assms(2) by (auto simp: field_simps)
  ultimately show ?thesis by (simp add: entropy_term_def Let_def)
qed

lemma unique_term_le:
  assumes "0 \<le> s" "s \<le> of_nat m / 1024" "m < 1024"
  shows "unique_term values s \<le> of_nat (m + 154) / 1024"
proof -
  have "dbl (3 / 20) \<le> 154 / 1024" using dbl_le [of "3 / 20" 154] by simp
  then have "f64 (s + min (f64 (f32 (values ! 576 - 50) / 100)) (dbl (3 / 20))) \<le> of_nat (m + 154) / 1024"
    if "values ! 576 > 50"
    using assms that by (intro f64_add_le) (auto simp: f64_nonneg f32_nonneg)
  moreover have "s \<le> of_nat (m + 154) / 1024" using assms(2) by (auto simp: field_simps)
  ultimately show ?thesis by (simp add: unique_term_def)
qed

text \<open>Without the columns of ptrace and mount and without fork after fork, the suspicion is that of execve alone.\<close>

lemma suspicion_execve:
  assumes "any_to values 18 = 0" "any_to values 19 = 0" "getMarkovCell values 11 11 = 0"
  shows "checkSuspiciousSyscallPatterns values \<le> 308 / 1024"
proof -
  have "dbl (3 / 10) \<le> 308 / 1024" using dbl_le [of "3 / 10" 308] by simp
  then have "f64 (dbl (3 / 10)) \<le> 308 / 1024" using f64_grid_le [of "dbl (3 / 10)" 308] by simp
  moreover have "\<not> 0 > dbl (1 / 100)" "\<not> 0 > dbl (3 / 10)" by (simp_all add: not_less)
  ultimately show ?thesis
    using assms by (simp add: checkSuspiciousSyscallPatterns_def Let_def add_when_def)
qed

lemma quiet_score:
  assumes "any_to values 18 = 0" "any_to values 19 = 0" "getMarkovCell values 11 11 = 0"
    and "values ! 579 \<le> 1" "- (1 / 128) \<le> values ! 577"
  shows "calculateHeuristicScore None values \<le> dbl (3 / 5)"
proof -
  let ?s0 = "f64 (0 + f64 (checkSuspiciousSyscallPatterns values * dbl (3 / 10)))"
  let ?s1 = "net_term values ?s0"
  let ?s2 = "entropy_term values ?s1"
  have c: "dbl (3 / 10) \<le> 308 / 1024" using dbl_le [of "3 / 10" 308] by simp
  have nonneg: "0 \<le> f64 (checkSuspiciousSyscallPatterns values * dbl (3 / 10))"
    using suspicion_unit by (intro f64_nonneg) simp
  then have s0: "0 \<le> ?s0" by (intro f64_nonneg) simp
  have "f64 (checkSuspiciousSyscallPatterns values * dbl (3 / 10)) \<le> of_nat 93 / 1024"
    using suspicion_unit suspicion_execve [OF assms(1-3)] c
    by (intro f64_scale_le [where a = "308 / 1024" and b = "308 / 1024"]) simp_all
  then have "?s0 \<le> of_nat 93 / 1024" using nonneg by (intro f64_grid_le) simp_all
  then have "?s1 \<le> of_nat (93 + 205) / 1024" using s0 assms(4) by (intro net_term_le) simp_all
  then have "?s2 \<le> of_nat (93 + 205 + 156) / 1024"
    using terms_nonneg(1) [OF s0] assms(5) by (intro entropy_term_le) simp_all
  then have "unique_term values ?s2 \<le> of_nat (93 + 205 + 156 + 154) / 1024"
    using terms_nonneg(2) [OF terms_nonneg(1) [OF s0]] by (intro unique_term_le) simp_all
  moreover have "614 / 1024 \<le> dbl (3 / 5)" using dbl_ge [of 614 "3 / 5"] by simp
  ultimately show ?thesis by (simp add: calculateHeuristicScore_def baseline_term_def)
qed

subsection \<open>The entropy is not far below zero\<close>

text \<open>The logarithm of a number just above 1 is small; nothing else about \<open>jlog\<close> is needed.\<close>

lemma entropy_step_ge:
  assumes log: "\<And>x. 0 < x \<Longrightarrow> x \<le> 1 + 1 / 2 ^ 20 \<Longrightarrow> jlog x \<le> 1 / 2 ^ 20"
    and "0 \<le> v" "v \<le> 1" "0 \<le> n" "n \<le> t" "1 \<le> t" "t < 2147483648"
    and "- (of_nat k / 2 ^ 20) \<le> snd acc" "k < 1000000"
  shows "- (of_nat (Suc k) / 2 ^ 20) \<le> snd (entropy_step jlog t (v, n) acc)"
proof -
  define p where "p = f64 (f64 (v * of_int n) / of_int t)"
  define x where "x = f64 (p + f64 (1 / 10 ^ 12))"
  define d where "d = f64 (p * jlog x)"
  have "v * of_int n \<le> of_nat (nat n) / 2 ^ 0" using assms(2-4) by (simp add: mult_left_le_one_le)
  then have "f64 (v * of_int n) \<le> of_nat (nat n) / 2 ^ 0" using assms(2,4-7) by (intro f64_dyadic_le) simp_all
  moreover have "0 \<le> f64 (v * of_int n)" using assms(2,4) by (intro f64_nonneg) simp
  ultimately have p: "0 \<le> p" "p \<le> 1"
    unfolding p_def using f64_unit [of "f64 (v * of_int n) / of_int t"] assms(4-6) by (simp_all add: pos_divide_le_eq)
  have e: "1 / 2 ^ 40 \<le> f64 (1 / 10 ^ 12)" "f64 (1 / 10 ^ 12) \<le> 1 / 2 ^ 20"
    using f64_dyadic_ge [of 1 40 "1 / 10 ^ 12"] f64_dyadic_le [of "1 / 10 ^ 12" 1 20] by simp_all
  have "of_nat 1 / 2 ^ 40 \<le> x" unfolding x_def using p e by (intro f64_dyadic_ge) simp_all
  moreover have "x \<le> of_nat 1048577 / 2 ^ 20" unfolding x_def using p e by (intro f64_dyadic_le) simp_all
  ultimately have l: "jlog x \<le> 1 / 2 ^ 20" by (intro log) (simp_all add: field_simps)
  have "d \<le> of_nat 1 / 2 ^ 20"
  proof (cases "0 \<le> jlog x")
    case True
    with p l have "p * jlog x \<le> 1 / 2 ^ 20" using mult_mono [of p 1 "jlog x" "1 / 2 ^ 20"] by simp
    with True p show ?thesis unfolding d_def by (intro f64_dyadic_le) simp_all
  next
    case False
    with p have "0 \<le> - (p * jlog x)" by (simp add: mult_nonneg_nonpos)
    then have "0 \<le> f64 (- (p * jlog x))" by (rule f64_nonneg)
    then show ?thesis by (simp add: d_def f64_minus)
  qed
  with assms(8) have "- (of_nat (Suc k) / 2 ^ 20) \<le> f64 (snd acc - d)"
    using assms(9) by (intro f64_neg_ge) (simp_all add: add_divide_distrib)
  moreover have "- (of_nat (Suc k) / 2 ^ 20) \<le> snd acc" using assms(8) by (simp add: add_divide_distrib)
  ultimately show ?thesis
    by (simp add: entropy_step_def case_prod_unfold p_def x_def d_def Let_def)
qed

lemma entropy_ge:
  assumes log: "\<And>x. 0 < x \<Longrightarrow> x \<le> 1 + 1 / 2 ^ 20 \<Longrightarrow> jlog x \<le> 1 / 2 ^ 20"
    and "\<forall>(v, n) \<in> set cs. 0 \<le> v \<and> v \<le> 1 \<and> 0 \<le> n \<and> n \<le> t" "1 \<le> t" "t < 2147483648"
    and "- (of_nat k / 2 ^ 20) \<le> snd acc" "k + length cs < 1000000"
  shows "- (of_nat (k + length cs) / 2 ^ 20) \<le> snd (fold (entropy_step jlog t) cs acc)"
  using assms(2,5,6)
proof (induction cs arbitrary: k acc)
  case (Cons c cs)
  obtain v n where c: "c = (v, n)" by fastforce
  have "- (of_nat (Suc k) / 2 ^ 20) \<le> snd (entropy_step jlog t (v, n) acc)"
    using Cons.prems assms(3,4) by (intro entropy_step_ge [OF log]) (auto simp: c)
  from Cons.IH [OF _ this] Cons.prems show ?case by (simp add: c)
qed simp

lemma vector_entropy_ge:
  assumes log: "\<And>x. 0 < x \<Longrightarrow> x \<le> 1 + 1 / 2 ^ 20 \<Longrightarrow> jlog x \<le> 1 / 2 ^ 20"
    and "length rs < 2147483648"
  shows "- (1 / 128) \<le> vector_of jlog secs rs ! 577"
proof -
  let ?t = "max (int (length rs) - 1) 1"
  have "outgoing_seen rs i \<le> length rs - 1" for i
    unfolding outgoing_seen_def using length_filter_le length_pairs by metis
  then have "int (outgoing_seen rs i) \<le> int (length rs - 1)" for i by (simp only: of_nat_le_iff)
  moreover have "int (length rs - 1) \<le> ?t" by linarith
  ultimately have "int (outgoing_seen rs i) \<le> ?t" for i by (rule order_trans)
  then have "\<forall>(v, n) \<in> set (cells rs). 0 \<le> v \<and> v \<le> 1 \<and> 0 \<le> n \<and> n \<le> ?t"
    by (auto simp: cells_def markov_cell_unit)
  moreover have len: "length (cells rs) = 576" by (simp add: cells_def length_grid)
  ultimately have "- (of_nat 576 / 2 ^ 20) \<le> snd (fold (entropy_step jlog ?t) (cells rs) (0, 0))"
    using entropy_ge [OF log, where cs = "cells rs" and t = ?t and k = 0 and acc = "(0, 0)"] assms(2) by simp
  then have "- (of_nat 1 / 2 ^ 7) \<le> f32 (snd (fold (entropy_step jlog ?t) (cells rs) (0, 0)))"
    by (intro f32_neg_ge) simp_all
  then show ?thesis by (simp add: vector_nth)
qed

subsection \<open>Windows without ptrace, mount and fork chains\<close>

lemma pairs_tl: "(a, b) \<in> set (pairs rs) \<Longrightarrow> b \<in> set (tl rs)"
  by (induction rs rule: pairs.induct) auto

lemma letter_cases:
  "letter r = 18 \<longleftrightarrow> sint (jt_syscallId r) = 101"
  "letter r = 19 \<longleftrightarrow> sint (jt_syscallId r) \<in> {165, 166}"
  "letter r = 11 \<longleftrightarrow> sint (jt_syscallId r) \<in> {56, 57}"
  by (auto simp: letter_def mapSyscallToAlphabet_def Let_def)

lemma any_to_zero:
  assumes "\<And>i. i < 24 \<Longrightarrow> getMarkovCell values i k = 0"
  shows "any_to values k = 0"
proof -
  have "fold (\<lambda>i acc. f32 (acc + getMarkovCell values i k)) is 0 = 0" if "\<forall>i \<in> set is. i < 24" for "is"
    using that by (induction "is") (simp_all add: assms f32_def round_fp_def)
  then show ?thesis by (simp add: any_to_def)
qed

lemma cell_of_vector:
  "i < 24 \<Longrightarrow> j < 24 \<Longrightarrow> getMarkovCell (vector_of jlog secs rs) i j = f32 (markov_cell rs i j)"
  by (simp add: getMarkovCell_def length_vector vector_nth Let_def)

lemma unseen_cell:
  assumes "transitions_seen rs i j = 0"
  shows "f32 (markov_cell rs i j) = 0"
  using assms by (simp add: markov_cell_def f32_def f64_def round_fp_def)

lemma quiet_vector:
  assumes log: "\<And>x. 0 < x \<Longrightarrow> x \<le> 1 + 1 / 2 ^ 20 \<Longrightarrow> jlog x \<le> 1 / 2 ^ 20"
    and "rs \<noteq> []" "length rs < 2147483648"
    and "list_all (\<lambda>r. sint (jt_syscallId r) \<notin> {101, 165, 166}) (tl rs)"
    and "list_all (\<lambda>(a, b). \<not> (sint (jt_syscallId a) \<in> {56, 57} \<and> sint (jt_syscallId b) \<in> {56, 57})) (pairs rs)"
  shows "calculateHeuristicScore None (vector_of jlog secs rs) \<le> dbl (3 / 5)"
proof (rule quiet_score)
  let ?v = "vector_of jlog secs rs"
  have "transitions_seen rs i 18 = 0" "transitions_seen rs i 19 = 0" for i
    using assms(4) pairs_tl by (fastforce simp: transitions_seen_def filter_empty_conv letter_cases list_all_iff)+
  then show "any_to ?v 18 = 0" "any_to ?v 19 = 0" by (simp_all add: any_to_zero cell_of_vector unseen_cell)
  have "transitions_seen rs 11 11 = 0"
    using assms(5) by (fastforce simp: transitions_seen_def filter_empty_conv letter_cases list_all_iff)
  then show "getMarkovCell ?v 11 11 = 0" by (simp add: cell_of_vector unseen_cell)
  show "?v ! 579 \<le> 1" using share_unit seen_le assms(2) by (simp add: vector_nth)
  show "- (1 / 128) \<le> ?v ! 577" by (rule vector_entropy_ge [OF log assms(3)])
qed

subsection \<open>Preferring the remote service\<close>

record Hybrid =
  hy_preferRemote :: bool
  hy_remoteAvailable :: bool
  hy_lastHealthCheck :: int
  hy_local :: LocalEngine

text \<open>\<open>now\<close> and \<open>now'\<close> are the two readings of the clock in milliseconds; \<open>health\<close> and \<open>remote\<close> are what the
  remote service's adapter answers. The flag in a result says whether it was asked.\<close>

definition checkRemoteHealth :: "int \<Rightarrow> java_exn + bool \<Rightarrow> Hybrid \<Rightarrow> Hybrid" where
  "checkRemoteHealth now' health s =
     s\<lparr>hy_lastHealthCheck := now', hy_remoteAvailable := (case health of Inr available \<Rightarrow> available | Inl _ \<Rightarrow> False)\<rparr>"

definition Hybrid_new :: "bool \<Rightarrow> int \<Rightarrow> java_exn + bool \<Rightarrow> LocalEngine \<Rightarrow> Hybrid" where
  "Hybrid_new preferRemote now' health eng =
     (let s = \<lparr>hy_preferRemote = preferRemote, hy_remoteAvailable = False, hy_lastHealthCheck = 0, hy_local = eng\<rparr>
      in if preferRemote then checkRemoteHealth now' health s else s)"

definition shouldUseRemote :: "int \<Rightarrow> int \<Rightarrow> java_exn + bool \<Rightarrow> Hybrid \<Rightarrow> bool \<times> Hybrid" where
  "shouldUseRemote now now' health s =
     (if \<not> hy_preferRemote s then (False, s)
      else let s = (if now - hy_lastHealthCheck s > 5 * 60 * 1000 then checkRemoteHealth now' health s else s)
           in (hy_remoteAvailable s, s))"

definition hybrid_scoreWindow ::
  "int \<Rightarrow> int \<Rightarrow> java_exn + bool \<Rightarrow> java_exn + rat \<times> bool \<Rightarrow> Hybrid \<Rightarrow> string \<Rightarrow> rat list \<Rightarrow> (rat \<times> bool) \<times> bool \<times> Hybrid" where
  "hybrid_scoreWindow now now' health remote s containerId values =
     (let (use_remote, s) = shouldUseRemote now now' health s in
      if use_remote then
        (case remote of
           Inr score \<Rightarrow> (score, True, s)
         | Inl _ \<Rightarrow> (local_scoreWindow (hy_local s) containerId values, True, s\<lparr>hy_remoteAvailable := False\<rparr>))
      else (local_scoreWindow (hy_local s) containerId values, False, s))"

definition hybrid_trainModel ::
  "int \<Rightarrow> int \<Rightarrow> java_exn + bool \<Rightarrow> java_exn + unit \<Rightarrow> Hybrid \<Rightarrow> string \<Rightarrow> rat list list option \<Rightarrow> bool \<times> Hybrid" where
  "hybrid_trainModel now now' health remote s containerId trainingData =
     (let s = s\<lparr>hy_local := local_trainModel (hy_local s) containerId trainingData\<rparr>;
          (use_remote, s) = shouldUseRemote now now' health s
      in if use_remote then
           (case remote of Inr _ \<Rightarrow> (True, s) | Inl _ \<Rightarrow> (True, s\<lparr>hy_remoteAvailable := False\<rparr>))
         else (False, s))"

definition hybrid_getModelMeta ::
  "int \<Rightarrow> int \<Rightarrow> java_exn + bool \<Rightarrow> java_exn + ModelMeta option \<Rightarrow> Hybrid \<Rightarrow> string \<Rightarrow> ModelMeta option \<times> bool \<times> Hybrid" where
  "hybrid_getModelMeta now now' health remote s containerId =
     (let (use_remote, s) = shouldUseRemote now now' health s in
      if use_remote then
        (case remote of
           Inr meta \<Rightarrow> (meta, True, s)
         | Inl _ \<Rightarrow> (local_getModelMeta (hy_local s) containerId, True, s\<lparr>hy_remoteAvailable := False\<rparr>))
      else (local_getModelMeta (hy_local s) containerId, False, s))"

definition getCurrentMode :: "Hybrid \<Rightarrow> string" where
  "getCurrentMode s = (if hy_preferRemote s \<and> hy_remoteAvailable s then ''REMOTE'' else ''LOCAL'')"

datatype hybrid_op =
    HScore int int "java_exn + bool" "java_exn + rat \<times> bool" string "rat list"
  | HTrain int int "java_exn + bool" "java_exn + unit" string "rat list list option"
  | HMeta int int "java_exn + bool" "java_exn + ModelMeta option" string

primrec op_time :: "hybrid_op \<Rightarrow> int" where
  "op_time (HScore now now' health remote c v) = now"
| "op_time (HTrain now now' health remote c v) = now"
| "op_time (HMeta now now' health remote c) = now"

text \<open>One call: whether the remote service was asked, and the new state.\<close>

primrec hybrid_step :: "hybrid_op \<Rightarrow> Hybrid \<Rightarrow> bool \<times> Hybrid" where
  "hybrid_step (HScore now now' health remote c v) s = snd (hybrid_scoreWindow now now' health remote s c v)"
| "hybrid_step (HTrain now now' health remote c v) s = hybrid_trainModel now now' health remote s c v"
| "hybrid_step (HMeta now now' health remote c) s = snd (hybrid_getModelMeta now now' health remote s c)"

fun hybrid_run :: "hybrid_op list \<Rightarrow> Hybrid \<Rightarrow> bool list \<times> Hybrid" where
  "hybrid_run [] s = ([], s)"
| "hybrid_run (c # cs) s =
     (let (asked, s) = hybrid_step c s; (rest, s) = hybrid_run cs s in (asked # rest, s))"

lemmas hybrid_defs = hybrid_scoreWindow_def hybrid_trainModel_def hybrid_getModelMeta_def shouldUseRemote_def

text \<open>While the service counts as unavailable and the last check is recent, a call stays local and keeps it so.\<close>

lemma hybrid_stays_local:
  assumes "\<not> hy_remoteAvailable s" "op_time c \<le> hy_lastHealthCheck s + 300000" "hybrid_step c s = (asked, s')"
  shows "\<not> asked \<and> \<not> hy_remoteAvailable s' \<and> hy_lastHealthCheck s' = hy_lastHealthCheck s"
  using assms by (cases c) (auto simp: hybrid_defs Let_def split: if_splits)

lemma hybrid_run_local:
  "\<not> hy_remoteAvailable s \<Longrightarrow> list_all (\<lambda>c. op_time c \<le> hy_lastHealthCheck s + 300000) cs \<Longrightarrow>
   hybrid_run cs s = (asked, s') \<Longrightarrow> asked = replicate (length cs) False \<and> getCurrentMode s' = ''LOCAL''"
proof (induction cs arbitrary: s asked)
  case (Cons c cs)
  obtain b s1 where step: "hybrid_step c s = (b, s1)" by fastforce
  obtain bs where run: "hybrid_run cs s1 = (bs, s')" "asked = b # bs"
    using Cons.prems(3) step by (auto simp: Let_def split: prod.splits)
  from hybrid_stays_local [OF Cons.prems(1) _ step] Cons.prems(2)
  have "\<not> b" "\<not> hy_remoteAvailable s1" "hy_lastHealthCheck s1 = hy_lastHealthCheck s" by auto
  with Cons.IH [OF _ _ run(1)] Cons.prems(2) run(2) show ?case by simp
qed (simp add: getCurrentMode_def)

subsection \<open>Properties\<close>

text \<open>The remote detector failing is not an outage, and it is left alone for a while. A scoring call that
  reaches the remote service and fails is answered by the local heuristic, with a score between 0
  and 1 that is anomalous exactly above the threshold 0.6; and no call of any kind that starts within
  five minutes of the last health check contacts the remote service again.\<close>

theorem remote_failure_contained:
  assumes "hybrid_scoreWindow now now' health (Inl ex) s cid values = ((score, anomalous), asked, s1)"
    and "list_all (\<lambda>c. op_time c \<le> hy_lastHealthCheck s1 + 300000) cs" "asked"
  shows "(score, anomalous) = local_scoreWindow (hy_local s) cid values \<and> 0 \<le> score \<and> score \<le> 1 \<and>
    (anomalous \<longleftrightarrow> score > dbl (3 / 5)) \<and>
    fst (hybrid_run cs s1) = replicate (length cs) False \<and> getCurrentMode (snd (hybrid_run cs s1)) = ''LOCAL''"
proof -
  have s1: "\<not> hy_remoteAvailable s1" and loc: "(score, anomalous) = local_scoreWindow (hy_local s) cid values"
    using assms(1,3) by (auto simp: hybrid_defs checkRemoteHealth_def Let_def split: if_splits)
  obtain bs s2 where run: "hybrid_run cs s1 = (bs, s2)" by fastforce
  have "\<not> dbl (3 / 5) < 0" by (simp add: not_less)
  with loc score_unit have "0 \<le> score \<and> score \<le> 1 \<and> (anomalous \<longleftrightarrow> score > dbl (3 / 5))"
    by (auto simp: local_scoreWindow_def Let_def split: if_splits)
  with loc hybrid_run_local [OF s1 assms(2) run] run show ?thesis by simp
qed

definition demo_hybrid :: Hybrid where
  "demo_hybrid = Hybrid_new True 1000 (Inr True) \<lparr>lo_models = Map.empty, lo_baselines = Map.empty\<rparr>"

theorem remote_failure_contained_witness:
  "fst (hybrid_run [HScore 2000 2000 (Inr True) (Inr (1, True)) ''web'' [], HMeta 301000 301000 (Inr True) (Inr None) ''web'']
      (snd (snd (hybrid_scoreWindow 1500 1500 (Inr True) (Inl PortException) demo_hybrid ''web'' [])))) = [False, False]"
proof -
  let ?s1 = "demo_hybrid\<lparr>hy_remoteAvailable := False\<rparr>"
  let ?cs = "[HScore 2000 2000 (Inr True) (Inr (1, True)) ''web'' [], HMeta 301000 301000 (Inr True) (Inr None) ''web'']"
  have step: "hybrid_scoreWindow 1500 1500 (Inr True) (Inl PortException) demo_hybrid ''web'' [] = ((0, False), True, ?s1)"
    by (simp add: hybrid_defs demo_hybrid_def Hybrid_new_def checkRemoteHealth_def local_scoreWindow_def)
  have "list_all (\<lambda>c. op_time c \<le> hy_lastHealthCheck ?s1 + 300000) ?cs"
    by (simp add: demo_hybrid_def Hybrid_new_def checkRemoteHealth_def)
  from remote_failure_contained [OF step this] step show ?thesis by (simp add: numeral_2_eq_2)
qed

text \<open>C25: Without a baseline the local heuristic cannot flag a window that has no ptrace or mount call
  after its first record and no fork or clone directly after another: whatever the other calls are,
  an execve followed by connect or socket included, the score of the extracted features stays at or
  below the threshold, given only that the logarithm of a number just above 1 is small.\<close>

theorem local_detector_blind:
  assumes log: "\<And>x. 0 < x \<Longrightarrow> x \<le> 1 + 1 / 2 ^ 20 \<Longrightarrow> jlog x \<le> 1 / 2 ^ 20"
    and "sw_records p = Some rs" "rs \<noteq> []" "length rs < 2147483648"
    and "list_all (\<lambda>r. sint (jt_syscallId r) \<notin> {101, 165, 166}) (tl rs)"
    and "list_all (\<lambda>(a, b). \<not> (sint (jt_syscallId a) \<in> {56, 57} \<and> sint (jt_syscallId b) \<in> {56, 57})) (pairs rs)"
    and "lo_baselines eng cid = None"
  shows "\<exists>vec score. fe_extract jlog p = Inr vec \<and> local_scoreWindow eng cid vec = (score, False)"
proof -
  obtain secs where v: "fe_extract jlog p = Inr (vector_of jlog secs rs)" using extract_vector [OF assms(2-4)] by blast
  have "vector_of jlog secs rs \<noteq> []" using length_vector by (metis list.size(3) zero_neq_numeral)
  moreover have "calculateHeuristicScore None (vector_of jlog secs rs) \<le> dbl (3 / 5)"
    by (rule quiet_vector [OF log assms(3-6)])
  ultimately show ?thesis
    using v assms(7) by (auto simp: local_scoreWindow_def Let_def)
qed

definition reverse_shell :: ShortWindowPayload where
  "reverse_shell = \<lparr>sw_version = 1, sw_agentId = Some ''agent-1'', sw_containerId = Some ''web'', sw_windowStartTsNs = 1000000,
     sw_records = Some [\<lparr>jt_deltaTsUs = 0, jt_syscallId = 59, jt_argClass = 3, jt_argBucket = 0\<rparr>,
       \<lparr>jt_deltaTsUs = 100, jt_syscallId = 42, jt_argClass = 2, jt_argBucket = 0\<rparr>]\<rparr>"

theorem local_detector_blind_witness:
  "\<exists>vec score. fe_extract (\<lambda>x. x - 1) reverse_shell = Inr vec \<and> local_scoreWindow (hy_local demo_hybrid) ''web'' vec = (score, False)"
proof (rule local_detector_blind [where rs = "the (sw_records reverse_shell)"])
  show "lo_baselines (hy_local demo_hybrid) ''web'' = None"
    by (simp add: demo_hybrid_def Hybrid_new_def checkRemoteHealth_def)
qed (simp_all add: reverse_shell_def)

end
