(* ===== verification/Server_Control.thy ===== *)
theory Server_Control
  imports Complex_Main Server_Training "HOL-Library.Multiset"
begin

text \<open>
  What the management server sends to an agent: \<^verbatim>\<open>HttpAgentAdapter.java\<close> posts dump requests and
  policies, \<^verbatim>\<open>DefaultPolicyGenerator.java\<close> makes the policy for a window that triage calls a threat.
  Spring's \<^verbatim>\<open>RestTemplate\<close> and Jackson are not part of the program. A call of \<^verbatim>\<open>RestTemplate\<close> is a
  parameter \<open>rest\<close> that says whether it throws; Jackson's text of a map is any text of the same members in
  any order (\<open>text_of\<close>), since neither \<^verbatim>\<open>HashMap\<close> nor \<^verbatim>\<open>Map.of\<close> promises one; what Jackson reads
  from a reply of the language model is a parameter.
\<close>

subsection \<open>JSON up to the order of members\<close>

inductive json_eqv :: "json \<Rightarrow> json \<Rightarrow> bool" where
  null: "json_eqv JNull JNull"
| bool: "json_eqv (JBool b) (JBool b)"
| num: "json_eqv (JNum i) (JNum i)"
| str: "json_eqv (JStr s) (JStr s)"
| arr: "list_all2 json_eqv js js' \<Longrightarrow> json_eqv (JArr js) (JArr js')"
| obj: "mset ps = mset ms \<Longrightarrow> list_all2 (\<lambda>p m. fst p = fst m \<and> json_eqv (snd p) (snd m)) ps ms' \<Longrightarrow>
    json_eqv (JObj ms) (JObj ms')"

inductive_cases json_eqv_strE: "json_eqv (JStr s) j"
inductive_cases json_eqv_numE: "json_eqv (JNum i) j"
inductive_cases json_eqv_objE: "json_eqv (JObj ms) j"

definition text_of :: "json \<Rightarrow> string \<Rightarrow> bool" where
  "text_of j t \<longleftrightarrow> (\<exists>j'. json_eqv j j' \<and> t = json_text j')"

text \<open>All keys of a value.\<close>

fun json_keys :: "json \<Rightarrow> string set" where
  "json_keys (JArr js) = (\<Union>j \<in> set js. json_keys j)"
| "json_keys (JObj ms) = fst ` set ms \<union> (\<Union>m \<in> set ms. json_keys (snd m))"
| "json_keys _ = {}"

lemma eqv_plain: "json_eqv j j' \<Longrightarrow> json_plain j' = json_plain j"
proof (induction rule: json_eqv.induct)
  case (arr js js')
  then show ?case by (auto simp: list_all2_conv_all_nth list_all_length)
next
  case (obj ps ms ms')
  have "json_plain (JObj ms) = list_all (\<lambda>(k, j). plain_string k \<and> json_plain j) ps"
    using mset_eq_setD [OF obj.hyps(1)] by (simp add: list_all_iff)
  with obj.IH show ?case by (auto simp: list_all2_conv_all_nth list_all_length case_prod_unfold)
qed simp_all

lemma eqv_keys: "json_eqv j j' \<Longrightarrow> json_keys j' = json_keys j"
proof (induction rule: json_eqv.induct)
  case (arr js js')
  then have "map json_keys js' = map json_keys js"
    by (auto simp: list_all2_conv_all_nth intro!: nth_equalityI)
  then have "\<Union> (set (map json_keys js')) = \<Union> (set (map json_keys js))" by simp
  then show ?case by simp
next
  case (obj ps ms ms')
  have "json_keys (JObj ms) = fst ` set ps \<union> (\<Union>m \<in> set ps. json_keys (snd m))"
    using mset_eq_setD [OF obj.hyps(1)] by simp
  moreover have "map fst ms' = map fst ps" "map (\<lambda>m. json_keys (snd m)) ms' = map (\<lambda>m. json_keys (snd m)) ps"
    using obj.IH by (auto simp: list_all2_conv_all_nth intro!: nth_equalityI)
  ultimately show ?case by (metis (no_types, lifting) SUP_image comp_apply json_keys.simps(2) list.set_map)
qed simp_all

lemma first_member_absent:
  "key \<notin> json_keys j \<Longrightarrow> first_member val key j = None"
  "\<forall>j \<in> set js. key \<notin> json_keys j \<Longrightarrow> first_in val key js = None"
  "\<forall>m \<in> set ms. fst m \<noteq> key \<and> key \<notin> json_keys (snd m) \<Longrightarrow> first_of val key ms = None"
  by (induction val key j and val key js and val key ms rule: first_member_first_in_first_of.induct) auto

text \<open>A member that occurs nowhere else is found in every text of the object.\<close>

lemma found_in_text:
  assumes "json_eqv (JObj ms) j" "(key, i) \<in> set ms" "\<And>i'. json_eqv i i' \<Longrightarrow> val i' = Some v"
    and "\<And>k i'. (k, i') \<in> set ms \<Longrightarrow> (k, i') \<noteq> (key, i) \<Longrightarrow> k \<noteq> key \<and> key \<notin> json_keys i'" "distinct (map fst ms)"
  shows "first_member val key j = Some v"
proof -
  obtain ps ms' where ps: "mset ps = mset ms" and j: "j = JObj ms'"
    and eqv: "list_all2 (\<lambda>p m. fst p = fst m \<and> json_eqv (snd p) (snd m)) ps ms'"
    using assms(1) by (auto elim: json_eqv_objE)
  have keys: "map fst ms' = map fst ps" using eqv by (auto simp: list_all2_conv_all_nth intro!: nth_equalityI)
  have from_ps: "\<exists>i. (k, i) \<in> set ms \<and> json_eqv i i'" if "(k, i') \<in> set ms'" for k i'
  proof -
    from that obtain n where n: "n < length ms'" "ms' ! n = (k, i')" by (auto simp: in_set_conv_nth)
    with eqv have "fst (ps ! n) = k" "json_eqv (snd (ps ! n)) i'" "ps ! n \<in> set ps"
      by (auto simp: list_all2_conv_all_nth)
    then show ?thesis using mset_eq_setD [OF ps] by (metis prod.collapse)
  qed
  have "key \<in> fst ` set ms'" using assms(2) keys mset_eq_setD [OF ps] by (metis fst_conv imageI list.set_map)
  then obtain i' where i': "(key, i') \<in> set ms'" by auto
  with from_ps assms(2,4) have "json_eqv i i'" by fastforce
  then have "val i' = Some v" by (rule assms(3))
  moreover have "distinct (map fst ms')" using keys assms(5) ps by (metis mset_eq_imp_distinct_iff mset_map)
  then have "k \<noteq> key \<and> first_member val key i'' = None" if "(k, i'') \<in> set ms'" "(k, i'') \<noteq> (key, i')" for k i''
    using that i' from_ps [OF that(1)] assms(4) eqv_keys first_member_absent(1)
    by (metis eq_key_imp_eq_value prod.inject)
  ultimately have "first_of val key ms' = Some v" by (rule first_of_once [OF i'])
  then show ?thesis by (simp add: j)
qed

subsection \<open>Policies\<close>

datatype PolicyType = SECCOMP | APPARMOR | NETWORK_POLICY
datatype PolicyStatus = PENDING | APPLIED | FAILED

primrec PolicyType_name :: "PolicyType \<Rightarrow> string" where
  "PolicyType_name SECCOMP = ''SECCOMP''"
| "PolicyType_name APPARMOR = ''APPARMOR''"
| "PolicyType_name NETWORK_POLICY = ''NETWORK_POLICY''"

record Policy =
  po_id :: "string option"
  po_containerId :: "string option"
  po_type :: PolicyType
  po_spec :: json
  po_appliedAt :: int
  po_node :: "string option"
  po_status :: PolicyStatus

record TriageResult =
  tg_id :: string
  tg_containerId :: "string option"
  tg_windowId :: string
  tg_riskScore :: rat
  tg_verdict :: "string option"
  tg_explanation :: "string option"
  tg_llmResponseRaw :: "string option"

text \<open>\<^verbatim>\<open>String.isBlank\<close> and \<^verbatim>\<open>String.equalsIgnoreCase\<close> on ASCII text.\<close>

definition isBlank :: "string \<Rightarrow> bool" where
  "isBlank s = list_all (\<lambda>c. (of_char c :: nat) \<in> {9, 10, 11, 12, 13, 28, 29, 30, 31, 32}) s"

definition ascii_upper :: "char \<Rightarrow> char" where
  "ascii_upper c = (if 97 \<le> (of_char c :: nat) \<and> (of_char c :: nat) \<le> 122 then char_of ((of_char c :: nat) - 32) else c)"

definition equalsIgnoreCase :: "string \<Rightarrow> string option \<Rightarrow> bool" where
  "equalsIgnoreCase a b = (case b of None \<Rightarrow> False | Some b \<Rightarrow> map ascii_upper a = map ascii_upper b)"

definition default_spec :: json where
  "default_spec = JObj [(''profile_name'', JStr ''dk-demo-block-connect''),
     (''syscalls'', JArr [JObj [(''name'', JStr ''connect''), (''action'', JStr ''SCMP_ACT_ERRNO'')]])]"

definition json_path :: "json \<Rightarrow> string \<Rightarrow> json option" where  \<comment> \<open>\<^verbatim>\<open>JsonNode.path\<close>, \<open>None\<close> for a missing node\<close>
  "json_path j key = (case j of JObj ms \<Rightarrow> map_of ms key | _ \<Rightarrow> None)"

text \<open>The specification proposed in the reply of the language model; \<open>readTree\<close> is Jackson's parser.\<close>

definition llm_spec :: "(string \<Rightarrow> java_exn + json) \<Rightarrow> string option \<Rightarrow> json option" where
  "llm_spec readTree raw =
     (case raw of
        None \<Rightarrow> None
      | Some raw \<Rightarrow>
          if isBlank raw then None
          else (case readTree raw of
             Inl _ \<Rightarrow> None
           | Inr tree \<Rightarrow>
               (case json_path tree ''policy'' of
                  None \<Rightarrow> None
                | Some policyNode \<Rightarrow>
                    (case json_path policyNode ''spec'' of Some (JObj ms) \<Rightarrow> Some (JObj ms) | _ \<Rightarrow> None))))"

text \<open>\<open>uuid\<close> and \<open>now\<close> are the values of \<^verbatim>\<open>UUID.randomUUID()\<close> and \<^verbatim>\<open>Instant.now()\<close>.\<close>

definition generatePolicy ::
  "(string \<Rightarrow> java_exn + json) \<Rightarrow> string \<Rightarrow> int \<Rightarrow> string option \<Rightarrow> TriageResult \<Rightarrow> Policy option" where
  "generatePolicy readTree uuid now windowContainerId triageResult =
     (if \<not> equalsIgnoreCase ''THREAT'' (tg_verdict triageResult) then None
      else
        let spec = (case llm_spec readTree (tg_llmResponseRaw triageResult) of Some s \<Rightarrow> s | None \<Rightarrow> default_spec)
        in Some \<lparr>po_id = Some uuid, po_containerId = windowContainerId, po_type = SECCOMP, po_spec = spec,
             po_appliedAt = now, po_node = None, po_status = PENDING\<rparr>)"

subsection \<open>The adapter\<close>

type_synonym rest_template = "string \<Rightarrow> json \<Rightarrow> java_exn + unit"

definition adapter_baseUrl :: "string \<Rightarrow> string" where
  "adapter_baseUrl url = (if url \<noteq> [] \<and> last url = CHR ''/'' then butlast url else url)"

definition dump_request_body :: "string \<Rightarrow> i32 \<Rightarrow> string \<Rightarrow> json" where
  "dump_request_body containerId durationSec reason =
     JObj [(''container_id'', JStr containerId), (''duration_sec'', JNum (sint durationSec)), (''reason'', JStr reason)]"

text \<open>A call of the adapter returns its outcome and the request it posted; what \<^verbatim>\<open>RestTemplate\<close> throws is logged.\<close>

definition http_requestLongDump ::
  "rest_template \<Rightarrow> string \<Rightarrow> string \<Rightarrow> i32 \<Rightarrow> string \<Rightarrow> (java_exn + unit) \<times> string \<times> json" where
  "http_requestLongDump rest baseUrl containerId durationSec reason =
     (let url = baseUrl @ ''/long-dump-requests''; body = dump_request_body containerId durationSec reason in
      (case rest url body of Inr _ \<Rightarrow> Inr () | Inl ex \<Rightarrow> Inr (), url, body))"

definition policy_body :: "string \<Rightarrow> string option \<Rightarrow> Policy \<Rightarrow> json" where
  "policy_body uuid containerId policy =
     (let effectiveContainerId = (case containerId of None \<Rightarrow> ''unknown'' | Some c \<Rightarrow> if isBlank c then ''unknown'' else c);
          effectivePolicyId = (case po_id policy of None \<Rightarrow> uuid | Some q \<Rightarrow> if isBlank q then uuid else q)
      in JObj [(''container_id'', JStr effectiveContainerId), (''policy_id'', JStr effectivePolicyId),
               (''type'', JStr (PolicyType_name (po_type policy))), (''spec'', po_spec policy)])"

definition http_applyPolicy ::
  "rest_template \<Rightarrow> string \<Rightarrow> string \<Rightarrow> string option \<Rightarrow> Policy \<Rightarrow> (java_exn + unit) \<times> string \<times> json" where
  "http_applyPolicy rest uuid baseUrl containerId policy =
     (let url = baseUrl @ ''/policies''; body = policy_body uuid containerId policy in
      (case rest url body of Inr _ \<Rightarrow> Inr () | Inl ex \<Rightarrow> Inr (), url, body))"

lemma adapter_never_fails:
  "http_requestLongDump rest baseUrl cid secs r = (Inr (), baseUrl @ ''/long-dump-requests'', dump_request_body cid secs r)"
  "http_applyPolicy rest uuid baseUrl c p = (Inr (), baseUrl @ ''/policies'', policy_body uuid c p)"
  by (simp_all add: http_requestLongDump_def http_applyPolicy_def split: sum.split)

subsection \<open>What the agent reads in these requests\<close>

lemma search_keys [simp]:
  "search_key ''container_id''" "search_key ''policy_id''" "search_key ''type''" "search_key ''duration_sec''" "search_key ''reason''"
  by (simp_all add: search_key_def plain_key_def)

lemma policy_text_read:
  assumes "text_of (JObj [(''container_id'', JStr c), (''policy_id'', JStr q), (''type'', JStr t), (''spec'', spec)]) body"
    and "c \<noteq> []" "q \<noteq> []" "t \<noteq> []" "plain_string c" "plain_string q" "plain_string t" "json_plain spec"
    and "json_keys spec \<inter> {''container_id'', ''policy_id'', ''type''} = {}"
  shows "as_extractJsonString body ''container_id'' = c" "as_extractJsonString body ''policy_id'' = q"
    "as_extractJsonString body ''type'' = t" "lf \<notin> set body"
proof -
  let ?ms = "[(''container_id'', JStr c), (''policy_id'', JStr q), (''type'', JStr t), (''spec'', spec)]"
  obtain j where j: "json_eqv (JObj ?ms) j" "body = json_text j" using assms(1) by (auto simp: text_of_def)
  have "json_plain (JObj ?ms)" using assms(5-8) by (simp add: plain_string_def)
  then have plain: "json_plain j" using eqv_plain [OF j(1)] by simp
  have found: "first_member string_value key j = Some [v]"
    if "(key, JStr v) \<in> set ?ms" "v \<noteq> []" "key \<in> {''container_id'', ''policy_id'', ''type''}" for key v
    using that assms(9) by (intro found_in_text [OF j(1) that(1)]) (auto elim!: json_eqv_strE)
  show "as_extractJsonString body ''container_id'' = c" "as_extractJsonString body ''policy_id'' = q"
    "as_extractJsonString body ''type'' = t"
    unfolding j(2) using found assms(2-4) by (simp_all add: extract_string plain)
  show "lf \<notin> set body" unfolding j(2) using plain by (rule text_no_lf)
qed

lemma dump_text_read:
  assumes "text_of (dump_request_body c d r) body" "c \<noteq> []" "r \<noteq> []" "plain_string c" "plain_string r" "0 \<le> sint d"
  shows "as_extractJsonString body ''container_id'' = c" "as_extractJsonString body ''reason'' = r"
    "extractJsonInt body ''duration_sec'' dflt = d" "lf \<notin> set body"
proof -
  let ?ms = "[(''container_id'', JStr c), (''duration_sec'', JNum (sint d)), (''reason'', JStr r)]"
  obtain j where j: "json_eqv (JObj ?ms) j" "body = json_text j" using assms(1) by (auto simp: text_of_def dump_request_body_def)
  have "json_plain (JObj ?ms)" using assms(4,5) by (simp add: plain_string_def)
  then have plain: "json_plain j" using eqv_plain [OF j(1)] by simp
  have found: "first_member string_value key j = Some [v]" if "(key, JStr v) \<in> set ?ms" "v \<noteq> []" for key v
    using that by (intro found_in_text [OF j(1) that(1)]) (auto elim!: json_eqv_strE)
  have "first_member digits_value ''duration_sec'' j = Some [show_nat (nat (sint d))]"
    using assms(6) by (intro found_in_text [OF j(1), where i = "JNum (sint d)"]) (auto elim!: json_eqv_numE)
  moreover have "nat (sint d) \<le> 2147483647" using sint_lt [of d] by simp
  moreover have "(of_nat (nat (sint d)) :: i32) = d" using assms(6) by simp
  ultimately show "extractJsonInt body ''duration_sec'' dflt = d"
    unfolding j(2) by (simp add: extract_int plain)
  show "as_extractJsonString body ''container_id'' = c" "as_extractJsonString body ''reason'' = r"
    unfolding j(2) using found assms(2,3) by (simp_all add: extract_string plain)
  show "lf \<notin> set body" unfolding j(2) using plain by (rule text_no_lf)
qed

end
