(* ===== verification/Server_State.thy ===== *)
theory Server_State
  imports Server_Anomaly Server_Control
begin

text \<open>
  The state of the management server and the services its endpoints use: the in-memory repositories
  (\<^verbatim>\<open>core/repo\<close>), the window summary for the language model (\<^verbatim>\<open>SyscallWindowSummarizer.java\<close>), the
  deployment contexts (\<^verbatim>\<open>GitHubChangeContextAdapter.java\<close>) and the triage of a window
  (\<^verbatim>\<open>GeminiTriageAdapter.java\<close>, whose conversation with the language model is a parameter here and given in \<open>Server_Triage\<close>). An
  \<^verbatim>\<open>Instant\<close> is a number of milliseconds.
\<close>

subsection \<open>Summary of a window\<close>

definition mapSyscallName :: "i32 \<Rightarrow> string" where
  "mapSyscallName n =
     (if n = 59 then ''execve''
      else if n = 2 \<or> n = 257 then ''open''
      else if n = 0 then ''read''
      else if n = 1 then ''write''
      else if n = 3 then ''close''
      else if n = 42 then ''connect''
      else if n = 41 then ''socket''
      else ''sys_'' @ show_int (sint n))"

fun joining :: "string \<Rightarrow> string list \<Rightarrow> string" where
  "joining sep [] = ''''"
| "joining sep [x] = x"
| "joining sep (x # y # xs) = x @ sep @ joining sep (y # xs)"

definition merge_count :: "TraceRecordDto \<Rightarrow> (i32 \<times> int) list \<Rightarrow> (i32 \<times> int) list" where
  "merge_count r counts = um_set (jt_syscallId r) (um_get 0 counts (jt_syscallId r) + 1) counts"

definition class_count :: "i32 \<Rightarrow> TraceRecordDto list \<Rightarrow> int" where
  "class_count k rs = fold (\<lambda>r n. if jt_argClass r = k then n + 1 else n) rs 0"

definition other_count :: "TraceRecordDto list \<Rightarrow> int" where
  "other_count rs = fold (\<lambda>r n. if jt_argClass r \<in> {1, 2, 3, 4} then n else n + 1) rs 0"

definition arrow :: string where  \<comment> \<open>the rightwards arrow between two spaces, in UTF-8\<close>
  "arrow = [CHR '' '', CHR 0xE2, CHR 0x86, CHR 0x92, CHR '' '']"

text \<open>\<open>iteration\<close> is the order in which the hash map of the counts is iterated; the sort is stable.\<close>

definition summarize ::
  "((i32 \<times> int) list \<Rightarrow> (i32 \<times> int) list) \<Rightarrow> TraceRecordDto list option \<Rightarrow> string" where
  "summarize iteration records =
     (case records of
        None \<Rightarrow> ''(no records)''
      | Some [] \<Rightarrow> ''(no records)''
      | Some rs \<Rightarrow>
          let counts = fold merge_count rs [];
              topSyscalls = joining '', '' (map (\<lambda>(k, n). mapSyscallName k @ '':'' @ show_int n)
                (take 8 (sort_key (\<lambda>(k, n). - n) (iteration counts))));
              n = min (length rs) 25;
              sq = joining arrow (map (\<lambda>r. mapSyscallName (jt_syscallId r)) (take n rs))
          in ''record_count='' @ show_nat (length rs) @ [lf] @
             ''arg_class_counts='' @ ''FILE='' @ show_int (class_count 1 rs) @ '' NET='' @ show_int (class_count 2 rs) @
             '' PROC='' @ show_int (class_count 3 rs) @ '' MEM='' @ show_int (class_count 4 rs) @
             '' OTHER='' @ show_int (other_count rs) @ [lf] @
             ''top_syscalls='' @ topSyscalls @ [lf] @
             ''sequence_sample='' @ sq)"

subsection \<open>Repositories\<close>

datatype TriageStatus = TPENDING | SAFE | THREAT | TUNKNOWN

record Container =
  ct_id :: string
  ct_namespace :: string
  ct_node :: string
  ct_status :: string
  ct_agentConnected :: bool
  ct_modelStatus :: ModelStatus

record AnomalyWindow =
  aw_id :: string
  aw_containerId :: string
  aw_windowStart :: int
  aw_windowEnd :: int
  aw_mlScore :: rat
  aw_anomalous :: bool
  aw_triageStatus :: TriageStatus
  aw_triageResultId :: "string option"

record ChangeContext =
  cc_containerId :: "string option"
  cc_commitId :: string
  cc_repoUrl :: string
  cc_changedFiles :: "string list"
  cc_diffSummary :: "string option"
  cc_deployedAt :: "int option"

datatype detail = DText string | DNumber rat | DFlag bool

record LiveEvent =
  le_type :: string
  le_containerId :: "string option"
  le_at :: int
  le_payload :: "(string \<times> detail) list"

record Server =
  sv_containers :: "(string \<times> Container) list"
  sv_windows :: "AnomalyWindow list"
  sv_triages :: "TriageResult list"
  sv_policies :: "Policy list"
  sv_deployments :: "(string \<times> ChangeContext) list"
  sv_sent :: "(string \<times> json) list"  \<comment> \<open>requests posted to the agent\<close>
  sv_events :: "LiveEvent list"
  sv_topic :: "LiveEvent list"  \<comment> \<open>messages published on \<^verbatim>\<open>/topic/events\<close>\<close>
  sv_training :: Training

definition seed_container :: Container where
  "seed_container = \<lparr>ct_id = ''billing-api'', ct_namespace = ''prod'', ct_node = ''worker-01'', ct_status = ''Running'',
     ct_agentConnected = True, ct_modelStatus = UNTRAINED\<rparr>"

text \<open>The deployments known at start, \<open>now\<close> being the clock.\<close>

definition seedDemoDeployments :: "int \<Rightarrow> (string \<times> ChangeContext) list" where
  "seedDemoDeployments now = map (\<lambda>c. (the (cc_containerId c), c))
     [\<lparr>cc_containerId = Some ''prod/billing-api'', cc_commitId = ''a1b2c3d4e5f6789'', cc_repoUrl = ''https://github.com/acme/billing-service'',
        cc_changedFiles = [''src/api/payments.ts'', ''src/services/stripe-integration.ts'', ''src/db/transactions.sql''],
        cc_diffSummary = Some ''Added Stripe payment processing integration with webhook handlers'', cc_deployedAt = Some (now - 15 * 60000)\<rparr>,
      \<lparr>cc_containerId = Some ''prod/frontend'', cc_commitId = ''f6e5d4c3b2a1098'', cc_repoUrl = ''https://github.com/acme/frontend-app'',
        cc_changedFiles = [''src/components/CheckoutForm.tsx'', ''src/hooks/usePayment.ts''],
        cc_diffSummary = Some ''Updated checkout flow with new payment form validation'', cc_deployedAt = Some (now - 10 * 60000)\<rparr>,
      \<lparr>cc_containerId = Some ''bachat-bank_backend_1'', cc_commitId = ''deadbeef12345678'', cc_repoUrl = ''https://github.com/deepkernel-lab/bachat-bank'',
        cc_changedFiles = [''demo-apps/bachat-bank/backend/main.py'', ''demo-apps/bachat-bank/backend/routes.py''],
        cc_diffSummary = Some ''Updated transaction processing with new validation rules'', cc_deployedAt = Some (now - 5 * 60000)\<rparr>]"

definition Server_new :: "int \<Rightarrow> Server" where
  "Server_new now = \<lparr>sv_containers = [(ct_id seed_container, seed_container)], sv_windows = [], sv_triages = [],
     sv_policies = [], sv_deployments = seedDemoDeployments now, sv_sent = [], sv_events = [], sv_topic = [], sv_training = Training_new\<rparr>"

definition upsert :: "Container \<Rightarrow> Server \<Rightarrow> Server" where
  "upsert c s = s\<lparr>sv_containers := um_set (ct_id c) c (sv_containers s)\<rparr>"

definition saveWindow :: "AnomalyWindow \<Rightarrow> Server \<Rightarrow> Server" where
  "saveWindow w s = s\<lparr>sv_windows := filter (\<lambda>v. aw_id v \<noteq> aw_id w) (sv_windows s) @ [w]\<rparr>"

definition latestWindow :: "Server \<Rightarrow> string \<Rightarrow> AnomalyWindow option" where
  "latestWindow s containerId =
     (case filter (\<lambda>w. aw_containerId w = containerId) (sv_windows s) of [] \<Rightarrow> None | ws \<Rightarrow> Some (last ws))"

definition findWindowsByContainer :: "Server \<Rightarrow> string \<Rightarrow> int \<Rightarrow> AnomalyWindow list" where
  "findWindowsByContainer s containerId limit =
     (let filtered = filter (\<lambda>w. aw_containerId w = containerId) (sv_windows s)
      in drop (nat (max (int (length filtered) - limit) 0)) filtered)"

definition saveTriage :: "TriageResult \<Rightarrow> Server \<Rightarrow> Server" where
  "saveTriage t s = s\<lparr>sv_triages := sv_triages s @ [t]\<rparr>"

definition savePolicy :: "Policy \<Rightarrow> Server \<Rightarrow> Server" where
  "savePolicy p s = s\<lparr>sv_policies := sv_policies s @ [p]\<rparr>"

text \<open>An event is stored and published.\<close>

definition publish :: "LiveEvent \<Rightarrow> Server \<Rightarrow> Server" where
  "publish e s = s\<lparr>sv_events := sv_events s @ [e], sv_topic := sv_topic s @ [e]\<rparr>"

definition latestPolicy :: "Server \<Rightarrow> string \<Rightarrow> Policy option" where
  "latestPolicy s containerId =
     (case filter (\<lambda>p. po_containerId p = Some containerId) (sv_policies s) of [] \<Rightarrow> None | ps \<Rightarrow> Some (last ps))"

definition latestForWindow :: "Server \<Rightarrow> string \<Rightarrow> TriageResult option" where
  "latestForWindow s windowId = fold (\<lambda>r acc. if tg_windowId r = windowId then Some r else acc) (sv_triages s) None"

subsection \<open>Deployments\<close>

definition getChangeContext :: "int \<Rightarrow> Server \<Rightarrow> string \<Rightarrow> int \<Rightarrow> ChangeContext option" where
  "getChangeContext now s containerId since =
     (case map_of (sv_deployments s) containerId of
        None \<Rightarrow> None
      | Some context \<Rightarrow>
          (case cc_deployedAt context of
             None \<Rightarrow> Some context
           | Some deployedAt \<Rightarrow>
               if deployedAt < since then None
               else if deployedAt < now - 30 * 60 * 1000 then None
               else Some context))"

definition registerDeployment :: "string \<Rightarrow> ChangeContext \<Rightarrow> Server \<Rightarrow> Server" where
  "registerDeployment containerId context s = s\<lparr>sv_deployments := um_set containerId context (sv_deployments s)\<rparr>"

definition clearDeployment :: "string \<Rightarrow> Server \<Rightarrow> Server" where
  "clearDeployment containerId s = s\<lparr>sv_deployments := filter (\<lambda>(k, c). k \<noteq> containerId) (sv_deployments s)\<rparr>"

subsection \<open>Triage\<close>

text \<open>\<open>fmt\<close> is \<^verbatim>\<open>String.format("%.2f", x)\<close>; \<open>uuid\<close> the identifier drawn.\<close>

definition triageWithHeuristics ::
  "(rat \<Rightarrow> string) \<Rightarrow> string \<Rightarrow> AnomalyWindow \<Rightarrow> ChangeContext option \<Rightarrow> TriageResult" where
  "triageWithHeuristics fmt uuid window changeContext =
     (let mlScore = \<bar>aw_mlScore window\<bar>;
          recent = (case changeContext of None \<Rightarrow> None | Some c \<Rightarrow> if cc_deployedAt c \<noteq> None then Some c else None);
          (verdict, riskScore, explanation) =
            (if \<not> aw_anomalous window then
               (''SAFE'', max (f64 (1 / 10)) (f64 (mlScore * f64 (3 / 10))), ''Syscall patterns within normal behavioral baseline.'')
             else case recent of
               Some c \<Rightarrow>
                 (''SAFE'', min (1 / 2) (f64 (mlScore * f64 (3 / 5))),
                  ''Anomalous behavior detected but correlates with recent deployment (commit '' @ cc_commitId c @ ''). '' @
                  ''Changed files: '' @ joining '', '' (cc_changedFiles c) @ ''. Recommend monitoring but likely legitimate.'')
             | None \<Rightarrow>
                 if mlScore > f64 (4 / 5) then
                   (''THREAT'', min (f64 (19 / 20)) mlScore,
                    ''High anomaly score ('' @ fmt mlScore @ '') with no recent code changes to explain behavior. '' @
                    ''Syscall patterns deviate significantly from baseline. Recommend immediate investigation.'')
                 else if mlScore > 1 / 2 then
                   (''THREAT'', f64 (mlScore * f64 (4 / 5)),
                    ''Moderate anomaly score ('' @ fmt mlScore @ '') detected. Unusual syscall patterns observed. '' @
                    ''No deployment context available. Recommend policy enforcement.'')
                 else
                   (''SAFE'', f64 (mlScore * (1 / 2)),
                    ''Low anomaly score; flagged but within acceptable variance. Monitoring only.''))
      in \<lparr>tg_id = uuid, tg_containerId = Some (aw_containerId window), tg_windowId = aw_id window, tg_riskScore = riskScore,
           tg_verdict = Some verdict, tg_explanation = Some explanation, tg_llmResponseRaw = None\<rparr>)"

text \<open>\<open>gemini\<close> is the outcome of the language model, asked only when it is enabled and has a key.\<close>

definition gemini_triage ::
  "(rat \<Rightarrow> string) \<Rightarrow> string \<Rightarrow> (AnomalyWindow \<Rightarrow> ChangeContext option \<Rightarrow> java_exn + TriageResult) \<Rightarrow> bool \<Rightarrow> string option \<Rightarrow>
   AnomalyWindow \<Rightarrow> ChangeContext option \<Rightarrow> TriageResult" where
  "gemini_triage fmt uuid gemini llmEnabled apiKey window changeContext =
     (if llmEnabled \<and> (case apiKey of None \<Rightarrow> False | Some k \<Rightarrow> \<not> isBlank k)
      then (case gemini window changeContext of Inr result \<Rightarrow> result | Inl _ \<Rightarrow> triageWithHeuristics fmt uuid window changeContext)
      else triageWithHeuristics fmt uuid window changeContext)"

text \<open>The heuristic's verdict: a threat exactly when flagged, with no deployment known, above one half.\<close>

lemma heuristic_verdict:
  "tg_verdict (triageWithHeuristics fmt uuid w c) =
     Some (if aw_anomalous w \<and> (\<forall>x. c = Some x \<longrightarrow> cc_deployedAt x = None) \<and> \<bar>aw_mlScore w\<bar> > 1 / 2 then ''THREAT'' else ''SAFE'')"
proof -
  have "1 / 2 \<le> f64 (4 / 5)" using f64_dyadic_ge [of 1 1 "4 / 5"] by simp
  then show ?thesis
    by (auto simp: triageWithHeuristics_def Let_def split: option.split)
qed

end
