(* ===== verification/Server_Ingest.thy ===== *)
theory Server_Ingest
  imports Server_State
begin

text \<open>
  The endpoints of the management server: those the agents post to (\<^verbatim>\<open>AgentWindowController.java\<close>) and
  those of the user interface that change state (\<^verbatim>\<open>AdminController\<close>, \<^verbatim>\<open>TrainingController\<close>,
  \<^verbatim>\<open>PolicyController\<close>, \<^verbatim>\<open>DemoChangeContextController\<close>). Scoring, triage and change context are ports and
  are parameters (\<open>ingest_env\<close>), as are random identifiers and clock readings. A handler returns its response or
  the exception it ends with, and in both cases the state it leaves behind; null elements of the list
  of records are not modelled.
\<close>

subsection \<open>Environment\<close>

record ingest_env =
  ie_jlog :: "rat \<Rightarrow> rat"
  ie_score :: "string \<Rightarrow> rat list \<Rightarrow> java_exn + rat \<times> bool"
  ie_context :: "string \<Rightarrow> int \<Rightarrow> java_exn + ChangeContext option"
  ie_triage :: "AnomalyWindow \<Rightarrow> ChangeContext \<Rightarrow> java_exn + TriageResult"
  ie_readTree :: "string \<Rightarrow> java_exn + json"
  ie_rest :: rest_template
  ie_iteration :: "(i32 \<times> int) list \<Rightarrow> (i32 \<times> int) list"
  ie_baseUrl :: string
  ie_windowId :: string
  ie_policyId :: string
  ie_spareId :: string
  ie_discoveredAt :: int
  ie_triagedAt :: int
  ie_generatedAt :: int
  ie_appliedAt :: int
  ie_announcedAt :: int

text \<open>Continue unless an exception was raised.\<close>

definition andThen :: "(java_exn + 'a) \<times> 's \<Rightarrow> ('a \<Rightarrow> 's \<Rightarrow> (java_exn + 'b) \<times> 's) \<Rightarrow> (java_exn + 'b) \<times> 's" where
  "andThen r f = (case r of (Inl ex, s) \<Rightarrow> (Inl ex, s) | (Inr x, s) \<Rightarrow> f x s)"

lemma andThen_simps [simp]: "andThen (Inl ex, s) f = (Inl ex, s)" "andThen (Inr x, s) f = f x s"
  by (simp_all add: andThen_def)

lemma andThen_cases:
  "andThen r f = (res, s') \<Longrightarrow>
   (\<exists>ex. r = (Inl ex, s') \<and> res = Inl ex) \<or> (\<exists>x s. r = (Inr x, s) \<and> f x s = (res, s'))"
  by (cases r) (auto simp: andThen_def split: sum.splits)

subsection \<open>Windows\<close>

text \<open>The identifier is handed on once it is known not to be null.\<close>

definition ensureContainerRegistered ::
  "ingest_env \<Rightarrow> string option \<Rightarrow> string option \<Rightarrow> Server \<Rightarrow> (java_exn + string) \<times> Server" where
  "ensureContainerRegistered e containerId agent_id s =
     (case containerId of
        None \<Rightarrow> (Inl NullPointerException, s)
      | Some cid \<Rightarrow>
          if list_ex (\<lambda>(k, c). ct_id c = cid) (sv_containers s) then (Inr cid, s)
          else
            let ns = (if CHR ''/'' \<in> set cid then takeWhile (\<lambda>c. c \<noteq> CHR ''/'') cid else ''default'');
                agent = (case agent_id of None \<Rightarrow> ''unknown'' | Some a \<Rightarrow> a);
                s = upsert \<lparr>ct_id = cid, ct_namespace = ns, ct_node = agent, ct_status = ''Running'', ct_agentConnected = True,
                       ct_modelStatus = UNTRAINED\<rparr> s
            in (Inr cid, publish \<lparr>le_type = ''CONTAINER_DISCOVERED'', le_containerId = Some cid, le_at = ie_discoveredAt e,
                  le_payload = [(''namespace'', DText ns), (''agent_id'', DText agent)]\<rparr> s))"

definition scored_window :: "ingest_env \<Rightarrow> ShortWindowPayload \<Rightarrow> string \<Rightarrow> rat \<times> bool \<Rightarrow> AnomalyWindow" where
  "scored_window e payload cid score =
     (let start = sint (sw_windowStartTsNs payload) sdiv 1000000 in
      \<lparr>aw_id = ie_windowId e, aw_containerId = cid, aw_windowStart = start, aw_windowEnd = start + 5000,
       aw_mlScore = fst score, aw_anomalous = snd score, aw_triageStatus = TPENDING, aw_triageResultId = None\<rparr>)"

definition scored_event :: "ShortWindowPayload \<Rightarrow> AnomalyWindow \<Rightarrow> LiveEvent" where
  "scored_event payload window =
     (let count = (case sw_records payload of None \<Rightarrow> 0 | Some rs \<Rightarrow> length rs) in
      \<lparr>le_type = ''WINDOW_SCORED'', le_containerId = Some (aw_containerId window), le_at = aw_windowEnd window,
       le_payload = [(''ml_score'', DNumber (aw_mlScore window)), (''is_anomalous'', DFlag (aw_anomalous window)),
         (''record_count'', DNumber (of_nat count))]\<rparr>)"

definition triage_context :: "ingest_env \<Rightarrow> ShortWindowPayload \<Rightarrow> AnomalyWindow \<Rightarrow> ChangeContext" where
  "triage_context e payload window =
     (let syscallSummary = summarize (ie_iteration e) (sw_records payload) in
      case (case ie_context e (aw_containerId window) (aw_windowStart window - 1800 * 1000) of Inr c \<Rightarrow> c | Inl _ \<Rightarrow> None) of
        Some c \<Rightarrow> c\<lparr>cc_diffSummary := Some ((case cc_diffSummary c of None \<Rightarrow> '''' | Some d \<Rightarrow> d) @
          [lf, lf] @ ''SYSCALL_WINDOW_SUMMARY:'' @ [lf] @ syscallSummary)\<rparr>
      | None \<Rightarrow> \<lparr>cc_containerId = Some (aw_containerId window), cc_commitId = ''unknown'', cc_repoUrl = ''unknown'', cc_changedFiles = [],
          cc_diffSummary = Some (''SYSCALL_WINDOW_SUMMARY:'' @ [lf] @ syscallSummary), cc_deployedAt = None\<rparr>)"

definition verdict_status :: "string option \<Rightarrow> TriageStatus" where
  "verdict_status verdict =
     (if equalsIgnoreCase ''THREAT'' verdict then THREAT
      else if equalsIgnoreCase ''SAFE'' verdict then SAFE else TUNKNOWN)"

definition triaged :: "TriageResult \<Rightarrow> AnomalyWindow \<Rightarrow> AnomalyWindow" where
  "triaged triage window =
     window\<lparr>aw_triageStatus := verdict_status (tg_verdict triage), aw_triageResultId := Some (tg_id triage)\<rparr>"

text \<open>\<^verbatim>\<open>Map.of\<close> refuses null values.\<close>

definition triage_event :: "ingest_env \<Rightarrow> string \<Rightarrow> TriageResult \<Rightarrow> java_exn + LiveEvent" where
  "triage_event e cid triage =
     (case (tg_verdict triage, tg_explanation triage) of
        (Some verdict, Some explanation) \<Rightarrow> Inr \<lparr>le_type = ''TRIAGE_RESULT'', le_containerId = Some cid, le_at = ie_triagedAt e,
          le_payload = [(''verdict'', DText verdict), (''risk_score'', DNumber (tg_riskScore triage)), (''explanation'', DText explanation)]\<rparr>
      | _ \<Rightarrow> Inl NullPointerException)"

text \<open>The policy is recorded as applied and announced before the agent is contacted.\<close>

definition enforcePolicy :: "ingest_env \<Rightarrow> string \<Rightarrow> Policy \<Rightarrow> Server \<Rightarrow> (java_exn + unit) \<times> Server" where
  "enforcePolicy e cid policy s =
     (let applied = policy\<lparr>po_appliedAt := ie_appliedAt e, po_status := APPLIED\<rparr>;
          s = savePolicy applied s;
          s = publish \<lparr>le_type = ''POLICY_APPLIED'', le_containerId = Some cid, le_at = ie_announcedAt e,
                le_payload = [(''policy_id'', DText (the (po_id applied))), (''type'', DText (PolicyType_name (po_type applied))),
                  (''status'', DText ''APPLIED'')]\<rparr> s;
          (r, request) = http_applyPolicy (ie_rest e) (ie_spareId e) (ie_baseUrl e) (Some cid) applied
      in (r, s\<lparr>sv_sent := sv_sent s @ [request]\<rparr>))"

definition ingestWindow :: "ingest_env \<Rightarrow> ShortWindowPayload \<Rightarrow> Server \<Rightarrow> (java_exn + string) \<times> Server" where
  "ingestWindow e payload s =
     andThen (ensureContainerRegistered e (sw_containerId payload) (sw_agentId payload) s) (\<lambda>cid s.
     andThen (fe_extract (ie_jlog e) payload, s) (\<lambda>fv s.
     andThen (ie_score e cid fv, s) (\<lambda>score s.
       let window = scored_window e payload cid score;
           s = publish (scored_event payload window) (saveWindow window s)
       in andThen (ie_triage e window (triage_context e payload window), s) (\<lambda>triage s.
       let s = saveWindow (triaged triage window) (saveTriage triage s)
       in andThen (triage_event e cid triage, s) (\<lambda>event s.
       let s = publish event s;
           status = (if snd score then ''anomalous'' else ''accepted'')
       in case generatePolicy (ie_readTree e) (ie_policyId e) (ie_generatedAt e) (Some (aw_containerId window)) triage of
            None \<Rightarrow> (Inr status, s)
          | Some policy \<Rightarrow> andThen (enforcePolicy e cid policy s) (\<lambda>_ s. (Inr status, s)))))))"

subsection \<open>Completed dumps\<close>

definition handleDumpComplete :: "int \<Rightarrow> LongDumpComplete \<Rightarrow> Server \<Rightarrow> (java_exn + string) \<times> Server" where
  "handleDumpComplete now completion s =
     (case (lc_dumpPath completion, lc_agentId completion) of
        (Some path, Some agent) \<Rightarrow>
          let s = publish \<lparr>le_type = ''LONG_DUMP_COMPLETE'', le_containerId = lc_containerId completion, le_at = now,
                le_payload = [(''dump_path'', DText path), (''duration_sec'', DNumber (of_int (sint (lc_durationSec completion)))),
                  (''agent_id'', DText agent)]\<rparr> s
          in (case lc_containerId completion of
                None \<Rightarrow> (Inl NullPointerException, s)
              | Some cid \<Rightarrow> (Inr ''received'', s\<lparr>sv_training := training_handleDumpComplete (sv_training s) cid\<rparr>))
      | _ \<Rightarrow> (Inl NullPointerException, s))"

subsection \<open>Endpoints of the user interface\<close>

definition deleteContainer :: "string \<Rightarrow> Server \<Rightarrow> bool \<times> Server" where
  "deleteContainer cid s =
     (map_of (sv_containers s) cid \<noteq> None, s\<lparr>sv_containers := filter (\<lambda>(k, c). k \<noteq> cid) (sv_containers s)\<rparr>)"

definition deleteByPattern :: "(string \<Rightarrow> bool) \<Rightarrow> Server \<Rightarrow> nat \<times> Server" where  \<comment> \<open>the pattern as the set it matches\<close>
  "deleteByPattern matches s =
     (length (filter (\<lambda>(k, c). matches k) (sv_containers s)), s\<lparr>sv_containers := filter (\<lambda>(k, c). \<not> matches k) (sv_containers s)\<rparr>)"

definition clearAllContainers :: "Server \<Rightarrow> nat \<times> Server" where
  "clearAllContainers s = (length (sv_containers s), s\<lparr>sv_containers := []\<rparr>)"

definition clearAllEvents :: "Server \<Rightarrow> nat \<times> Server" where
  "clearAllEvents s = (length (sv_events s), s\<lparr>sv_events := []\<rparr>)"

definition syncModels :: "detection_port \<Rightarrow> int \<Rightarrow> Server \<Rightarrow> nat \<times> Server" where
  "syncModels det now s =
     (let (n, versions) = syncFromMlService det now (map (\<lambda>(k, c). ct_id c) (sv_containers s)) (tr_versions (sv_training s))
      in (n, s\<lparr>sv_training := (sv_training s)\<lparr>tr_versions := versions\<rparr>\<rparr>))"

definition clearModelCache :: "Server \<Rightarrow> Server" where
  "clearModelCache s = s\<lparr>sv_training := (sv_training s)\<lparr>tr_versions := reg_clearCache (tr_versions (sv_training s))\<rparr>\<rparr>"

text \<open>Training with a dump of \<open>secs\<close> seconds; the agent is contacted through the adapter.\<close>

definition triggerTraining ::
  "rest_template \<Rightarrow> string \<Rightarrow> detection_port \<Rightarrow> int \<Rightarrow> string \<Rightarrow> i32 \<Rightarrow> Server \<Rightarrow> nat \<times> Server" where
  "triggerTraining rest baseUrl det now containerId secs s =
     (let (ctrl, request) = http_requestLongDump rest baseUrl containerId secs ''train-1m'';
          (r, training) = startOrchestratedTraining det now ctrl (sv_training s) containerId;
          s = s\<lparr>sv_training := training, sv_sent := sv_sent s @ [request]\<rparr>
      in (case r of Inr _ \<Rightarrow> 202 | Inl _ \<Rightarrow> 400, s))"

definition demo_spec :: "string \<Rightarrow> json" where
  "demo_spec containerId = JObj [(''action'', JStr ''SCMP_ACT_ERRNO''), (''syscalls'', JArr [JStr ''connect'']),
     (''reason'', JStr ''Anomalous connect() calls detected - possible data exfiltration''),
     (''profilePath'', JStr (''/var/lib/deepkernel/policies/policy-'' @ containerId @ ''.json''))]"

definition parse_policy_type :: "string \<Rightarrow> PolicyType" where
  "parse_policy_type t =
     (if t = ''APPARMOR'' then APPARMOR else if t = ''NETWORK_POLICY'' then NETWORK_POLICY else SECCOMP)"

definition parse_policy_status :: "string \<Rightarrow> PolicyStatus" where
  "parse_policy_status t = (if t = ''APPLIED'' then APPLIED else if t = ''FAILED'' then FAILED else PENDING)"

definition createDemoPolicy :: "int \<Rightarrow> int \<Rightarrow> (string \<times> string) list \<Rightarrow> Server \<Rightarrow> Server" where
  "createDemoPolicy millis now request s =
     (let get = (\<lambda>k d. case map_of request k of None \<Rightarrow> d | Some v \<Rightarrow> v);
          containerId = get ''containerId'' ''demo-container''
      in savePolicy \<lparr>po_id = Some (''policy-'' @ show_int millis), po_containerId = Some containerId,
           po_type = parse_policy_type (get ''type'' ''SECCOMP''), po_spec = demo_spec containerId, po_appliedAt = now,
           po_node = Some ''node-1'', po_status = parse_policy_status (get ''status'' ''PENDING'')\<rparr> s)"

subsection \<open>Effects of the handlers\<close>

lemmas repo_defs = upsert_def publish_def saveWindow_def saveTriage_def savePolicy_def

lemma ensure_registered:
  assumes "ensureContainerRegistered e c a s = (r, s')"
  shows "sv_windows s' = sv_windows s \<and> sv_triages s' = sv_triages s \<and> sv_policies s' = sv_policies s \<and>
    sv_sent s' = sv_sent s \<and> sv_training s' = sv_training s \<and> sv_deployments s' = sv_deployments s"
    and "r = Inr cid \<Longrightarrow> c = Some cid \<and> list_ex (\<lambda>(k, x). ct_id x = cid) (sv_containers s')"
    and "c = Some cid \<Longrightarrow> r = Inr cid"
proof -
  have "list_ex (\<lambda>(k, x). ct_id x = ct_id y) (um_set (ct_id y) y m)" for y m
    using map_of_SomeD [of "um_set (ct_id y) y m" "ct_id y" y] by (auto simp: list_ex_iff)
  then have reg: "list_ex (\<lambda>(k, x). ct_id x = cid) (sv_containers (upsert y s))" if "ct_id y = cid" for y cid
    using that by (auto simp: upsert_def)
  show "r = Inr cid \<Longrightarrow> c = Some cid \<and> list_ex (\<lambda>(k, x). ct_id x = cid) (sv_containers s')"
    using assms by (auto simp: ensureContainerRegistered_def publish_def Let_def reg split: option.splits if_splits)
qed (use assms in \<open>auto simp: ensureContainerRegistered_def repo_defs Let_def split: option.splits if_splits\<close>)

lemma ensure_some: "\<exists>s'. ensureContainerRegistered e (Some cid) a s = (Inr cid, s')"
  using ensure_registered(3) by (metis surj_pair)

lemma andThen_enforce: "andThen (enforcePolicy e cid q s) f = f () (snd (enforcePolicy e cid q s))"
  by (simp add: enforcePolicy_def adapter_never_fails Let_def)

lemma extract_total:
  assumes "\<And>rs. sw_records p = Some rs \<Longrightarrow> length rs < 2147483648"
  shows "\<exists>vec. fe_extract jlog p = Inr vec"
proof (cases "sw_records p")
  case (Some rs)
  then show ?thesis using extract_vector [OF Some] assms [OF Some] by (cases rs) (auto simp: fe_extract_def)
qed (simp add: fe_extract_def)

lemma latest_snoc: "sv_windows s = ws @ [w] \<Longrightarrow> aw_containerId w = c \<Longrightarrow> latestWindow s c = Some w"
  by (cases "filter (\<lambda>w. aw_containerId w = c) ws") (simp_all add: latestWindow_def)

lemma enforcePolicy_sent:
  "sv_sent (snd (enforcePolicy e cid q s)) = sv_sent s @ [(ie_baseUrl e @ ''/policies'', policy_body (ie_spareId e) (Some cid) q)]"
  by (simp add: enforcePolicy_def adapter_never_fails Let_def repo_defs policy_body_def)

text \<open>The only request a window causes is the one for the policy of a threat.\<close>

lemma ingest_sent:
  assumes "ingestWindow e p s = (r, s')" "sv_sent s' \<noteq> sv_sent s"
  shows "\<exists>cid t q. sw_containerId p = Some cid \<and> equalsIgnoreCase ''THREAT'' (tg_verdict t) \<and>
    generatePolicy (ie_readTree e) (ie_policyId e) (ie_generatedAt e) (Some cid) t = Some q \<and>
    sv_sent s' = sv_sent s @ [(ie_baseUrl e @ ''/policies'', policy_body (ie_spareId e) (Some cid) q)]"
proof -
  obtain x s1 where reg: "ensureContainerRegistered e (sw_containerId p) (sw_agentId p) s = (x, s1)" by fastforce
  have "aw_containerId (scored_window e p cid sc) = cid" for cid sc by (simp add: scored_window_def Let_def)
  moreover have "generatePolicy rt u n c t = Some q \<Longrightarrow> equalsIgnoreCase ''THREAT'' (tg_verdict t)" for rt u n c t q
    by (simp add: generatePolicy_def split: if_splits)
  ultimately show ?thesis
    using assms reg ensure_registered(1) [OF reg] ensure_registered(2) [OF reg]
    by (cases x) (auto simp: ingestWindow_def andThen_enforce enforcePolicy_sent andThen_def [of "(_, _)"] Let_def repo_defs split: sum.splits option.splits, blast+)
qed

text \<open>The run of the handler when scoring and triage answer.\<close>

lemma ingest_answered:
  assumes "ensureContainerRegistered e (sw_containerId p) (sw_agentId p) s = (Inr cid, s1)"
    and "fe_extract (ie_jlog e) p = Inr vec" "ie_score e cid vec = Inr sc" "w = scored_window e p cid sc"
    and "ie_triage e w (triage_context e p w) = Inr t" "triage_event e cid t = Inr ev"
    and "s2 = publish ev (saveWindow (triaged t w) (saveTriage t (publish (scored_event p w) (saveWindow w s1))))"
  shows "ingestWindow e p s = (Inr (if snd sc then ''anomalous'' else ''accepted''),
    case generatePolicy (ie_readTree e) (ie_policyId e) (ie_generatedAt e) (Some cid) t of
      None \<Rightarrow> s2 | Some q \<Rightarrow> snd (enforcePolicy e cid q s2))"
proof -
  have "aw_containerId w = cid" by (simp add: assms(4) scored_window_def Let_def)
  with assms show ?thesis
    by (auto simp: ingestWindow_def andThen_enforce Let_def split: option.split)
qed

text \<open>What every handler of a window keeps when the steps it is made of keep it.\<close>

locale ingest_invariant =
  fixes I :: "Server \<Rightarrow> bool"
  assumes keeps_upsert: "I s \<Longrightarrow> I (upsert c s)"
    and keeps_publish: "I s \<Longrightarrow> I (publish ev s)"
    and keeps_pending: "I s \<Longrightarrow> aw_triageStatus w = TPENDING \<Longrightarrow> aw_triageResultId w = None \<Longrightarrow> I (saveWindow w s)"
    and keeps_triaged: "I s \<Longrightarrow> I (saveWindow (triaged t w) (saveTriage t s))"
    and keeps_policy: "I s \<Longrightarrow> I (savePolicy p s)"
    and keeps_sent: "I s \<Longrightarrow> I (s\<lparr>sv_sent := rs\<rparr>)"
begin

lemma keeps_ensure: "I s \<Longrightarrow> ensureContainerRegistered e c a s = (r, s') \<Longrightarrow> I s'"
  by (auto simp: ensureContainerRegistered_def Let_def intro: keeps_upsert keeps_publish split: option.splits if_splits)

lemma keeps_enforce: "I s \<Longrightarrow> enforcePolicy e cid p s = (r, s') \<Longrightarrow> I s'"
  by (auto simp: enforcePolicy_def Let_def intro!: keeps_sent keeps_publish keeps_policy split: prod.splits)

lemma keeps_ingest:
  assumes "I s" "ingestWindow e p s = (r, s')"
  shows "I s'"
proof -
  consider ex where "ensureContainerRegistered e (sw_containerId p) (sw_agentId p) s = (Inl ex, s')"
    | cid s1 where "ensureContainerRegistered e (sw_containerId p) (sw_agentId p) s = (Inr cid, s1)" "I s1"
    using assms keeps_ensure unfolding ingestWindow_def by (blast dest: andThen_cases)
  then show ?thesis
  proof cases
    case 1
    with assms(1) keeps_ensure show ?thesis by blast
  next
    case 2
    have pending: "I (publish ev (saveWindow (scored_window e p cid sc) s1))" for ev sc
      by (intro keeps_publish keeps_pending 2(2)) (simp_all add: scored_window_def Let_def)
    show ?thesis
      using assms(2) 2 pending
      by (auto simp: ingestWindow_def andThen_def Let_def intro: keeps_publish keeps_triaged split: sum.splits prod.splits option.splits)
        (metis keeps_enforce keeps_publish keeps_triaged)+
  qed
qed

end

subsection \<open>Consistency of the repositories\<close>

definition triage_ok :: "TriageResult list \<Rightarrow> AnomalyWindow \<Rightarrow> bool" where
  "triage_ok ts w \<longleftrightarrow> (aw_triageStatus w = TPENDING \<and> aw_triageResultId w = None) \<or>
     list_ex (\<lambda>t. aw_triageStatus w = verdict_status (tg_verdict t) \<and> aw_triageResultId w = Some (tg_id t)) ts"

definition server_inv :: "Server \<Rightarrow> bool" where
  "server_inv s \<longleftrightarrow> distinct (map fst (sv_containers s)) \<and> list_all (\<lambda>(k, c). ct_id c = k) (sv_containers s) \<and>
     distinct (map aw_id (sv_windows s)) \<and> list_all (triage_ok (sv_triages s)) (sv_windows s) \<and>
     set (sv_events s) \<subseteq> set (sv_topic s)"

lemma saved_windows:
  assumes "distinct (map aw_id ws)" "list_all P ws" "P w"
  shows "distinct (map aw_id (filter (\<lambda>v. aw_id v \<noteq> aw_id w) ws @ [w])) \<and>
    list_all P (filter (\<lambda>v. aw_id v \<noteq> aw_id w) ws @ [w])"
  using assms by (auto simp: distinct_map list_all_iff inj_on_def)

interpretation consistent: ingest_invariant server_inv
proof
  fix s c assume "server_inv s"
  then show "server_inv (upsert c s)"
    using distinct_um_set set_um_set [of "ct_id c" c "sv_containers s"]
    by (auto simp: server_inv_def upsert_def list_all_iff)
next
  fix s and w :: AnomalyWindow assume "server_inv s" "aw_triageStatus w = TPENDING" "aw_triageResultId w = None"
  then show "server_inv (saveWindow w s)"
    using saved_windows [of "sv_windows s" "triage_ok (sv_triages s)" w] by (simp add: server_inv_def saveWindow_def triage_ok_def)
next
  fix s t and w :: AnomalyWindow assume "server_inv s"
  moreover have "list_all (triage_ok (ts @ [t])) ws" if "list_all (triage_ok ts) ws" for ts ws
    using that by (auto simp: list_all_iff triage_ok_def)
  moreover have "triage_ok (ts @ [t]) (triaged t w)" for ts by (simp add: triage_ok_def triaged_def)
  ultimately show "server_inv (saveWindow (triaged t w) (saveTriage t s))"
    using saved_windows [of "sv_windows s" "triage_ok (sv_triages s @ [t])" "triaged t w"]
    by (simp add: server_inv_def saveWindow_def saveTriage_def)
qed (auto simp: server_inv_def publish_def savePolicy_def)

text \<open>Windows do not touch training or deployments.\<close>

interpretation apart: ingest_invariant "\<lambda>s. sv_training s = t \<and> sv_deployments s = d" for t d
  by unfold_locales (simp_all add: repo_defs)

subsection \<open>Runs of the server\<close>

datatype server_op =
    Ingest ingest_env ShortWindowPayload
  | DumpDone int LongDumpComplete
  | DeleteContainer string
  | DeleteMatching "string \<Rightarrow> bool"
  | ClearContainers
  | ClearEvents
  | SyncModels detection_port int
  | ClearModelCache
  | TriggerTraining rest_template string detection_port int string i32
  | DemoPolicy int int "(string \<times> string) list"
  | Deploy string ChangeContext

primrec server_step :: "server_op \<Rightarrow> Server \<Rightarrow> Server" where
  "server_step (Ingest e p) s = snd (ingestWindow e p s)"
| "server_step (DumpDone now c) s = snd (handleDumpComplete now c s)"
| "server_step (DeleteContainer cid) s = snd (deleteContainer cid s)"
| "server_step (DeleteMatching matches) s = snd (deleteByPattern matches s)"
| "server_step ClearContainers s = snd (clearAllContainers s)"
| "server_step ClearEvents s = snd (clearAllEvents s)"
| "server_step (SyncModels det now) s = snd (syncModels det now s)"
| "server_step ClearModelCache s = clearModelCache s"
| "server_step (TriggerTraining rest url det now cid secs) s = snd (triggerTraining rest url det now cid secs s)"
| "server_step (DemoPolicy millis now request) s = createDemoPolicy millis now request s"
| "server_step (Deploy cid c) s = registerDeployment cid c s"

lemma server_step_inv:
  assumes "server_inv s"
  shows "server_inv (server_step c s)"
proof (cases c)
  case (Ingest e p)
  then show ?thesis using consistent.keeps_ingest [OF assms, of e p] by (cases "ingestWindow e p s") simp
next
  case (DumpDone now d)
  have inv: "server_inv (publish ev s)" for ev using assms by (rule consistent.keeps_publish)
  have "server_inv (s'\<lparr>sv_training := t\<rparr>) = server_inv s'" for s' t by (simp add: server_inv_def)
  with DumpDone inv assms show ?thesis by (auto simp: handleDumpComplete_def Let_def split: option.split)
next
  case (DemoPolicy millis now request)
  then show ?thesis using consistent.keeps_policy [OF assms] by (simp add: createDemoPolicy_def Let_def)
qed (use assms in \<open>auto simp: server_inv_def deleteContainer_def deleteByPattern_def clearAllContainers_def clearAllEvents_def
      syncModels_def clearModelCache_def triggerTraining_def registerDeployment_def Let_def case_prod_unfold
      list_all_iff distinct_map_filter\<close>)

subsection \<open>Properties\<close>


text \<open>C19: What a posted window leads to. When scoring and triage answer, the window is stored as the
  container's latest one with the status of the verdict, the triage result is stored, the container
  is known, and the request is accepted. On the verdict threat one policy for the container is recorded as
  applied and exactly its request goes to the agent; otherwise nothing is recorded or sent. None of
  this depends on how the agent answers, or whether it can be reached at all.\<close>

theorem window_ingested:
  assumes "sw_containerId p = Some cid" "fe_extract (ie_jlog e) p = Inr vec" "ie_score e cid vec = Inr (score, anomalous)"
    and "ie_triage e (scored_window e p cid (score, anomalous)) (triage_context e p (scored_window e p cid (score, anomalous))) = Inr t"
    and "tg_verdict t = Some v" "tg_explanation t = Some x"
  shows "\<exists>s'. (\<forall>rest. ingestWindow (e\<lparr>ie_rest := rest\<rparr>) p s = (Inr (if anomalous then ''anomalous'' else ''accepted''), s')) \<and>
    latestWindow s' cid = Some (triaged t (scored_window e p cid (score, anomalous))) \<and>
    sv_triages s' = sv_triages s @ [t] \<and> list_ex (\<lambda>(k, c). ct_id c = cid) (sv_containers s') \<and>
    (if equalsIgnoreCase ''THREAT'' (Some v)
     then \<exists>q. sv_policies s' = sv_policies s @ [q] \<and> po_status q = APPLIED \<and> po_containerId q = Some cid \<and>
       sv_sent s' = sv_sent s @ [(ie_baseUrl e @ ''/policies'', policy_body (ie_spareId e) (Some cid) q)]
     else sv_policies s' = sv_policies s \<and> sv_sent s' = sv_sent s)"
proof -
  let ?w = "scored_window e p cid (score, anomalous)"
  obtain s1 where reg: "ensureContainerRegistered e (Some cid) (sw_agentId p) s = (Inr cid, s1)"
    using ensure_some by blast
  note s1 = ensure_registered(1) [OF reg] ensure_registered(2) [OF reg refl]
  obtain ev where ev: "triage_event e cid t = Inr ev" using assms(5,6) by (simp add: triage_event_def)
  define s2 where "s2 = publish ev (saveWindow (triaged t ?w) (saveTriage t (publish (scored_event p ?w) (saveWindow ?w s1))))"
  have cid: "aw_containerId ?w = cid" "aw_id (triaged t ?w) = aw_id ?w" by (simp_all add: scored_window_def triaged_def Let_def)
  have same: "ensureContainerRegistered (e\<lparr>ie_rest := r\<rparr>) = ensureContainerRegistered e"
    "scored_window (e\<lparr>ie_rest := r\<rparr>) = scored_window e" "triage_context (e\<lparr>ie_rest := r\<rparr>) = triage_context e"
    "triage_event (e\<lparr>ie_rest := r\<rparr>) = triage_event e" for r
    by (simp_all add: fun_eq_iff ensureContainerRegistered_def scored_window_def triage_context_def triage_event_def Let_def split: option.split)
  have latest: "latestWindow s' cid = Some (triaged t ?w)" if "sv_windows s' = ws @ [triaged t ?w]" for s' ws
    using that cid by (intro latest_snoc) (simp_all add: triaged_def)
  obtain s3 where run: "\<forall>rest. ingestWindow (e\<lparr>ie_rest := rest\<rparr>) p s = (Inr (if anomalous then ''anomalous'' else ''accepted''), s3)"
    and s3: "sv_windows s3 = sv_windows s2" "sv_triages s3 = sv_triages s2" "sv_containers s3 = sv_containers s2"
    and pol: "if equalsIgnoreCase ''THREAT'' (Some v)
     then \<exists>q. sv_policies s3 = sv_policies s2 @ [q] \<and> po_status q = APPLIED \<and> po_containerId q = Some cid \<and>
       sv_sent s3 = sv_sent s2 @ [(ie_baseUrl e @ ''/policies'', policy_body (ie_spareId e) (Some cid) q)]
     else sv_policies s3 = sv_policies s2 \<and> sv_sent s3 = sv_sent s2"
  proof -
    define g where "g = generatePolicy (ie_readTree e) (ie_policyId e) (ie_generatedAt e) (Some cid) t"
    have run: "ingestWindow (e\<lparr>ie_rest := r\<rparr>) p s = (Inr (if anomalous then ''anomalous'' else ''accepted''),
        case g of None \<Rightarrow> s2 | Some q \<Rightarrow> snd (enforcePolicy (e\<lparr>ie_rest := r\<rparr>) cid q s2))" for r
      using ingest_answered [of "e\<lparr>ie_rest := r\<rparr>" p s cid s1 vec "(score, anomalous)" ?w t ev s2] assms(1-4) reg ev
      by (simp add: same s2_def g_def)
    show ?thesis
    proof (cases "equalsIgnoreCase ''THREAT'' (Some v)")
      case True
      then obtain q where q: "g = Some q" "po_containerId q = Some cid"
        using assms(5) by (auto simp: g_def generatePolicy_def Let_def)
      have "enforcePolicy (e\<lparr>ie_rest := r\<rparr>) cid q s2 = enforcePolicy e cid q s2" for r
        by (simp add: enforcePolicy_def adapter_never_fails)
      with True q run show ?thesis
        by (intro that [of "snd (enforcePolicy e cid q s2)"]) (simp_all add: enforcePolicy_def adapter_never_fails Let_def repo_defs)
    next
      case False
      then have "g = None" using assms(5) by (simp add: g_def generatePolicy_def)
      with False run show ?thesis by (intro that [of s2]) simp_all
    qed
  qed
  moreover have "sv_policies s2 = sv_policies s" "sv_sent s2 = sv_sent s" "sv_triages s2 = sv_triages s @ [t]"
    "sv_containers s2 = sv_containers s1" using s1 by (simp_all add: s2_def repo_defs)
  moreover have "\<exists>ws. sv_windows s2 = ws @ [triaged t ?w]" by (simp add: s2_def repo_defs)
  ultimately show ?thesis using latest s1(2) by (intro exI [of _ s3]) auto
qed

definition demo_env :: ingest_env where
  "demo_env = \<lparr>ie_jlog = (\<lambda>x. x - 1), ie_score = (\<lambda>_ _. Inr (9 / 10, True)), ie_context = (\<lambda>_ _. Inr None),
     ie_triage = (\<lambda>w c. Inr (triageWithHeuristics (\<lambda>_. ''0.90'') ''t1'' w (Some c))), ie_readTree = (\<lambda>_. Inl PortException),
     ie_rest = (\<lambda>_ _. Inl PortException), ie_iteration = (\<lambda>m. m), ie_baseUrl = ''http://localhost:8082'', ie_windowId = ''w1'',
     ie_policyId = ''p1'', ie_spareId = ''p2'', ie_discoveredAt = 1, ie_triagedAt = 2, ie_generatedAt = 3, ie_appliedAt = 4, ie_announcedAt = 5\<rparr>"

lemma demo_threat:
  "ie_triage demo_env (scored_window demo_env p ''web'' (9 / 10, True)) (triage_context demo_env p (scored_window demo_env p ''web'' (9 / 10, True))) =
     Inr (triageWithHeuristics (\<lambda>_. ''0.90'') ''t1'' (scored_window demo_env p ''web'' (9 / 10, True))
       (Some (triage_context demo_env p (scored_window demo_env p ''web'' (9 / 10, True)))))"
  "tg_verdict (triageWithHeuristics (\<lambda>_. ''0.90'') ''t1'' (scored_window demo_env p ''web'' (9 / 10, True))
       (Some (triage_context demo_env p (scored_window demo_env p ''web'' (9 / 10, True))))) = Some ''THREAT''"
proof -
  show "ie_triage demo_env (scored_window demo_env p ''web'' (9 / 10, True)) (triage_context demo_env p (scored_window demo_env p ''web'' (9 / 10, True))) =
     Inr (triageWithHeuristics (\<lambda>_. ''0.90'') ''t1'' (scored_window demo_env p ''web'' (9 / 10, True))
       (Some (triage_context demo_env p (scored_window demo_env p ''web'' (9 / 10, True)))))"
    by (simp add: demo_env_def)
  have "cc_deployedAt (triage_context demo_env p w) = None" for w by (simp add: triage_context_def demo_env_def)
  then show "tg_verdict (triageWithHeuristics (\<lambda>_. ''0.90'') ''t1'' (scored_window demo_env p ''web'' (9 / 10, True))
       (Some (triage_context demo_env p (scored_window demo_env p ''web'' (9 / 10, True))))) = Some ''THREAT''"
    by (simp add: heuristic_verdict scored_window_def Let_def)
qed

lemma demo_sent: "\<exists>s'. ingestWindow demo_env reverse_shell (Server_new 0) = (Inr ''anomalous'', s') \<and> sv_sent s' \<noteq> []"
proof -
  let ?w = "scored_window demo_env reverse_shell ''web'' (9 / 10, True)"
  let ?t = "triageWithHeuristics (\<lambda>_. ''0.90'') ''t1'' ?w (Some (triage_context demo_env reverse_shell ?w))"
  obtain s1 where reg: "ensureContainerRegistered demo_env (sw_containerId reverse_shell) (sw_agentId reverse_shell) (Server_new 0) = (Inr ''web'', s1)"
    using ensure_some [of demo_env "''web''"] by (auto simp: reverse_shell_def)
  obtain vec where vec: "fe_extract (ie_jlog demo_env) reverse_shell = Inr vec"
    using extract_total [of reverse_shell] by (auto simp: reverse_shell_def)
  have score: "ie_score demo_env ''web'' vec = Inr (9 / 10, True)" by (simp add: demo_env_def)
  have "\<exists>x. tg_explanation ?t = Some x" by (simp add: triageWithHeuristics_def Let_def case_prod_unfold)
  then obtain ev where ev: "triage_event demo_env ''web'' ?t = Inr ev" using demo_threat(2) by (auto simp: triage_event_def)
  have "equalsIgnoreCase ''THREAT'' (Some ''THREAT'')" by (simp add: equalsIgnoreCase_def)
  then obtain q where q: "generatePolicy (ie_readTree demo_env) (ie_policyId demo_env) (ie_generatedAt demo_env) (Some ''web'') ?t = Some q"
    using demo_threat(2) [of reverse_shell] by (simp add: generatePolicy_def Let_def)
  from ingest_answered [OF reg vec score refl demo_threat(1) ev refl] q show ?thesis by (simp add: enforcePolicy_sent)
qed

theorem window_ingested_witness:
  "\<exists>s'. ingestWindow demo_env reverse_shell (Server_new 0) = (Inr ''anomalous'', s') \<and> length (sv_policies s') = 1 \<and> length (sv_sent s') = 1"
proof -
  let ?w = "scored_window demo_env reverse_shell ''web'' (9 / 10, True)"
  let ?t = "triageWithHeuristics (\<lambda>_. ''0.90'') ''t1'' ?w (Some (triage_context demo_env reverse_shell ?w))"
  have p: "sw_containerId reverse_shell = Some ''web''" by (simp add: reverse_shell_def)
  obtain vec where vec: "fe_extract (ie_jlog demo_env) reverse_shell = Inr vec"
    using extract_total [of reverse_shell] by (auto simp: reverse_shell_def)
  have score: "ie_score demo_env ''web'' vec = Inr (9 / 10, True)" by (simp add: demo_env_def)
  have "\<exists>x. tg_explanation ?t = Some x" by (simp add: triageWithHeuristics_def Let_def case_prod_unfold)
  then obtain x where x: "tg_explanation ?t = Some x" by blast
  have verdict: "equalsIgnoreCase ''THREAT'' (Some ''THREAT'')" by (simp add: equalsIgnoreCase_def)
  have self: "demo_env\<lparr>ie_rest := ie_rest demo_env\<rparr> = demo_env" by simp
  obtain s' where run: "\<forall>rest. ingestWindow (demo_env\<lparr>ie_rest := rest\<rparr>) reverse_shell (Server_new 0) = (Inr ''anomalous'', s')"
    and "\<exists>q. sv_policies s' = sv_policies (Server_new 0) @ [q]" "\<exists>r. sv_sent s' = sv_sent (Server_new 0) @ [r]"
    using window_ingested [OF p vec score demo_threat(1) demo_threat(2) x, of "Server_new 0"] verdict by auto
  then show ?thesis using self by (metis (no_types) Server_new_def Server.select_convs(4,6) append_Nil length_Cons list.size(3) One_nat_def)
qed

text \<open>A window whose processing fails has no consequences for the container: no policy is recorded, nothing
  is sent to the agent and training is left alone; a window without a container id changes nothing at all.\<close>

theorem failed_window_harmless:
  assumes "ingestWindow e p s = (Inl ex, s')"
  shows "sv_policies s' = sv_policies s \<and> sv_sent s' = sv_sent s \<and> sv_training s' = sv_training s \<and>
    (sw_containerId p = None \<longrightarrow> s' = s)"
proof -
  have "sv_training s' = sv_training s"
    using apart.keeps_ingest [of s "sv_training s" "sv_deployments s"] assms by blast
  moreover have "sw_containerId p = None \<longrightarrow> s' = s"
    using assms by (auto simp: ingestWindow_def ensureContainerRegistered_def)
  moreover have "sv_policies s' = sv_policies s \<and> sv_sent s' = sv_sent s"
  proof -
    obtain r s1 where reg: "ensureContainerRegistered e (sw_containerId p) (sw_agentId p) s = (r, s1)" by fastforce
    show ?thesis
      using assms reg ensure_registered(1) [OF reg]
      by (cases r) (auto simp: ingestWindow_def andThen_enforce andThen_def [of "(_, _)"] Let_def repo_defs split: sum.splits option.splits)
  qed
  ultimately show ?thesis by blast
qed

theorem failed_window_harmless_witness:
  "sv_policies (snd (ingestWindow (demo_env\<lparr>ie_score := (\<lambda>_ _. Inl PortException)\<rparr>) reverse_shell (Server_new 0))) = []"
proof -
  let ?e = "demo_env\<lparr>ie_score := (\<lambda>_ _. Inl PortException)\<rparr>"
  obtain vec where vec: "fe_extract (ie_jlog ?e) reverse_shell = Inr vec"
    using extract_total [of reverse_shell] by (auto simp: reverse_shell_def)
  obtain s1 where "ensureContainerRegistered ?e (Some ''web'') (sw_agentId reverse_shell) (Server_new 0) = (Inr ''web'', s1)"
    using ensure_some by blast
  moreover have "sw_containerId reverse_shell = Some ''web''" by (simp add: reverse_shell_def)
  ultimately have "ingestWindow ?e reverse_shell (Server_new 0) = (Inl PortException, s1)"
    using vec by (simp add: ingestWindow_def)
  from failed_window_harmless [OF this] this show ?thesis by (simp add: Server_new_def)
qed

end
