(* ===== verification/Http_Client.thy ===== *)
theory Http_Client
  imports DK_Prelude
begin

text \<open>
  \<^verbatim>\<open>agent/src/http_client.cpp\<close>. libcurl is not part of the program: what its calls do is an
  oracle \<open>curl\<close> that says, for each \<^verbatim>\<open>postJson\<close> call in turn, whether \<^verbatim>\<open>curl_easy_init\<close>
  failed and otherwise whether \<^verbatim>\<open>curl_easy_perform\<close> returned \<^verbatim>\<open>CURLE_OK\<close>. The observable
  effects (transfers made, delays slept) are collected in a \<open>net\<close> record.
\<close>

datatype curl_outcome = CurlInitFailed | CurlPerformed bool

type_synonym curl_oracle = "nat \<Rightarrow> curl_outcome"

record transfer =
  tr_url :: string
  tr_body :: string
  tr_timeout :: int

record net =
  calls :: nat                \<comment> \<open>\<^verbatim>\<open>postJson\<close> calls made so far\<close>
  sent :: "transfer list"     \<comment> \<open>transfers performed, oldest first\<close>
  slept :: "i32 list"         \<comment> \<open>back-off delays in milliseconds, oldest first\<close>

definition net0 :: net where "net0 = \<lparr>calls = 0, sent = [], slept = []\<rparr>"

definition call_ok :: "curl_oracle \<Rightarrow> nat \<Rightarrow> bool" where
  "call_ok curl i = (curl i = CurlPerformed True)"

definition postJson :: "curl_oracle \<Rightarrow> string \<Rightarrow> string \<Rightarrow> int \<Rightarrow> net \<Rightarrow> bool \<times> net" where
  "postJson curl url body timeoutSeconds n =
     (case curl (calls n) of
        CurlInitFailed \<Rightarrow> (False, n\<lparr>calls := Suc (calls n)\<rparr>)
      | CurlPerformed ok \<Rightarrow>
          (ok, n\<lparr>calls := Suc (calls n),
                 sent := sent n @ [\<lparr>tr_url = url, tr_body = body, tr_timeout = timeoutSeconds\<rparr>]\<rparr>))"

text \<open>The loop of \<^verbatim>\<open>postJsonWithRetry\<close> from iteration \<open>attempt\<close> on.\<close>

function retry_loop ::
  "curl_oracle \<Rightarrow> string \<Rightarrow> string \<Rightarrow> int \<Rightarrow> int \<Rightarrow> int \<Rightarrow> net \<Rightarrow> bool \<times> net" where
  "retry_loop curl url body maxRetries timeoutSeconds attempt n =
     (if attempt < maxRetries then
        (case postJson curl url body timeoutSeconds n of
           (True, n) \<Rightarrow> (True, n)
         | (False, n) \<Rightarrow>
             retry_loop curl url body maxRetries timeoutSeconds (attempt + 1)
               (if attempt < maxRetries - 1
                then n\<lparr>slept := slept n @ [100 * push_bit (nat attempt) 1]\<rparr> else n))
      else (False, n))"
  by pat_completeness auto
termination
  by (relation "measure (\<lambda>(_, _, _, maxRetries, _, attempt, _). nat (maxRetries - attempt))") auto

declare retry_loop.simps [simp del]

definition postJsonWithRetry ::
  "curl_oracle \<Rightarrow> string \<Rightarrow> string \<Rightarrow> int \<Rightarrow> int \<Rightarrow> net \<Rightarrow> bool \<times> net" where
  "postJsonWithRetry curl url body maxRetries timeoutSeconds n =
     retry_loop curl url body maxRetries timeoutSeconds 0 n"

subsection \<open>What the retry loop does\<close>

lemma postJson_result: "fst (postJson curl url body t n) = call_ok curl (calls n)"
  by (simp add: postJson_def call_ok_def split: curl_outcome.splits)

lemma postJson_calls: "calls (snd (postJson curl url body t n)) = Suc (calls n)"
  by (simp add: postJson_def split: curl_outcome.splits)

lemma postJson_slept: "slept (snd (postJson curl url body t n)) = slept n"
  by (simp add: postJson_def split: curl_outcome.splits)

lemma postJson_sent:
  "sent (snd (postJson curl url body t n)) =
     sent n @ (if curl (calls n) = CurlInitFailed then [] else [\<lparr>tr_url = url, tr_body = body, tr_timeout = t\<rparr>])"
  by (simp add: postJson_def split: curl_outcome.splits)

text \<open>
  The specification: with \<open>k\<close> attempts left, the first call that succeeds ends the loop; the
  loop sleeps between calls only.
\<close>

fun first_ok :: "curl_oracle \<Rightarrow> nat \<Rightarrow> nat \<Rightarrow> nat option" where
  "first_ok curl c 0 = None"
| "first_ok curl c (Suc k) = (if call_ok curl c then Some 0 else map_option Suc (first_ok curl (Suc c) k))"

definition attempts :: "curl_oracle \<Rightarrow> nat \<Rightarrow> nat \<Rightarrow> nat" where
  "attempts curl c k = (case first_ok curl c k of None \<Rightarrow> k | Some i \<Rightarrow> Suc i)"

lemma first_ok_Some_iff:
  "(\<exists>i. first_ok curl c k = Some i) \<longleftrightarrow> (\<exists>i < k. call_ok curl (c + i))"
proof (induction k arbitrary: c)
  case (Suc k)
  have "(\<exists>i < Suc k. call_ok curl (c + i)) \<longleftrightarrow> call_ok curl c \<or> (\<exists>i < k. call_ok curl (Suc c + i))"
    by (auto simp: less_Suc_eq_0_disj)
  with Suc show ?case by auto
qed simp

lemma attempts_le: "attempts curl c k \<le> k"
proof (induction k arbitrary: c)
  case (Suc k)
  have "attempts curl (Suc c) k \<le> k" by (rule Suc)
  then show ?case by (auto simp: attempts_def split: option.splits)
qed (simp add: attempts_def)

lemma attempts_Suc: "attempts curl c (Suc k) = (if call_ok curl c then 1 else Suc (attempts curl (Suc c) k))"
  by (auto simp: attempts_def split: option.splits)

lemma retry_loop_spec:
  assumes "k = nat (m - a)" "a \<ge> 0"
  shows "fst (retry_loop curl url body m t a n) = (\<exists>i < k. call_ok curl (calls n + i)) \<and>
    calls (snd (retry_loop curl url body m t a n)) = calls n + attempts curl (calls n) k \<and>
    slept (snd (retry_loop curl url body m t a n)) =
      slept n @ map (\<lambda>i. 100 * push_bit (nat a + i) 1) [0..<attempts curl (calls n) k - 1]"
  using assms
proof (induction k arbitrary: a n)
  case 0
  then show ?case by (simp add: retry_loop.simps attempts_def)
next
  case (Suc k)
  then have a: "a < m" by simp
  obtain ok n' where p: "postJson curl url body t n = (ok, n')" by (cases "postJson curl url body t n")
  have ok: "ok = call_ok curl (calls n)" and c: "calls n' = Suc (calls n)" and sl: "slept n' = slept n"
    using postJson_result [of curl url body t n] postJson_calls [of curl url body t n]
      postJson_slept [of curl url body t n] by (simp_all add: p)
  show ?case
  proof (cases ok)
    case True
    with a p ok c sl show ?thesis
      by (auto simp: retry_loop.simps [of _ _ _ m] attempts_Suc intro: exI [of _ 0])
  next
    case False
    define n2 where
      "n2 = (if a < m - 1 then n'\<lparr>slept := slept n' @ [100 * push_bit (nat a) 1]\<rparr> else n')"
    let ?j = "attempts curl (Suc (calls n)) k"
    have step: "retry_loop curl url body m t a n = retry_loop curl url body m t (a + 1) n2"
      using a p False by (simp add: retry_loop.simps [of _ _ _ m _ a] n2_def)
    have k: "k = nat (m - (a + 1))" using Suc.prems by linarith
    have c2: "calls n2 = Suc (calls n)" using c by (simp add: n2_def)
    have "0 \<le> a + 1" using Suc.prems by simp
    note IH = Suc.IH [OF k this, of n2, unfolded c2]
    have some: "(\<exists>i < Suc k. call_ok curl (calls n + i)) \<longleftrightarrow> (\<exists>i < k. call_ok curl (Suc (calls n) + i))"
      using False ok by (auto simp: less_Suc_eq_0_disj)
    have sleeps: "slept n2 @ map (\<lambda>i. 100 * push_bit (nat (a + 1) + i) 1) [0..<?j - 1] =
        slept n @ map (\<lambda>i. 100 * push_bit (nat a + i) (1 :: i32)) [0..<?j]"
    proof (cases "?j")
      case 0
      then have "k = 0" by (cases k) (auto simp: attempts_Suc split: if_splits)
      then have "\<not> a < m - 1" using k by linarith
      with 0 sl show ?thesis by (simp add: n2_def)
    next
      case (Suc j)
      then have "k \<noteq> 0" using attempts_le [of curl "Suc (calls n)" k] by auto
      then have "a < m - 1" using k by linarith
      moreover have "[0..<Suc j] = 0 # map Suc [0..<j]"
        by (simp add: upt_conv_Cons map_Suc_upt del: upt_Suc)
      moreover have "nat (a + 1) = Suc (nat a)" using Suc.prems by linarith
      ultimately show ?thesis using Suc sl by (simp add: n2_def del: upt_Suc)
    qed
    have "attempts curl (calls n) (Suc k) = Suc ?j"
      using False ok by (simp add: attempts_Suc)
    with IH some sleeps show ?thesis unfolding step by simp
  qed
qed

text \<open>Whatever happens, only copies of the one request are transferred; on a network that works
  there is exactly one.\<close>

lemma retry_loop_sent:
  "\<exists>j \<le> nat (m - a). sent (snd (retry_loop curl url body m t a n)) =
     sent n @ replicate j \<lparr>tr_url = url, tr_body = body, tr_timeout = t\<rparr>"
proof (induction curl url body m t a n rule: retry_loop.induct)
  case (1 curl url body m t a n)
  let ?x = "\<lparr>tr_url = url, tr_body = body, tr_timeout = t\<rparr>"
  obtain ok n' where p: "postJson curl url body t n = (ok, n')" by (cases "postJson curl url body t n")
  obtain j where j: "j \<le> 1" "sent n' = sent n @ replicate j ?x"
    using postJson_sent [of curl url body t n] p that [of 0] that [of 1]
    by (cases "curl (calls n) = CurlInitFailed") auto
  show ?case
  proof (cases "a < m \<and> \<not> ok")
    case True
    let ?n = "if a < m - 1 then n'\<lparr>slept := slept n' @ [100 * push_bit (nat a) 1]\<rparr> else n'"
    from True 1 p obtain i where i: "i \<le> nat (m - (a + 1))"
      "sent (snd (retry_loop curl url body m t (a + 1) ?n)) = sent ?n @ replicate i ?x"
      by fastforce
    moreover have "sent ?n = sent n'" by simp
    ultimately have "sent (snd (retry_loop curl url body m t (a + 1) ?n)) = sent n @ replicate (j + i) ?x"
      using j by (simp add: replicate_add)
    moreover have "retry_loop curl url body m t a n = retry_loop curl url body m t (a + 1) ?n"
      using True p by (simp add: retry_loop.simps [of _ _ _ m _ a])
    moreover have "j + i \<le> nat (m - a)" using i(1) j(1) True by linarith
    ultimately show ?thesis by metis
  next
    case False
    show ?thesis
    proof (cases "a < m")
      case True
      with False p have "retry_loop curl url body m t a n = (True, n')" by (simp add: retry_loop.simps [of _ _ _ m _ a])
      moreover have "j \<le> nat (m - a)" using j(1) True by linarith
      ultimately show ?thesis using j(2) by auto
    qed (auto simp: retry_loop.simps [of _ _ _ m _ a] intro: exI [of _ 0])
  qed
qed

lemma post_copies:
  obtains j where "j \<le> nat m" "sent (snd (postJsonWithRetry curl url body m t n)) =
    sent n @ replicate j \<lparr>tr_url = url, tr_body = body, tr_timeout = t\<rparr>"
  using retry_loop_sent [of m 0 curl url body t n] by (auto simp: postJsonWithRetry_def)

lemma post_sent_once:
  assumes "\<And>i. curl i = CurlPerformed True" "0 < m"
  shows "postJsonWithRetry curl url body m t n =
    (True, n\<lparr>calls := Suc (calls n), sent := sent n @ [\<lparr>tr_url = url, tr_body = body, tr_timeout = t\<rparr>]\<rparr>)"
  using assms by (simp add: postJsonWithRetry_def retry_loop.simps postJson_def)

lemma post_failed:
  assumes "\<And>i. curl i = CurlPerformed False"
  shows "postJsonWithRetry curl url body 3 t n = (False, n\<lparr>calls := calls n + 3,
    sent := sent n @ replicate 3 \<lparr>tr_url = url, tr_body = body, tr_timeout = t\<rparr>, slept := slept n @ [100, 200]\<rparr>)"
  using assms by (simp add: postJsonWithRetry_def retry_loop.simps postJson_def numeral_3_eq_3)

text \<open>
  C32: \<^verbatim>\<open>postJsonWithRetry\<close> succeeds exactly when one of its first \<^verbatim>\<open>maxRetries\<close> attempts
  does, stops at the first success, never makes more than \<^verbatim>\<open>maxRetries\<close> attempts, and between
  attempt \<open>i\<close> and the next it sleeps \<open>100 \<cdot> 2\<^sup>i\<close> milliseconds, with no delay after the last.
\<close>

theorem postJsonWithRetry_correct:
  fixes k :: nat
  shows "(fst (postJsonWithRetry curl url body (int k) t n) \<longleftrightarrow> (\<exists>i < k. call_ok curl (calls n + i))) \<and>
    calls (snd (postJsonWithRetry curl url body (int k) t n)) = calls n + attempts curl (calls n) k \<and>
    attempts curl (calls n) k \<le> k \<and>
    slept (snd (postJsonWithRetry curl url body (int k) t n)) =
      slept n @ map (\<lambda>i. 100 * push_bit i 1) [0..<attempts curl (calls n) k - 1]"
  using retry_loop_spec [of k "int k" 0 curl url body t n] attempts_le [of curl "calls n" k]
  by (simp_all add: postJsonWithRetry_def)

end
