(* ===== verification/Policy_Enforcer.thy ===== *)
theory Policy_Enforcer
  imports Name_Resolver Serialization
begin

text \<open>
  \<^verbatim>\<open>agent/src/policy_enforcer.cpp\<close>: turns a policy received over HTTP into a seccomp profile on
  disk and a Docker CLI update, and keeps the table of applied policies. The file system and the
  commands handed to the shell are the state \<open>pe_world\<close>; which files can be created, what the
  Docker socket answers, the exit codes of commands and the clock are the environment \<open>pe_env\<close>.
  A file that could be opened takes what is written to it.
\<close>

subsection \<open>State and environment\<close>

record AppliedPolicy =
  ap_containerId :: string
  ap_policyType :: string
  ap_profilePath :: string
  appliedAtNs :: u64

record PolicyEnforcer =
  pe_dockerSocketPath :: string
  policyDir :: string
  enforcementMode :: string
  appliedPolicies :: "(string \<times> AppliedPolicy) list"  \<comment> \<open>in iteration order\<close>

record pe_world =
  files :: "string \<rightharpoonup> string"
  commands :: "string list"  \<comment> \<open>arguments of \<^verbatim>\<open>std::system\<close>, in order\<close>

record pe_env =
  can_create :: "string \<Rightarrow> bool"
  docker_reply :: "string \<Rightarrow> string \<Rightarrow> unix_reply"  \<comment> \<open>socket, URL\<close>
  system_rc :: "string \<Rightarrow> int"
  pe_now :: u64

text \<open>The constructor; \<open>None\<close> when creating the policy directory throws.\<close>

definition PolicyEnforcer_new :: "bool \<Rightarrow> string \<Rightarrow> string \<Rightarrow> string \<Rightarrow> PolicyEnforcer option" where
  "PolicyEnforcer_new mkdir_ok socket dir mode =
     (if \<not> mkdir_ok then None
      else Some \<lparr>pe_dockerSocketPath = socket, policyDir = dir,
        enforcementMode = (if mode \<noteq> ''ERRNO'' \<and> mode \<noteq> ''LOG'' then ''ERRNO'' else mode),
        appliedPolicies = []\<rparr>)"

subsection \<open>Operations\<close>

abbreviation nl :: string where "nl \<equiv> [CHR 0x0A]"

definition effectiveAction :: "PolicyEnforcer \<Rightarrow> string" where
  "effectiveAction pe = (if enforcementMode pe = ''LOG'' then ''SCMP_ACT_LOG'' else ''SCMP_ACT_ERRNO'')"

definition generateSeccompProfile :: "PolicyEnforcer \<Rightarrow> string \<Rightarrow> string" where
  "generateSeccompProfile pe specJson =
     ''{'' @ nl @
     ''  '' @ quoted ''defaultAction'' @ '': '' @ quoted ''SCMP_ACT_ALLOW'' @ '','' @ nl @
     ''  '' @ quoted ''architectures'' @ '': ['' @ quoted ''SCMP_ARCH_X86_64'' @ '', '' @
       quoted ''SCMP_ARCH_X86'' @ '', '' @ quoted ''SCMP_ARCH_X32'' @ ''],'' @ nl @
     ''  '' @ quoted ''comment'' @ '': '' @ dq @ ''DeepKernel generated policy - mode='' @
       enforcementMode pe @ '' (block connect)'' @ dq @ '','' @ nl @
     ''  '' @ quoted ''syscalls'' @ '': ['' @ nl @
     ''    {'' @ nl @
     ''      '' @ quoted ''names'' @ '': ['' @ quoted ''connect'' @ ''],'' @ nl @
     ''      '' @ quoted ''action'' @ '': '' @ dq @ effectiveAction pe @ dq @ '','' @ nl @
     ''      '' @ quoted ''comment'' @ '': '' @ quoted ''Deny/log connect(2) for demo containment'' @ nl @
     ''    }'' @ nl @
     nl @ ''  ]'' @ nl @
     ''}'' @ nl"

text \<open>\<^verbatim>\<open>std::filesystem::path::operator/\<close> on POSIX: an absolute right operand replaces the left one.\<close>

definition path_append :: "string \<Rightarrow> string \<Rightarrow> string" where
  "path_append p q =
     (if q \<noteq> [] \<and> hd q = CHR ''/'' then q
      else if p = [] \<or> last p = CHR ''/'' then p @ q
      else p @ ''/'' @ q)"

definition writeSeccompProfile ::
  "pe_env \<Rightarrow> PolicyEnforcer \<Rightarrow> string \<Rightarrow> string \<Rightarrow> pe_world \<Rightarrow> string \<times> pe_world" where
  "writeSeccompProfile e pe policyId profileJson w =
     (let path = path_append (policyDir pe) (policyId @ ''.json'') in
      if \<not> can_create e path then ('''', w)
      else (path, w\<lparr>files := (files w)(path \<mapsto> profileJson)\<rparr>))"

definition httpDockerGet :: "pe_env \<Rightarrow> PolicyEnforcer \<Rightarrow> string \<Rightarrow> string" where
  "httpDockerGet e pe path =
     (case docker_reply e (pe_dockerSocketPath pe) (''http://localhost'' @ path) of
        NoCurl \<Rightarrow> '''' | Reply ok response \<Rightarrow> if \<not> ok then '''' else response)"

text \<open>Not called by the program; the body is posted as JSON.\<close>

definition httpDockerPost ::
  "(string \<Rightarrow> string \<Rightarrow> string \<Rightarrow> unix_reply) \<Rightarrow> PolicyEnforcer \<Rightarrow> string \<Rightarrow> string \<Rightarrow> string" where
  "httpDockerPost post pe path body =
     (case post (pe_dockerSocketPath pe) (''http://localhost'' @ path) body of
        NoCurl \<Rightarrow> '''' | Reply ok response \<Rightarrow> if \<not> ok then '''' else response)"

definition pe_extractJsonString :: "string \<Rightarrow> string \<Rightarrow> string" where
  "pe_extractJsonString json key =
     (case regex_search (json_string_pattern key) json of Some (v # _) \<Rightarrow> v | _ \<Rightarrow> '''')"

definition getContainerIdFromName :: "pe_env \<Rightarrow> PolicyEnforcer \<Rightarrow> string \<Rightarrow> string" where
  "getContainerIdFromName e pe containerName =
     (let response = httpDockerGet e pe (''/containers/'' @ containerName @ ''/json'') in
      if response = [] then '''' else pe_extractJsonString response ''Id'')"

definition updateCmd :: "string \<Rightarrow> string \<Rightarrow> string" where
  "updateCmd containerName profilePath =
     ''docker update --security-opt seccomp='' @ dq @ profilePath @ dq @ '' '' @ dq @ containerName @ dq @
     '' > /dev/null 2>&1''"

definition restartCmd :: "string \<Rightarrow> string" where
  "restartCmd containerName = ''docker restart '' @ dq @ containerName @ dq @ '' > /dev/null 2>&1''"

definition updateContainerSeccomp ::
  "pe_env \<Rightarrow> string \<Rightarrow> string \<Rightarrow> pe_world \<Rightarrow> bool \<times> pe_world" where
  "updateContainerSeccomp e containerName profilePath w =
     (let w = w\<lparr>commands := commands w @ [updateCmd containerName profilePath]\<rparr> in
      if system_rc e (updateCmd containerName profilePath) \<noteq> 0 then (False, w)
      else
        let w = w\<lparr>commands := commands w @ [restartCmd containerName]\<rparr> in
        if system_rc e (restartCmd containerName) \<noteq> 0 then (False, w) else (True, w))"

definition pe_record ::
  "pe_env \<Rightarrow> PolicyEnforcer \<Rightarrow> string \<Rightarrow> string \<Rightarrow> string \<Rightarrow> string \<Rightarrow> PolicyEnforcer" where
  "pe_record e pe policyId cid policyType profilePath =
     pe\<lparr>appliedPolicies := um_set policyId
       \<lparr>ap_containerId = cid, ap_policyType = policyType, ap_profilePath = profilePath, appliedAtNs = pe_now e\<rparr>
       (appliedPolicies pe)\<rparr>"

definition pe_apply ::
  "pe_env \<Rightarrow> PolicyEnforcer \<Rightarrow> pe_world \<Rightarrow> string \<Rightarrow> string \<Rightarrow> string \<Rightarrow> string
     \<Rightarrow> bool \<times> PolicyEnforcer \<times> pe_world" where
  "pe_apply e pe w containerName policyId policyType specJson =
     (if policyType \<noteq> ''SECCOMP'' then (True, pe_record e pe policyId containerName policyType '''', w)
      else
        let profileJson = generateSeccompProfile pe specJson in
        if profileJson = [] then (False, pe, w)
        else
          let (profilePath, w) = writeSeccompProfile e pe policyId profileJson w in
          if profilePath = [] then (False, pe, w)
          else
            let cid = getContainerIdFromName e pe containerName in
            if cid = [] then (True, pe_record e pe policyId containerName policyType profilePath, w)
            else
              let (success, w) = updateContainerSeccomp e containerName profilePath w
              in (True, pe_record e pe policyId cid policyType profilePath, w))"

definition isPolicyApplied :: "PolicyEnforcer \<Rightarrow> string \<Rightarrow> bool" where
  "isPolicyApplied pe policyId \<longleftrightarrow> map_of (appliedPolicies pe) policyId \<noteq> None"

definition policy_json :: "string \<times> AppliedPolicy \<Rightarrow> string" where
  "policy_json p = (case p of (i, policy) \<Rightarrow>
     ''{'' @ quoted ''policy_id'' @ '':'' @ dq @ i @ dq @ '','' @
     quoted ''container_id'' @ '':'' @ dq @ ap_containerId policy @ dq @ '','' @
     quoted ''type'' @ '':'' @ dq @ ap_policyType policy @ dq @ '','' @
     quoted ''profile_path'' @ '':'' @ dq @ ap_profilePath policy @ dq @ ''}'')"

fun policies_json :: "bool \<Rightarrow> (string \<times> AppliedPolicy) list \<Rightarrow> string" where
  "policies_json is_first [] = ''''"
| "policies_json is_first (p # ps) = (if is_first then '''' else '','') @ policy_json p @ policies_json False ps"

definition getAppliedPoliciesJson :: "PolicyEnforcer \<Rightarrow> string" where
  "getAppliedPoliciesJson pe = ''['' @ policies_json True (appliedPolicies pe) @ '']''"

subsection \<open>Applying policies\<close>

lemma path_append_json [simp]: "path_append p (q @ ''.json'') \<noteq> []"
  by (simp add: path_append_def)

lemma profile_nonempty [simp]: "generateSeccompProfile pe spec \<noteq> []"
  by (simp add: generateSeccompProfile_def)

definition profile_path :: "PolicyEnforcer \<Rightarrow> string \<Rightarrow> string" where
  "profile_path pe policyId = path_append (policyDir pe) (policyId @ ''.json'')"

definition accepted :: "pe_env \<Rightarrow> PolicyEnforcer \<Rightarrow> string \<Rightarrow> string \<Rightarrow> bool" where
  "accepted e pe policyId policyType \<longleftrightarrow> policyType \<noteq> ''SECCOMP'' \<or> can_create e (profile_path pe policyId)"

text \<open>The shell commands an application runs: none for a container Docker does not know, and the
  restart only after a successful update.\<close>

definition apply_commands :: "pe_env \<Rightarrow> PolicyEnforcer \<Rightarrow> string \<Rightarrow> string \<Rightarrow> string \<Rightarrow> string list" where
  "apply_commands e pe containerName policyId policyType =
     (if policyType \<noteq> ''SECCOMP'' \<or> \<not> can_create e (profile_path pe policyId) \<or>
         getContainerIdFromName e pe containerName = [] then []
      else updateCmd containerName (profile_path pe policyId) #
        (if system_rc e (updateCmd containerName (profile_path pe policyId)) = 0
         then [restartCmd containerName] else []))"

lemma pe_apply_cases:
  "pe_apply e pe w c q ty spec =
     (if \<not> accepted e pe q ty then (False, pe, w)
      else (True,
        pe_record e pe q
          (if ty = ''SECCOMP'' \<and> getContainerIdFromName e pe c \<noteq> [] then getContainerIdFromName e pe c else c) ty
          (if ty = ''SECCOMP'' then profile_path pe q else ''''),
        w\<lparr>files := (if ty = ''SECCOMP'' then (files w)(profile_path pe q \<mapsto> generateSeccompProfile pe spec) else files w),
          commands := commands w @ apply_commands e pe c q ty\<rparr>))"
  by (auto simp: pe_apply_def accepted_def writeSeccompProfile_def updateContainerSeccomp_def Let_def
      apply_commands_def profile_path_def split: prod.splits)

lemma pe_record_simps [simp]:
  "policyDir (pe_record e pe q c ty p) = policyDir pe"
  "enforcementMode (pe_record e pe q c ty p) = enforcementMode pe"
  "appliedPolicies (pe_record e pe q c ty p) = um_set q
     \<lparr>ap_containerId = c, ap_policyType = ty, ap_profilePath = p, appliedAtNs = pe_now e\<rparr> (appliedPolicies pe)"
  by (simp_all add: pe_record_def)


text \<open>A sequence of requests, each met by its own environment.\<close>

type_synonym policy_request = "pe_env \<times> string \<times> string \<times> string \<times> string"

fun enforce :: "policy_request list \<Rightarrow> PolicyEnforcer \<times> pe_world \<Rightarrow> PolicyEnforcer \<times> pe_world" where
  "enforce [] s = s"
| "enforce ((e, c, q, ty, spec) # rs) (pe, w) = enforce rs (snd (pe_apply e pe w c q ty spec))"

lemma pe_apply_config:
  "policyDir (fst (snd (pe_apply e pe w c q ty spec))) = policyDir pe"
  "enforcementMode (fst (snd (pe_apply e pe w c q ty spec))) = enforcementMode pe"
  by (simp_all add: pe_apply_cases)

lemma enforce_config:
  "policyDir (fst (enforce rs s)) = policyDir (fst s) \<and> enforcementMode (fst (enforce rs s)) = enforcementMode (fst s)"
proof (induction rs s rule: enforce.induct)
  case (2 e c q ty spec rs pe w)
  then show ?case by (simp add: pe_apply_config)
qed simp

lemma enforce_distinct:
  "distinct (map fst (appliedPolicies (fst s))) \<Longrightarrow> distinct (map fst (appliedPolicies (fst (enforce rs s))))"
proof (induction rs s rule: enforce.induct)
  case (2 e c q ty spec rs pe w)
  have "distinct (map fst (appliedPolicies (fst (snd (pe_apply e pe w c q ty spec)))))"
    using 2(2) by (simp add: pe_apply_cases distinct_um_set)
  with 2(1) show ?case by simp
qed simp

text \<open>After any sequence of policy requests, a policy id counts as applied exactly if it was
  before or some request for it was accepted: the table refines the set of accepted ids, nothing
  is ever forgotten and no id appears in it twice.\<close>

theorem applied_policies_refine:
  assumes "distinct (map fst (appliedPolicies pe))"
  shows "(isPolicyApplied (fst (enforce rs (pe, w))) q \<longleftrightarrow>
      isPolicyApplied pe q \<or> (\<exists>(e, c, q', ty, spec) \<in> set rs. q' = q \<and> accepted e pe q ty)) \<and>
    distinct (map fst (appliedPolicies (fst (enforce rs (pe, w)))))"
proof
  show "distinct (map fst (appliedPolicies (fst (enforce rs (pe, w)))))"
    using enforce_distinct [of "(pe, w)"] assms by simp
  show "isPolicyApplied (fst (enforce rs (pe, w))) q \<longleftrightarrow>
      isPolicyApplied pe q \<or> (\<exists>(e, c, q', ty, spec) \<in> set rs. q' = q \<and> accepted e pe q ty)"
  proof (induction rs arbitrary: pe w)
    case (Cons r rs)
    obtain e c q' ty spec where r: "r = (e, c, q', ty, spec)" by (cases r)
    obtain ok pe' w' where ap: "pe_apply e pe w c q' ty spec = (ok, pe', w')" by (metis prod_cases3)
    then have "policyDir pe' = policyDir pe"
      using pe_apply_config(1) [of e pe w c q' ty spec] by simp
    then have "accepted e' pe' = accepted e' pe" for e'
      by (simp add: accepted_def profile_path_def fun_eq_iff)
    moreover have "isPolicyApplied pe' q \<longleftrightarrow> isPolicyApplied pe q \<or> q' = q \<and> accepted e pe q ty"
      using ap by (auto simp: pe_apply_cases isPolicyApplied_def split: if_splits)
    ultimately show ?case using Cons [of pe' w'] r ap by auto
  qed simp
qed

definition open_host :: pe_env where
  "open_host = \<lparr>can_create = (\<lambda>p. True), docker_reply = (\<lambda>_ _. NoCurl), system_rc = (\<lambda>_. 0), pe_now = 7\<rparr>"

theorem applied_policies_refine_witness:
  "isPolicyApplied (fst (enforce [(open_host, ''web'', ''p1'', ''SECCOMP'', '''')]
     (the (PolicyEnforcer_new True ''/run/d.sock'' ''/policies'' ''LOG''), \<lparr>files = Map.empty, commands = []\<rparr>))) ''p1''"
  by (subst applied_policies_refine [THEN conjunct1])
    (simp_all add: PolicyEnforcer_new_def accepted_def open_host_def)

subsection \<open>Profiles\<close>

lemma profile_field_spaced:
  assumes "plain_key key" "CHR 0x22 \<notin> set v" "v \<noteq> []"
  shows "regex_search (json_string_pattern key)
      (CHR 0x22 # key @ CHR 0x22 # CHR '':'' # CHR '' '' # CHR 0x22 # v @ CHR 0x22 # rest) = Some [v]"
  using assms by (intro search_hit rmatch_json_string_spaced)

lemma profile_fields:
  assumes "enforcementMode pe \<in> {''ERRNO'', ''LOG''}"
  shows "pe_extractJsonString (generateSeccompProfile pe spec) ''defaultAction'' = ''SCMP_ACT_ALLOW''"
    "pe_extractJsonString (generateSeccompProfile pe spec) ''action'' =
      (if enforcementMode pe = ''LOG'' then ''SCMP_ACT_LOG'' else ''SCMP_ACT_ERRNO'')"
proof -
  have plain: "plain_key ''defaultAction''" "plain_key ''action''" by (simp_all add: plain_key_def)
  note hits = profile_field_spaced [OF plain(1), of "''SCMP_ACT_ALLOW''", simplified]
    profile_field_spaced [OF plain(2), of "''SCMP_ACT_LOG''", simplified]
    profile_field_spaced [OF plain(2), of "''SCMP_ACT_ERRNO''", simplified]
  show "pe_extractJsonString (generateSeccompProfile pe spec) ''defaultAction'' = ''SCMP_ACT_ALLOW''"
    by (simp add: pe_extractJsonString_def generateSeccompProfile_def quoted_def hits json_string_no_quote)
  show "pe_extractJsonString (generateSeccompProfile pe spec) ''action'' =
      (if enforcementMode pe = ''LOG'' then ''SCMP_ACT_LOG'' else ''SCMP_ACT_ERRNO'')"
    using assms
    by (auto simp: pe_extractJsonString_def generateSeccompProfile_def quoted_def effectiveAction_def hits
        json_string_other_key [OF plain(2)] json_string_no_quote)
qed

text \<open>For every enforcer that was constructed, whatever mode string it was given and whichever
  policies it has applied since, the profile it generates allows by default and denies
  \<^verbatim>\<open>connect\<close> with an error, except in mode \<^verbatim>\<open>LOG\<close>, where it logs instead; the policy
  specification has no influence on it.\<close>

theorem profile_actions:
  assumes "PolicyEnforcer_new mkdir_ok socket dir mode = Some pe0" "pe = fst (enforce rs (pe0, w))"
  shows "pe_extractJsonString (generateSeccompProfile pe spec) ''defaultAction'' = ''SCMP_ACT_ALLOW'' \<and>
    pe_extractJsonString (generateSeccompProfile pe spec) ''action'' =
      (if mode = ''LOG'' then ''SCMP_ACT_LOG'' else ''SCMP_ACT_ERRNO'')"
proof -
  have m: "enforcementMode pe = (if mode = ''LOG'' then ''LOG'' else ''ERRNO'')"
    using assms enforce_config [of rs "(pe0, w)"] by (auto simp: PolicyEnforcer_new_def split: if_splits)
  then have "enforcementMode pe \<in> {''ERRNO'', ''LOG''}" by simp
  from profile_fields [OF this] m show ?thesis by simp
qed

theorem profile_actions_witness:
  "pe_extractJsonString (generateSeccompProfile (the (PolicyEnforcer_new True ''/run/d.sock'' ''/policies'' ''audit'')) '''')
     ''action'' = ''SCMP_ACT_ERRNO''"
  using profile_actions [of True "''/run/d.sock''" "''/policies''" "''audit''"
      "the (PolicyEnforcer_new True ''/run/d.sock'' ''/policies'' ''audit'')" _ "[]"]
  by (simp add: PolicyEnforcer_new_def)

text \<open>A policy whose id holds no slash is written to a direct child of the policy directory: the
  file is the directory, one separator and the id with \<^verbatim>\<open>.json\<close>. Nothing in the code establishes the
  hypothesis for ids received over HTTP; see \<open>policy_id_escapes\<close>.\<close>

lemma profile_path_confined:
  assumes "CHR ''/'' \<notin> set policyId" "policyDir pe \<noteq> []" "last (policyDir pe) \<noteq> CHR ''/''"
  shows "fst (writeSeccompProfile e pe policyId profile w) \<in>
    {[], policyDir pe @ ''/'' @ policyId @ ''.json''}"
  using assms by (cases policyId) (auto simp: writeSeccompProfile_def path_append_def Let_def)

lemma policy_id_escapes:
  "can_create e ''/etc/cron.json'' \<Longrightarrow>
   files (snd (snd (pe_apply e pe w c ''/etc/cron'' ''SECCOMP'' spec))) ''/etc/cron.json'' =
     Some (generateSeccompProfile pe spec)"
  by (simp add: pe_apply_cases accepted_def profile_path_def path_append_def)

subsection \<open>Reading the policy table back\<close>

definition parse_policy :: "string \<Rightarrow> ((string \<times> string \<times> string \<times> string) \<times> string) option" where
  "parse_policy s =
     Option.bind (expect (''{'' @ quoted ''policy_id'' @ '':'') s) (\<lambda>s.
     Option.bind (parse_str s) (\<lambda>(i, s).
     Option.bind (expect ('','' @ quoted ''container_id'' @ '':'') s) (\<lambda>s.
     Option.bind (parse_str s) (\<lambda>(c, s).
     Option.bind (expect ('','' @ quoted ''type'' @ '':'') s) (\<lambda>s.
     Option.bind (parse_str s) (\<lambda>(t, s).
     Option.bind (expect ('','' @ quoted ''profile_path'' @ '':'') s) (\<lambda>s.
     Option.bind (parse_str s) (\<lambda>(p, s).
     Option.bind (expect ''}'' s) (\<lambda>s. Some ((i, c, t, p), s))))))))))"

fun parse_policies :: "nat \<Rightarrow> string \<Rightarrow> (string \<times> string \<times> string \<times> string) list option" where
  "parse_policies 0 s = None"
| "parse_policies (Suc fuel) s =
     (if s = '']'' then Some []
      else Option.bind (parse_policy (case expect '','' s of Some r \<Rightarrow> r | None \<Rightarrow> s)) (\<lambda>(x, s).
           Option.bind (parse_policies fuel s) (\<lambda>xs. Some (x # xs))))"

definition quote_free :: "string \<times> AppliedPolicy \<Rightarrow> bool" where
  "quote_free p \<longleftrightarrow> CHR 0x22 \<notin> set (fst p) \<union> set (ap_containerId (snd p)) \<union> set (ap_policyType (snd p)) \<union>
     set (ap_profilePath (snd p))"

definition policy_row :: "string \<times> AppliedPolicy \<Rightarrow> string \<times> string \<times> string \<times> string" where
  "policy_row p = (fst p, ap_containerId (snd p), ap_policyType (snd p), ap_profilePath (snd p))"

lemma parse_policy_json: "quote_free p \<Longrightarrow> parse_policy (policy_json p @ s) = Some (policy_row p, s)"
  by (cases p) (simp add: parse_policy_def policy_json_def policy_row_def quote_free_def quoted_def
      expect_def parse_str_quoted)

lemma policy_json_brace: "\<exists>r. policy_json p = CHR ''{'' # r"
  by (cases p) (simp add: policy_json_def)

lemma parse_policies_json:
  "\<forall>p \<in> set ps. quote_free p \<Longrightarrow> length ps < fuel \<Longrightarrow>
   parse_policies fuel (policies_json is_first ps @ '']'') = Some (map policy_row ps)"
proof (induction ps arbitrary: fuel is_first)
  case Nil
  then show ?case by (cases fuel) auto
next
  case (Cons p ps)
  then obtain n where n: "fuel = Suc n" "length ps < n" by (cases fuel) auto
  let ?s = "policies_json is_first (p # ps) @ '']''"
  obtain r where r: "policy_json p = CHR ''{'' # r" using policy_json_brace by blast
  have "?s \<noteq> '']''" using r by simp
  moreover have "(case expect '','' ?s of Some r \<Rightarrow> r | None \<Rightarrow> ?s) = policy_json p @ policies_json False ps @ '']''"
    using r by (cases is_first) (simp_all add: expect_def)
  ultimately show ?case
    using n Cons.IH [of n False] Cons.prems by (simp add: parse_policy_json del: policies_json.simps)
qed

lemma policies_json_length: "length ps \<le> length (policies_json is_first ps)"
proof (induction ps arbitrary: is_first)
  case (Cons p ps)
  have "Suc 0 \<le> length (policy_json p)" using policy_json_brace [of p] by auto
  then show ?case using Cons [of False] unfolding policies_json.simps length_append list.size by linarith
qed simp

text \<open>The status text of the policy table can be read back to the id, container, type and profile
  path of every applied policy, in the table's order, provided none of them holds a double quote.\<close>

theorem policies_json_roundtrip:
  assumes "\<forall>p \<in> set (appliedPolicies pe). quote_free p"
  shows "Option.bind (expect ''['' (getAppliedPoliciesJson pe)) (\<lambda>s. parse_policies (length s) s) =
    Some (map policy_row (appliedPolicies pe))"
proof -
  have "length (appliedPolicies pe) < length (policies_json True (appliedPolicies pe) @ '']'')"
    using policies_json_length [of "appliedPolicies pe" True] by simp
  from parse_policies_json [OF assms this, of True] show ?thesis
    by (simp add: getAppliedPoliciesJson_def expect_def)
qed

theorem policies_json_roundtrip_witness:
  "Option.bind (expect ''['' (getAppliedPoliciesJson (pe_record open_host
      (the (PolicyEnforcer_new True ''/run/d.sock'' ''/policies'' ''LOG'')) ''p1'' ''web'' ''NETWORK'' '''')))
     (\<lambda>s. parse_policies (length s) s) = Some [(''p1'', ''web'', ''NETWORK'', '''')]"
  by (subst policies_json_roundtrip) (simp_all add: PolicyEnforcer_new_def quote_free_def policy_row_def)

end
