(* ===== verification/Dump_Names.thy ===== *)
theory Dump_Names
  imports Policy_Enforcer Agent_Config
begin

text \<open>
  The names of dump files: \<^verbatim>\<open>sanitizeContainerId\<close>, \<^verbatim>\<open>nowTimestampForFile\<close> and the path built
  from them in \<^verbatim>\<open>requestLongDump\<close> (\<^verbatim>\<open>agent/src/agent.cpp\<close>). The broken-down local time is a
  parameter; its formatting by \<^verbatim>\<open>strftime\<close> is not.
\<close>

definition sanitizeContainerId :: "string \<Rightarrow> string" where
  "sanitizeContainerId s = map (\<lambda>ch. if ch = CHR ''/'' \<or> ch = CHR 0x5C then CHR ''_'' else ch) s"

text \<open>What \<^verbatim>\<open>std::localtime\<close> returns, as far as the format reads it.\<close>

record tm =
  tm_year :: nat  \<comment> \<open>since 1900\<close>
  tm_mon :: nat   \<comment> \<open>from 0\<close>
  tm_mday :: nat
  tm_hour :: nat
  tm_min :: nat
  tm_sec :: nat

definition two_digits :: "nat \<Rightarrow> string" where
  "two_digits n = [digit_char (n div 10), digit_char (n mod 10)]"

text \<open>\<^verbatim>\<open>strftime\<close> with the format \<^verbatim>\<open>%Y%m%d-%H%M%S\<close>.\<close>

definition timestampForFile :: "tm \<Rightarrow> string" where
  "timestampForFile t =
     show_nat (tm_year t + 1900) @ two_digits (tm_mon t + 1) @ two_digits (tm_mday t) @ ''-'' @
     two_digits (tm_hour t) @ two_digits (tm_min t) @ two_digits (tm_sec t)"

definition dump_path :: "AgentConfig \<Rightarrow> string \<Rightarrow> string \<Rightarrow> string" where
  "dump_path c cid stamp = path_append (dumpDir c) (sanitizeContainerId cid @ ''-'' @ stamp @ ''.dkdump'')"

subsection \<open>Time stamps\<close>

definition valid_tm :: "tm \<Rightarrow> bool" where
  "valid_tm t \<longleftrightarrow> tm_year t + 1900 \<in> {1000..9999} \<and> tm_mon t \<le> 11 \<and> tm_mday t \<in> {1..31} \<and>
     tm_hour t \<le> 23 \<and> tm_min t \<le> 59 \<and> tm_sec t \<le> 60"

lemma length_two_digits [simp]: "length (two_digits n) = 2"
  by (simp add: two_digits_def)

lemma two_digits_inj: "m < 100 \<Longrightarrow> n < 100 \<Longrightarrow> two_digits m = two_digits n \<longleftrightarrow> m = n"
proof -
  assume "m < 100" "n < 100"
  then have "m div 10 < 10" "n div 10 < 10" by auto
  moreover have "digit_char d = digit_char d' \<Longrightarrow> d < 10 \<Longrightarrow> d' < 10 \<Longrightarrow> d = d'" for d d'
    by (metis digit_val_digit_char)
  ultimately have "two_digits m = two_digits n \<Longrightarrow> m div 10 = n div 10 \<and> m mod 10 = n mod 10"
    by (simp add: two_digits_def)
  then show ?thesis by (metis div_mult_mod_eq)
qed

lemma length_show_nat: "length (show_nat n) = (if n < 10 then 1 else Suc (length (show_nat (n div 10))))"
  by (subst show_nat.simps) simp

lemma length_show_year:
  assumes "n \<in> {1000..9999}"
  shows "length (show_nat n) = 4"
proof -
  have "\<not> n < 10" "\<not> n div 10 < 10" "\<not> n div 10 div 10 < 10" "n div 10 div 10 div 10 < 10" using assms by auto
  then show ?thesis by (simp add: length_show_nat [of n] length_show_nat [of "n div 10"]
      length_show_nat [of "n div 10 div 10"] length_show_nat [of "n div 10 div 10 div 10"] del: div_mult2_eq)
qed

lemma length_timestamp: "valid_tm t \<Longrightarrow> length (timestampForFile t) = 15"
  using length_show_year [of "tm_year t + 1900"] by (simp add: timestampForFile_def valid_tm_def)

lemma timestamp_inj:
  assumes "valid_tm t" "valid_tm t'"
  shows "timestampForFile t = timestampForFile t' \<longleftrightarrow> t = t'"
proof
  assume eq: "timestampForFile t = timestampForFile t'"
  have "length (show_nat (tm_year t + 1900)) = length (show_nat (tm_year t' + 1900))"
    using assms length_show_year by (simp add: valid_tm_def)
  with eq have "show_nat (tm_year t + 1900) = show_nat (tm_year t' + 1900)"
    "two_digits (tm_mon t + 1) = two_digits (tm_mon t' + 1)" "two_digits (tm_mday t) = two_digits (tm_mday t')"
    "two_digits (tm_hour t) = two_digits (tm_hour t')" "two_digits (tm_min t) = two_digits (tm_min t')"
    "two_digits (tm_sec t) = two_digits (tm_sec t')"
    by (simp_all add: timestampForFile_def)
  then show "t = t'"
    using assms show_nat_inj [of "tm_year t + 1900" "tm_year t' + 1900"]
    by (intro tm.equality) (simp_all add: two_digits_inj valid_tm_def)
qed simp

lemma digits_no_slash: "n < 100 \<Longrightarrow> CHR ''/'' \<notin> set (two_digits n)" "CHR ''/'' \<notin> set (show_nat k)"
proof -
  have slash: "\<not> is_digit (CHR ''/'')" by (simp add: is_digit_def)
  show "CHR ''/'' \<notin> set (show_nat k)" using show_nat_digits slash by blast
  assume "n < 100"
  then have "is_digit (digit_char (n div 10))" "is_digit (digit_char (n mod 10))" by simp_all
  then have "CHR ''/'' \<noteq> digit_char (n div 10)" "CHR ''/'' \<noteq> digit_char (n mod 10)" using slash by metis+
  then show "CHR ''/'' \<notin> set (two_digits n)" by (simp add: two_digits_def)
qed

lemma timestamp_no_slash: "valid_tm t \<Longrightarrow> CHR ''/'' \<notin> set (timestampForFile t)"
  by (simp add: timestampForFile_def valid_tm_def digits_no_slash)

lemma sanitized_no_slash: "CHR ''/'' \<notin> set (sanitizeContainerId s)"
  by (auto simp: sanitizeContainerId_def)

subsection \<open>Properties\<close>



end
