(* ===== verification/Agent_Buffers.thy ===== *)
theory Agent_Buffers
  imports Serialization Http_Client Container_Mapper Dump_Names
begin

text \<open>
  The per-container state of the agent (\<^verbatim>\<open>agent/include/buffer_manager.h\<close>) and the operations of
  \<^verbatim>\<open>agent/src/agent.cpp\<close> on one buffer: appending to a long dump, posting a short window, opening
  a dump and reporting its end. A dump file is written through a \<^verbatim>\<open>std::ofstream\<close>, whose open
  file, position and failure bit are part of the state, because \<^verbatim>\<open>open\<close> on an open stream fails
  without closing it. The disk maps paths to contents; buffered bytes count as written.
\<close>

subsection \<open>Output file streams\<close>

type_synonym disk = "string \<rightharpoonup> bytes"

record Ofstream =
  os_file :: "string option"  \<comment> \<open>the open file\<close>
  os_pos :: nat
  os_fail :: bool

definition Ofstream_new :: Ofstream where
  "Ofstream_new = \<lparr>os_file = None, os_pos = 0, os_fail = False\<rparr>"

definition is_open :: "Ofstream \<Rightarrow> bool" where
  "is_open os \<longleftrightarrow> os_file os \<noteq> None"

definition os_open :: "bool \<Rightarrow> string \<Rightarrow> Ofstream \<Rightarrow> disk \<Rightarrow> Ofstream \<times> disk" where
  "os_open can path os d =
     (if is_open os \<or> \<not> can then (os\<lparr>os_fail := True\<rparr>, d)
      else (\<lparr>os_file = Some path, os_pos = 0, os_fail = False\<rparr>, d(path \<mapsto> [])))"

definition os_close :: "Ofstream \<Rightarrow> Ofstream" where
  "os_close os = os\<lparr>os_file := None\<rparr>"

text \<open>Bytes written at a position of a file, which is zero-filled up to there if it is shorter.\<close>

definition write_at :: "nat \<Rightarrow> bytes \<Rightarrow> bytes \<Rightarrow> bytes" where
  "write_at pos bs f = take pos (f @ replicate (pos - length f) 0) @ bs @ drop (pos + length bs) f"

definition os_write :: "bytes \<Rightarrow> Ofstream \<Rightarrow> disk \<Rightarrow> Ofstream \<times> disk" where
  "os_write bs os d =
     (case os_file os of
        None \<Rightarrow> (os\<lparr>os_fail := True\<rparr>, d)
      | Some path \<Rightarrow>
          if os_fail os then (os, d)
          else (os\<lparr>os_pos := os_pos os + length bs\<rparr>,
                d(path \<mapsto> write_at (os_pos os) bs (case d path of None \<Rightarrow> [] | Some f \<Rightarrow> f))))"

subsection \<open>Buffers\<close>

record ContainerBuffer =
  b_containerId :: string
  windowStartTsNs :: u64
  lastEventTsNs :: u64
  currentShortWindow :: "SyscallEvent list"
  isLongDumpActive :: bool
  longDumpStartTsNs :: u64
  longDumpEndTsNs :: u64
  lastDumpTsNs :: u64
  longDumpStream :: Ofstream
  longDumpFilePath :: string
  longDumpRecordCount :: u64
  longDumpDurationSec :: i32

definition ContainerBuffer_new :: ContainerBuffer where
  "ContainerBuffer_new = \<lparr>b_containerId = '''', windowStartTsNs = 0, lastEventTsNs = 0,
     currentShortWindow = [], isLongDumpActive = False, longDumpStartTsNs = 0, longDumpEndTsNs = 0,
     lastDumpTsNs = 0, longDumpStream = Ofstream_new, longDumpFilePath = '''', longDumpRecordCount = 0,
     longDumpDurationSec = 0\<rparr>"

definition secs_ns :: "i32 \<Rightarrow> u64" where  \<comment> \<open>\<^verbatim>\<open>static_cast<uint64_t>(sec) * 1'000'000'000ULL\<close>\<close>
  "secs_ns secs = scast secs * 1000000000"

definition notifyDumpComplete ::
  "curl_oracle \<Rightarrow> AgentConfig \<Rightarrow> ContainerBuffer \<Rightarrow> net \<Rightarrow> ContainerBuffer \<times> net" where
  "notifyDumpComplete curl c b n =
     (let url = serverUrl c @ ''/api/v1/agent/long-dump-complete'';
          payload = buildDumpCompleteJson (agentId c) (b_containerId b) (longDumpFilePath b)
            (longDumpStartTsNs b) (longDumpDurationSec b) (longDumpRecordCount b);
          (ok, n) = postJsonWithRetry curl url payload 3 5 n
      in (b\<lparr>longDumpFilePath := '''', longDumpRecordCount := 0, longDumpDurationSec := 0\<rparr>, n))"

definition appendLongDump ::
  "curl_oracle \<Rightarrow> AgentConfig \<Rightarrow> ContainerBuffer \<Rightarrow> SyscallEvent \<Rightarrow> net \<times> disk
     \<Rightarrow> ContainerBuffer \<times> net \<times> disk" where
  "appendLongDump curl c b evt nd = (case nd of (n, d) \<Rightarrow>
     (if \<not> isLongDumpActive b \<or> \<not> is_open (longDumpStream b) then (b, n, d)
      else if tsNs evt \<ge> longDumpEndTsNs b then
        (let b = b\<lparr>longDumpStream := os_close (longDumpStream b), isLongDumpActive := False\<rparr>;
             (b, n) = notifyDumpComplete curl c b n
         in (b, n, d))
      else
        (let prev = (if lastDumpTsNs b = 0 then longDumpStartTsNs b else lastDumpTsNs b);
             rec = makeTraceRecord evt prev;
             (os, d) = os_write (TraceRecord_enc rec) (longDumpStream b) d
         in (b\<lparr>longDumpStream := os, lastDumpTsNs := tsNs evt,
               longDumpRecordCount := longDumpRecordCount b + 1\<rparr>, n, d))))"

definition processShortWindow ::
  "curl_oracle \<Rightarrow> AgentConfig \<Rightarrow> ContainerBuffer \<Rightarrow> net \<Rightarrow> ContainerBuffer \<times> net" where
  "processShortWindow curl c b n =
     (if currentShortWindow b = [] then (b, n)
      else
        let url = serverUrl c @ ''/api/v1/agent/windows'';
            payload = buildWindowJson (agentId c) (b_containerId b) (windowStartTsNs b) (currentShortWindow b);
            (ok, n) = postJsonWithRetry curl url payload 3 5 n
        in (b\<lparr>currentShortWindow := [], windowStartTsNs := 0\<rparr>, n))"

text \<open>\<^verbatim>\<open>snprintf(header.container_id, 64, "%s", id)\<close> into a zeroed field: at most 63 bytes, then
  NULs.\<close>

definition container_field :: "string \<Rightarrow> bytes" where
  "container_field s = (let t = take 63 (c_str s) in map of_char t @ replicate (64 - length t) 0)"

definition dump_header :: "AgentConfig \<Rightarrow> string \<Rightarrow> u64 \<Rightarrow> TraceHeader" where
  "dump_header c cid start =
     \<lparr>version = 1, syscall_vocab_size = syscallVocabSize c, container_id = container_field cid, start_ts_ns = start\<rparr>"

text \<open>The part of \<^verbatim>\<open>requestLongDump\<close> after the directories were created. \<open>stamp\<close> is
  \<^verbatim>\<open>nowTimestampForFile()\<close>, \<open>now\<close> is \<^verbatim>\<open>monotonicNowNs()\<close>, \<open>can\<close> says which files can be opened.\<close>

definition open_dump ::
  "(string \<Rightarrow> bool) \<Rightarrow> string \<Rightarrow> u64 \<Rightarrow> AgentConfig \<Rightarrow> ContainerBuffer \<Rightarrow> i32 \<Rightarrow> disk \<Rightarrow> ContainerBuffer \<times> disk" where
  "open_dump can stamp now c b durationSec d =
     (let path = dump_path c (b_containerId b) stamp;
          (os, d) = os_open (can path) path (longDumpStream b) d
      in if \<not> is_open os then (b\<lparr>longDumpStream := os\<rparr>, d)
         else
           let start = (if lastEventTsNs b \<noteq> 0 then lastEventTsNs b else now);
               (os, d) = os_write (TraceHeader_enc (dump_header c (b_containerId b) start)) os d
           in (b\<lparr>longDumpStream := os, longDumpStartTsNs := start,
                 longDumpEndTsNs := start + secs_ns durationSec, lastDumpTsNs := 0,
                 isLongDumpActive := True, longDumpFilePath := path, longDumpRecordCount := 0,
                 longDumpDurationSec := durationSec\<rparr>, d))"

text \<open>The same in the two halves that another thread can come between: the stream is opened and the
  buffer marked as dumping, and only then is the header written.\<close>

definition dump_begin ::
  "(string \<Rightarrow> bool) \<Rightarrow> string \<Rightarrow> u64 \<Rightarrow> AgentConfig \<Rightarrow> ContainerBuffer \<Rightarrow> i32 \<Rightarrow> disk \<Rightarrow> bool \<times> ContainerBuffer \<times> disk" where
  "dump_begin can stamp now c b durationSec d =
     (let path = dump_path c (b_containerId b) stamp;
          (os, d) = os_open (can path) path (longDumpStream b) d
      in if \<not> is_open os then (False, b\<lparr>longDumpStream := os\<rparr>, d)
         else
           let start = (if lastEventTsNs b \<noteq> 0 then lastEventTsNs b else now)
           in (True, b\<lparr>longDumpStream := os, longDumpStartTsNs := start,
                 longDumpEndTsNs := start + secs_ns durationSec, lastDumpTsNs := 0,
                 isLongDumpActive := True, longDumpFilePath := path, longDumpRecordCount := 0,
                 longDumpDurationSec := durationSec\<rparr>, d))"

definition dump_write_header :: "AgentConfig \<Rightarrow> string \<Rightarrow> ContainerBuffer \<Rightarrow> disk \<Rightarrow> ContainerBuffer \<times> disk" where
  "dump_write_header c cid b d =
     (let (os, d) = os_write (TraceHeader_enc (dump_header c cid (longDumpStartTsNs b))) (longDumpStream b) d
      in (b\<lparr>longDumpStream := os\<rparr>, d))"

lemma open_dump_halves:
  "open_dump can stamp now c b dur d =
     (case dump_begin can stamp now c b dur d of (ok, b1, d1) \<Rightarrow>
        if ok then dump_write_header c (b_containerId b) b1 d1 else (b1, d1))"
  by (simp add: open_dump_def dump_begin_def dump_write_header_def Let_def case_prod_unfold)

subsection \<open>The contents of a dump file\<close>

lemma write_at_end [simp]: "write_at (length f) bs f = f @ bs"
  by (simp add: write_at_def)

text \<open>The records of a dump that started at \<open>start\<close>, the last one so far at \<open>last_ts\<close> (0 if none).\<close>

fun dump_records :: "u64 \<Rightarrow> u64 \<Rightarrow> SyscallEvent list \<Rightarrow> TraceRecord list" where
  "dump_records start last_ts [] = []"
| "dump_records start last_ts (ev # evs) =
     makeTraceRecord ev (if last_ts = 0 then start else last_ts) # dump_records start (tsNs ev) evs"

definition last_ts :: "SyscallEvent list \<Rightarrow> u64" where
  "last_ts evs = (if evs = [] then 0 else tsNs (last evs))"

lemma dump_records_snoc:
  "dump_records start t (evs @ [ev]) = dump_records start t evs @
     [makeTraceRecord ev (let l = (if evs = [] then t else tsNs (last evs)) in if l = 0 then start else l)]"
  by (induction evs arbitrary: t) auto

definition dump_file :: "AgentConfig \<Rightarrow> string \<Rightarrow> u64 \<Rightarrow> SyscallEvent list \<Rightarrow> bytes" where
  "dump_file c cid start evs =
     TraceHeader_enc (dump_header c cid start) @ concat (map TraceRecord_enc (dump_records start 0 evs))"

text \<open>A buffer that is dumping, and what its file holds after the events \<open>evs\<close> of the dump.\<close>

definition dumping :: "AgentConfig \<Rightarrow> disk \<Rightarrow> string \<Rightarrow> SyscallEvent list \<Rightarrow> ContainerBuffer \<Rightarrow> bool" where
  "dumping c d path evs b \<longleftrightarrow>
     isLongDumpActive b \<and> longDumpFilePath b = path \<and>
     longDumpStream b = \<lparr>os_file = Some path, os_pos = length (dump_file c (b_containerId b) (longDumpStartTsNs b) evs),
       os_fail = False\<rparr> \<and>
     d path = Some (dump_file c (b_containerId b) (longDumpStartTsNs b) evs) \<and>
     longDumpRecordCount b = of_nat (length evs) \<and> lastDumpTsNs b = last_ts evs"

lemma open_dump_dumping:
  assumes "can (dump_path c (b_containerId b) stamp)" "\<not> is_open (longDumpStream b)"
    and "open_dump can stamp now c b dur d = (b', d')"
  shows "dumping c d' (dump_path c (b_containerId b) stamp) [] b' \<and> b_containerId b' = b_containerId b \<and>
    longDumpStartTsNs b' = (if lastEventTsNs b \<noteq> 0 then lastEventTsNs b else now) \<and>
    longDumpEndTsNs b' = longDumpStartTsNs b' + secs_ns dur"
proof -
  have "write_at 0 bs [] = bs" for bs by (simp add: write_at_def)
  with assms show ?thesis
    by (auto simp: open_dump_def os_open_def os_write_def is_open_def dumping_def dump_file_def last_ts_def Let_def)
qed

text \<open>The same for a file that began with the bytes \<open>pre\<close>, whatever they are.\<close>

definition appending :: "disk \<Rightarrow> string \<Rightarrow> bytes \<Rightarrow> SyscallEvent list \<Rightarrow> ContainerBuffer \<Rightarrow> bool" where
  "appending d path pre evs b \<longleftrightarrow>
     (let f = pre @ concat (map TraceRecord_enc (dump_records (longDumpStartTsNs b) 0 evs)) in
      isLongDumpActive b \<and> longDumpFilePath b = path \<and>
      longDumpStream b = \<lparr>os_file = Some path, os_pos = length f, os_fail = False\<rparr> \<and> d path = Some f \<and>
      longDumpRecordCount b = of_nat (length evs) \<and> lastDumpTsNs b = last_ts evs)"

lemma dumping_appending:
  "dumping c d path evs b \<longleftrightarrow>
     appending d path (TraceHeader_enc (dump_header c (b_containerId b) (longDumpStartTsNs b))) evs b"
  by (simp add: dumping_def appending_def dump_file_def Let_def)

lemma append_appending:
  assumes "appending d path pre evs b" "tsNs ev < longDumpEndTsNs b"
    and "appendLongDump curl c b ev (n, d) = (b', n', d')"
  shows "appending d' path pre (evs @ [ev]) b' \<and> n' = n \<and> (\<forall>p. p \<noteq> path \<longrightarrow> d' p = d p) \<and>
    b_containerId b' = b_containerId b \<and> longDumpStartTsNs b' = longDumpStartTsNs b \<and>
    longDumpEndTsNs b' = longDumpEndTsNs b"
proof -
  let ?prev = "if lastDumpTsNs b = 0 then longDumpStartTsNs b else lastDumpTsNs b"
  define f where "f evs = pre @ concat (map TraceRecord_enc (dump_records (longDumpStartTsNs b) 0 evs))" for evs
  have "f (evs @ [ev]) = f evs @ TraceRecord_enc (makeTraceRecord ev ?prev)"
    using assms(1) by (simp add: f_def dump_records_snoc appending_def last_ts_def Let_def)
  moreover have "\<not> longDumpEndTsNs b \<le> tsNs ev" using assms(2) by simp
  moreover obtain "isLongDumpActive b" "os_file (longDumpStream b) = Some path" "\<not> os_fail (longDumpStream b)"
    "os_pos (longDumpStream b) = length (f evs)" "d path = Some (f evs)"
    using assms(1) by (simp add: appending_def Let_def f_def)
  ultimately have "appendLongDump curl c b ev (n, d) =
      (b\<lparr>longDumpStream := (longDumpStream b)\<lparr>os_pos := length (f (evs @ [ev]))\<rparr>, lastDumpTsNs := tsNs ev,
         longDumpRecordCount := longDumpRecordCount b + 1\<rparr>, n, d(path \<mapsto> f (evs @ [ev])))"
    by (simp add: appendLongDump_def os_write_def is_open_def Let_def)
  with assms(1,3) show ?thesis
    by (auto simp: appending_def last_ts_def f_def Let_def)
qed

lemma append_dumping:
  assumes "dumping c d path evs b" "tsNs ev < longDumpEndTsNs b"
    and "appendLongDump curl c b ev (n, d) = (b', n', d')"
  shows "dumping c d' path (evs @ [ev]) b' \<and> n' = n \<and> (\<forall>p. p \<noteq> path \<longrightarrow> d' p = d p) \<and>
    b_containerId b' = b_containerId b \<and> longDumpStartTsNs b' = longDumpStartTsNs b \<and>
    longDumpEndTsNs b' = longDumpEndTsNs b"
  using append_appending [OF assms(1) [unfolded dumping_appending] assms(2,3)] by (simp add: dumping_appending)

fun append_all ::
  "curl_oracle \<Rightarrow> AgentConfig \<Rightarrow> ContainerBuffer \<Rightarrow> SyscallEvent list \<Rightarrow> net \<times> disk \<Rightarrow> ContainerBuffer \<times> net \<times> disk" where
  "append_all curl c b [] nd = (b, nd)"
| "append_all curl c b (ev # evs) nd =
     (case appendLongDump curl c b ev nd of (b', nd') \<Rightarrow> append_all curl c b' evs nd')"

lemma append_all_appending:
  "appending d path pre evs b \<Longrightarrow> \<forall>ev \<in> set evs2. tsNs ev < longDumpEndTsNs b \<Longrightarrow>
   append_all curl c b evs2 (n, d) = (b', n', d') \<Longrightarrow>
   appending d' path pre (evs @ evs2) b' \<and> n' = n \<and> b_containerId b' = b_containerId b \<and>
     longDumpStartTsNs b' = longDumpStartTsNs b"
proof (induction evs2 arbitrary: b d n evs)
  case (Cons ev evs2)
  obtain b1 n1 d1 where ap: "appendLongDump curl c b ev (n, d) = (b1, n1, d1)" by (metis prod_cases3)
  have "tsNs ev < longDumpEndTsNs b" using Cons.prems(2) by simp
  note one = append_appending [OF Cons.prems(1) this ap]
  then have "appending d1 path pre (evs @ [ev]) b1" "\<forall>ev \<in> set evs2. tsNs ev < longDumpEndTsNs b1"
    using Cons.prems(2) by simp_all
  moreover have "append_all curl c b1 evs2 (n1, d1) = (b', n', d')" using Cons.prems(3) ap by simp
  ultimately show ?case using Cons.IH [of d1 "evs @ [ev]" b1 n1] one by simp
qed simp

lemma append_all_dumping:
  "dumping c d path evs b \<Longrightarrow> \<forall>ev \<in> set evs2. tsNs ev < longDumpEndTsNs b \<Longrightarrow>
   append_all curl c b evs2 (n, d) = (b', n', d') \<Longrightarrow>
   dumping c d' path (evs @ evs2) b' \<and> n' = n \<and> b_containerId b' = b_containerId b \<and>
     longDumpStartTsNs b' = longDumpStartTsNs b"
  using append_all_appending [of d path "TraceHeader_enc (dump_header c (b_containerId b) (longDumpStartTsNs b))" evs b evs2 curl c n b' n' d']
  by (simp add: dumping_appending)

text \<open>What a reader of dump files does: an 80-byte header, then 8-byte records to the end.\<close>

definition read_dump :: "bytes \<Rightarrow> (TraceHeader \<times> TraceRecord list) option" where
  "read_dump f = (if length f < 80 then None
     else Some (TraceHeader_dec (take 80 f), trace_record.dec_stream (drop 80 f)))"

lemma length_container_field: "length (container_field s) = 64"
proof -
  have "length (take 63 (c_str s)) \<le> 64" by simp
  then show ?thesis unfolding container_field_def Let_def length_append length_map length_replicate by linarith
qed

lemma read_dump_file: "read_dump (dump_file c cid start evs) = Some (dump_header c cid start, dump_records start 0 evs)"
proof -
  have len: "length (container_id (dump_header c cid start)) = 64"
    by (simp add: dump_header_def length_container_field)
  have "length (TraceHeader_enc (dump_header c cid start)) = 80"
    using len by (rule TraceHeader_enc_length)
  moreover have "trace_record.dec_stream (concat (map TraceRecord_enc (dump_records start 0 evs))) = dump_records start 0 evs"
    using trace_record.dec_stream_enc [of "[]"] by simp
  ultimately show ?thesis
    using TraceHeader_dec_enc [OF len, of "[]"] by (simp add: read_dump_def dump_file_def)
qed

subsection \<open>Properties\<close>

definition sample_event :: "nat \<Rightarrow> SyscallEvent" where
  "sample_event t = \<lparr>tsNs = of_nat t, pid = 1, tid = 1, cgroupId = 9, syscallId = 42, argClass = 2, argBucket = 0\<rparr>"

text \<open>A long dump can be read back. When a buffer whose stream is closed starts a dump and then
  meets events before the dump's end, the file holds a header with version 1, the configured
  vocabulary size, the container id cut to 63 bytes and the start time, followed by exactly one
  record per event, in order, each with the time since the previous one; the record counter
  is the number of events and nothing has been posted.\<close>

theorem dump_roundtrip:
  assumes "can (dump_path c (b_containerId b) stamp)" "\<not> is_open (longDumpStream b)"
    and "open_dump can stamp now c b dur d = (b1, d1)"
    and "\<forall>ev \<in> set evs. tsNs ev < longDumpEndTsNs b1"
    and "append_all curl c b1 evs (n, d1) = (b2, n2, d2)"
  shows "Option.bind (d2 (dump_path c (b_containerId b) stamp)) read_dump =
      Some (dump_header c (b_containerId b) (longDumpStartTsNs b1), dump_records (longDumpStartTsNs b1) 0 evs) \<and>
    longDumpRecordCount b2 = of_nat (length evs) \<and> n2 = n"
proof -
  note start = open_dump_dumping [OF assms(1-3)]
  have "dumping c d2 (dump_path c (b_containerId b) stamp) ([] @ evs) b2 \<and> n2 = n \<and>
     b_containerId b2 = b_containerId b1 \<and> longDumpStartTsNs b2 = longDumpStartTsNs b1"
    using start assms(4,5) by (intro append_all_dumping) auto
  with start show ?thesis by (auto simp: dumping_def read_dump_file)
qed

theorem dump_roundtrip_witness:
  "\<exists>b1 d1 b2 n2 d2.
     open_dump (\<lambda>_. True) ''20250101-000000'' 1000 default_config ContainerBuffer_new 60 Map.empty = (b1, d1) \<and>
     append_all (\<lambda>_. CurlInitFailed) default_config b1 [sample_event 5000] (net0, d1) = (b2, n2, d2) \<and>
     Option.bind (d2 (dump_path default_config '''' ''20250101-000000'')) read_dump =
       Some (dump_header default_config '''' 1000, dump_records 1000 0 [sample_event 5000])"
proof -
  let ?c = default_config and ?b = ContainerBuffer_new and ?curl = "\<lambda>_. CurlInitFailed"
  have closed: "\<not> is_open (longDumpStream ?b)" by (simp add: ContainerBuffer_new_def Ofstream_new_def is_open_def)
  obtain b1 d1 where op: "open_dump (\<lambda>_. True) ''20250101-000000'' 1000 ?c ?b 60 Map.empty = (b1, d1)" by fastforce
  obtain b2 n2 d2 where ap: "append_all ?curl ?c b1 [sample_event 5000] (net0, d1) = (b2, n2, d2)" by (metis prod_cases3)
  have start: "longDumpStartTsNs b1 = 1000" "longDumpEndTsNs b1 = 1000 + secs_ns 60"
    using open_dump_dumping [OF _ closed op] by (simp_all add: ContainerBuffer_new_def)
  then have "\<forall>ev \<in> set [sample_event 5000]. tsNs ev < longDumpEndTsNs b1"
    by (simp add: sample_event_def secs_ns_def)
  with dump_roundtrip [OF _ closed op this ap] op ap start show ?thesis
    by (simp add: ContainerBuffer_new_def)
qed

text \<open>The time delta stored in a dump record is the elapsed time in whole microseconds,
  kept modulo two to the 32: exact for gaps below about 71 minutes, wrapped beyond.\<close>

lemma trace_delta:
  assumes "prev \<le> tsNs ev"
  shows "unat (delta_ts_us (makeTraceRecord ev prev)) = ((unat (tsNs ev) - unat prev) div 1000) mod 2 ^ 32"
proof -
  have "unat (nsToUs (tsNs ev - prev)) = (unat (tsNs ev) - unat prev) div 1000"
    using assms by (simp add: nsToUs_def unat_div unat_sub)
  then show ?thesis by (simp add: makeTraceRecord_def unsigned_ucast_eq take_bit_eq_mod)
qed

text \<open>C38: Asking for a dump while one is running loses the new dump: the stream stays on the old file
  in a failed state, so neither the header nor any later record reaches the disk, while the
  record counter keeps counting and the reported path is that of a file that was never created.\<close>

theorem reopened_dump_lost:
  assumes "is_open (longDumpStream b)" "open_dump can stamp now c b dur d = (b1, d1)"
    and "\<forall>ev \<in> set evs. tsNs ev < longDumpEndTsNs b1"
    and "append_all curl c b1 evs (n, d1) = (b2, n2, d2)"
  shows "d1 = d \<and> d2 = d \<and> isLongDumpActive b2 \<and> longDumpRecordCount b2 = of_nat (length evs) \<and>
    longDumpFilePath b2 = dump_path c (b_containerId b) stamp"
proof -
  define lost where "lost k b' \<longleftrightarrow> isLongDumpActive b' \<and> longDumpRecordCount b' = of_nat k \<and>
    longDumpFilePath b' = dump_path c (b_containerId b) stamp \<and> longDumpEndTsNs b' = longDumpEndTsNs b1 \<and>
    is_open (longDumpStream b') \<and> os_fail (longDumpStream b')" for k and b' :: ContainerBuffer
  have start: "d1 = d" "lost 0 b1"
    using assms(1,2) by (auto simp: open_dump_def os_open_def os_write_def is_open_def lost_def Let_def)
  have "lost k b' \<Longrightarrow> \<forall>ev \<in> set evs. tsNs ev < longDumpEndTsNs b1 \<Longrightarrow> append_all curl c b' evs (n, d) = (b2, n2, d2) \<Longrightarrow>
      d2 = d \<and> lost (k + length evs) b2" for b' k n
  proof (induction evs arbitrary: b' k n)
    case (Cons ev evs)
    have "\<not> longDumpEndTsNs b1 \<le> tsNs ev" using Cons.prems(2) by (simp add: not_le)
    then have "appendLongDump curl c b' ev (n, d) =
        (b'\<lparr>lastDumpTsNs := tsNs ev, longDumpRecordCount := longDumpRecordCount b' + 1\<rparr>, n, d)"
      using Cons.prems(1)
      by (auto simp: appendLongDump_def os_write_def is_open_def lost_def Let_def split: option.splits)
    moreover have "lost (Suc k) (b'\<lparr>lastDumpTsNs := tsNs ev, longDumpRecordCount := longDumpRecordCount b' + 1\<rparr>)"
      using Cons.prems(1) by (simp add: lost_def)
    ultimately show ?case using Cons.IH [of "Suc k"] Cons.prems(2,3) by auto
  qed simp
  from this [of 0 b1 n] start assms(3,4) show ?thesis by (auto simp: lost_def)
qed

theorem reopened_dump_lost_witness:
  "\<exists>b1 d1 b2 n2 d2.
     open_dump (\<lambda>_. True) ''20250101-000001'' 1000 default_config
       (ContainerBuffer_new\<lparr>longDumpStream := \<lparr>os_file = Some ''/old'', os_pos = 0, os_fail = False\<rparr>\<rparr>) 60 Map.empty = (b1, d1) \<and>
     append_all (\<lambda>_. CurlInitFailed) default_config b1 [sample_event 5000] (net0, d1) = (b2, n2, d2) \<and>
     d2 = Map.empty \<and> longDumpRecordCount b2 = 1"
proof -
  let ?b = "ContainerBuffer_new\<lparr>longDumpStream := \<lparr>os_file = Some ''/old'', os_pos = 0, os_fail = False\<rparr>\<rparr>"
  obtain b1 d1 where op: "open_dump (\<lambda>_. True) ''20250101-000001'' 1000 default_config ?b 60 Map.empty = (b1, d1)" by fastforce
  obtain b2 n2 d2 where ap: "append_all (\<lambda>_. CurlInitFailed) default_config b1 [sample_event 5000] (net0, d1) = (b2, n2, d2)"
    by (metis prod_cases3)
  have "is_open (longDumpStream ?b)" by (simp add: is_open_def)
  moreover have "longDumpEndTsNs b1 = 1000 + secs_ns 60"
    using op by (auto simp: open_dump_def os_open_def os_write_def is_open_def ContainerBuffer_new_def Let_def)
  then have "\<forall>ev \<in> set [sample_event 5000]. tsNs ev < longDumpEndTsNs b1"
    by (simp add: sample_event_def secs_ns_def)
  ultimately show ?thesis using reopened_dump_lost [OF _ op _ ap] op ap by simp
qed

text \<open>C40: Opening a dump is not safe against the event thread. Between the two halves of opening a
  dump the buffer already counts as dumping; events handled there are written before the header.
  The file then holds their records followed by the header, and a reader takes the time delta of
  the first record for the format version.\<close>

theorem dump_open_race:
  assumes "can (dump_path c (b_containerId b) stamp)" "\<not> is_open (longDumpStream b)"
    and "dump_begin can stamp now c b dur d = (ok, b1, d1)"
    and "evs \<noteq> []" "\<forall>ev \<in> set evs. tsNs ev < longDumpEndTsNs b1"
    and "append_all curl c b1 evs (n, d1) = (b2, n2, d2)"
    and "dump_write_header c (b_containerId b) b2 d2 = (b3, d3)"
  shows "\<exists>f h rs. d3 (dump_path c (b_containerId b) stamp) = Some f \<and>
    f = concat (map TraceRecord_enc (dump_records (longDumpStartTsNs b1) 0 evs)) @
      TraceHeader_enc (dump_header c (b_containerId b) (longDumpStartTsNs b1)) \<and>
    read_dump f = Some (h, rs) \<and> version h = delta_ts_us (makeTraceRecord (hd evs) (longDumpStartTsNs b1))"
proof -
  let ?p = "dump_path c (b_containerId b) stamp"
  let ?recs = "concat (map TraceRecord_enc (dump_records (longDumpStartTsNs b1) 0 evs))"
  let ?h = "TraceHeader_enc (dump_header c (b_containerId b) (longDumpStartTsNs b1))"
  have "appending d1 ?p [] [] b1"
    using assms(1-3) by (auto simp: dump_begin_def os_open_def is_open_def appending_def last_ts_def Let_def)
  from append_all_appending [OF this assms(5,6)] have b2: "appending d2 ?p [] evs b2" "longDumpStartTsNs b2 = longDumpStartTsNs b1"
    by simp_all
  with assms(7) have f: "d3 ?p = Some (?recs @ ?h)"
    by (auto simp: dump_write_header_def os_write_def appending_def Let_def)
  have "length ?h = 80" by (rule TraceHeader_enc_length) (simp add: dump_header_def length_container_field)
  moreover obtain ev evs' where evs: "evs = ev # evs'" using assms(4) by (cases evs) auto
  moreover have "take 4 (take 80 (?recs @ ?h)) = le_bytes 4 (delta_ts_us (makeTraceRecord ev (longDumpStartTsNs b1)))"
    unfolding evs by (simp add: TraceRecord_enc_def)
  ultimately show ?thesis
    using f by (simp add: read_dump_def TraceHeader_dec_def wire_simps)
qed

theorem dump_open_race_witness:
  "\<exists>b1 d1 b2 n2 d2 b3 d3 f h rs.
     dump_begin (\<lambda>_. True) ''20250101-000000'' 1000 default_config ContainerBuffer_new 60 Map.empty = (True, b1, d1) \<and>
     append_all (\<lambda>_. CurlInitFailed) default_config b1 [sample_event 8000] (net0, d1) = (b2, n2, d2) \<and>
     dump_write_header default_config '''' b2 d2 = (b3, d3) \<and>
     d3 (dump_path default_config '''' ''20250101-000000'') = Some f \<and> read_dump f = Some (h, rs) \<and> version h = 7"
proof -
  let ?c = default_config and ?b = ContainerBuffer_new and ?curl = "\<lambda>_. CurlInitFailed"
  have closed: "\<not> is_open (longDumpStream ?b)" by (simp add: ContainerBuffer_new_def Ofstream_new_def is_open_def)
  obtain ok b1 d1 where op: "dump_begin (\<lambda>_. True) ''20250101-000000'' 1000 ?c ?b 60 Map.empty = (ok, b1, d1)"
    by (metis prod_cases3)
  have start: "ok" "longDumpStartTsNs b1 = 1000" "longDumpEndTsNs b1 = 1000 + secs_ns 60" "b_containerId ?b = ''''"
    using op by (auto simp: dump_begin_def os_open_def is_open_def ContainerBuffer_new_def Ofstream_new_def Let_def)
  obtain b2 n2 d2 where ap: "append_all ?curl ?c b1 [sample_event 8000] (net0, d1) = (b2, n2, d2)" by (metis prod_cases3)
  obtain b3 d3 where hd: "dump_write_header ?c (b_containerId ?b) b2 d2 = (b3, d3)" by fastforce
  have "\<forall>ev \<in> set [sample_event 8000]. tsNs ev < longDumpEndTsNs b1"
    using start by (simp add: sample_event_def secs_ns_def)
  from dump_open_race [OF _ closed op _ this ap hd] obtain f h rs where
    "d3 (dump_path ?c '''' ''20250101-000000'') = Some f" "read_dump f = Some (h, rs)"
    "version h = delta_ts_us (makeTraceRecord (sample_event 8000) 1000)"
    unfolding start(2,4) by auto
  moreover have "delta_ts_us (makeTraceRecord (sample_event 8000) 1000) = 7"
    by (simp add: makeTraceRecord_def sample_event_def nsToUs_def)
  ultimately show ?thesis using op ap hd start by auto
qed

end
