(* ===== verification/Docker_Mapper.thy ===== *)
theory Docker_Mapper
  imports Name_Resolver
begin

text \<open>
  \<^verbatim>\<open>agent/src/docker_mapper.cpp\<close>, the mapper used by default: the container hash is read off
  \<^verbatim>\<open>/proc/<pid>/cgroup\<close>, the name comes from the Docker API, and every answer, the empty one
  included, is cached per cgroup id. The process table and the Docker socket are the environment
  \<open>docker_env\<close>, which also carries the two clock readings a lookup makes.
\<close>

record CacheEntry =
  containerName :: string
  expiresAtNs :: u64

record DockerMapper =
  dm_dockerSocketPath :: string
  dm_cacheTTLSeconds :: i32
  cgroupToNameCache :: "u64 \<rightharpoonup> CacheEntry"

record docker_env =
  proc_cgroup :: "u32 \<Rightarrow> string option"  \<comment> \<open>contents of \<^verbatim>\<open>/proc/<pid>/cgroup\<close>, if it can be opened\<close>
  unix_get :: "string \<Rightarrow> string \<Rightarrow> unix_reply"  \<comment> \<open>socket, URL\<close>
  now_check :: u64
  now_store :: u64

definition DockerMapper_new :: "string \<Rightarrow> i32 \<Rightarrow> DockerMapper" where
  "DockerMapper_new path ttl =
     \<lparr>dm_dockerSocketPath = path, dm_cacheTTLSeconds = ttl, cgroupToNameCache = Map.empty\<rparr>"

definition dm_clearCache :: "DockerMapper \<Rightarrow> DockerMapper" where
  "dm_clearCache m = m\<lparr>cgroupToNameCache := Map.empty\<rparr>"

definition extractJsonStringField :: "string \<Rightarrow> string \<Rightarrow> string" where
  "extractJsonStringField json field =
     (case regex_search (json_string_pattern field) json of Some (v # _) \<Rightarrow> v | _ \<Rightarrow> '''')"

definition dm_kube_pattern :: pattern where  \<comment> \<open>\<^verbatim>\<open>kubepods.*?([a-f0-9]{64})\<close>\<close>
  "dm_kube_pattern = lits ''kubepods'' @
     [Rep False any_cls 0 None False, Rep True hex_cls 64 (Some 64) True]"

definition short_hash :: "string \<Rightarrow> string" where
  "short_hash h = (if length h > 12 then take 12 h else h)"

fun hash_of_lines :: "string list \<Rightarrow> string" where
  "hash_of_lines [] = ''''"
| "hash_of_lines (line # ls) =
     (case regex_search docker_pattern line of Some (h # _) \<Rightarrow> short_hash h
      | _ \<Rightarrow> (case regex_search containerd_pattern line of Some (h # _) \<Rightarrow> short_hash h
      | _ \<Rightarrow> (case regex_search dm_kube_pattern line of Some (h # _) \<Rightarrow> take 12 h
      | _ \<Rightarrow> (case regex_search podman_pattern line of Some (h # _) \<Rightarrow> short_hash h
      | _ \<Rightarrow> hash_of_lines ls))))"

definition extractContainerHashFromCgroup :: "docker_env \<Rightarrow> u32 \<Rightarrow> string" where
  "extractContainerHashFromCgroup e pid =
     (case proc_cgroup e pid of None \<Rightarrow> '''' | Some text \<Rightarrow> hash_of_lines (lines_of text))"

text \<open>The response is returned even when the transfer failed part of the way.\<close>

definition dm_httpGetUnixSocket :: "docker_env \<Rightarrow> string \<Rightarrow> string \<Rightarrow> string" where
  "dm_httpGetUnixSocket e socketPath path =
     (case unix_get e socketPath (''http://localhost'' @ path) of
        NoCurl \<Rightarrow> '''' | Reply ok response \<Rightarrow> response)"

definition queryDockerForName :: "docker_env \<Rightarrow> DockerMapper \<Rightarrow> string \<Rightarrow> string" where
  "queryDockerForName e m containerHash =
     (if containerHash = [] then ''''
      else
        let response = dm_httpGetUnixSocket e (dm_dockerSocketPath m)
              (''/containers/'' @ containerHash @ ''/json'')
        in if response = [] then containerHash
           else
             let name = extractJsonStringField response ''Name'';
                 name = (if name \<noteq> [] \<and> hd name = CHR ''/'' then tl name else name);
                 name = (if name = [] then
                           let serviceLabel = extractJsonStringField response ''com.docker.compose.service''
                           in if serviceLabel \<noteq> [] then serviceLabel else name
                         else name);
                 name = (if name = [] then
                           let project = extractJsonStringField response ''com.docker.compose.project'';
                               service = extractJsonStringField response ''com.docker.compose.service''
                           in if project \<noteq> [] \<and> service \<noteq> [] then project @ ''-'' @ service else name
                         else name)
             in if name = [] then containerHash else name)"

definition dm_store :: "docker_env \<Rightarrow> DockerMapper \<Rightarrow> u64 \<Rightarrow> string \<Rightarrow> DockerMapper" where
  "dm_store e m cgroupId name =
     m\<lparr>cgroupToNameCache := (cgroupToNameCache m)(cgroupId \<mapsto>
         \<lparr>containerName = name, expiresAtNs = now_store e + ttl_ns (dm_cacheTTLSeconds m)\<rparr>)\<rparr>"

definition dm_resolve :: "docker_env \<Rightarrow> DockerMapper \<Rightarrow> u64 \<Rightarrow> u32 \<Rightarrow> string \<times> DockerMapper" where
  "dm_resolve e m cgroupId pid =
     (let containerHash = extractContainerHashFromCgroup e pid in
      if containerHash = [] then ('''', dm_store e m cgroupId '''')
      else let name = queryDockerForName e m containerHash in (name, dm_store e m cgroupId name))"

definition dm_getContainerName :: "docker_env \<Rightarrow> DockerMapper \<Rightarrow> u64 \<Rightarrow> u32 \<Rightarrow> string \<times> DockerMapper" where
  "dm_getContainerName e m cgroupId pid =
     (case cgroupToNameCache m cgroupId of
        Some entry \<Rightarrow>
          if now_check e < expiresAtNs entry then (containerName entry, m)
          else dm_resolve e (m\<lparr>cgroupToNameCache := (cgroupToNameCache m)(cgroupId := None)\<rparr>) cgroupId pid
      | None \<Rightarrow> dm_resolve e m cgroupId pid)"

definition isDockerContainer :: "docker_env \<Rightarrow> u32 \<Rightarrow> bool" where
  "isDockerContainer e pid = (extractContainerHashFromCgroup e pid \<noteq> [])"

subsection \<open>Container hashes\<close>

lemma short_hash_hex: "hex_id 12 64 h \<Longrightarrow> hex_id 12 12 (short_hash h)"
  by (auto simp: hex_id_def short_hash_def dest: in_set_takeD)

lemma kube_pattern_hex:
  "regex_search dm_kube_pattern s = Some gs \<Longrightarrow> \<exists>h. gs = [h] \<and> hex_id 64 64 h"
proof -
  assume "regex_search dm_kube_pattern s = Some gs"
  then obtain i where "rmatch dm_kube_pattern (drop i s) = Some gs" by (blast dest: search_sound)
  then obtain s' where "rmatch [Rep True hex_cls 64 (Some 64) True] s' = Some gs"
    unfolding dm_kube_pattern_def by (blast dest: rmatch_prefix rmatch_skip_rep)
  then show ?thesis by (rule rmatch_hex_group)
qed

lemma hash_of_lines_hex: "hash_of_lines ls = [] \<or> hex_id 12 12 (hash_of_lines ls)"
proof (induction ls)
  case (Cons line ls)
  have "hex_id 64 64 h \<Longrightarrow> hex_id 12 12 (take 12 h)" for h
    by (auto simp: hex_id_def dest: in_set_takeD)
  with Cons show ?case
    using id_patterns_hex [of line] kube_pattern_hex [of line] short_hash_hex
    by (auto split: option.splits list.splits)
qed simp

lemma short_hash_take: "short_hash h = take 12 h"
  by (simp add: short_hash_def)

subsection \<open>Cache behaviour\<close>

definition dm_cached :: "DockerMapper \<Rightarrow> u64 \<Rightarrow> (string \<times> u64) option" where
  "dm_cached m cg = map_option (\<lambda>c. (containerName c, expiresAtNs c)) (cgroupToNameCache m cg)"

definition dm_expiry :: "docker_env \<Rightarrow> DockerMapper \<Rightarrow> u64" where
  "dm_expiry e m = now_store e + ttl_ns (dm_cacheTTLSeconds m)"

lemma dm_resolve_cached:
  "dm_resolve e m cg p = (n, m') \<Longrightarrow> dm_cached m' = (dm_cached m)(cg \<mapsto> (n, dm_expiry e m))"
  by (auto simp: dm_resolve_def dm_store_def dm_cached_def dm_expiry_def Let_def fun_eq_iff split: if_splits)

interpretation docker: name_resolver dm_getContainerName dm_cached now_check dm_expiry
proof
  show "dm_cached m cg = Some (n, x) \<Longrightarrow> now_check e < x \<Longrightarrow> dm_getContainerName e m cg p = (n, m)"
    for m cg n x e p
    by (auto simp: dm_cached_def dm_getContainerName_def)
next
  fix m cg e p n' m'
  assume stale: "\<And>n x. dm_cached m cg = Some (n, x) \<Longrightarrow> \<not> now_check e < x"
    and get: "dm_getContainerName e m cg p = (n', m')"
  show "dm_cached m' cg = None \<or> dm_cached m' cg = Some (n', dm_expiry e m)"
  proof (cases "cgroupToNameCache m cg")
    case None
    with get have "dm_resolve e m cg p = (n', m')" by (simp add: dm_getContainerName_def)
    from dm_resolve_cached [OF this] show ?thesis by simp
  next
    case (Some entry)
    with stale have "\<not> now_check e < expiresAtNs entry" by (simp add: dm_cached_def)
    with Some get have "dm_resolve e (m\<lparr>cgroupToNameCache := (cgroupToNameCache m)(cg := None)\<rparr>) cg p = (n', m')"
      by (simp add: dm_getContainerName_def)
    from dm_resolve_cached [OF this] show ?thesis by (simp add: dm_expiry_def)
  qed
next
  fix e m cg p n' m' cg'
  assume get: "dm_getContainerName e m cg p = (n', m')" and ne: "cg' \<noteq> (cg :: u64)"
  let ?m = "m\<lparr>cgroupToNameCache := (cgroupToNameCache m)(cg := None)\<rparr>"
  from get consider "m' = m" | "dm_resolve e m cg p = (n', m')" | "dm_resolve e ?m cg p = (n', m')"
    by (auto simp: dm_getContainerName_def split: option.splits if_splits)
  then show "dm_cached m' cg' = dm_cached m cg'"
  proof cases
    case 1
    then show ?thesis by simp
  next
    case 2
    from dm_resolve_cached [OF this] ne show ?thesis by simp
  next
    case 3
    from dm_resolve_cached [OF this] ne show ?thesis by (simp add: dm_cached_def)
  qed
qed

subsection \<open>Properties\<close>

text \<open>What is read off \<^verbatim>\<open>/proc/<pid>/cgroup\<close> as the container hash is either empty or exactly
  twelve lower-case hexadecimal digits, whatever the file holds; a process counts as a Docker
  container in exactly the second case.\<close>

lemma container_hash_shape:
  "(extractContainerHashFromCgroup e pid = [] \<or> hex_id 12 12 (extractContainerHashFromCgroup e pid)) \<and>
   (isDockerContainer e pid \<longleftrightarrow> hex_id 12 12 (extractContainerHashFromCgroup e pid))"
proof -
  have "extractContainerHashFromCgroup e pid = [] \<or> hex_id 12 12 (extractContainerHashFromCgroup e pid)"
    using hash_of_lines_hex by (auto simp: extractContainerHashFromCgroup_def split: option.splits)
  moreover have "\<not> hex_id 12 12 []" by (simp add: hex_id_def)
  ultimately show ?thesis by (auto simp: isDockerContainer_def)
qed

definition strip_slash :: "string \<Rightarrow> string" where
  "strip_slash n = (case n of c # cs \<Rightarrow> if c = CHR ''/'' then cs else n | [] \<Rightarrow> [])"

definition first_nonempty :: "string list \<Rightarrow> string" where
  "first_nonempty ss = (case dropWhile (\<lambda>s. s = []) ss of s # _ \<Rightarrow> s | [] \<Rightarrow> [])"

text \<open>What the mapper promises of a Docker answer: the container's name without its slash, else
  its compose service, else the hash.\<close>

definition docker_name_spec :: "string \<Rightarrow> string \<Rightarrow> string" where
  "docker_name_spec containerHash response =
     first_nonempty [strip_slash (extractJsonStringField response ''Name''),
       extractJsonStringField response ''com.docker.compose.service'', containerHash]"

lemma extractJsonStringField_Nil [simp]: "extractJsonStringField [] field = []"
  by (simp add: extractJsonStringField_def json_string_pattern_def)

lemma first_nonempty_Cons [simp]:
  "first_nonempty [] = []"
  "first_nonempty (s # ss) = (if s = [] then first_nonempty ss else s)"
  by (simp_all add: first_nonempty_def)

text \<open>The name taken from a Docker answer is the first non-empty one of the container name
  without its leading slash, the compose service label and the container hash, for an answer
  that may be empty or malformed. In particular the \<^verbatim>\<open>project-service\<close> fallback never
  decides the name, and a process of a container never gets the empty name.\<close>

theorem queryDockerForName_spec:
  assumes "containerHash \<noteq> []"
  shows "queryDockerForName e m containerHash =
      docker_name_spec containerHash
        (dm_httpGetUnixSocket e (dm_dockerSocketPath m) (''/containers/'' @ containerHash @ ''/json'')) \<and>
    queryDockerForName e m containerHash \<noteq> []"
proof -
  let ?r = "dm_httpGetUnixSocket e (dm_dockerSocketPath m) (''/containers/'' @ containerHash @ ''/json'')"
  have "queryDockerForName e m containerHash = docker_name_spec containerHash ?r"
  proof (cases "?r = []")
    case True
    then show ?thesis
      using assms by (simp add: queryDockerForName_def docker_name_spec_def strip_slash_def Let_def)
  next
    case False
    then show ?thesis
      using assms unfolding queryDockerForName_def docker_name_spec_def strip_slash_def Let_def
      by (cases "extractJsonStringField ?r ''Name''") simp_all
  qed
  moreover have "docker_name_spec containerHash r \<noteq> []" for r
    using assms by (simp add: docker_name_spec_def)
  ultimately show ?thesis by simp
qed

definition silent_docker :: docker_env where
  "silent_docker = \<lparr>proc_cgroup = (\<lambda>_. None), unix_get = (\<lambda>_ _. NoCurl), now_check = 5, now_store = 6\<rparr>"

theorem queryDockerForName_spec_witness:
  "queryDockerForName silent_docker (DockerMapper_new ''/run/d.sock'' 60) ''0123456789ab'' = ''0123456789ab''"
  using queryDockerForName_spec [of "''0123456789ab''" silent_docker "DockerMapper_new ''/run/d.sock'' 60"]
  by (simp add: docker_name_spec_def dm_httpGetUnixSocket_def silent_docker_def strip_slash_def)

text \<open>A name resolved for a cgroup is what every later lookup of the cgroup returns, for any
  process, whatever the environment has become and whichever other cgroups were looked up in
  between, until the time of storing plus the configured time to live has passed.\<close>

lemma docker_name_stable:
  assumes "cgroupToNameCache m cg = None"
    and "dm_getContainerName e m cg p = (n, m')"
    and "now_check e' < now_store e + ttl_ns (dm_cacheTTLSeconds m)"
    and "\<forall>(e, cg', p) \<in> set ls. cg' \<noteq> cg"
  shows "fst (dm_getContainerName e' (docker.lookups m' ls) cg p') = n"
proof -
  from assms(1,2) have "dm_resolve e m cg p = (n, m')" by (simp add: dm_getContainerName_def)
  then have "dm_cached m' cg = Some (n, dm_expiry e m)" by (simp add: dm_resolve_cached)
  with assms show ?thesis
    by (intro docker.stable_interleaved [of e m cg p n m' n "dm_expiry e m"]) (auto simp: dm_expiry_def)
qed

lemma docker_scope_hash:
  assumes "hex_id 12 64 h"
  shows "hash_of_lines (lines_of (''0::/system.slice/docker-'' @ h @ ''.scope'' @ [CHR 0x0A])) = take 12 h"
proof -
  let ?line = "''0::/system.slice/docker-'' @ h @ ''.scope''"
  have hex: "\<forall>c \<in> set h. cmatch hex_cls c" and len: "12 \<le> length h" "length h \<le> 64"
    using assms by (auto simp: hex_id_def)
  have "CHR 0x0A \<notin> set h" using hex by (auto simp: cmatch_hex is_digit_def)
  then have "lines_of (?line @ [CHR 0x0A]) = [?line]"
    by (subst lines_of.simps) (simp add: getline_append_newline [of ?line "[]", simplified])
  moreover have "takeWhile (cmatch hex_cls) (h @ ''.scope'') = h"
    using hex by (subst takeWhile_append2) (auto simp: cmatch_hex is_digit_def)
  then have "rmatch [One (CC False [(CHR ''/'', CHR ''/''), (CHR ''-'', CHR ''-'')]), Rep True hex_cls 12 (Some 64) True]
      (''-'' @ h @ ''.scope'') = Some [h]"
    using len by (simp add: rmatch_rep_last Let_def cmatch.simps)
  then have "regex_search docker_pattern (''0::/system.slice/'' @ ''docker'' @ ''-'' @ h @ ''.scope'') = Some [h]"
    unfolding docker_pattern_def
    by (rule search_after [rotated]) (auto simp: less_Suc_eq numeral_nat)
  then have "regex_search docker_pattern ?line = Some [h]" by simp
  ultimately show ?thesis by (simp add: short_hash_take)
qed

text \<open>Resolution end to end: a process whose cgroup file names the systemd scope of a Docker
  container is given the name Docker reports under the first \<^verbatim>\<open>"Name"\<close> key of the container's
  description, without the slash, and that name is cached with the configured time to live.\<close>

theorem docker_scope_resolved:
  assumes "hex_id 12 64 h" "n \<noteq> []" "CHR 0x22 \<notin> set n" "cgroupToNameCache m cg = None"
    and "proc_cgroup e pid = Some (''0::/system.slice/docker-'' @ h @ ''.scope'' @ [CHR 0x0A])"
    and reply: "unix_get e (dm_dockerSocketPath m) (''http://localhost/containers/'' @ take 12 h @ ''/json'') =
      Reply ok (pre @ quoted ''Name'' @ '':'' @ quoted (CHR ''/'' # n) @ rest)"
    and first: "\<forall>i < length pre. \<not> prefix (quoted ''Name'')
      (drop i pre @ quoted ''Name'' @ '':'' @ quoted (CHR ''/'' # n) @ rest)"
  shows "dm_getContainerName e m cg pid =
    (n, m\<lparr>cgroupToNameCache := (cgroupToNameCache m)(cg \<mapsto>
       \<lparr>containerName = n, expiresAtNs = now_store e + ttl_ns (dm_cacheTTLSeconds m)\<rparr>)\<rparr>)"
proof -
  let ?r = "pre @ quoted ''Name'' @ '':'' @ quoted (CHR ''/'' # n) @ rest"
  have hash: "extractContainerHashFromCgroup e pid = take 12 h"
    using assms(5) docker_scope_hash [OF assms(1)] by (simp add: extractContainerHashFromCgroup_def)
  have ne: "take 12 h \<noteq> []" using assms(1) by (auto simp: hex_id_def)
  have field: "extractJsonStringField ?r ''Name'' = CHR ''/'' # n"
    using json_string_first [of "''Name''" "CHR ''/'' # n" pre rest] assms(3) first
    by (simp add: extractJsonStringField_def plain_key_def)
  have "dm_httpGetUnixSocket e (dm_dockerSocketPath m) (''/containers/'' @ take 12 h @ ''/json'') = ?r"
    using reply by (simp add: dm_httpGetUnixSocket_def)
  with ne field assms(2) have "queryDockerForName e m (take 12 h) = n"
    by (simp add: queryDockerForName_def Let_def quoted_def)
  with hash ne assms(4) show ?thesis
    by (simp add: dm_getContainerName_def dm_resolve_def Let_def dm_store_def)
qed

definition one_container :: docker_env where
  "one_container = \<lparr>
     proc_cgroup = (\<lambda>p. if p = 42 then Some (''0::/system.slice/docker-0123456789abcdef.scope'' @ [CHR 0x0A]) else None),
     unix_get = (\<lambda>sock url. Reply True (''{'' @ quoted ''Id'' @ '':'' @ quoted ''0123'' @ '','' @ quoted ''Name'' @ '':'' @ quoted ''/web'' @ ''}'')),
     now_check = 5, now_store = 6\<rparr>"

theorem docker_scope_resolved_witness:
  "fst (dm_getContainerName one_container (DockerMapper_new ''/run/d.sock'' 60) 7 42) = ''web''"
proof -
  let ?pre = "''{'' @ quoted ''Id'' @ '':'' @ quoted ''0123'' @ '',''"
  have "hex_id 12 64 ''0123456789abcdef''" by (simp add: hex_id_def cmatch_hex is_digit_def)
  then show ?thesis
    by (subst docker_scope_resolved [where h = "''0123456789abcdef''" and n = "''web''" and pre = ?pre and rest = "''}''"
          and ok = True])
      (simp_all add: one_container_def DockerMapper_new_def All_less_Suc numeral_nat quoted_def)
qed

end
