(* ===== verification/Agent_Core.thy ===== *)
theory Agent_Core
  imports Agent_Buffers Docker_Mapper Agent_Server
begin

text \<open>
  \<^verbatim>\<open>agent/src/agent.cpp\<close>: the agent itself. Its state joins the container mapper, the policy
  enforcer, the buffers in iteration order, the clean-up time stamp, and the outside it acts on
  (transfers, dump files, profiles and commands). Every handler takes the environment it meets.
  The event thread and the control server's thread are two sources of steps of one transition
  relation; each handler is one step.
\<close>

subsection \<open>State and environment\<close>

datatype mapper = Legacy DockerMapper | Multi ContainerMapper

record Agent =
  ag_config :: AgentConfig
  ag_mapper :: mapper
  policyEnforcer :: PolicyEnforcer
  ag_world :: pe_world
  buffers :: "(string \<times> ContainerBuffer) list"
  lastBufferCleanupNs :: u64
  ag_net :: net
  ag_disk :: disk

record agent_env =
  ae_docker :: docker_env
  ae_cm :: cm_env
  ae_policy :: pe_env
  ae_curl :: curl_oracle
  filter_search :: "string \<Rightarrow> string \<Rightarrow> bool option"  \<comment> \<open>\<^verbatim>\<open>regex_search(text, regex(pattern))\<close>, \<open>None\<close> for a \<^verbatim>\<open>regex_error\<close>\<close>
  ae_mkdir_ok :: bool
  ae_can_open :: "string \<Rightarrow> bool"
  monotonicNowNs :: u64
  ae_localtime :: tm

definition nowTimestampForFile :: "agent_env \<Rightarrow> string" where
  "nowTimestampForFile e = timestampForFile (ae_localtime e)"

definition mapper_config :: "AgentConfig \<Rightarrow> CM_Config" where
  "mapper_config c = \<lparr>dockerSocket = dockerSocketPath c, containerdSocket = containerdSocketPath c,
     crioSocket = crioSocketPath c, CM_Config.crictlPath = AgentConfig.crictlPath c,
     cacheTTLSeconds = containerMapCacheTTL c,
     CM_Config.enableKubernetesApi = AgentConfig.enableKubernetesApi c,
     CM_Config.preferPodName = AgentConfig.preferPodName c\<rparr>"

text \<open>The constructor; \<open>None\<close> when the policy enforcer's constructor throws.\<close>

definition Agent_new :: "agent_env \<Rightarrow> AgentConfig \<Rightarrow> Agent option" where
  "Agent_new e c =
     map_option (\<lambda>pe. \<lparr>ag_config = c,
         ag_mapper = (if useLegacyDockerMapper c
           then Legacy (DockerMapper_new (dockerSocketPath c) (containerMapCacheTTL c))
           else Multi (ContainerMapper_new (ae_cm e) (mapper_config c))),
         policyEnforcer = pe, ag_world = \<lparr>files = Map.empty, commands = []\<rparr>, buffers = [],
         lastBufferCleanupNs = 0, ag_net = net0, ag_disk = Map.empty\<rparr>)
       (PolicyEnforcer_new (ae_mkdir_ok e) (dockerSocketPath c) (AgentConfig.policyDir c) (policyEnforcementMode c))"

subsection \<open>Event path\<close>

definition mapContainerId :: "agent_env \<Rightarrow> mapper \<Rightarrow> u64 \<Rightarrow> u32 \<Rightarrow> string \<times> mapper" where
  "mapContainerId e m cg p =
     (let (name, m) = (case m of
            Legacy dm \<Rightarrow> (case dm_getContainerName (ae_docker e) dm cg p of (n, dm) \<Rightarrow> (n, Legacy dm))
          | Multi cm \<Rightarrow> (case cm_getContainerName (ae_cm e) cm cg p of (n, cm) \<Rightarrow> (n, Multi cm)))
      in if name \<noteq> [] then (name, m) else (''host-'' @ show_word cg, m))"

fun stop_expired ::
  "curl_oracle \<Rightarrow> AgentConfig \<Rightarrow> u64 \<Rightarrow> (string \<times> ContainerBuffer) list \<Rightarrow> net \<Rightarrow> (string \<times> ContainerBuffer) list \<times> net" where
  "stop_expired curl c now [] n = ([], n)"
| "stop_expired curl c now ((k, b) # bs) n =
     (let (b, n) =
        (if isLongDumpActive b \<and> now \<ge> longDumpEndTsNs b then
           (let os = (if is_open (longDumpStream b) then os_close (longDumpStream b) else longDumpStream b)
            in notifyDumpComplete curl c (b\<lparr>longDumpStream := os, isLongDumpActive := False\<rparr>) n)
         else (b, n));
          (bs, n) = stop_expired curl c now bs n
      in ((k, b) # bs, n))"

definition stopExpiredLongDumps :: "agent_env \<Rightarrow> u64 \<Rightarrow> Agent \<Rightarrow> Agent" where
  "stopExpiredLongDumps e now a =
     (let (bs, n) = stop_expired (ae_curl e) (ag_config a) now (buffers a) (ag_net a)
      in a\<lparr>buffers := bs, ag_net := n\<rparr>)"

definition removable :: "u64 \<Rightarrow> ContainerBuffer \<Rightarrow> bool" where
  "removable now b \<longleftrightarrow> now - lastEventTsNs b > 300 * 1000000000 \<and> \<not> isLongDumpActive b \<and> currentShortWindow b = []"

definition cleanupInactiveBuffers :: "u64 \<Rightarrow> Agent \<Rightarrow> Agent" where
  "cleanupInactiveBuffers now a =
     (if now - lastBufferCleanupNs a < 60 * 1000000000 then a
      else a\<lparr>lastBufferCleanupNs := now, buffers := filter (\<lambda>(k, b). \<not> removable now b) (buffers a)\<rparr>)"

definition map_event :: "KernelSyscallEvent \<Rightarrow> SyscallEvent" where
  "map_event evt = \<lparr>tsNs = k_ts_ns evt, pid = k_pid evt, tid = k_tid evt, cgroupId = ucast (k_cgroup_id evt),
     syscallId = k_syscall_id evt, argClass = k_arg_class evt, argBucket = k_arg_bucket evt\<rparr>"

definition filtered_out :: "agent_env \<Rightarrow> AgentConfig \<Rightarrow> string \<Rightarrow> bool" where
  "filtered_out e c cid \<longleftrightarrow>
     containerFilterRegex c \<noteq> [] \<and> filter_search e (containerFilterRegex c) cid = Some False"

text \<open>The middle of \<^verbatim>\<open>handleEvent\<close>: what it does to the buffer of the event's container.\<close>

definition window_complete :: "AgentConfig \<Rightarrow> ContainerBuffer \<Rightarrow> SyscallEvent \<Rightarrow> bool" where
  "window_complete c b evt \<longleftrightarrow>
     tsNs evt - windowStartTsNs b \<ge> secs_ns (shortWindowSec c) \<and>
     sint (of_nat (length (currentShortWindow b)) :: i32) \<ge> sint (minEventsPerWindow c)"

definition buffer_event ::
  "agent_env \<Rightarrow> AgentConfig \<Rightarrow> string \<Rightarrow> ContainerBuffer \<Rightarrow> SyscallEvent \<Rightarrow> net \<times> disk \<Rightarrow> ContainerBuffer \<times> net \<times> disk" where
  "buffer_event e c cid b evt nd =
     (let b = b\<lparr>b_containerId := cid\<rparr>;
          b = (if currentShortWindow b = [] then b\<lparr>windowStartTsNs := tsNs evt\<rparr> else b);
          b = b\<lparr>lastEventTsNs := tsNs evt, currentShortWindow := currentShortWindow b @ [evt]\<rparr>;
          (b, n, d) = appendLongDump (ae_curl e) c b evt nd;
          (b, n) = (if window_complete c b evt then processShortWindow (ae_curl e) c b n else (b, n))
      in (b, n, d))"

definition handleEvent :: "agent_env \<Rightarrow> Agent \<Rightarrow> KernelSyscallEvent \<Rightarrow> Agent" where
  "handleEvent e a evt =
     (let mapped = map_event evt;
          (cid, m) = mapContainerId e (ag_mapper a) (cgroupId mapped) (pid mapped);
          a = a\<lparr>ag_mapper := m\<rparr>
      in if filtered_out e (ag_config a) cid then a
         else
           let (b, n, d) = buffer_event e (ag_config a) cid (um_get ContainerBuffer_new (buffers a) cid) mapped
                 (ag_net a, ag_disk a);
               a = a\<lparr>buffers := um_set cid b (buffers a), ag_net := n, ag_disk := d\<rparr>
           in cleanupInactiveBuffers (tsNs mapped) (stopExpiredLongDumps e (tsNs mapped) a))"

definition handleEventThunk :: "agent_env \<Rightarrow> Agent \<Rightarrow> bytes \<Rightarrow> Agent" where
  "handleEventThunk e a data =
     (if length data < 24 then a else handleEvent e a (KernelSyscallEvent_dec (take 24 data)))"

subsection \<open>Control path\<close>

text \<open>\<open>None\<close> when creating the dump directory throws.\<close>

definition requestLongDump :: "agent_env \<Rightarrow> Agent \<Rightarrow> string \<Rightarrow> i32 \<Rightarrow> Agent option" where
  "requestLongDump e a cid durationSec =
     (let b = (um_get ContainerBuffer_new (buffers a) cid)\<lparr>b_containerId := cid\<rparr>
      in if \<not> ae_mkdir_ok e then None
         else
           let (b, d) = open_dump (ae_can_open e) (nowTimestampForFile e) (monotonicNowNs e) (ag_config a) b
                 durationSec (ag_disk a)
           in Some (a\<lparr>buffers := um_set cid b (buffers a), ag_disk := d\<rparr>))"

definition handlePolicy ::
  "agent_env \<Rightarrow> Agent \<Rightarrow> string \<Rightarrow> string \<Rightarrow> string \<Rightarrow> string \<Rightarrow> bool \<times> Agent" where
  "handlePolicy e a cid policyId policyType specJson =
     (let (ok, pe, w) = pe_apply (ae_policy e) (policyEnforcer a) (ag_world a) cid policyId policyType specJson
      in (ok, a\<lparr>policyEnforcer := pe, ag_world := w\<rparr>))"

text \<open>The callbacks \<^verbatim>\<open>initServer\<close> installs.\<close>

definition agent_handlers :: "agent_env \<Rightarrow> Agent handlers" where
  "agent_handlers e = \<lparr>longDumpHandler = Some (\<lambda>a cid durationSec reason. requestLongDump e a cid durationSec),
     policyHandler = Some (handlePolicy e)\<rparr>"

subsection \<open>Start and main loop\<close>

record bpf_env =
  obj_opened :: bool
  load_rc :: int
  prog_found :: bool
  link_ok :: bool
  map_fd :: int
  ringbuf_ok :: bool

record bpf_resources =
  ringbuf :: bool
  tp_link :: bool
  bpf_obj :: bool
  bpf_fd :: int

definition bpf_none :: bpf_resources where
  "bpf_none = \<lparr>ringbuf = False, tp_link = False, bpf_obj = False, bpf_fd = - 1\<rparr>"

definition initBpf :: "bpf_env \<Rightarrow> bpf_resources \<Rightarrow> bool \<times> bpf_resources" where
  "initBpf be r =
     (if \<not> obj_opened be then (False, r)
      else if load_rc be \<noteq> 0 then (False, r)
      else if \<not> prog_found be then (False, r)
      else if \<not> link_ok be then (False, r)
      else
        let r = r\<lparr>tp_link := True\<rparr> in
        if map_fd be < 0 then (False, r)
        else if \<not> ringbuf_ok be then (False, r)
        else (True, r\<lparr>ringbuf := True, bpf_fd := map_fd be, bpf_obj := True\<rparr>))"

definition cleanupBpf :: "bpf_resources \<Rightarrow> bpf_resources" where
  "cleanupBpf r = r\<lparr>ringbuf := False, tp_link := False, bpf_obj := False\<rparr>"

text \<open>One iteration of the poll loop: the value of the stop flag, the records the ring buffer hands
  to the callback, and the result of \<^verbatim>\<open>ring_buffer__poll\<close>; \<open>-4\<close> is \<^verbatim>\<open>-EINTR\<close>. The callback
  always returns 0, so all records of a poll are delivered.\<close>

fun poll_loop :: "Agent \<Rightarrow> (bool \<times> (agent_env \<times> bytes) list \<times> int) list \<Rightarrow> Agent" where
  "poll_loop a [] = a"
| "poll_loop a ((stop, records, err) # ps) =
     (if stop then a
      else
        let a = foldl (\<lambda>a (e, data). handleEventThunk e a data) a records in
        if err = - 4 then a
        else if err < 0 then a
        else poll_loop a ps)"

definition run ::
  "bpf_env \<Rightarrow> agent_env \<Rightarrow> Agent \<Rightarrow> (bool \<times> (agent_env \<times> bytes) list \<times> int) list \<Rightarrow> (int \<times> Agent \<times> bpf_resources) option" where
  "run be e a ps =
     (case initBpf be bpf_none of
        (False, r) \<Rightarrow> Some (1, a, r)
      | (True, r) \<Rightarrow>
          map_option (\<lambda>a. (0, poll_loop a ps, cleanupBpf r))
            (if autoBaselineDump (ag_config a)
             then requestLongDump e a ''baseline'' (longDumpDefaultDurationSec (ag_config a)) else Some a))"

definition agent_main ::
  "environment \<Rightarrow> bpf_env \<Rightarrow> agent_env \<Rightarrow> (bool \<times> (agent_env \<times> bytes) list \<times> int) list \<Rightarrow> (int \<times> Agent \<times> bpf_resources) option" where
  "agent_main env be e ps =
     (case Agent_new e (loadConfig env) of None \<Rightarrow> None | Some a \<Rightarrow> run be e a ps)"

end
