(* ===== verification/Agent_Safety.thy ===== *)
theory Agent_Safety
  imports Agent_Core
begin

text \<open>
  The agent as a transition system: events from the ring buffer and requests from the control
  server arrive in any order. The theory states what holds in every reachable state of the
  agent, and interprets the control server's contract on the agent's callbacks.
\<close>

subsection \<open>Invariants\<close>

definition window_ok :: "ContainerBuffer \<Rightarrow> bool" where
  "window_ok b \<longleftrightarrow>
     (case currentShortWindow b of
        [] \<Rightarrow> windowStartTsNs b = 0
      | ev # evs \<Rightarrow> windowStartTsNs b = tsNs ev \<and> lastEventTsNs b = tsNs (last (ev # evs)))"

definition dump_ok :: "ContainerBuffer \<Rightarrow> bool" where
  "dump_ok b \<longleftrightarrow>
     isLongDumpActive b = is_open (longDumpStream b) \<and>
     (if isLongDumpActive b then longDumpEndTsNs b = longDumpStartTsNs b + secs_ns (longDumpDurationSec b)
      else longDumpFilePath b = [] \<and> longDumpRecordCount b = 0)"

definition buffer_ok :: "string \<Rightarrow> ContainerBuffer \<Rightarrow> bool" where
  "buffer_ok k b \<longleftrightarrow> b_containerId b = k \<and> window_ok b \<and> dump_ok b"

definition mapper_ok :: "mapper \<Rightarrow> bool" where
  "mapper_ok m = (case m of Legacy _ \<Rightarrow> True | Multi cm \<Rightarrow> cm_inv cm)"

definition enforcer_ok :: "PolicyEnforcer \<Rightarrow> bool" where
  "enforcer_ok pe \<longleftrightarrow> enforcementMode pe \<in> {''ERRNO'', ''LOG''} \<and> distinct (map fst (appliedPolicies pe))"

definition agent_inv :: "Agent \<Rightarrow> bool" where
  "agent_inv a \<longleftrightarrow>
     distinct (map fst (buffers a)) \<and> (\<forall>(k, b) \<in> set (buffers a). buffer_ok k b) \<and>
     mapper_ok (ag_mapper a) \<and> enforcer_ok (policyEnforcer a)"

lemma new_buffer_ok: "window_ok ContainerBuffer_new \<and> dump_ok ContainerBuffer_new"
  by (simp add: window_ok_def dump_ok_def ContainerBuffer_new_def Ofstream_new_def is_open_def)

subsection \<open>Operations on one buffer\<close>

lemma notify_simps [simp]:
  "b_containerId (fst (notifyDumpComplete curl c b n)) = b_containerId b"
  "currentShortWindow (fst (notifyDumpComplete curl c b n)) = currentShortWindow b"
  "windowStartTsNs (fst (notifyDumpComplete curl c b n)) = windowStartTsNs b"
  "lastEventTsNs (fst (notifyDumpComplete curl c b n)) = lastEventTsNs b"
  "isLongDumpActive (fst (notifyDumpComplete curl c b n)) = isLongDumpActive b"
  "longDumpStream (fst (notifyDumpComplete curl c b n)) = longDumpStream b"
  "longDumpFilePath (fst (notifyDumpComplete curl c b n)) = []"
  "longDumpRecordCount (fst (notifyDumpComplete curl c b n)) = 0"
  by (simp_all add: notifyDumpComplete_def Let_def split: prod.split)

lemma is_open_simps [simp]:
  "\<not> is_open (os_close os)" "is_open (fst (os_write bs os d)) = is_open os"
  by (simp_all add: is_open_def os_close_def os_write_def split: option.split)

lemma appendLongDump_cases:
  assumes "appendLongDump curl c b ev nd = (b', nd')"
  obtains (idle) "b' = b" "nd' = nd"
  | (ended) "isLongDumpActive b" "is_open (longDumpStream b)" "longDumpEndTsNs b \<le> tsNs ev" "snd nd' = snd nd"
      "notifyDumpComplete curl c (b\<lparr>longDumpStream := os_close (longDumpStream b), isLongDumpActive := False\<rparr>) (fst nd) = (b', fst nd')"
  | (written) os where "isLongDumpActive b" "is_open os = is_open (longDumpStream b)" "fst nd' = fst nd"
      "b' = b\<lparr>longDumpStream := os, lastDumpTsNs := tsNs ev, longDumpRecordCount := longDumpRecordCount b + 1\<rparr>"
proof -
  obtain n d where nd: "nd = (n, d)" by (cases nd)
  let ?rec = "TraceRecord_enc (makeTraceRecord ev (if lastDumpTsNs b = 0 then longDumpStartTsNs b else lastDumpTsNs b))"
  let ?closed = "b\<lparr>longDumpStream := os_close (longDumpStream b), isLongDumpActive := False\<rparr>"
  obtain os d' where wr: "os_write ?rec (longDumpStream b) d = (os, d')" by fastforce
  obtain bn nn where nt: "notifyDumpComplete curl c ?closed n = (bn, nn)" by fastforce
  have os: "is_open os = is_open (longDumpStream b)" using wr by (metis fst_conv is_open_simps(2))
  show thesis
  proof (cases "isLongDumpActive b \<and> is_open (longDumpStream b)")
    case False
    with assms nd idle show thesis by (simp add: appendLongDump_def)
  next
    case active: True
    show thesis
    proof (cases "longDumpEndTsNs b \<le> tsNs ev")
      case True
      with assms nd active nt have "nd' = (nn, d)" "b' = bn" by (simp_all add: appendLongDump_def Let_def)
      with True active nt nd ended show thesis by simp
    next
      case False
      then have "appendLongDump curl c b ev (n, d) = (b\<lparr>longDumpStream := os, lastDumpTsNs := tsNs ev,
          longDumpRecordCount := longDumpRecordCount b + 1\<rparr>, n, d')"
        using active wr by (simp add: appendLongDump_def Let_def split del: if_split)
      with assms nd have "nd' = (n, d')"
        "b' = b\<lparr>longDumpStream := os, lastDumpTsNs := tsNs ev, longDumpRecordCount := longDumpRecordCount b + 1\<rparr>"
        by (metis prod.inject)+
      with active os nd written [of os] show thesis by (metis fst_conv)
    qed
  qed
qed

lemma append_window:
  assumes "appendLongDump curl c b ev nd = (b', nd')"
  shows "b_containerId b' = b_containerId b \<and> currentShortWindow b' = currentShortWindow b \<and>
    windowStartTsNs b' = windowStartTsNs b \<and> lastEventTsNs b' = lastEventTsNs b"
  using assms
proof (cases rule: appendLongDump_cases)
  case ended
  let ?closed = "b\<lparr>longDumpStream := os_close (longDumpStream b), isLongDumpActive := False\<rparr>"
  from ended have "b' = fst (notifyDumpComplete curl c ?closed (fst nd))" by simp
  then show ?thesis by simp
qed simp_all

lemma append_dump_ok:
  assumes "dump_ok b" "appendLongDump curl c b ev nd = (b', nd')"
  shows "dump_ok b'"
  using assms(2)
proof (cases rule: appendLongDump_cases)
  case ended
  let ?closed = "b\<lparr>longDumpStream := os_close (longDumpStream b), isLongDumpActive := False\<rparr>"
  from ended have "b' = fst (notifyDumpComplete curl c ?closed (fst nd))" by simp
  then show ?thesis by (simp add: dump_ok_def)
qed (use assms(1) in \<open>auto simp: dump_ok_def\<close>)

lemma window_ok_cong:
  "currentShortWindow b' = currentShortWindow b \<Longrightarrow> windowStartTsNs b' = windowStartTsNs b \<Longrightarrow>
   lastEventTsNs b' = lastEventTsNs b \<Longrightarrow> window_ok b' = window_ok b"
  by (simp add: window_ok_def split: list.split)

lemma process_window:
  assumes "processShortWindow curl c b n = (b', n')"
  shows "b_containerId b' = b_containerId b \<and> (dump_ok b \<longrightarrow> dump_ok b') \<and> (window_ok b \<longrightarrow> window_ok b')"
  using assms by (auto simp: processShortWindow_def dump_ok_def window_ok_def Let_def split: if_splits prod.splits)

text \<open>The steps of \<open>buffer_event\<close>: the event joins the window and, if a dump is running, the dump;
  then a complete window is posted.\<close>

lemma buffer_event_parts:
  assumes "window_ok b" "dump_ok b" "buffer_event e c cid b ev nd = (b', n', d')"
  obtains b1 b2 n2 where "appendLongDump (ae_curl e) c b1 ev nd = (b2, n2, d')"
    "b_containerId b2 = cid" "currentShortWindow b2 = currentShortWindow b @ [ev]"
    "windowStartTsNs b2 = tsNs (hd (currentShortWindow b @ [ev]))" "lastEventTsNs b2 = tsNs ev" "dump_ok b2"
    "(b', n') = (if window_complete c b2 ev then processShortWindow (ae_curl e) c b2 n2 else (b2, n2))"
proof -
  let ?w = "currentShortWindow b"
  define b1 where "b1 = (if ?w = [] then b\<lparr>b_containerId := cid, windowStartTsNs := tsNs ev\<rparr> else b\<lparr>b_containerId := cid\<rparr>)
    \<lparr>lastEventTsNs := tsNs ev, currentShortWindow := ?w @ [ev]\<rparr>"
  have b1: "b_containerId b1 = cid" "currentShortWindow b1 = ?w @ [ev]" "lastEventTsNs b1 = tsNs ev" "dump_ok b1"
    "windowStartTsNs b1 = tsNs (hd (?w @ [ev]))"
    using assms(1,2) by (auto simp: b1_def window_ok_def dump_ok_def split: list.splits)
  obtain b2 n2 d2 where ap: "appendLongDump (ae_curl e) c b1 ev nd = (b2, n2, d2)" by (metis prod_cases3)
  have be: "buffer_event e c cid b ev nd = (case appendLongDump (ae_curl e) c b1 ev nd of (b, n, d) \<Rightarrow>
      case if window_complete c b ev then processShortWindow (ae_curl e) c b n else (b, n) of (b, n) \<Rightarrow> (b, n, d))"
    by (cases "?w = []") (simp_all add: buffer_event_def b1_def Let_def)
  obtain b3 n3 where pr: "processShortWindow (ae_curl e) c b2 n2 = (b3, n3)" by fastforce
  have "d2 = d'" "(b', n') = (if window_complete c b2 ev then processShortWindow (ae_curl e) c b2 n2 else (b2, n2))"
    using be pr unfolding assms(3) ap by (simp_all split: if_splits)
  with that [of b1 b2 n2] ap b1 append_window [OF ap] append_dump_ok [OF b1(4) ap] show thesis by simp
qed

lemma buffer_event_ok:
  assumes "window_ok b" "dump_ok b" "buffer_event e c cid b ev nd = (b', n', d')"
  shows "buffer_ok cid b'"
proof -
  from assms obtain b1 b2 n2 where b2: "b_containerId b2 = cid" "currentShortWindow b2 = currentShortWindow b @ [ev]"
    "windowStartTsNs b2 = tsNs (hd (currentShortWindow b @ [ev]))" "lastEventTsNs b2 = tsNs ev" "dump_ok b2"
    and fin: "(b', n') = (if window_complete c b2 ev then processShortWindow (ae_curl e) c b2 n2 else (b2, n2))"
    by (rule buffer_event_parts)
  have w: "window_ok b2" using b2 by (simp add: window_ok_def split: list.split) (metis append_is_Nil_conv last_snoc list.sel(1) not_Cons_self2 last.simps)
  obtain b3 n3 where pr: "processShortWindow (ae_curl e) c b2 n2 = (b3, n3)" by fastforce
  with fin have "b' = b2 \<or> b' = b3" by (simp split: if_splits)
  then show ?thesis using b2 w process_window [OF pr] by (auto simp: buffer_ok_def)
qed

lemma open_dump_ok:
  assumes "window_ok b" "dump_ok b" "open_dump can stamp now c b dur d = (b', d')"
  shows "b_containerId b' = b_containerId b \<and> window_ok b' \<and> dump_ok b'"
proof -
  obtain os d1 where op: "os_open (can (dump_path c (b_containerId b) stamp)) (dump_path c (b_containerId b) stamp)
    (longDumpStream b) d = (os, d1)" by fastforce
  let ?start = "if lastEventTsNs b \<noteq> 0 then lastEventTsNs b else now"
  obtain os2 d2 where wr: "os_write (TraceHeader_enc (dump_header c (b_containerId b) ?start)) os d1 = (os2, d2)" by fastforce
  show ?thesis
  proof (cases "is_open os")
    case True
    then have "is_open os2" using wr by (metis fst_conv is_open_simps(2))
    moreover have "b' = b\<lparr>longDumpStream := os2, longDumpStartTsNs := ?start,
        longDumpEndTsNs := ?start + secs_ns dur, lastDumpTsNs := 0, isLongDumpActive := True,
        longDumpFilePath := dump_path c (b_containerId b) stamp, longDumpRecordCount := 0, longDumpDurationSec := dur\<rparr>"
      using True assms(3) wr by (simp add: open_dump_def op Let_def split del: if_split)
    ultimately show ?thesis
      using assms(1) window_ok_cong [of b' b] by (simp add: dump_ok_def)
  next
    case False
    then have "\<not> is_open (longDumpStream b)" using op by (auto simp: os_open_def is_open_def split: if_splits)
    moreover have "b' = b\<lparr>longDumpStream := os\<rparr>"
      using False assms(3) by (simp add: open_dump_def op Let_def)
    ultimately show ?thesis
      using assms(1,2) False window_ok_cong [of b' b] by (simp add: dump_ok_def)
  qed
qed

subsection \<open>Operations on the agent\<close>

lemma stop_expired_keys: "map fst (fst (stop_expired curl c now bs n)) = map fst bs"
  by (induction curl c now bs n rule: stop_expired.induct) (auto simp: Let_def split: prod.splits)

text \<open>What \<^verbatim>\<open>stopExpiredLongDumps\<close> makes of one buffer.\<close>

definition expired :: "u64 \<Rightarrow> ContainerBuffer \<Rightarrow> bool" where
  "expired now b \<longleftrightarrow> isLongDumpActive b \<and> now \<ge> longDumpEndTsNs b"

definition dump_stopped :: "ContainerBuffer \<Rightarrow> ContainerBuffer" where
  "dump_stopped b = b\<lparr>longDumpStream := (if is_open (longDumpStream b) then os_close (longDumpStream b) else longDumpStream b),
     isLongDumpActive := False, longDumpFilePath := [], longDumpRecordCount := 0, longDumpDurationSec := 0\<rparr>"

lemma notify_fst: "fst (notifyDumpComplete curl c b n) = b\<lparr>longDumpFilePath := [], longDumpRecordCount := 0, longDumpDurationSec := 0\<rparr>"
  by (simp add: notifyDumpComplete_def Let_def split: prod.split)

lemma stop_expired_buffers:
  "fst (stop_expired curl c now bs n) = map (\<lambda>(k, b). (k, if expired now b then dump_stopped b else b)) bs"
proof (induction bs arbitrary: n)
  case (Cons p bs)
  obtain k b where p: "p = (k, b)" by (cases p)
  let ?os = "if is_open (longDumpStream b) then os_close (longDumpStream b) else longDumpStream b"
  obtain b1 n1 where nt: "notifyDumpComplete curl c (b\<lparr>longDumpStream := ?os, isLongDumpActive := False\<rparr>) n = (b1, n1)"
    by fastforce
  then have b1: "b1 = dump_stopped b"
    using notify_fst [of curl c "b\<lparr>longDumpStream := ?os, isLongDumpActive := False\<rparr>" n] by (simp add: dump_stopped_def)
  show ?case
  proof (cases "expired now b")
    case True
    then have "fst (stop_expired curl c now (p # bs) n) = (k, b1) # fst (stop_expired curl c now bs n1)"
      using nt by (simp add: p expired_def Let_def case_prod_unfold split del: if_split)
    with True b1 Cons [of n1] p show ?thesis by simp
  next
    case False
    then have "fst (stop_expired curl c now (p # bs) n) = (k, b) # fst (stop_expired curl c now bs n)"
      unfolding p stop_expired.simps Let_def expired_def [symmetric] by (simp add: case_prod_unfold)
    with False Cons [of n] p show ?thesis by simp
  qed
qed simp

lemma dump_stopped_ok: "buffer_ok k b \<Longrightarrow> buffer_ok k (dump_stopped b)"
  using window_ok_cong [of "dump_stopped b" b]
  by (auto simp: buffer_ok_def dump_ok_def dump_stopped_def is_open_def os_close_def)

lemma buffers_um_set:
  assumes "distinct (map fst bs)" "\<forall>(k, b) \<in> set bs. P k b" "P k b"
  shows "distinct (map fst (um_set k b bs)) \<and> (\<forall>(k', b') \<in> set (um_set k b bs). P k' b')"
  using assms distinct_um_set [of bs k b] set_um_set [of k b bs] by fastforce

lemma mapper_ok_step:
  assumes "mapper_ok m" "mapContainerId e m cg p = (cid, m')"
  shows "mapper_ok m' \<and> cid \<noteq> []"
proof (cases m)
  case (Legacy dm)
  with assms(2) show ?thesis by (auto simp: mapContainerId_def mapper_ok_def split: prod.splits if_splits)
next
  case (Multi cm)
  obtain n cm' where get: "cm_getContainerName (ae_cm e) cm cg p = (n, cm')" by fastforce
  then have "cm_inv cm'"
    using assms(1) Multi getContainerInfo_inv [of cm "ae_cm e" cg p]
    by (auto simp: cm_getContainerName_def mapper_ok_def split: prod.splits option.splits)
  with Multi get assms(2) show ?thesis by (auto simp: mapContainerId_def mapper_ok_def split: if_splits)
qed

lemma um_get_ok:
  assumes "\<forall>(k, b) \<in> set bs. buffer_ok k b"
  shows "window_ok (um_get ContainerBuffer_new bs k) \<and> dump_ok (um_get ContainerBuffer_new bs k)"
proof (cases "map_of bs k")
  case None
  then show ?thesis using new_buffer_ok by (simp add: um_get_def)
next
  case (Some b)
  with assms show ?thesis by (auto simp: um_get_def buffer_ok_def dest: map_of_SomeD)
qed

lemma stopExpired_inv: "agent_inv a \<Longrightarrow> agent_inv (stopExpiredLongDumps e now a)"
proof -
  assume inv: "agent_inv a"
  obtain bs n where st: "stop_expired (ae_curl e) (ag_config a) now (buffers a) (ag_net a) = (bs, n)" by fastforce
  have "map fst bs = map fst (buffers a)"
    using stop_expired_keys [of "ae_curl e" "ag_config a" now "buffers a" "ag_net a"] st by simp
  moreover have "bs = map (\<lambda>(k, b). (k, if expired now b then dump_stopped b else b)) (buffers a)"
    using stop_expired_buffers [of "ae_curl e" "ag_config a" now "buffers a" "ag_net a"] st by simp
  then have "\<forall>(k, b) \<in> set bs. buffer_ok k b"
    using inv dump_stopped_ok by (fastforce simp: agent_inv_def)
  ultimately show ?thesis
    using inv by (simp add: agent_inv_def stopExpiredLongDumps_def st)
qed

lemma cleanup_inv: "agent_inv a \<Longrightarrow> agent_inv (cleanupInactiveBuffers now a)"
  by (auto simp: agent_inv_def cleanupInactiveBuffers_def distinct_map_filter)

lemma handleEvent_inv:
  assumes "agent_inv a"
  shows "agent_inv (handleEvent e a evt)"
proof -
  let ?ev = "map_event evt"
  obtain cid m where mp: "mapContainerId e (ag_mapper a) (cgroupId ?ev) (pid ?ev) = (cid, m)" by fastforce
  have m: "mapper_ok m" using mapper_ok_step [OF _ mp] assms by (simp add: agent_inv_def)
  obtain b n d where be: "buffer_event e (ag_config a) cid (um_get ContainerBuffer_new (buffers a) cid) ?ev
      (ag_net a, ag_disk a) = (b, n, d)" by (metis prod_cases3)
  have "buffer_ok cid b" using buffer_event_ok [OF _ _ be] um_get_ok assms by (simp add: agent_inv_def)
  then have "agent_inv (a\<lparr>ag_mapper := m, buffers := um_set cid b (buffers a), ag_net := n, ag_disk := d\<rparr>)"
    using buffers_um_set [of "buffers a" buffer_ok cid b] m assms by (simp add: agent_inv_def)
  moreover have "agent_inv (a\<lparr>ag_mapper := m\<rparr>)" using m assms by (simp add: agent_inv_def)
  ultimately show ?thesis
    using mp be by (simp add: handleEvent_def Let_def cleanup_inv stopExpired_inv)
qed

lemma requestLongDump_inv:
  assumes "agent_inv a" "requestLongDump e a cid dur = Some a'"
  shows "agent_inv a'"
proof -
  let ?b = "(um_get ContainerBuffer_new (buffers a) cid)\<lparr>b_containerId := cid\<rparr>"
  obtain b d where op: "open_dump (ae_can_open e) (nowTimestampForFile e) (monotonicNowNs e) (ag_config a) ?b dur (ag_disk a) = (b, d)"
    by fastforce
  have "window_ok ?b \<and> dump_ok ?b"
    using um_get_ok [of "buffers a" cid] assms(1) window_ok_cong [of ?b "um_get ContainerBuffer_new (buffers a) cid"]
    by (simp add: agent_inv_def dump_ok_def)
  with open_dump_ok [OF _ _ op] have "buffer_ok cid b" by (simp add: buffer_ok_def)
  with assms op buffers_um_set [of "buffers a" buffer_ok cid b] show ?thesis
    by (auto simp: requestLongDump_def agent_inv_def Let_def split: if_splits)
qed

lemma handlePolicy_inv:
  assumes "agent_inv a" "handlePolicy e a cid q ty spec = (ok, a')"
  shows "agent_inv a'"
  using assms
  by (auto simp: handlePolicy_def agent_inv_def enforcer_ok_def pe_apply_cases distinct_um_set split: prod.splits if_splits)

text \<open>The control server's contract, met by the agent's callbacks.\<close>

interpretation agent_control: control_handlers "\<lambda>a cid dur reason. requestLongDump e a cid dur" "handlePolicy e" agent_inv for e
  by unfold_locales (auto dest: requestLongDump_inv handlePolicy_inv)

subsection \<open>The transition system\<close>

inductive agent_step :: "Agent \<Rightarrow> Agent \<Rightarrow> bool" where
  event: "agent_step a (handleEventThunk e a data)"
| client: "handleClient (agent_handlers e) a received = Some (a', resp) \<Longrightarrow> agent_step a a'"
| baseline: "requestLongDump e a ''baseline'' dur = Some a' \<Longrightarrow> agent_step a a'"

inductive agent_reachable :: "AgentConfig \<Rightarrow> Agent \<Rightarrow> bool" for c where
  new: "Agent_new e c = Some a \<Longrightarrow> agent_reachable c a"
| step: "agent_reachable c a \<Longrightarrow> agent_step a a' \<Longrightarrow> agent_reachable c a'"

inductive_cases agent_stepE: "agent_step a a'"

lemma Agent_new_inv: "Agent_new e c = Some a \<Longrightarrow> agent_inv a"
  by (auto simp: Agent_new_def PolicyEnforcer_new_def agent_inv_def mapper_ok_def enforcer_ok_def
      ContainerMapper_new_def cm_inv_def split: if_splits)

lemma thunk_inv: "agent_inv a \<Longrightarrow> agent_inv (handleEventThunk e a data)"
  by (simp add: handleEventThunk_def handleEvent_inv)

lemma agent_step_inv: "agent_step a a' \<Longrightarrow> agent_inv a \<Longrightarrow> agent_inv a'"
proof (elim agent_stepE)
  fix e received resp
  assume "agent_inv a" "handleClient (agent_handlers e) a received = Some (a', resp)"
  then show "agent_inv a'" unfolding agent_handlers_def by (rule agent_control.client_inv)
qed (auto intro: thunk_inv requestLongDump_inv)

lemma reachable_inv: "agent_reachable c a \<Longrightarrow> agent_inv a"
  by (induction rule: agent_reachable.induct) (auto intro: Agent_new_inv agent_step_inv)

text \<open>The policy enforcer keeps its directory and its mode: the control contract for a third time.\<close>

definition enforcer_set :: "string \<Rightarrow> string \<Rightarrow> Agent \<Rightarrow> bool" where
  "enforcer_set dir mode a \<longleftrightarrow> PolicyEnforcer.policyDir (policyEnforcer a) = dir \<and> enforcementMode (policyEnforcer a) = mode"

interpretation enforcer_control: control_handlers "\<lambda>a cid dur reason. requestLongDump e a cid dur" "handlePolicy e"
  "enforcer_set dir mode" for e dir mode
  by unfold_locales
    (auto simp: enforcer_set_def requestLongDump_def handlePolicy_def pe_apply_cases Let_def split: if_splits prod.splits)

lemma event_enforcer: "policyEnforcer (handleEventThunk e a data) = policyEnforcer a"
  by (simp add: handleEventThunk_def handleEvent_def cleanupInactiveBuffers_def stopExpiredLongDumps_def Let_def case_prod_unfold)

lemma reachable_enforcer:
  "agent_reachable c a \<Longrightarrow>
   enforcer_set (AgentConfig.policyDir c) (if policyEnforcementMode c = ''LOG'' then ''LOG'' else ''ERRNO'') a"
proof (induction rule: agent_reachable.induct)
  case (new e a)
  then show ?case by (auto simp: Agent_new_def PolicyEnforcer_new_def enforcer_set_def split: if_splits)
next
  case (step a a')
  from step.hyps(2) step.IH show ?case
  proof (elim agent_stepE)
    fix e received resp
    assume "handleClient (agent_handlers e) a received = Some (a', resp)"
    with step.IH show ?thesis unfolding agent_handlers_def by (rule enforcer_control.client_inv)
  qed (auto simp: enforcer_set_def event_enforcer requestLongDump_def Let_def split: prod.splits if_splits)
qed

subsection \<open>Properties\<close>

definition quiet_env :: agent_env where
  "quiet_env = \<lparr>ae_docker = silent_docker, ae_cm = empty_host, ae_policy = open_host,
     ae_curl = (\<lambda>_. CurlPerformed True), filter_search = (\<lambda>_ _. None), ae_mkdir_ok = True,
     ae_can_open = (\<lambda>_. True), monotonicNowNs = 1000,
     ae_localtime = \<lparr>tm_year = 125, tm_mon = 0, tm_mday = 1, tm_hour = 0, tm_min = 0, tm_sec = 0\<rparr>\<rparr>"

lemma quiet_env_stamp: "nowTimestampForFile quiet_env = ''20250101-000000''"
  by (simp add: nowTimestampForFile_def quiet_env_def timestampForFile_def two_digits_def show_eval)

definition fresh_agent :: Agent where
  "fresh_agent = the (Agent_new quiet_env default_config)"

lemma fresh_agent_new: "Agent_new quiet_env default_config = Some fresh_agent"
  by (simp add: fresh_agent_def Agent_new_def PolicyEnforcer_new_def quiet_env_def)

text \<open>C4: In every state the agent can reach, for any interleaving of kernel events and control
  requests and any behaviour of Docker, the network and the file system: no container has two
  buffers and each buffer carries its own container's id; a window in progress starts at its
  first event and was last extended by its last one; a dump is active exactly while its file is
  open and ends its duration after its start; the mapper's cache and the policy table are
  well formed and the enforcement mode is one of the two valid ones.\<close>

theorem agent_invariant:
  assumes "agent_reachable c a"
  shows "distinct (map fst (buffers a)) \<and>
    (\<forall>(k, b) \<in> set (buffers a). b_containerId b = k \<and>
       (case currentShortWindow b of [] \<Rightarrow> windowStartTsNs b = 0
        | ev # evs \<Rightarrow> windowStartTsNs b = tsNs ev \<and> lastEventTsNs b = tsNs (last (ev # evs))) \<and>
       isLongDumpActive b = is_open (longDumpStream b) \<and>
       (if isLongDumpActive b then longDumpEndTsNs b = longDumpStartTsNs b + secs_ns (longDumpDurationSec b)
        else longDumpFilePath b = [] \<and> longDumpRecordCount b = 0)) \<and>
    mapper_ok (ag_mapper a) \<and>
    enforcementMode (policyEnforcer a) \<in> {''ERRNO'', ''LOG''} \<and>
    distinct (map fst (appliedPolicies (policyEnforcer a)))"
  using reachable_inv [OF assms]
  unfolding agent_inv_def buffer_ok_def window_ok_def dump_ok_def enforcer_ok_def by blast

theorem agent_invariant_witness:
  "distinct (map fst (buffers (handleEventThunk quiet_env fresh_agent (replicate 24 7))))"
proof -
  have "agent_reachable default_config (handleEventThunk quiet_env fresh_agent (replicate 24 7))"
    using agent_reachable.new [OF fresh_agent_new] agent_step.event by (rule agent_reachable.step)
  from agent_invariant [OF this] show ?thesis by blast
qed

lemma stopExpired_none: "list_all (\<lambda>(k, b). \<not> expired now b) (buffers (stopExpiredLongDumps e now a))"
proof -
  have "\<not> expired now (if expired now b then dump_stopped b else b)" for b
    by (simp add: expired_def dump_stopped_def)
  with stop_expired_buffers [of "ae_curl e" "ag_config a" now "buffers a" "ag_net a"] show ?thesis
    by (auto simp: stopExpiredLongDumps_def list_all_iff split: prod.split)
qed

lemma cleanup_list_all:
  "list_all P (buffers a) \<Longrightarrow> list_all P (buffers (cleanupInactiveBuffers now a))"
  by (auto simp: cleanupInactiveBuffers_def list_all_iff)

text \<open>C28: Dumps do end: after an event of any monitored container has been handled, no container's
  dump is active whose end lies at or before the time of that event. An event of a container
  the filter excludes changes nothing but the name cache.\<close>

theorem dumps_end:
  "case mapContainerId e (ag_mapper a) (cgroupId (map_event evt)) (pid (map_event evt)) of (cid, m) \<Rightarrow>
     if filtered_out e (ag_config a) cid then handleEvent e a evt = a\<lparr>ag_mapper := m\<rparr>
     else list_all (\<lambda>(k, b). \<not> (isLongDumpActive b \<and> k_ts_ns evt \<ge> longDumpEndTsNs b)) (buffers (handleEvent e a evt))"
proof -
  have ts: "tsNs (map_event evt) = k_ts_ns evt" by (simp add: map_event_def)
  note none = cleanup_list_all [OF stopExpired_none [where now = "k_ts_ns evt" and e = e], where now = "k_ts_ns evt", unfolded expired_def]
  show ?thesis
    using none by (simp add: handleEvent_def Let_def ts split: prod.split)
qed

lemma poll_loop_reachable:
  assumes "agent_reachable c a"
  shows "agent_reachable c (poll_loop a ps)"
proof -
  have fold: "agent_reachable c a \<Longrightarrow> agent_reachable c (foldl (\<lambda>a (e, data). handleEventThunk e a data) a rs)" for a rs
    by (induction rs arbitrary: a) (auto intro: agent_reachable.step agent_step.event)
  show ?thesis
    using assms by (induction a ps rule: poll_loop.induct) (auto simp: fold Let_def)
qed

lemma run_outcome:
  assumes "agent_main env be e ps = Some (rc, a, r)"
  shows "agent_reachable (loadConfig env) a \<and>
    (if fst (initBpf be bpf_none) then rc = 0 \<and> \<not> ringbuf r \<and> \<not> tp_link r \<and> \<not> bpf_obj r
     else rc = 1 \<and> Agent_new e (loadConfig env) = Some a \<and> \<not> ringbuf r \<and> \<not> bpf_obj r)"
proof -
  from assms obtain a0 where a0: "Agent_new e (loadConfig env) = Some a0" and run: "run be e a0 ps = Some (rc, a, r)"
    by (auto simp: agent_main_def split: option.splits)
  have r0: "agent_reachable (loadConfig env) a0" using a0 by (rule agent_reachable.new)
  obtain ok r1 where ib: "initBpf be bpf_none = (ok, r1)" by fastforce
  show ?thesis
  proof (cases ok)
    case False
    then have "\<not> ringbuf r1 \<and> \<not> bpf_obj r1"
      using ib by (auto simp: initBpf_def bpf_none_def Let_def split: if_splits)
    with False ib run a0 r0 show ?thesis by (simp add: run_def)
  next
    case True
    then obtain a1 where a1: "a1 = a0 \<or> requestLongDump e a0 ''baseline'' (longDumpDefaultDurationSec (ag_config a0)) = Some a1"
      and res: "rc = 0" "a = poll_loop a1 ps" "r = cleanupBpf r1"
      using run ib by (auto simp: run_def split: if_splits)
    have "agent_reachable (loadConfig env) a1"
      using a1 r0 by (auto intro: agent_reachable.step agent_step.baseline)
    with True ib res show ?thesis by (simp add: poll_loop_reachable cleanupBpf_def)
  qed
qed

lemma main_fails: "agent_main env be e ps = None \<Longrightarrow> \<not> ae_mkdir_ok e"
proof
  assume none: "agent_main env be e ps = None" and ok: "ae_mkdir_ok e"
  then obtain a where a: "Agent_new e (loadConfig env) = Some a" by (simp add: Agent_new_def PolicyEnforcer_new_def)
  have "requestLongDump e a cid dur \<noteq> None" for cid dur using ok by (simp add: requestLongDump_def case_prod_unfold Let_def)
  then have "run be e a ps \<noteq> None" by (simp add: run_def split: prod.split bool.split)
  with none a show False by (simp add: agent_main_def)
qed

lemma poll_loop_stop: "poll_loop a (ps @ (True, records, err) # qs) = poll_loop a ps"
  by (induction a ps rule: poll_loop.induct) (simp_all add: Let_def)


end
