(* ===== verification/Agent_Windows.thy ===== *)
theory Agent_Windows
  imports Agent_Safety
begin

text \<open>
  What the agent promises of short windows, as an abstract machine that only knows the events
  pending per container and the windows handed over, and the proof that the agent implements it:
  name resolution, filtering, dumps, dump expiry, buffer clean-up and control requests do not
  disturb it. From it follows that no event is lost, duplicated or reordered on a working network.
\<close>

subsection \<open>The abstract machine\<close>

type_synonym pending = "string \<Rightarrow> SyscallEvent list"
type_synonym window = "string \<times> SyscallEvent list"

definition window_full :: "AgentConfig \<Rightarrow> SyscallEvent list \<Rightarrow> bool" where
  "window_full c w \<longleftrightarrow> tsNs (last w) - tsNs (hd w) \<ge> secs_ns (shortWindowSec c) \<and>
     sint (of_nat (length w) :: i32) \<ge> sint (minEventsPerWindow c)"

definition collect :: "AgentConfig \<Rightarrow> string \<times> SyscallEvent \<Rightarrow> pending \<times> window list \<Rightarrow> pending \<times> window list" where
  "collect c x s = (case x of (cid, ev) \<Rightarrow> case s of (P, out) \<Rightarrow>
     (let w = P cid @ [ev] in
      if window_full c w then (P(cid := []), out @ [(cid, w)]) else (P(cid := w), out)))"

definition events_of :: "string \<Rightarrow> (string \<times> SyscallEvent) list \<Rightarrow> SyscallEvent list" where
  "events_of k xs = map snd (filter (\<lambda>x. fst x = k) xs)"

definition delivered :: "string \<Rightarrow> window list \<Rightarrow> SyscallEvent list" where
  "delivered k ws = concat (map snd (filter (\<lambda>x. fst x = k) ws))"

lemma collect_lossless:
  "delivered k (snd (collect c x s)) @ fst (collect c x s) k = delivered k (snd s) @ fst s k @ events_of k [x]"
  by (cases x; cases s) (auto simp: collect_def delivered_def events_of_def Let_def)

lemma fold_collect_lossless:
  "delivered k (snd (fold (collect c) xs s)) @ fst (fold (collect c) xs s) k =
     delivered k (snd s) @ fst s k @ events_of k xs"
proof (induction xs arbitrary: s)
  case (Cons x xs)
  show ?case
    using Cons [of "collect c x s"] collect_lossless [of k c x s] by (simp add: events_of_def)
qed (simp add: events_of_def)

subsection \<open>Posts of the agent\<close>

definition windows_url :: "AgentConfig \<Rightarrow> string" where
  "windows_url c = serverUrl c @ ''/api/v1/agent/windows''"

definition window_posts :: "AgentConfig \<Rightarrow> net \<Rightarrow> transfer list" where
  "window_posts c n = filter (\<lambda>t. tr_url t = windows_url c) (sent n)"

definition post_of :: "AgentConfig \<Rightarrow> window \<Rightarrow> transfer" where
  "post_of c x = (case x of (cid, w) \<Rightarrow>
     \<lparr>tr_url = windows_url c, tr_body = buildWindowJson (agentId c) cid (tsNs (hd w)) w, tr_timeout = 5\<rparr>)"

lemma posts_retry_other:
  assumes "url \<noteq> windows_url c"
  shows "window_posts c (snd (postJsonWithRetry curl url body m t n)) = window_posts c n"
  using assms by (rule_tac post_copies [of m curl url body t n]) (simp add: window_posts_def)

lemma posts_notify: "window_posts c (snd (notifyDumpComplete curl c b n)) = window_posts c n"
proof -
  have "serverUrl c @ ''/api/v1/agent/long-dump-complete'' \<noteq> windows_url c" by (simp add: windows_url_def)
  from posts_retry_other [OF this] show ?thesis
    by (simp add: notifyDumpComplete_def Let_def case_prod_unfold)
qed

lemma posts_append:
  assumes "appendLongDump curl c b ev nd = (b', nd')"
  shows "window_posts c (fst nd') = window_posts c (fst nd)"
  using assms
proof (cases rule: appendLongDump_cases)
  case ended
  let ?closed = "b\<lparr>longDumpStream := os_close (longDumpStream b), isLongDumpActive := False\<rparr>"
  from ended have "fst nd' = snd (notifyDumpComplete curl c ?closed (fst nd))" by simp
  then show ?thesis by (simp add: posts_notify)
qed simp_all

lemma posts_stop_expired: "window_posts c (snd (stop_expired curl c now bs n)) = window_posts c n"
proof (induction bs arbitrary: n)
  case (Cons p bs)
  obtain k b where p: "p = (k, b)" by (cases p)
  show ?case
    unfolding p stop_expired.simps Let_def
    by (simp add: case_prod_unfold Cons posts_notify)
qed simp

text \<open>Posting a window transfers it at most three times: once if the network works, three times in
  vain if every transfer fails. The window is given up afterwards either way.\<close>

definition copies :: "curl_oracle \<Rightarrow> nat \<Rightarrow> bool" where
  "copies curl j \<longleftrightarrow> j \<le> 3 \<and> ((\<forall>i. curl i = CurlPerformed True) \<longrightarrow> j = 1) \<and>
     ((\<forall>i. curl i = CurlPerformed False) \<longrightarrow> j = 3)"

lemma posts_process:
  assumes "currentShortWindow b \<noteq> []" "processShortWindow curl c b n = (b', n')"
  shows "currentShortWindow b' = [] \<and> (\<exists>j. copies curl j \<and>
    window_posts c n' = window_posts c n @ replicate j \<lparr>tr_url = windows_url c,
      tr_body = buildWindowJson (agentId c) (b_containerId b) (windowStartTsNs b) (currentShortWindow b), tr_timeout = 5\<rparr>)"
proof -
  let ?body = "buildWindowJson (agentId c) (b_containerId b) (windowStartTsNs b) (currentShortWindow b)"
  let ?t = "\<lparr>tr_url = windows_url c, tr_body = ?body, tr_timeout = 5\<rparr>"
  have res: "currentShortWindow b' = []" "n' = snd (postJsonWithRetry curl (windows_url c) ?body 3 5 n)"
    using assms by (auto simp: processShortWindow_def windows_url_def Let_def split: prod.splits)
  consider (works) "\<forall>i. curl i = CurlPerformed True" | (fails) "\<forall>i. curl i = CurlPerformed False"
    | (other) "\<not> (\<forall>i. curl i = CurlPerformed True)" "\<not> (\<forall>i. curl i = CurlPerformed False)" by blast
  then show ?thesis
  proof cases
    case works
    then have "sent n' = sent n @ replicate 1 ?t" using res(2) by (simp add: post_sent_once)
    with works res(1) show ?thesis by (intro conjI exI [of _ 1]) (simp_all add: copies_def window_posts_def)
  next
    case fails
    then have "sent n' = sent n @ replicate 3 ?t" using res(2) by (simp add: post_failed)
    with fails res(1) show ?thesis by (intro conjI exI [of _ 3]) (simp_all add: copies_def window_posts_def)
  next
    case other
    obtain j where "j \<le> nat 3" "sent n' = sent n @ replicate j ?t"
      unfolding res(2) by (rule post_copies)
    with res(1) other show ?thesis by (intro conjI exI [of _ j]) (auto simp: copies_def window_posts_def)
  qed
qed

lemma copies_exists: "\<exists>j. copies curl j"
  by (cases "curl 0 = CurlPerformed True") (auto simp: copies_def intro: exI [of _ 1] exI [of _ 3])

lemma buffer_event_window:
  assumes "window_ok b" "dump_ok b" "buffer_event e c cid b ev (n, d) = (b', n', d')"
  shows "currentShortWindow b' = (if window_full c (currentShortWindow b @ [ev]) then [] else currentShortWindow b @ [ev]) \<and>
    (\<exists>j. copies (ae_curl e) j \<and> window_posts c n' = window_posts c n @
      (if window_full c (currentShortWindow b @ [ev]) then replicate j (post_of c (cid, currentShortWindow b @ [ev])) else []))"
proof -
  from assms(1-3) obtain b1 b2 n2 where ap: "appendLongDump (ae_curl e) c b1 ev (n, d) = (b2, n2, d')"
    and b2: "b_containerId b2 = cid" "currentShortWindow b2 = currentShortWindow b @ [ev]"
      "windowStartTsNs b2 = tsNs (hd (currentShortWindow b @ [ev]))"
    and fin: "(b', n') = (if window_complete c b2 ev then processShortWindow (ae_curl e) c b2 n2 else (b2, n2))"
    by (rule buffer_event_parts)
  have n2: "window_posts c n2 = window_posts c n" using posts_append [OF ap] by simp
  have full: "window_complete c b2 ev = window_full c (currentShortWindow b @ [ev])"
    by (simp add: window_complete_def window_full_def b2)
  show ?thesis
  proof (cases "window_complete c b2 ev")
    case True
    with fin have "processShortWindow (ae_curl e) c b2 n2 = (b', n')" by simp
    from posts_process [OF _ this] True full b2 n2 show ?thesis by (simp add: post_of_def)
  next
    case False
    have "\<exists>j. copies (ae_curl e) j" by (rule copies_exists)
    with False fin full b2 n2 show ?thesis by auto
  qed
qed

subsection \<open>The agent implements the machine\<close>

definition pending_of :: "Agent \<Rightarrow> pending" where
  "pending_of a k = currentShortWindow (um_get ContainerBuffer_new (buffers a) k)"

lemma map_of_filter:
  "distinct (map fst xs) \<Longrightarrow>
   map_of (filter (\<lambda>(k, v). P v) xs) k = (case map_of xs k of None \<Rightarrow> None | Some v \<Rightarrow> if P v then Some v else None)"
proof (induction xs)
  case (Cons x xs)
  have "k \<notin> fst ` set xs \<Longrightarrow> map_of (filter (\<lambda>(k, v). P v) xs) k = None" by (auto simp: map_of_eq_None_iff)
  with Cons show ?case by (cases x) (auto split: option.splits)
qed simp

lemma pending_cleanup:
  assumes "distinct (map fst (buffers a))"
  shows "pending_of (cleanupInactiveBuffers now a) = pending_of a"
proof
  fix k
  show "pending_of (cleanupInactiveBuffers now a) k = pending_of a k"
    using assms
    by (auto simp: pending_of_def cleanupInactiveBuffers_def um_get_def map_of_filter removable_def
        ContainerBuffer_new_def split: option.splits)
qed

lemma pending_stopExpired: "pending_of (stopExpiredLongDumps e now a) = pending_of a"
proof
  fix k
  let ?f = "\<lambda>b. if expired now b then dump_stopped b else b"
  have "map_of (map (\<lambda>(k, b). (k, ?f b)) bs) k = map_option ?f (map_of bs k)" for bs :: "(string \<times> ContainerBuffer) list"
    by (induction bs) auto
  moreover have "currentShortWindow (?f b) = currentShortWindow b" for b by (simp add: dump_stopped_def)
  moreover obtain bs n where st: "stop_expired (ae_curl e) (ag_config a) now (buffers a) (ag_net a) = (bs, n)" by fastforce
  moreover have "bs = map (\<lambda>(k, b). (k, ?f b)) (buffers a)"
    using stop_expired_buffers [of "ae_curl e" "ag_config a" now "buffers a" "ag_net a"] st by simp
  ultimately show "pending_of (stopExpiredLongDumps e now a) k = pending_of a k"
    by (auto simp: pending_of_def stopExpiredLongDumps_def um_get_def split: option.split)
qed

lemma posts_stopExpired: "window_posts (ag_config a) (ag_net (stopExpiredLongDumps e now a)) = window_posts (ag_config a) (ag_net a)"
  using posts_stop_expired [of "ag_config a" "ae_curl e" now "buffers a" "ag_net a"]
  by (simp add: stopExpiredLongDumps_def case_prod_unfold Let_def)

lemma cleanup_simps [simp]:
  "ag_net (cleanupInactiveBuffers now a) = ag_net a" "ag_config (cleanupInactiveBuffers now a) = ag_config a"
  by (simp_all add: cleanupInactiveBuffers_def)

lemma stopExpired_simps [simp]:
  "ag_config (stopExpiredLongDumps e now a) = ag_config a"
  "map fst (buffers (stopExpiredLongDumps e now a)) = map fst (buffers a)"
  using stop_expired_keys [of "ae_curl e" "ag_config a" now "buffers a" "ag_net a"]
  by (simp_all add: stopExpiredLongDumps_def case_prod_unfold Let_def)

definition accepted_event :: "agent_env \<Rightarrow> Agent \<Rightarrow> KernelSyscallEvent \<Rightarrow> (string \<times> SyscallEvent) list" where
  "accepted_event e a evt =
     (let cid = fst (mapContainerId e (ag_mapper a) (cgroupId (map_event evt)) (pid (map_event evt)))
      in if filtered_out e (ag_config a) cid then [] else [(cid, map_event evt)])"

definition working :: "agent_env \<Rightarrow> bool" where
  "working e \<longleftrightarrow> (\<forall>i. ae_curl e i = CurlPerformed True)"

text \<open>The windows handed over, each transferred its number of times.\<close>

definition repeated :: "AgentConfig \<Rightarrow> nat list \<Rightarrow> window list \<Rightarrow> transfer list" where
  "repeated c js out = concat (map2 (\<lambda>j w. replicate j (post_of c w)) js out)"

lemma repeated_append:
  "length js = length out \<Longrightarrow> repeated c (js @ js') (out @ out') = repeated c js out @ repeated c js' out'"
  by (simp add: repeated_def zip_append)

lemma repeated_once: "repeated c (replicate (length out) 1) out = map (post_of c) out"
  by (induction out) (simp_all add: repeated_def)

text \<open>The agent's steps are the machine's on the accepted events, with \<open>js\<close> transfers per window.\<close>

definition simulates :: "AgentConfig \<Rightarrow> nat list \<Rightarrow> Agent \<Rightarrow> (string \<times> SyscallEvent) list \<Rightarrow> Agent \<Rightarrow> bool" where
  "simulates c js a xs a' \<longleftrightarrow> (case fold (collect c) xs (pending_of a, []) of (P, out) \<Rightarrow>
     pending_of a' = P \<and> length js = length out \<and>
     window_posts c (ag_net a') = window_posts c (ag_net a) @ repeated c js out)"

definition dead :: "agent_env \<Rightarrow> bool" where
  "dead e \<longleftrightarrow> (\<forall>i. ae_curl e i = CurlPerformed False)"

text \<open>The numbers of transfers on networks that all work, or all fail, or neither.\<close>

definition sends :: "bool \<Rightarrow> bool \<Rightarrow> nat list \<Rightarrow> bool" where
  "sends works fails js \<longleftrightarrow> list_all (\<lambda>j. j \<le> 3 \<and> (works \<longrightarrow> j = 1) \<and> (fails \<longrightarrow> j = 3)) js"

lemma sends_append: "sends w f js \<Longrightarrow> sends w f js' \<Longrightarrow> sends w f (js @ js')"
  by (simp add: sends_def)

lemma sends_replicate:
  assumes "sends w f js"
  shows "w \<Longrightarrow> js = replicate (length js) 1" "f \<Longrightarrow> js = replicate (length js) 3"
  using assms by (auto simp: sends_def list_all_iff intro!: replicate_eqI)

lemma handleEvent_simulates:
  assumes "agent_inv a" "ag_config a = c"
  shows "(\<exists>js. sends (working e) (dead e) js \<and> simulates c js a (accepted_event e a evt) (handleEvent e a evt)) \<and>
    ag_config (handleEvent e a evt) = c"
proof -
  let ?ev = "map_event evt"
  obtain cid m where mp: "mapContainerId e (ag_mapper a) (cgroupId ?ev) (pid ?ev) = (cid, m)" by fastforce
  show ?thesis
  proof (cases "filtered_out e c cid")
    case True
    with mp assms(2) show ?thesis
      by (intro conjI exI [of _ "[]"])
        (simp_all add: sends_def simulates_def repeated_def accepted_event_def handleEvent_def pending_of_def fun_eq_iff)
  next
    case False
    let ?b = "um_get ContainerBuffer_new (buffers a) cid"
    obtain b n d where be: "buffer_event e c cid ?b ?ev (ag_net a, ag_disk a) = (b, n, d)" by (metis prod_cases3)
    have ok: "window_ok ?b" "dump_ok ?b" using um_get_ok assms(1) by (auto simp: agent_inv_def)
    let ?full = "window_full c (currentShortWindow ?b @ [?ev])"
    obtain j where j: "copies (ae_curl e) j" and w: "currentShortWindow b = (if ?full then [] else currentShortWindow ?b @ [?ev])"
      and p: "window_posts c n = window_posts c (ag_net a) @ (if ?full then replicate j (post_of c (cid, currentShortWindow ?b @ [?ev])) else [])"
      using buffer_event_window [OF ok be] by blast
    define a1 where "a1 = a\<lparr>ag_mapper := m, buffers := um_set cid b (buffers a), ag_net := n, ag_disk := d\<rparr>"
    have a': "handleEvent e a evt = cleanupInactiveBuffers (tsNs ?ev) (stopExpiredLongDumps e (tsNs ?ev) a1)"
      using mp be False assms(2) by (simp add: handleEvent_def a1_def Let_def)
    have dist: "distinct (map fst (buffers a1))"
      using assms(1) by (simp add: a1_def agent_inv_def distinct_um_set)
    have "pending_of (handleEvent e a evt) = (pending_of a)(cid := currentShortWindow b)"
      using dist by (simp add: a' pending_cleanup pending_stopExpired) (simp add: pending_of_def a1_def fun_eq_iff)
    moreover have "window_posts c (ag_net (handleEvent e a evt)) = window_posts c n"
      using posts_stopExpired [of a1 e "tsNs ?ev"] assms(2) by (simp add: a' a1_def)
    moreover have "pending_of a cid = currentShortWindow ?b" by (simp add: pending_of_def)
    moreover have "accepted_event e a evt = [(cid, ?ev)]"
      using mp False assms(2) by (simp add: accepted_event_def)
    moreover have "ag_config (handleEvent e a evt) = c" using assms(2) by (simp add: a' a1_def)
    ultimately have "simulates c (if ?full then [j] else []) a (accepted_event e a evt) (handleEvent e a evt)"
      using w p by (simp add: simulates_def collect_def repeated_def Let_def)
    moreover have "sends (working e) (dead e) (if ?full then [j] else [])"
      using j by (simp add: sends_def copies_def working_def dead_def)
    ultimately show ?thesis using \<open>ag_config (handleEvent e a evt) = c\<close> by blast
  qed
qed

subsection \<open>Interleaved inputs\<close>

datatype input = Event agent_env KernelSyscallEvent | Request agent_env string

text \<open>A run of the agent on its inputs, with the events it accepted; \<open>None\<close> when a callback
  ended the process.\<close>

fun feed :: "input list \<Rightarrow> Agent \<Rightarrow> (Agent \<times> (string \<times> SyscallEvent) list) option" where
  "feed [] a = Some (a, [])"
| "feed (Event e evt # is) a =
     map_option (\<lambda>(a', xs). (a', accepted_event e a evt @ xs)) (feed is (handleEvent e a evt))"
| "feed (Request e received # is) a =
     (case handleClient (agent_handlers e) a received of None \<Rightarrow> None | Some (a', resp) \<Rightarrow> feed is a')"

text \<open>Control requests leave windows and transfers alone: the control contract once more.\<close>

definition unmoved :: "AgentConfig \<Rightarrow> pending \<Rightarrow> net \<Rightarrow> Agent \<Rightarrow> bool" where
  "unmoved c P n a \<longleftrightarrow> agent_inv a \<and> ag_config a = c \<and> pending_of a = P \<and> ag_net a = n"

lemma open_dump_window: "currentShortWindow (fst (open_dump can stamp now c b dur d)) = currentShortWindow b"
  by (simp add: open_dump_def Let_def case_prod_unfold)

lemma requestLongDump_unmoved:
  assumes "unmoved c P n a" "requestLongDump e a cid dur = Some a'"
  shows "unmoved c P n a'"
proof -
  let ?b = "(um_get ContainerBuffer_new (buffers a) cid)\<lparr>b_containerId := cid\<rparr>"
  obtain b d where op: "open_dump (ae_can_open e) (nowTimestampForFile e) (monotonicNowNs e) (ag_config a) ?b dur (ag_disk a) = (b, d)"
    by fastforce
  have "currentShortWindow b = pending_of a cid"
    using open_dump_window [of "ae_can_open e" "nowTimestampForFile e" "monotonicNowNs e" "ag_config a" ?b dur "ag_disk a"] op
    by (simp add: pending_of_def)
  moreover have a': "a' = a\<lparr>buffers := um_set cid b (buffers a), ag_disk := d\<rparr>"
    using assms(2) op by (auto simp: requestLongDump_def Let_def split: if_splits)
  ultimately have "pending_of a' = pending_of a" by (auto simp: pending_of_def fun_eq_iff)
  with assms a' requestLongDump_inv [of a e cid dur a'] show ?thesis by (simp add: unmoved_def)
qed

lemma handlePolicy_unmoved:
  assumes "unmoved c P n a" "handlePolicy e a cid q ty spec = (ok, a')"
  shows "unmoved c P n a'"
  using assms handlePolicy_inv [of a e cid q ty spec ok a']
  by (auto simp: unmoved_def handlePolicy_def pending_of_def fun_eq_iff split: prod.splits)

interpretation window_control: control_handlers "\<lambda>a cid dur reason. requestLongDump e a cid dur" "handlePolicy e" "unmoved c P n"
  for e c P n
  by unfold_locales (auto dest: requestLongDump_unmoved handlePolicy_unmoved)

lemma fold_collect_out:
  "fold (collect c) xs (P, out) = (fst (fold (collect c) xs (P, [])), out @ snd (fold (collect c) xs (P, [])))"
proof (induction xs arbitrary: P out)
  case (Cons x xs)
  obtain cid ev where x: "x = (cid, ev)" by (cases x)
  let ?w = "P cid @ [ev]"
  show ?case
  proof (cases "window_full c ?w")
    case True
    define Q where "Q = P(cid := [])"
    have step: "collect c x (P, out') = (Q, out' @ [(cid, ?w)])" for out'
      using True by (simp add: x collect_def Let_def Q_def)
    show ?thesis
      using Cons [of Q "out @ [(cid, ?w)]"] Cons [of Q "[(cid, ?w)]"] by (simp add: step)
  next
    case False
    define Q where "Q = P(cid := ?w)"
    have "collect c x (P, out') = (Q, out')" for out'
      using False by (simp add: x collect_def Let_def Q_def)
    then show ?thesis using Cons [of Q out] by simp
  qed
qed simp

lemma simulates_trans:
  assumes "simulates c js a xs a1" "simulates c js' a1 ys a2"
  shows "simulates c (js @ js') a (xs @ ys) a2"
  using assms fold_collect_out [of c ys "pending_of a1" "snd (fold (collect c) xs (pending_of a, []))"]
  by (auto simp: simulates_def repeated_append split: prod.splits)

lemma feed_simulates:
  "agent_inv a \<Longrightarrow> ag_config a = c \<Longrightarrow> (\<forall>e evt. Event e evt \<in> set is \<longrightarrow> (w \<longrightarrow> working e) \<and> (f \<longrightarrow> dead e)) \<Longrightarrow>
   feed is a = Some (a', xs) \<Longrightarrow> \<exists>js. sends w f js \<and> simulates c js a xs a'"
proof (induction "is" a arbitrary: a' xs rule: feed.induct)
  case (1 a)
  then show ?case by (intro exI [of _ "[]"]) (simp add: simulates_def sends_def repeated_def)
next
  case (2 e evt "is" a)
  from 2(5) obtain ys where ys: "feed is (handleEvent e a evt) = Some (a', ys)" "xs = accepted_event e a evt @ ys" by auto
  obtain js where js: "sends (working e) (dead e) js" "simulates c js a (accepted_event e a evt) (handleEvent e a evt)"
    and cfg: "ag_config (handleEvent e a evt) = c"
    using handleEvent_simulates [OF 2(2,3), of e evt] by blast
  have "(w \<longrightarrow> working e) \<and> (f \<longrightarrow> dead e)" using 2(4) by simp
  with js(1) have "sends w f js" by (auto simp: sends_def list_all_iff)
  moreover have "\<forall>e evt. Event e evt \<in> set is \<longrightarrow> (w \<longrightarrow> working e) \<and> (f \<longrightarrow> dead e)" using 2(4) by auto
  from 2(1) [OF handleEvent_inv [OF 2(2)] cfg this ys(1)] obtain js' where
    "sends w f js'" "simulates c js' (handleEvent e a evt) ys a'" by blast
  ultimately show ?case using js(2) ys(2) simulates_trans sends_append by blast
next
  case (3 e received "is" a)
  from 3(5) obtain a1 resp where h: "handleClient (agent_handlers e) a received = Some (a1, resp)" and f: "feed is a1 = Some (a', xs)"
    by (auto split: option.splits)
  have "unmoved c (pending_of a) (ag_net a) a" using 3(2,3) by (simp add: unmoved_def)
  from window_control.client_inv [OF this h [unfolded agent_handlers_def]]
  have "agent_inv a1" "ag_config a1 = c" "pending_of a1 = pending_of a" "ag_net a1 = ag_net a" by (simp_all add: unmoved_def)
  with 3(1) [OF h refl _ _ _ f] 3(4) show ?case by (simp add: simulates_def)
qed

text \<open>On networks that all work, every window is transferred once; if all fail, three times.\<close>

lemma feed_working:
  assumes "agent_inv a" "ag_config a = c" "\<forall>e evt. Event e evt \<in> set is \<longrightarrow> working e" "feed is a = Some (a', xs)"
  shows "case fold (collect c) xs (pending_of a, []) of (P, out) \<Rightarrow>
    pending_of a' = P \<and> window_posts c (ag_net a') = window_posts c (ag_net a) @ map (post_of c) out"
proof -
  obtain js where js: "sends True False js" "simulates c js a xs a'"
    using feed_simulates [OF assms(1,2) _ assms(4), of True False] assms(3) by blast
  then show ?thesis
    using sends_replicate(1) [OF js(1)] repeated_once by (auto simp: simulates_def split: prod.splits)
qed

lemma reachable_config: "agent_reachable c a \<Longrightarrow> ag_config a = c"
proof (induction rule: agent_reachable.induct)
  case (new e a)
  then show ?case by (auto simp: Agent_new_def)
next
  case (step a a')
  from step.hyps(2) step.IH show ?case
  proof (elim agent_stepE)
    fix e received resp
    assume "handleClient (agent_handlers e) a received = Some (a', resp)"
    from window_control.client_inv [OF _ this [unfolded agent_handlers_def], of c "pending_of a" "ag_net a"]
    show ?thesis using reachable_inv [OF step.hyps(1)] step.IH by (simp add: unmoved_def)
  qed (auto simp: handleEventThunk_def handleEvent_def requestLongDump_def stopExpiredLongDumps_def Let_def
      split: prod.splits if_splits)
qed

text \<open>C2: The agent implements the window machine. From any reachable state, whatever the network
  does, for any interleaving of events and control requests: the windows in progress are the
  machine's, and the windows transferred are, in order, exactly those the machine hands over for
  the accepted events, each as the JSON text of its events stamped with the time of its first
  one, each at most three times in a row, and exactly once if the network works.\<close>

theorem windows_refine:
  assumes "agent_reachable c a" "feed is a = Some (a', xs)"
  shows "case fold (collect c) xs (pending_of a, []) of (P, out) \<Rightarrow>
    pending_of a' = P \<and>
    (\<exists>js. length js = length out \<and> list_all (\<lambda>j. j \<le> 3) js \<and>
       window_posts c (ag_net a') = window_posts c (ag_net a) @ concat (map2 (\<lambda>j w. replicate j (post_of c w)) js out) \<and>
       ((\<forall>e evt. Event e evt \<in> set is \<longrightarrow> working e) \<longrightarrow> js = replicate (length out) 1))"
proof -
  let ?w = "\<forall>e evt. Event e evt \<in> set is \<longrightarrow> working e"
  obtain js where js: "sends ?w False js" "simulates c js a xs a'"
    using feed_simulates [OF reachable_inv [OF assms(1)] reachable_config [OF assms(1)] _ assms(2), of ?w False] by blast
  have "list_all (\<lambda>j. j \<le> 3) js" using js(1) by (auto simp: sends_def list_all_iff)
  then show ?thesis
    using js(2) sends_replicate(1) [OF js(1)] by (auto simp: simulates_def repeated_def split: prod.splits)
qed

text \<open>An outage loses events. If every transfer fails while a run of events is handled, each window
  the machine hands over is transferred three times in vain and then given up: afterwards only
  the machine's pending events are still held by the agent, and nothing of the windows before is
  retained for a later attempt.\<close>

theorem outage_drops_windows:
  assumes "agent_reachable c a" "\<forall>e evt. Event e evt \<in> set is \<longrightarrow> (\<forall>i. ae_curl e i = CurlPerformed False)"
    and "feed is a = Some (a', xs)"
  shows "case fold (collect c) xs (pending_of a, []) of (P, out) \<Rightarrow>
    pending_of a' = P \<and>
    window_posts c (ag_net a') = window_posts c (ag_net a) @ concat (map (\<lambda>w. replicate 3 (post_of c w)) out)"
proof -
  obtain js where js: "sends False True js" "simulates c js a xs a'"
    using feed_simulates [OF reachable_inv [OF assms(1)] reachable_config [OF assms(1)] _ assms(3), of False True]
      assms(2) unfolding dead_def by blast
  have "repeated c (replicate (length out) 3) out = concat (map (\<lambda>w. replicate 3 (post_of c w)) out)" for out
    by (induction out) (simp_all add: repeated_def)
  then show ?thesis
    using js(2) sends_replicate(2) [OF js(1)] by (auto simp: simulates_def split: prod.splits)
qed

text \<open>A non-negative number of seconds is converted to nanoseconds without overflow.\<close>

lemma secs_ns_exact:
  assumes "0 \<le> sint secs"
  shows "nat (sint secs) * 10 ^ 9 < 2 ^ 63" "unat (secs_ns secs) = nat (sint secs) * 10 ^ 9"
proof -
  have s31: "sint secs < 2 ^ 31" using sint_less [of secs] by simp
  then show small: "nat (sint secs) * 10 ^ 9 < 2 ^ 63" using assms by simp
  have "take_bit 64 (sint secs) = sint secs" using assms s31 by (intro take_bit_int_eq_self) simp_all
  then have "uint (word_of_int (sint secs) :: u64) = sint secs" unfolding uint_word_of_int_eq by simp
  then have "unat (scast secs :: u64) = nat (sint secs)" unfolding scast_eq unat_eq_nat_uint by simp
  then have "unat (secs_ns secs) = nat (sint secs) * 1000000000 mod 2 ^ 64"
    unfolding secs_ns_def by (subst unat_word_ariths(2)) simp
  with small show "unat (secs_ns secs) = nat (sint secs) * 10 ^ 9" by simp
qed

text \<open>When a window is complete, in unbounded arithmetic: for a non-negative window length and fewer
  than two to the 31 events, if the event is not older than the window's start, exactly when the
  configured number of seconds has passed and there are enough events. An event older than the
  start (by less than 292 years) makes the unsigned difference wrap around, so that the number of events
  alone decides and the window is handed over early.\<close>

theorem window_complete_meaning:
  assumes "0 \<le> sint (shortWindowSec c)" "length (currentShortWindow b) < 2 ^ 31"
    and "unat (windowStartTsNs b) - unat (tsNs ev) \<le> 2 ^ 63"
  shows "window_complete c b ev \<longleftrightarrow>
    (if windowStartTsNs b \<le> tsNs ev
     then nat (sint (shortWindowSec c)) * 10 ^ 9 \<le> unat (tsNs ev) - unat (windowStartTsNs b) else True) \<and>
    sint (minEventsPerWindow c) \<le> int (length (currentShortWindow b))"
proof -
  let ?s = "shortWindowSec c" and ?start = "windowStartTsNs b" and ?t = "tsNs ev"
  have small: "nat (sint ?s) * 10 ^ 9 < 2 ^ 63" and ns: "unat (secs_ns ?s) = nat (sint ?s) * 10 ^ 9"
    using secs_ns_exact [OF assms(1)] .
  have len: "sint (of_nat (length (currentShortWindow b)) :: i32) = int (length (currentShortWindow b))"
    using assms(2) by (simp add: signed_of_nat signed_take_bit_int_eq_self)
  show ?thesis
  proof (cases "?start \<le> ?t")
    case True
    then have "unat (?t - ?start) = unat ?t - unat ?start" by (rule unat_sub)
    then have eq: "secs_ns ?s \<le> ?t - ?start \<longleftrightarrow> nat (sint ?s) * 10 ^ 9 \<le> unat ?t - unat ?start"
      by (simp only: word_le_nat_alt ns)
    show ?thesis unfolding window_complete_def len eq by (simp only: True if_True)
  next
    case False
    then have "unat ?t < unat ?start" by (simp add: word_le_nat_alt)
    then have "unat (?t - ?start) = 2 ^ 64 - (unat ?start - unat ?t)"
      using unsigned_less [of ?start] by (simp add: unat_sub_if_size word_size)
    then have "secs_ns ?s \<le> ?t - ?start" using small ns assms(3) by (simp add: word_le_nat_alt)
    with False show ?thesis by (simp add: window_complete_def len)
  qed
qed

definition host_event :: KernelSyscallEvent where
  "host_event = \<lparr>k_ts_ns = 5000, k_pid = 42, k_tid = 42, k_cgroup_id = 9, k_syscall_id = 1, k_arg_class = 0, k_arg_bucket = 0\<rparr>"

lemma host_accepted:
  assumes "ag_mapper a = ag_mapper fresh_agent" "containerFilterRegex (ag_config a) = []" "ae_docker e = silent_docker"
    and "k_cgroup_id evt = 9" "k_pid evt = 42"
  shows "accepted_event e a evt = [(''host-9'', map_event evt)]"
proof -
  have fa: "ag_mapper fresh_agent = Legacy (DockerMapper_new (dockerSocketPath default_config) (containerMapCacheTTL default_config))"
    by (simp add: fresh_agent_def Agent_new_def PolicyEnforcer_new_def quiet_env_def default_config_def)
  have "fst (mapContainerId e (ag_mapper a) 9 42) = ''host-9''"
    by (simp add: assms(1,3) fa mapContainerId_def dm_getContainerName_def DockerMapper_new_def dm_resolve_def
        extractContainerHashFromCgroup_def silent_docker_def show_word_def show_eval)
  then show ?thesis
    using assms(2,4,5) by (simp add: accepted_event_def filtered_out_def map_event_def)
qed

lemma fresh_agent_config: "ag_config fresh_agent = default_config" "containerFilterRegex default_config = []"
  by (simp_all add: fresh_agent_def Agent_new_def PolicyEnforcer_new_def quiet_env_def default_config_def)

lemma host_event_accepted: "accepted_event quiet_env fresh_agent host_event = [(''host-9'', map_event host_event)]"
  by (rule host_accepted) (simp_all add: fresh_agent_config quiet_env_def host_event_def)

lemma fresh_agent_pending: "pending_of fresh_agent k = []"
  by (simp add: pending_of_def fresh_agent_def Agent_new_def PolicyEnforcer_new_def quiet_env_def um_get_def
      ContainerBuffer_new_def)

lemma quiet_env_working: "\<forall>e evt. Event e evt \<in> set [Event quiet_env host_event] \<longrightarrow> working e"
  by (simp add: working_def quiet_env_def)

theorem windows_refine_witness:
  "pending_of (handleEvent quiet_env fresh_agent host_event) =
     fst (fold (collect default_config) [(''host-9'', map_event host_event)] (pending_of fresh_agent, []))"
proof -
  have "feed [Event quiet_env host_event] fresh_agent =
      Some (handleEvent quiet_env fresh_agent host_event, [(''host-9'', map_event host_event)])"
    by (simp add: host_event_accepted)
  from windows_refine [OF agent_reachable.new [OF fresh_agent_new] this] show ?thesis
    by (auto split: prod.splits)
qed

text \<open>A window of one event, on a network on which every transfer fails.\<close>

definition eager_config :: AgentConfig where
  "eager_config = default_config\<lparr>shortWindowSec := 0, minEventsPerWindow := 1\<rparr>"

definition outage_env :: agent_env where
  "outage_env = quiet_env\<lparr>ae_curl := \<lambda>_. CurlPerformed False\<rparr>"

definition eager_agent :: Agent where
  "eager_agent = fresh_agent\<lparr>ag_config := eager_config\<rparr>"

lemma eager_agent_new: "Agent_new quiet_env eager_config = Some eager_agent"
  by (simp add: eager_agent_def eager_config_def fresh_agent_def Agent_new_def PolicyEnforcer_new_def quiet_env_def default_config_def)

theorem window_complete_meaning_witness:
  "window_complete (default_config\<lparr>minEventsPerWindow := 1\<rparr>)
     (ContainerBuffer_new\<lparr>windowStartTsNs := 2000, currentShortWindow := [sample_event 2000, sample_event 1000]\<rparr>)
     (sample_event 1000)"
  using window_complete_meaning [of "default_config\<lparr>minEventsPerWindow := 1\<rparr>"
      "ContainerBuffer_new\<lparr>windowStartTsNs := 2000, currentShortWindow := [sample_event 2000, sample_event 1000]\<rparr>" "sample_event 1000"]
  by (simp add: default_config_def sample_event_def)

theorem outage_drops_windows_witness:
  "pending_of (handleEvent outage_env eager_agent host_event) ''host-9'' = [] \<and>
   window_posts eager_config (ag_net (handleEvent outage_env eager_agent host_event)) =
     replicate 3 (post_of eager_config (''host-9'', [map_event host_event]))"
proof -
  have acc: "accepted_event outage_env eager_agent host_event = [(''host-9'', map_event host_event)]"
    by (rule host_accepted)
      (simp_all add: eager_agent_def eager_config_def outage_env_def quiet_env_def host_event_def fresh_agent_config(2))
  have run: "feed [Event outage_env host_event] eager_agent =
      Some (handleEvent outage_env eager_agent host_event, [(''host-9'', map_event host_event)])"
    by (simp add: acc)
  have "pending_of eager_agent k = []" "window_posts eager_config (ag_net eager_agent) = []" for k
    using fresh_agent_pending [of k]
    by (simp_all add: eager_agent_def pending_of_def window_posts_def fresh_agent_def Agent_new_def
        PolicyEnforcer_new_def quiet_env_def net0_def)
  moreover have "window_full eager_config [map_event host_event]"
    by (simp add: window_full_def eager_config_def secs_ns_def)
  ultimately show ?thesis
    using outage_drops_windows [OF agent_reachable.new [OF eager_agent_new] _ run]
    by (simp add: outage_env_def collect_def)
qed

end
