(* ===== verification/Agent_Dumps.thy ===== *)
theory Agent_Dumps
  imports Agent_Windows "HOL-Library.Multiset"
begin

text \<open>
  What the agent promises of long dumps, as an abstract machine per container that knows the dump
  in progress and the finished ones with the events of each, and the proof that the agent
  implements it on its disk: for any interleaving of events and control requests in which no dump
  is asked for while one of the same container runs and no two dumps share a file, every dump file
  holds exactly its header and its events.
\<close>

subsection \<open>The abstract machine\<close>

record dump =
  d_path :: string
  d_start :: u64
  d_secs :: i32
  d_events :: "SyscallEvent list"

definition d_end :: "dump \<Rightarrow> u64" where
  "d_end r = d_start r + secs_ns (d_secs r)"

datatype action =
    Started string string u64 i32  \<comment> \<open>container, file, start, seconds\<close>
  | Seen string SyscallEvent

type_synonym dumps = "dump option \<times> dump list"  \<comment> \<open>running, finished\<close>

fun ended :: "u64 \<Rightarrow> dumps \<Rightarrow> dumps" where
  "ended now (Some r, fin) = (if now \<ge> d_end r then (None, fin @ [r]) else (Some r, fin))"
| "ended now (None, fin) = (None, fin)"

definition logged :: "SyscallEvent \<Rightarrow> dumps \<Rightarrow> dumps" where
  "logged ev s = (map_option (\<lambda>r. r\<lparr>d_events := d_events r @ [ev]\<rparr>) (fst s), snd s)"

fun dump_step :: "string \<Rightarrow> action \<Rightarrow> dumps \<Rightarrow> dumps" where
  "dump_step k (Started cid p t secs) s =
     (if cid = k then (Some \<lparr>d_path = p, d_start = t, d_secs = secs, d_events = []\<rparr>, snd s) else s)"
| "dump_step k (Seen cid ev) s = (if cid = k then logged ev (ended (tsNs ev) s) else ended (tsNs ev) s)"

text \<open>No dump of container \<open>k\<close> is started while one is running.\<close>

fun orderly :: "string \<Rightarrow> action list \<Rightarrow> dumps \<Rightarrow> bool" where
  "orderly k [] s = True"
| "orderly k (x # xs) s =
     ((case x of Started cid p t secs \<Rightarrow> if cid = k then fst s = None else True | Seen cid ev \<Rightarrow> True) \<and>
      orderly k xs (dump_step k x s))"

subsection \<open>Files of the dumps\<close>

definition dumps_all :: "dumps \<Rightarrow> dump list" where
  "dumps_all s = snd s @ (case fst s of None \<Rightarrow> [] | Some r \<Rightarrow> [r])"

fun started_path :: "string \<Rightarrow> action \<Rightarrow> string list" where
  "started_path k (Started cid p t secs) = (if cid = k then [p] else [])"
| "started_path k (Seen cid ev) = []"

fun any_path :: "action \<Rightarrow> string list" where
  "any_path (Started cid p t secs) = [p]"
| "any_path (Seen cid ev) = []"

definition paths :: "dumps \<Rightarrow> string multiset" where
  "paths s = mset (map d_path (dumps_all s))"

text \<open>The files in use and those to come, per container.\<close>

definition footprint :: "string \<Rightarrow> action list \<Rightarrow> dumps \<Rightarrow> string multiset" where
  "footprint k xs s = paths s + mset (concat (map (started_path k) xs))"

definition apart :: "action list \<Rightarrow> (string \<Rightarrow> dumps) \<Rightarrow> bool" where
  "apart xs D \<longleftrightarrow> (\<forall>k p. count (footprint k xs (D k)) p \<le> 1) \<and>
     (\<forall>k k' p. p \<in># footprint k xs (D k) \<and> p \<in># footprint k' xs (D k') \<longrightarrow> k = k')"

lemma paths_ended [simp]: "paths (ended now s) = paths s"
  by (cases "(now, s)" rule: ended.cases) (auto simp: paths_def dumps_all_def)

lemma paths_logged [simp]: "paths (logged ev s) = paths s"
  by (auto simp: paths_def dumps_all_def logged_def split: option.split)

lemma footprint_step: "footprint k xs (dump_step k x s) \<subseteq># footprint k (x # xs) s"
proof (cases x)
  case (Started cid p t secs)
  then show ?thesis
    by (cases "cid = k") (auto simp: footprint_def paths_def dumps_all_def intro!: mset_subset_eq_add_left split: option.split)
next
  case (Seen cid ev)
  then show ?thesis by (simp add: footprint_def)
qed

lemma apart_step: "apart (x # xs) D \<Longrightarrow> apart xs (\<lambda>k. dump_step k x (D k))"
  unfolding apart_def
  by (meson footprint_step mset_subset_eqD mset_subset_eq_count order_trans)

lemma apart_now: "apart xs D \<Longrightarrow> apart [] D"
  unfolding apart_def footprint_def
  by (metis (no_types, lifting) add_leE concat.simps(1) count_union list.simps(8) mset.simps(1) add.right_neutral union_iff)

lemma apart_init:
  assumes "distinct (concat (map any_path xs))"
  shows "apart xs (\<lambda>k. (None, []))"
proof -
  have sub: "mset (concat (map (started_path k) xs)) \<subseteq># mset (concat (map any_path xs))" for k
  proof (induction xs)
    case (Cons x xs)
    have "mset (started_path k x) \<subseteq># mset (any_path x)" by (cases x) simp_all
    with Cons show ?case by (simp add: subset_mset.add_mono)
  qed simp
  have "count (mset (concat (map (started_path k) xs))) p \<le> 1" for k p
    using sub [of k] assms by (metis (no_types, opaque_lifting) distinct_count_atmost_1 mset_subset_eq_count order_trans count_mset_0_iff le0 nle_le)
  moreover have "p \<in> set (concat (map (started_path k) xs)) \<Longrightarrow> p \<in> set (concat (map (started_path k') xs)) \<Longrightarrow> k = k'" for k k' p
    using assms
  proof (induction xs)
    case (Cons x xs)
    have "set (started_path l y) \<subseteq> set (any_path y)" for l y by (cases y) auto
    then have rest: "set (concat (map (started_path l) xs)) \<subseteq> set (concat (map any_path xs))"
      and one: "set (started_path l x) \<subseteq> set (any_path x)" for l by fastforce+
    have "p \<in> set (started_path k x) \<Longrightarrow> p \<in> set (started_path k' x) \<Longrightarrow> k = k'"
      by (cases x) (simp_all split: if_splits)
    moreover have "set (any_path x) \<inter> set (concat (map any_path xs)) = {}" "distinct (concat (map any_path xs))"
      using Cons.prems(3) by simp_all
    moreover have "p \<in> set (started_path k x) \<or> p \<in> set (concat (map (started_path k) xs))"
      "p \<in> set (started_path k' x) \<or> p \<in> set (concat (map (started_path k') xs))"
      using Cons.prems(1,2) by simp_all
    ultimately show ?case using Cons.IH rest one by blast
  qed simp
  ultimately show ?thesis by (simp add: apart_def footprint_def paths_def dumps_all_def) blast
qed

subsection \<open>One buffer\<close>

text \<open>The buffer of container \<open>k\<close> is running the dump \<open>r\<close>, whose file is complete so far.\<close>

definition runs :: "AgentConfig \<Rightarrow> disk \<Rightarrow> string \<Rightarrow> dump \<Rightarrow> ContainerBuffer \<Rightarrow> bool" where
  "runs c d k r b \<longleftrightarrow> dumping c d (d_path r) (d_events r) b \<and> b_containerId b = k \<and>
     longDumpStartTsNs b = d_start r \<and> longDumpEndTsNs b = d_end r \<and> longDumpDurationSec b = d_secs r"

definition dump_file_of :: "AgentConfig \<Rightarrow> string \<Rightarrow> dump \<Rightarrow> bytes" where
  "dump_file_of c k r = dump_file c k (d_start r) (d_events r)"

lemma runs_active: "runs c d k r b \<Longrightarrow> isLongDumpActive b"
  by (simp add: runs_def dumping_def)

lemma runs_file: "runs c d k r b \<Longrightarrow> d (d_path r) = Some (dump_file_of c k r)"
  by (auto simp: runs_def dumping_def dump_file_of_def)

lemma runs_disk: "d' (d_path r) = d (d_path r) \<Longrightarrow> runs c d' k r b = runs c d k r b"
  by (simp add: runs_def dumping_def)

text \<open>The part of a buffer that dumps use; windows leave it alone.\<close>

definition same_dump :: "ContainerBuffer \<Rightarrow> ContainerBuffer \<Rightarrow> bool" where
  "same_dump b b' \<longleftrightarrow> isLongDumpActive b' = isLongDumpActive b \<and> longDumpStartTsNs b' = longDumpStartTsNs b \<and>
     longDumpEndTsNs b' = longDumpEndTsNs b \<and> lastDumpTsNs b' = lastDumpTsNs b \<and>
     longDumpStream b' = longDumpStream b \<and> longDumpFilePath b' = longDumpFilePath b \<and>
     longDumpRecordCount b' = longDumpRecordCount b \<and> longDumpDurationSec b' = longDumpDurationSec b"

lemma runs_cong: "same_dump b b' \<Longrightarrow> b_containerId b' = b_containerId b \<Longrightarrow> runs c d k r b' = runs c d k r b"
  by (simp add: same_dump_def runs_def dumping_def)

lemma runs_same: "runs c d k r b \<Longrightarrow> same_dump b b' \<Longrightarrow> b_containerId b' = k \<Longrightarrow> runs c d k r b'"
  by (simp add: same_dump_def runs_def dumping_def)

lemma process_same_dump:
  "same_dump b (fst (processShortWindow curl c b n)) \<and> b_containerId (fst (processShortWindow curl c b n)) = b_containerId b"
  by (simp add: same_dump_def processShortWindow_def Let_def case_prod_unfold)

lemma buffer_event_dump:
  assumes "buffer_event e c cid b ev nd = (b', n', d')"
  obtains b1 b2 n2 where "same_dump b b1" "b_containerId b1 = cid" "appendLongDump (ae_curl e) c b1 ev nd = (b2, n2, d')"
    "same_dump b2 b'" "b_containerId b' = b_containerId b2"
    "(b', n') = (if window_complete c b2 ev then processShortWindow (ae_curl e) c b2 n2 else (b2, n2))"
proof -
  let ?w = "currentShortWindow b"
  define b1 where "b1 = (if ?w = [] then b\<lparr>b_containerId := cid, windowStartTsNs := tsNs ev\<rparr> else b\<lparr>b_containerId := cid\<rparr>)
    \<lparr>lastEventTsNs := tsNs ev, currentShortWindow := ?w @ [ev]\<rparr>"
  obtain b2 n2 d2 where ap: "appendLongDump (ae_curl e) c b1 ev nd = (b2, n2, d2)" by (metis prod_cases3)
  have "buffer_event e c cid b ev nd = (case appendLongDump (ae_curl e) c b1 ev nd of (b, n, d) \<Rightarrow>
      case if window_complete c b ev then processShortWindow (ae_curl e) c b n else (b, n) of (b, n) \<Rightarrow> (b, n, d))"
    by (cases "?w = []") (simp_all add: buffer_event_def b1_def Let_def)
  then have fin: "(b', n') = (if window_complete c b2 ev then processShortWindow (ae_curl e) c b2 n2 else (b2, n2))" "d2 = d'"
    using assms ap by (auto split: prod.splits)
  then have "b' = (if window_complete c b2 ev then fst (processShortWindow (ae_curl e) c b2 n2) else b2)"
    by (metis fst_conv)
  then have "same_dump b2 b'" "b_containerId b' = b_containerId b2"
    using process_same_dump [of b2 "ae_curl e" c n2] by (auto simp: same_dump_def)
  moreover have "same_dump b b1" "b_containerId b1 = cid" by (simp_all add: b1_def same_dump_def)
  ultimately show thesis using that ap fin by blast
qed

text \<open>An event of the dumped container: appended before the end, and the end of the dump at it.\<close>

lemma event_runs:
  assumes "runs c d cid r b" "tsNs ev < d_end r" "buffer_event e c cid b ev (n, d) = (b', n', d')"
  shows "runs c d' cid (r\<lparr>d_events := d_events r @ [ev]\<rparr>) b' \<and> (\<forall>p. p \<noteq> d_path r \<longrightarrow> d' p = d p)"
proof -
  obtain b1 b2 n2 where b1: "same_dump b b1" "b_containerId b1 = cid"
    and ap: "appendLongDump (ae_curl e) c b1 ev (n, d) = (b2, n2, d')"
    and b2: "same_dump b2 b'" "b_containerId b' = b_containerId b2"
    using buffer_event_dump [OF assms(3)] by metis
  have r1: "runs c d cid r b1" using assms(1) b1 by (rule runs_same)
  then have "dumping c d (d_path r) (d_events r) b1" "tsNs ev < longDumpEndTsNs b1"
    using assms(2) by (simp_all add: runs_def)
  note app = append_dumping [OF this ap]
  moreover have "longDumpDurationSec b2 = longDumpDurationSec b1"
    using ap \<open>tsNs ev < longDumpEndTsNs b1\<close> by (auto simp: appendLongDump_def Let_def split: if_splits prod.splits)
  ultimately have "runs c d' cid (r\<lparr>d_events := d_events r @ [ev]\<rparr>) b2"
    using r1 by (simp add: runs_def d_end_def)
  with app b2 runs_cong [OF b2] show ?thesis by simp
qed

lemma event_ends:
  assumes "runs c d cid r b" "d_end r \<le> tsNs ev" "buffer_event e c cid b ev (n, d) = (b', n', d')"
  shows "\<not> isLongDumpActive b' \<and> d' = d"
proof -
  obtain b1 b2 n2 where b1: "same_dump b b1" "b_containerId b1 = cid"
    and ap: "appendLongDump (ae_curl e) c b1 ev (n, d) = (b2, n2, d')" and b2: "same_dump b2 b'"
    using buffer_event_dump [OF assms(3)] by metis
  have "runs c d cid r b1" using assms(1) b1 by (rule runs_same)
  then have "longDumpEndTsNs b1 \<le> tsNs ev" "isLongDumpActive b1" "is_open (longDumpStream b1)"
    using assms(2) by (auto simp: runs_def dumping_def is_open_def)
  with ap have "\<not> isLongDumpActive b2 \<and> d' = d"
    by (auto simp: appendLongDump_def notifyDumpComplete_def Let_def split: prod.splits)
  with b2 show ?thesis by (simp add: same_dump_def)
qed

lemma event_idle:
  assumes "\<not> isLongDumpActive b" "buffer_event e c cid b ev (n, d) = (b', n', d')"
  shows "\<not> isLongDumpActive b' \<and> d' = d"
proof -
  obtain b1 b2 n2 where b1: "same_dump b b1"
    and ap: "appendLongDump (ae_curl e) c b1 ev (n, d) = (b2, n2, d')" and b2: "same_dump b2 b'"
    using buffer_event_dump [OF assms(2)] by metis
  from assms(1) b1 ap have "b2 = b1 \<and> d' = d" by (simp add: appendLongDump_def same_dump_def)
  with assms(1) b1 b2 show ?thesis by (simp add: same_dump_def)
qed

subsection \<open>The whole agent\<close>

abbreviation buffer_of :: "Agent \<Rightarrow> string \<Rightarrow> ContainerBuffer" where
  "buffer_of a k \<equiv> um_get ContainerBuffer_new (buffers a) k"

definition dump_rel :: "AgentConfig \<Rightarrow> disk \<Rightarrow> string \<Rightarrow> ContainerBuffer \<Rightarrow> dumps \<Rightarrow> bool" where
  "dump_rel c d k b s \<longleftrightarrow>
     (case fst s of None \<Rightarrow> \<not> isLongDumpActive b | Some r \<Rightarrow> runs c d k r b) \<and>
     (\<forall>r \<in> set (snd s). d (d_path r) = Some (dump_file_of c k r))"

lemma dump_rel_disk:
  assumes "\<And>p. p \<in># paths s \<Longrightarrow> d' p = d p"
  shows "dump_rel c d' k b s = dump_rel c d k b s"
  using assms runs_disk [of d' _ d] by (auto simp: dump_rel_def paths_def dumps_all_def split: option.split)

lemma new_inactive [simp]: "\<not> isLongDumpActive ContainerBuffer_new"
  by (simp add: ContainerBuffer_new_def)

lemma buffer_of_stopExpired:
  "buffer_of (stopExpiredLongDumps e now a) k =
     (if expired now (buffer_of a k) then dump_stopped (buffer_of a k) else buffer_of a k)"
proof -
  let ?f = "\<lambda>b. if expired now b then dump_stopped b else b"
  have "buffers (stopExpiredLongDumps e now a) = map (\<lambda>(k, b). (k, ?f b)) (buffers a)"
    using stop_expired_buffers [of "ae_curl e" "ag_config a" now "buffers a" "ag_net a"]
    by (simp add: stopExpiredLongDumps_def case_prod_unfold Let_def)
  moreover have "map_of (map (\<lambda>(k, b). (k, ?f b)) bs) k = map_option ?f (map_of bs k)" for bs :: "(string \<times> ContainerBuffer) list"
    by (induction bs) auto
  moreover have "?f ContainerBuffer_new = ContainerBuffer_new" by (simp add: expired_def)
  ultimately show ?thesis by (auto simp: um_get_def split: option.split)
qed

lemma buffer_of_cleanup:
  assumes "distinct (map fst (buffers a))"
  shows "buffer_of (cleanupInactiveBuffers now a) k = buffer_of a k \<or>
    \<not> isLongDumpActive (buffer_of (cleanupInactiveBuffers now a) k) \<and> \<not> isLongDumpActive (buffer_of a k)"
  using assms by (auto simp: cleanupInactiveBuffers_def um_get_def map_of_filter removable_def split: option.split)

lemma dump_rel_idle: "\<not> isLongDumpActive b \<Longrightarrow> \<not> isLongDumpActive b' \<Longrightarrow> dump_rel c d k b s = dump_rel c d k b' s"
  using runs_active by (auto simp: dump_rel_def split: option.split)

text \<open>What the end of the event handler makes of a buffer is the end of expired dumps.\<close>

lemma dump_rel_expire:
  assumes "dump_rel c d k b s"
  shows "dump_rel c d k (if expired now b then dump_stopped b else b) (ended now s)"
proof (cases s)
  case (Pair run fin)
  show ?thesis
  proof (cases run)
    case None
    with assms Pair show ?thesis by (simp add: dump_rel_def expired_def)
  next
    case (Some r)
    with assms Pair have r: "runs c d k r b" by (simp add: dump_rel_def)
    then have "expired now b = (now \<ge> d_end r)" by (simp add: expired_def runs_def dumping_def)
    with assms Pair Some r runs_file [OF r] show ?thesis by (auto simp: dump_rel_def dump_stopped_def)
  qed
qed

lemma dump_rel_handled:
  assumes "dump_rel c d k (buffer_of a k) s" "distinct (map fst (buffers a))"
  shows "dump_rel c d k (buffer_of (cleanupInactiveBuffers now (stopExpiredLongDumps e now a)) k) (ended now s)"
proof -
  let ?a = "stopExpiredLongDumps e now a"
  have "dump_rel c d k (buffer_of ?a k) (ended now s)"
    using dump_rel_expire [OF assms(1)] by (simp add: buffer_of_stopExpired)
  moreover have "distinct (map fst (buffers ?a))" using assms(2) by simp
  ultimately show ?thesis using buffer_of_cleanup [of ?a now k] dump_rel_idle by metis
qed

text \<open>The buffer of the event's container, before expired dumps are ended.\<close>

lemma dump_rel_own:
  assumes "dump_rel c d cid b s" "buffer_event e c cid b ev (n, d) = (b', n', d')"
    and "\<And>p. count (paths s) p \<le> 1"
  shows "dump_rel c d' cid b' (logged ev (ended (tsNs ev) s)) \<and> (\<forall>p. p \<notin># paths s \<longrightarrow> d' p = d p)"
proof (cases s)
  case (Pair run fin)
  show ?thesis
  proof (cases run)
    case None
    with assms(1) Pair have "\<not> isLongDumpActive b" by (simp add: dump_rel_def)
    from event_idle [OF this assms(2)] assms(1) None Pair show ?thesis by (simp add: dump_rel_def logged_def)
  next
    case (Some r)
    with assms(1) Pair have r: "runs c d cid r b" by (simp add: dump_rel_def)
    show ?thesis
    proof (cases "d_end r \<le> tsNs ev")
      case True
      with event_ends [OF r True assms(2)] assms(1) Some Pair runs_file [OF r] show ?thesis
        by (auto simp: dump_rel_def logged_def)
    next
      case False
      then have "tsNs ev < d_end r" by simp
      note run = event_runs [OF r this assms(2)]
      have "d_path q \<noteq> d_path r" if "q \<in> set fin" for q
      proof
        assume "d_path q = d_path r"
        then have "d_path r \<in> d_path ` set fin" using that by (metis imageI)
        then have "1 < count (paths s) (d_path r)"
          using Some Pair by (simp add: paths_def dumps_all_def)
        with assms(3) show False by (metis leD)
      qed
      with run assms(1) False Some Pair show ?thesis
        by (auto simp: dump_rel_def logged_def paths_def dumps_all_def)
    qed
  qed
qed

definition implements :: "AgentConfig \<Rightarrow> Agent \<Rightarrow> (string \<Rightarrow> dumps) \<Rightarrow> bool" where
  "implements c a D \<longleftrightarrow> (\<forall>k. dump_rel c (ag_disk a) k (buffer_of a k) (D k))"

lemma logged_ended_twice: "ended t (logged ev (ended t s)) = logged ev (ended t s)"
proof (cases s)
  case (Pair run fin)
  then show ?thesis by (cases run) (simp_all add: logged_def d_end_def)
qed

lemma apart_nil:
  assumes "apart [] D"
  shows "count (paths (D k)) p \<le> 1" "p \<in># paths (D k) \<Longrightarrow> p \<in># paths (D k') \<Longrightarrow> k = k'"
proof -
  have "\<forall>k p. count (paths (D k)) p \<le> 1" "\<forall>k k' p. p \<in># paths (D k) \<and> p \<in># paths (D k') \<longrightarrow> k = k'"
    using assms by (simp_all add: apart_def footprint_def)
  then show "count (paths (D k)) p \<le> 1" "p \<in># paths (D k) \<Longrightarrow> p \<in># paths (D k') \<Longrightarrow> k = k'" by blast+
qed

lemma handleEvent_implements:
  assumes "agent_inv a" "ag_config a = c" "implements c a D" "apart [] D"
  shows "implements c (handleEvent e a evt)
    (\<lambda>k. fold (dump_step k) (map (\<lambda>(cid, ev). Seen cid ev) (accepted_event e a evt)) (D k))"
proof -
  let ?ev = "map_event evt"
  obtain cid m where mp: "mapContainerId e (ag_mapper a) (cgroupId ?ev) (pid ?ev) = (cid, m)" by fastforce
  show ?thesis
  proof (cases "filtered_out e c cid")
    case True
    with mp assms(2,3) show ?thesis by (simp add: implements_def accepted_event_def handleEvent_def)
  next
    case False
    obtain b n d where be: "buffer_event e c cid (buffer_of a cid) ?ev (ag_net a, ag_disk a) = (b, n, d)" by (metis prod_cases3)
    define a1 where "a1 = a\<lparr>ag_mapper := m, buffers := um_set cid b (buffers a), ag_net := n, ag_disk := d\<rparr>"
    have a': "handleEvent e a evt = cleanupInactiveBuffers (tsNs ?ev) (stopExpiredLongDumps e (tsNs ?ev) a1)"
      using mp be False assms(2) by (simp add: handleEvent_def a1_def Let_def)
    have disk: "ag_disk (handleEvent e a evt) = d"
      by (simp add: a' cleanupInactiveBuffers_def stopExpiredLongDumps_def a1_def case_prod_unfold Let_def)
    have dist: "distinct (map fst (buffers a1))"
      using assms(1) by (simp add: a1_def agent_inv_def distinct_um_set)
    have old: "dump_rel c (ag_disk a) k (buffer_of a k) (D k)" for k using assms(3) by (simp add: implements_def)
    note own = dump_rel_own [OF old be apart_nil(1) [OF assms(4)]]
    have bufs: "buffer_of a1 k = (if k = cid then b else buffer_of a k)" for k by (simp add: a1_def)
    have "dump_rel c d k (buffer_of (handleEvent e a evt) k) (dump_step k (Seen cid ?ev) (D k))" for k
    proof (cases "k = cid")
      case True
      with own have "dump_rel c d k (buffer_of a1 k) (logged ?ev (ended (tsNs ?ev) (D k)))" by (simp add: bufs)
      from dump_rel_handled [OF this dist, of "tsNs ?ev" e] True show ?thesis by (simp add: a' logged_ended_twice)
    next
      case False
      have "d p = ag_disk a p" if "p \<in># paths (D k)" for p
        using own apart_nil(2) [OF assms(4) that, of cid] False by blast
      from dump_rel_disk [OF this] have "dump_rel c d k (buffer_of a1 k) (D k)" using old [of k] False by (simp add: bufs)
      from dump_rel_handled [OF this dist, of "tsNs ?ev" e] False show ?thesis by (simp add: a')
    qed
    moreover have "accepted_event e a evt = [(cid, ?ev)]" using mp False assms(2) by (simp add: accepted_event_def)
    ultimately show ?thesis by (simp add: implements_def disk)
  qed
qed

subsection \<open>Control requests\<close>

text \<open>The dump a request asks for, as the server reads it.\<close>

definition requested_dump :: "string \<Rightarrow> (string \<times> i32) option" where
  "requested_dump received =
     (let req = parseRequest (take 8191 received); cid = as_extractJsonString (req_body req) ''container_id''
      in if received \<noteq> [] \<and> req_method req = ''POST'' \<and> req_path req = ''/long-dump-requests'' \<and> cid \<noteq> []
         then Some (cid, extractJsonInt (req_body req) ''duration_sec'' 1200) else None)"

definition dump_started :: "agent_env \<Rightarrow> Agent \<Rightarrow> string \<Rightarrow> i32 \<Rightarrow> action" where
  "dump_started e a cid secs = Started cid (dump_path (ag_config a) cid (nowTimestampForFile e))
     (if lastEventTsNs (buffer_of a cid) \<noteq> 0 then lastEventTsNs (buffer_of a cid) else monotonicNowNs e) secs"

lemma client_dump:
  assumes "handleClient (agent_handlers e) a received = Some (a', resp)"
  shows "case requested_dump received of
      Some (cid, secs) \<Rightarrow> requestLongDump e a cid secs = Some a'
    | None \<Rightarrow> buffers a' = buffers a \<and> ag_disk a' = ag_disk a"
proof -
  let ?req = "parseRequest (take 8191 received)"
  have "buffers (snd (handlePolicy e a cid q ty spec)) = buffers a \<and> ag_disk (snd (handlePolicy e a cid q ty spec)) = ag_disk a"
    for cid q ty spec by (simp add: handlePolicy_def case_prod_unfold Let_def)
  then have "buffers (fst (route_policy (agent_handlers e) a ?req)) = buffers a \<and>
      ag_disk (fst (route_policy (agent_handlers e) a ?req)) = ag_disk a"
    by (simp add: route_policy_def agent_handlers_def case_prod_unfold Let_def)
  then show ?thesis
    using assms
    by (auto simp: handleClient_def route_def route_long_dump_def agent_handlers_def requested_dump_def Let_def split: if_splits)
qed

lemma apart_fresh:
  assumes "apart (Started cid p t secs # xs) D"
  shows "p \<notin># paths (D k)"
proof
  assume p: "p \<in># paths (D k)"
  let ?F = "\<lambda>k. footprint k (Started cid p t secs # xs) (D k)"
  have "p \<in># ?F k" "p \<in># ?F cid" using p by (simp_all add: footprint_def)
  with assms have "k = cid" unfolding apart_def by blast
  with p have "1 < count (?F cid) p" by (simp add: footprint_def)
  with assms show False unfolding apart_def by (meson leD)
qed

lemma requestLongDump_implements:
  assumes "agent_inv a" "ag_config a = c" "implements c a D" "\<And>p. ae_can_open e p" "fst (D cid) = None"
    and "requestLongDump e a cid secs = Some a'"
    and "apart (dump_started e a cid secs # xs) D"
  shows "implements c a' (\<lambda>k. dump_step k (dump_started e a cid secs) (D k))"
proof -
  let ?b = "(buffer_of a cid)\<lparr>b_containerId := cid\<rparr>" and ?p = "dump_path c cid (nowTimestampForFile e)"
  obtain b d where op: "open_dump (ae_can_open e) (nowTimestampForFile e) (monotonicNowNs e) c ?b secs (ag_disk a) = (b, d)"
    by fastforce
  have a': "a' = a\<lparr>buffers := um_set cid b (buffers a), ag_disk := d\<rparr>"
    using assms(2,6) op by (auto simp: requestLongDump_def Let_def split: if_splits)
  have rel: "dump_rel c (ag_disk a) k (buffer_of a k) (D k)" for k using assms(3) by (simp add: implements_def)
  have "\<not> isLongDumpActive (buffer_of a cid)" using rel [of cid] assms(5) by (simp add: dump_rel_def)
  moreover have "dump_ok (buffer_of a cid)" using um_get_ok assms(1) by (simp add: agent_inv_def)
  ultimately have closed: "\<not> is_open (longDumpStream ?b)" by (simp add: dump_ok_def)
  note start = open_dump_dumping [OF _ closed op]
  have elsewhere: "d p = ag_disk a p" if "p \<noteq> ?p" for p
    using op that closed assms(4) by (auto simp: open_dump_def os_open_def os_write_def is_open_def Let_def)
  have "longDumpDurationSec b = secs"
    using op closed assms(4) by (auto simp: open_dump_def os_open_def os_write_def is_open_def Let_def)
  with start assms(2,4) have "runs c d cid \<lparr>d_path = ?p, d_start = longDumpStartTsNs b, d_secs = secs, d_events = []\<rparr> b"
    by (simp add: runs_def d_end_def)
  then have runs: "runs c d cid \<lparr>d_path = ?p, d_start = longDumpStartTsNs b, d_secs = secs, d_events = []\<rparr> b" .
  have fresh: "?p \<notin># paths (D k)" for k
    using assms(7) unfolding dump_started_def assms(2) by (rule apart_fresh)
  have "dump_rel c d k (buffer_of a' k) (dump_step k (dump_started e a cid secs) (D k))" for k
  proof (cases "k = cid")
    case True
    have "?p \<notin> d_path ` set (snd (D cid))" using fresh [of cid] by (simp add: paths_def dumps_all_def)
    then have "d_path r \<noteq> ?p" if "r \<in> set (snd (D cid))" for r using that by (metis imageI)
    then have "\<forall>r \<in> set (snd (D cid)). d (d_path r) = Some (dump_file_of c cid r)"
      using rel [of cid] elsewhere by (simp add: dump_rel_def)
    moreover have "longDumpStartTsNs b = (if lastEventTsNs (buffer_of a cid) \<noteq> 0 then lastEventTsNs (buffer_of a cid) else monotonicNowNs e)"
      using start assms(4) by simp
    ultimately show ?thesis
      using runs True assms(2) by (simp add: dump_rel_def dump_started_def a')
  next
    case False
    have "d p = ag_disk a p" if "p \<in># paths (D k)" for p using elsewhere fresh [of k] that by metis
    from dump_rel_disk [OF this] have "dump_rel c d k (buffer_of a k) (D k)" using rel by simp
    with False show ?thesis by (simp add: dump_started_def a')
  qed
  then show ?thesis by (simp add: implements_def a')
qed

subsection \<open>Interleaved inputs\<close>

text \<open>The dump actions of a run: accepted events, and accepted requests for dumps.\<close>

fun dump_actions :: "input list \<Rightarrow> Agent \<Rightarrow> action list" where
  "dump_actions [] a = []"
| "dump_actions (Event e evt # is) a =
     map (\<lambda>(cid, ev). Seen cid ev) (accepted_event e a evt) @ dump_actions is (handleEvent e a evt)"
| "dump_actions (Request e received # is) a =
     (case handleClient (agent_handlers e) a received of
        None \<Rightarrow> []
      | Some (a', resp) \<Rightarrow>
          (case requested_dump received of None \<Rightarrow> [] | Some (cid, secs) \<Rightarrow> [dump_started e a cid secs]) @
          dump_actions is a')"

lemma orderly_append:
  "orderly k (xs @ ys) s \<longleftrightarrow> orderly k xs s \<and> orderly k ys (fold (dump_step k) xs s)"
  by (induction xs arbitrary: s) auto

lemma apart_append: "apart (xs @ ys) D \<Longrightarrow> apart ys (\<lambda>k. fold (dump_step k) xs (D k))"
proof (induction xs arbitrary: D)
  case (Cons x xs)
  from Cons.prems have "apart (x # (xs @ ys)) D" by simp
  from Cons.IH [OF apart_step [OF this]] show ?case by simp
qed simp

definition tracks :: "AgentConfig \<Rightarrow> Agent \<Rightarrow> (string \<Rightarrow> dumps) \<Rightarrow> bool" where
  "tracks c a D \<longleftrightarrow> agent_inv a \<and> ag_config a = c \<and> implements c a D"

abbreviation seen_of :: "(string \<times> SyscallEvent) list \<Rightarrow> action list" where
  "seen_of \<equiv> map (\<lambda>(cid, ev). Seen cid ev)"

definition request_actions :: "agent_env \<Rightarrow> Agent \<Rightarrow> string \<Rightarrow> action list" where
  "request_actions e a received =
     (case requested_dump received of None \<Rightarrow> [] | Some (cid, secs) \<Rightarrow> [dump_started e a cid secs])"

lemma event_tracks:
  assumes "tracks c a D" "apart [] D"
  shows "tracks c (handleEvent e a evt) (\<lambda>k. fold (dump_step k) (seen_of (accepted_event e a evt)) (D k))"
proof -
  have "ag_config (handleEvent e a evt) = ag_config a" by (simp add: handleEvent_def Let_def case_prod_unfold)
  with assms handleEvent_inv [of a e evt] handleEvent_implements [of a c D e evt] show ?thesis by (simp add: tracks_def)
qed

lemma request_tracks:
  assumes "tracks c a D" "handleClient (agent_handlers e) a received = Some (a', resp)" "\<And>p. ae_can_open e p"
    and "apart (request_actions e a received @ xs) D" "\<And>k. orderly k (request_actions e a received) (D k)"
  shows "tracks c a' (\<lambda>k. fold (dump_step k) (request_actions e a received) (D k)) \<and> ag_net a' = ag_net a"
proof -
  have a: "agent_inv a" "ag_config a = c" "implements c a D" using assms(1) by (simp_all add: tracks_def)
  then have "unmoved c (pending_of a) (ag_net a) a" by (simp add: unmoved_def)
  from window_control.client_inv [OF this assms(2) [unfolded agent_handlers_def]]
  have a': "agent_inv a'" "ag_config a' = c" "ag_net a' = ag_net a" by (simp_all add: unmoved_def)
  show ?thesis
  proof (cases "requested_dump received")
    case None
    with client_dump [OF assms(2)] a a' show ?thesis by (simp add: request_actions_def tracks_def implements_def)
  next
    case (Some p)
    then obtain cid secs where p: "requested_dump received = Some (cid, secs)" by (cases p) auto
    then have now: "request_actions e a received = [dump_started e a cid secs]" by (simp add: request_actions_def)
    have "fst (D cid) = None" using assms(5) [of cid] by (simp add: now dump_started_def)
    moreover have "requestLongDump e a cid secs = Some a'" using client_dump [OF assms(2)] p by simp
    moreover have "apart (dump_started e a cid secs # xs) D" using assms(4) now by simp
    ultimately show ?thesis
      using requestLongDump_implements [OF a assms(3)] a' by (simp add: now tracks_def)
  qed
qed

text \<open>A run of the agent, observed: whatever \<open>P\<close> says of agent and machine is kept by a run if its
  events and its requests keep it.\<close>

locale dump_observer =
  fixes c :: AgentConfig and env_ok :: "agent_env \<Rightarrow> bool" and act_ok :: "action \<Rightarrow> bool"
    and P :: "Agent \<Rightarrow> (string \<Rightarrow> dumps) \<Rightarrow> bool"
  assumes observe_event: "tracks c a D \<Longrightarrow> apart [] D \<Longrightarrow> P a D \<Longrightarrow> env_ok e \<Longrightarrow>
      P (handleEvent e a evt) (\<lambda>k. fold (dump_step k) (seen_of (accepted_event e a evt)) (D k))"
    and observe_request: "P a D \<Longrightarrow> list_all act_ok (request_actions e a received) \<Longrightarrow>
      ag_net a' = ag_net a \<Longrightarrow> P a' (\<lambda>k. fold (dump_step k) (request_actions e a received) (D k))"
begin

lemma feed_observed:
  "tracks c a D \<Longrightarrow> P a D \<Longrightarrow> feed is a = Some (a', xs) \<Longrightarrow>
   (\<forall>e r p. Request e r \<in> set is \<longrightarrow> ae_can_open e p) \<Longrightarrow> (\<forall>e evt. Event e evt \<in> set is \<longrightarrow> env_ok e) \<Longrightarrow>
   apart (dump_actions is a) D \<Longrightarrow> (\<forall>k. orderly k (dump_actions is a) (D k)) \<Longrightarrow> list_all act_ok (dump_actions is a) \<Longrightarrow>
   tracks c a' (\<lambda>k. fold (dump_step k) (dump_actions is a) (D k)) \<and> P a' (\<lambda>k. fold (dump_step k) (dump_actions is a) (D k))"
proof (induction "is" a arbitrary: D a' xs rule: feed.induct)
  case (1 a)
  then show ?case by simp
next
  case (2 e evt "is" a)
  let ?D = "\<lambda>k. fold (dump_step k) (seen_of (accepted_event e a evt)) (D k)"
  from 2(4) obtain ys where ys: "feed is (handleEvent e a evt) = Some (a', ys)" by auto
  have now: "apart [] D" using 2(7) by (rule apart_now)
  have "env_ok e" using 2(6) by simp
  with observe_event [OF 2(2) now 2(3)] have "P (handleEvent e a evt) ?D" by simp
  moreover have "apart (dump_actions is (handleEvent e a evt)) ?D" using 2(7) by (intro apart_append) simp
  moreover have "\<forall>e r p. Request e r \<in> set is \<longrightarrow> ae_can_open e p" "\<forall>e evt. Event e evt \<in> set is \<longrightarrow> env_ok e"
    using 2(5,6) by (meson list.set_intros(2))+
  ultimately show ?case
    using 2(1) [OF event_tracks [OF 2(2) now, of e evt] _ ys] 2(8,9) by (simp add: orderly_append)
next
  case (3 e received "is" a)
  from 3(4) obtain a1 resp where h: "handleClient (agent_handlers e) a received = Some (a1, resp)" and f: "feed is a1 = Some (a', xs)"
    by (auto split: option.splits)
  let ?now = "request_actions e a received"
  have acts: "dump_actions (Request e received # is) a = ?now @ dump_actions is a1" by (simp add: h request_actions_def)
  have "ae_can_open e p" for p using 3(5) by simp
  moreover have ord: "orderly k ?now (D k)" "orderly k (dump_actions is a1) (fold (dump_step k) ?now (D k))" for k
    using 3(8) unfolding acts by (simp_all add: orderly_append)
  ultimately have t: "tracks c a1 (\<lambda>k. fold (dump_step k) ?now (D k))" "ag_net a1 = ag_net a"
    using request_tracks [OF 3(2) h, of "dump_actions is a1"] 3(7) unfolding acts by blast+
  have "P a1 (\<lambda>k. fold (dump_step k) ?now (D k))"
    using observe_request [OF 3(3) _ t(2)] 3(9) unfolding acts by simp
  moreover have "apart (dump_actions is a1) (\<lambda>k. fold (dump_step k) ?now (D k))"
    using 3(7) unfolding acts by (rule apart_append)
  moreover have "\<forall>e r p. Request e r \<in> set is \<longrightarrow> ae_can_open e p" "\<forall>e evt. Event e evt \<in> set is \<longrightarrow> env_ok e"
    using 3(5,6) by (meson list.set_intros(2))+
  ultimately show ?case
    using 3(1) [OF h refl t(1) _ f] ord(2) 3(9) unfolding acts by simp
qed

end

interpretation dump_files: dump_observer c "\<lambda>_. True" "\<lambda>_. True" "\<lambda>_ _. True" for c
  by unfold_locales simp_all

lemma fresh_tracks:
  assumes "Agent_new e0 c = Some a"
  shows "tracks c a (\<lambda>k. (None, []))"
proof -
  have reach: "agent_reachable c a" using assms by (rule agent_reachable.new)
  have "implements c a (\<lambda>k. (None, []))"
    using assms by (auto simp: implements_def dump_rel_def Agent_new_def um_get_def)
  with reachable_inv [OF reach] reachable_config [OF reach] show ?thesis by (simp add: tracks_def)
qed

subsection \<open>Properties\<close>

text \<open>C3: The agent's dump files are what its dumps promise. From a fresh agent, for any interleaving
  of events and control requests, whatever the network does: if every dump file can be opened, no
  two dumps share a file name and no container is asked for a dump while one is running, then at
  the end, for every container, a dump is active exactly if the machine has one running, and the
  file of every dump, running or finished, reads back to the header of its container and start
  time and exactly one record per event the machine assigns to it.\<close>

theorem dumps_refine:
  assumes "Agent_new e0 c = Some a" "feed is a = Some (a', xs)"
    and "\<forall>e r p. Request e r \<in> set is \<longrightarrow> ae_can_open e p"
    and "distinct (concat (map any_path (dump_actions is a)))"
    and "\<forall>k. orderly k (dump_actions is a) (None, [])"
  shows "let s = fold (dump_step k) (dump_actions is a) (None, []) in
    isLongDumpActive (um_get ContainerBuffer_new (buffers a') k) = (fst s \<noteq> None) \<and>
    (\<forall>r \<in> set (dumps_all s). Option.bind (ag_disk a' (d_path r)) read_dump =
       Some (dump_header c k (d_start r), dump_records (d_start r) 0 (d_events r)))"
proof -
  define s where "s = fold (dump_step k) (dump_actions is a) (None, [])"
  from dump_files.feed_observed [OF fresh_tracks [OF assms(1)] TrueI assms(2,3) _ apart_init [OF assms(4)] assms(5)]
  have rel: "dump_rel c (ag_disk a') k (buffer_of a' k) s" by (simp add: tracks_def implements_def s_def list_all_iff)
  then have "isLongDumpActive (buffer_of a' k) = (fst s \<noteq> None)"
    by (auto simp: dump_rel_def dest: runs_active split: option.splits)
  moreover have "ag_disk a' (d_path r) = Some (dump_file_of c k r)" if "r \<in> set (dumps_all s)" for r
    using that rel by (auto simp: dumps_all_def dump_rel_def dest: runs_file split: option.splits)
  ultimately show ?thesis unfolding s_def [symmetric] Let_def by (simp add: dump_file_of_def read_dump_file)
qed

lemma requested_dump_json:
  assumes "plain_text cid" "plain_text r" "n \<le> 2147483647" "list_all header_line headers"
    and "length (http_request ''POST'' ''/long-dump-requests'' headers (dump_request_json cid n r)) \<le> 8191"
  shows "requested_dump (http_request ''POST'' ''/long-dump-requests'' headers (dump_request_json cid n r)) = Some (cid, of_nat n)"
proof -
  have "cid \<noteq> []" using assms(1) by (simp add: plain_text_def)
  moreover have "http_request ''POST'' ''/long-dump-requests'' headers (dump_request_json cid n r) \<noteq> []" by (simp add: http_request_def)
  ultimately show ?thesis
    using assms(5) dump_request_parsed [OF assms(1,2,4)]
    by (simp add: requested_dump_def dump_request_container [OF assms(1)] dump_request_duration [OF assms(1,3)])
qed

definition host_dump_request :: string where
  "host_dump_request = http_request ''POST'' ''/long-dump-requests'' [''Host: a''] (dump_request_json ''host-9'' 60 ''RETRAIN'')"

lemma host_dump_request_read:
  "requested_dump host_dump_request = Some (''host-9'', 60)"
  "handleClient (agent_handlers e) a host_dump_request = map_option (\<lambda>a'. (a',
     Some (sendResponse 202 ''Accepted'' (''{'' @ quoted ''status'' @ '':'' @ quoted ''dump_requested'' @ ''}'')))) (requestLongDump e a ''host-9'' 60)"
proof -
  have txts: "plain_text ''host-9''" "plain_text ''RETRAIN''" "(60 :: nat) \<le> 2147483647" "list_all header_line [''Host: a'']"
    by (simp_all add: plain_text_def header_line_def)
  have len: "length (http_request ''POST'' ''/long-dump-requests'' [''Host: a''] (dump_request_json ''host-9'' 60 ''RETRAIN'')) \<le> 8191"
    by (simp add: http_request_def dump_request_json_def quoted_def show_eval)
  have handler: "longDumpHandler (agent_handlers e) = Some (\<lambda>a cid durationSec reason. requestLongDump e a cid durationSec)"
    by (simp add: agent_handlers_def)
  show "requested_dump host_dump_request = Some (''host-9'', 60)"
    using requested_dump_json [OF txts len] by (simp add: host_dump_request_def)
  show "handleClient (agent_handlers e) a host_dump_request = map_option (\<lambda>a'. (a',
     Some (sendResponse 202 ''Accepted'' (''{'' @ quoted ''status'' @ '':'' @ quoted ''dump_requested'' @ ''}'')))) (requestLongDump e a ''host-9'' 60)"
    using dump_request_handled [OF txts host_dump_request_def len [folded host_dump_request_def] handler] by simp
qed

theorem dumps_refine_witness:
  "\<exists>a' xs. feed [Request quiet_env host_dump_request, Event quiet_env host_event] fresh_agent = Some (a', xs) \<and>
     Option.bind (ag_disk a' (dump_path default_config ''host-9'' ''20250101-000000'')) read_dump =
       Some (dump_header default_config ''host-9'' 1000, dump_records 1000 0 [map_event host_event])"
proof -
  let ?is = "[Request quiet_env host_dump_request, Event quiet_env host_event]"
  let ?p = "dump_path default_config ''host-9'' ''20250101-000000''"
  have env: "ae_mkdir_ok quiet_env" "ae_can_open quiet_env p" "nowTimestampForFile quiet_env = ''20250101-000000''"
    "monotonicNowNs quiet_env = 1000" for p by (simp_all add: quiet_env_stamp) (simp_all add: quiet_env_def)
  have fresh: "lastEventTsNs (buffer_of fresh_agent ''host-9'') = 0" "ag_config fresh_agent = default_config"
    by (simp_all add: fresh_agent_def Agent_new_def PolicyEnforcer_new_def quiet_env_def um_get_def ContainerBuffer_new_def)
  obtain a1 where a1: "requestLongDump quiet_env fresh_agent ''host-9'' 60 = Some a1"
    "ag_mapper a1 = ag_mapper fresh_agent" "ag_config a1 = ag_config fresh_agent"
    using env(1) by (simp add: requestLongDump_def case_prod_unfold Let_def)
  then have acc: "accepted_event quiet_env a1 host_event = [(''host-9'', map_event host_event)]"
    using host_event_accepted by (simp add: accepted_event_def)
  have acts: "dump_actions ?is fresh_agent = [Started ''host-9'' ?p 1000 60, Seen ''host-9'' (map_event host_event)]"
    using acc a1 fresh env by (simp add: host_dump_request_read dump_started_def)
  have run: "feed ?is fresh_agent = Some (handleEvent quiet_env a1 host_event, [(''host-9'', map_event host_event)])"
    using acc a1 by (simp add: host_dump_request_read)
  have "fold (dump_step ''host-9'') (dump_actions ?is fresh_agent) (None, []) =
      (Some \<lparr>d_path = ?p, d_start = 1000, d_secs = 60, d_events = [map_event host_event]\<rparr>, [])"
    unfolding acts by (simp add: logged_def d_end_def secs_ns_def host_event_def map_event_def)
  note final = this
  have "\<forall>e r p. Request e r \<in> set ?is \<longrightarrow> ae_can_open e p" using env(2) by simp
  moreover have "distinct (concat (map any_path (dump_actions ?is fresh_agent)))" unfolding acts by simp
  moreover have "\<forall>k. orderly k (dump_actions ?is fresh_agent) (None, [])" unfolding acts by simp
  ultimately show ?thesis
    using dumps_refine [OF fresh_agent_new run, of "''host-9''"] unfolding final run by (simp add: dumps_all_def)
qed

end
