(* ===== verification/Agent_Reports.thy ===== *)
theory Agent_Reports
  imports Agent_Dumps
begin

text \<open>
  The completion reports of the agent: on a working network each finished dump is reported to the
  server exactly once, with its file, start, duration and number of records, and nothing else is
  reported. The reports of all containers arrive in the iteration order of the buffers, which the
  program does not fix, so they are compared as a multiset.
\<close>

subsection \<open>Completion messages\<close>

definition dumps_url :: "AgentConfig \<Rightarrow> string" where
  "dumps_url c = serverUrl c @ ''/api/v1/agent/long-dump-complete''"

definition dump_posts :: "AgentConfig \<Rightarrow> net \<Rightarrow> transfer list" where
  "dump_posts c n = filter (\<lambda>t. tr_url t = dumps_url c) (sent n)"

definition report :: "AgentConfig \<Rightarrow> string \<Rightarrow> dump \<Rightarrow> transfer" where
  "report c k r = \<lparr>tr_url = dumps_url c,
     tr_body = buildDumpCompleteJson (agentId c) k (d_path r) (d_start r) (d_secs r) (of_nat (length (d_events r))),
     tr_timeout = 5\<rparr>"

definition buffer_report :: "AgentConfig \<Rightarrow> ContainerBuffer \<Rightarrow> transfer" where
  "buffer_report c b = \<lparr>tr_url = dumps_url c,
     tr_body = buildDumpCompleteJson (agentId c) (b_containerId b) (longDumpFilePath b) (longDumpStartTsNs b)
       (longDumpDurationSec b) (longDumpRecordCount b),
     tr_timeout = 5\<rparr>"

lemma runs_report: "runs c d k r b \<Longrightarrow> buffer_report c b = report c k r"
  by (simp add: runs_def dumping_def buffer_report_def report_def)

lemma dump_posts_notify:
  "(\<And>i. curl i = CurlPerformed True) \<Longrightarrow>
   dump_posts c (snd (notifyDumpComplete curl c b n)) = dump_posts c n @ [buffer_report c b]"
  by (simp add: notifyDumpComplete_def dump_posts_def post_sent_once buffer_report_def dumps_url_def Let_def)

lemma dump_posts_process: "dump_posts c (snd (processShortWindow curl c b n)) = dump_posts c n"
proof -
  let ?url = "serverUrl c @ ''/api/v1/agent/windows''"
  have "dump_posts c (snd (postJsonWithRetry curl ?url body 3 5 n)) = dump_posts c n" for body
    by (rule post_copies [of 3 curl ?url body 5 n]) (simp add: dump_posts_def dumps_url_def)
  then show ?thesis by (simp add: processShortWindow_def Let_def case_prod_unfold)
qed

lemma dump_posts_stop_expired:
  assumes "\<And>i. curl i = CurlPerformed True"
  shows "dump_posts c (snd (stop_expired curl c now bs n)) =
    dump_posts c n @ concat (map (\<lambda>(k, b). if expired now b then [buffer_report c b] else []) bs)"
proof (induction bs arbitrary: n)
  case (Cons p bs)
  obtain k b where p: "p = (k, b)" by (cases p)
  let ?b = "b\<lparr>longDumpStream := (if is_open (longDumpStream b) then os_close (longDumpStream b) else longDumpStream b),
    isLongDumpActive := False\<rparr>"
  have "buffer_report c ?b = buffer_report c b" by (simp add: buffer_report_def)
  with dump_posts_notify [OF assms, where c = c and b = ?b and n = n] show ?case
    unfolding p stop_expired.simps Let_def expired_def [symmetric]
    by (simp add: case_prod_unfold Cons del: if_split)
qed simp

subsection \<open>Reports of one event\<close>

text \<open>What the machine finishes at time \<open>now\<close>.\<close>

definition finishing :: "AgentConfig \<Rightarrow> u64 \<Rightarrow> string \<Rightarrow> dumps \<Rightarrow> transfer list" where
  "finishing c now k s = (case fst s of None \<Rightarrow> [] | Some r \<Rightarrow> if now \<ge> d_end r then [report c k r] else [])"

definition reports :: "AgentConfig \<Rightarrow> string \<Rightarrow> dumps \<Rightarrow> transfer list" where
  "reports c k s = map (report c k) (snd s)"

lemma reports_ended: "reports c k (ended now s) = reports c k s @ finishing c now k s"
  by (cases "(now, s)" rule: ended.cases) (auto simp: reports_def finishing_def)

lemma reports_seen: "reports c k (dump_step k (Seen cid ev) s) = reports c k s @ finishing c (tsNs ev) k s"
  using reports_ended [of c k "tsNs ev" s] by (simp add: reports_def logged_def)

lemma finishing_buffer:
  "dump_rel c d k b s \<Longrightarrow> finishing c now k s = (if expired now b then [buffer_report c b] else [])"
  using runs_report
  by (auto simp: finishing_def dump_rel_def expired_def runs_def dumping_def split: option.splits)

lemma own_report:
  assumes "dump_rel c d cid b s" "buffer_event e c cid b ev (n, d) = (b', n', d')" "working e"
  shows "dump_posts c n' = dump_posts c n @ finishing c (tsNs ev) cid s"
proof -
  obtain b1 b2 n2 where b1: "same_dump b b1" "b_containerId b1 = cid"
    and ap: "appendLongDump (ae_curl e) c b1 ev (n, d) = (b2, n2, d')"
    and fin: "(b', n') = (if window_complete c b2 ev then processShortWindow (ae_curl e) c b2 n2 else (b2, n2))"
    using buffer_event_dump [OF assms(2)] by metis
  have n': "dump_posts c n' = dump_posts c n2"
    using fin dump_posts_process [of c "ae_curl e" b2 n2] by (metis snd_conv)
  show ?thesis
  proof (cases "fst s")
    case None
    then have "\<not> isLongDumpActive b1" using assms(1) b1 by (simp add: dump_rel_def same_dump_def)
    with ap n' None show ?thesis by (simp add: appendLongDump_def finishing_def)
  next
    case (Some r)
    with assms(1) b1 have r: "runs c d cid r b1" by (auto simp: dump_rel_def intro: runs_same)
    let ?closed = "b1\<lparr>longDumpStream := os_close (longDumpStream b1), isLongDumpActive := False\<rparr>"
    have "buffer_report c ?closed = report c cid r" using runs_report [OF r] by (simp add: buffer_report_def)
    moreover have "dump_posts c (snd (notifyDumpComplete (ae_curl e) c ?closed n)) = dump_posts c n @ [buffer_report c ?closed]"
      using assms(3) by (intro dump_posts_notify) (simp add: working_def)
    moreover have "isLongDumpActive b1" "is_open (longDumpStream b1)" "longDumpEndTsNs b1 = d_end r"
      using r by (auto simp: runs_def dumping_def is_open_def)
    ultimately have "dump_posts c n2 = dump_posts c n @ (if tsNs ev \<ge> d_end r then [report c cid r] else [])"
      using ap by (auto simp: appendLongDump_def Let_def case_prod_unfold split: prod.splits if_splits)
    with Some n' show ?thesis by (simp add: finishing_def)
  qed
qed

subsection \<open>All containers\<close>

lemma mset_by_key:
  assumes "distinct (map fst bs)"
  shows "mset (concat (map (\<lambda>(k, b). f k b) bs)) = (\<Sum>k \<in> fst ` set bs. mset (f k (the (map_of bs k))))"
  using assms
proof (induction bs)
  case (Cons p bs)
  obtain k b where p: "p = (k, b)" by (cases p)
  have "(\<Sum>j \<in> fst ` set bs. mset (f j (the (map_of bs j)))) = (\<Sum>j \<in> fst ` set bs. mset (f j (the (map_of (p # bs) j))))"
    using Cons.prems p by (intro sum.cong) auto
  with Cons p show ?case by (simp del: map_of.simps) simp
qed simp

lemma expired_reports:
  assumes "distinct (map fst (buffers a))" "finite K" "\<And>k. expired now (buffer_of a k) \<Longrightarrow> k \<in> K"
  shows "mset (concat (map (\<lambda>(k, b). if expired now b then [buffer_report c b] else []) (buffers a))) =
    (\<Sum>k \<in> K. mset (if expired now (buffer_of a k) then [buffer_report c (buffer_of a k)] else []))"
proof -
  let ?f = "\<lambda>b. if expired now b then [buffer_report c b] else []"
  let ?keys = "fst ` set (buffers a)"
  have idle: "?f (buffer_of a k) = []" if "k \<notin> ?keys \<or> k \<notin> K" for k
    using that assms(3) [of k]
    by (auto simp: um_get_def expired_def map_of_eq_None_iff [symmetric] simp del: map_of_eq_None_iff split: option.splits)
  have "mset (concat (map (\<lambda>(k, b). ?f b) (buffers a))) = (\<Sum>k \<in> ?keys. mset (?f (the (map_of (buffers a) k))))"
    using mset_by_key [OF assms(1), of "\<lambda>k b. ?f b"] .
  also have "\<dots> = (\<Sum>k \<in> ?keys. mset (?f (buffer_of a k)))"
  proof (intro sum.cong refl)
    fix k assume "k \<in> ?keys"
    then obtain b where "map_of (buffers a) k = Some b" by (metis map_of_eq_None_iff not_None_eq)
    then show "mset (?f (the (map_of (buffers a) k))) = mset (?f (buffer_of a k))" by (simp add: um_get_def)
  qed
  also have "\<dots> = (\<Sum>k \<in> ?keys \<union> K. mset (?f (buffer_of a k)))"
    using assms(2) idle by (intro sum.mono_neutral_left) auto
  also have "\<dots> = (\<Sum>k \<in> K. mset (?f (buffer_of a k)))"
    using assms(2) idle by (intro sum.mono_neutral_right) auto
  finally show ?thesis .
qed

text \<open>The reports posted so far are those of the finished dumps, counted over the containers \<open>K\<close>.\<close>

definition reported :: "AgentConfig \<Rightarrow> string set \<Rightarrow> Agent \<Rightarrow> (string \<Rightarrow> dumps) \<Rightarrow> bool" where
  "reported c K a D \<longleftrightarrow> (\<forall>k. fst (D k) \<noteq> None \<longrightarrow> k \<in> K) \<and>
     mset (dump_posts c (ag_net a)) = (\<Sum>k \<in> K. mset (reports c k (D k)))"

lemma seen_running: "fst (dump_step k (Seen cid ev) s) \<noteq> None \<Longrightarrow> fst s \<noteq> None"
  by (cases "(tsNs ev, s)" rule: ended.cases) (auto simp: logged_def split: if_splits)

lemma sum_split_one:
  fixes f :: "'k \<Rightarrow> 'a multiset"
  assumes "finite K" "j \<notin> K \<Longrightarrow> f j = {#}"
  shows "f j + (\<Sum>k \<in> K. if k = j then {#} else f k) = sum f K"
proof (cases "j \<in> K")
  case True
  have "(\<Sum>k \<in> K. if k = j then {#} else f k) = sum f (K - {j})"
    using assms(1) True by (subst sum.remove [of K j]) auto
  with sum.remove [OF assms(1) True, of f] show ?thesis by simp
next
  case False
  then have "(\<Sum>k \<in> K. if k = j then {#} else f k) = sum f K" by (intro sum.cong) auto
  with assms(2) False show ?thesis by simp
qed

lemma event_reported:
  assumes "tracks c a D" "apart [] D" "reported c K a D" "working e" "finite K"
  shows "reported c K (handleEvent e a evt) (\<lambda>k. fold (dump_step k) (seen_of (accepted_event e a evt)) (D k))"
proof -
  have a: "agent_inv a" "ag_config a = c" "\<And>k. dump_rel c (ag_disk a) k (buffer_of a k) (D k)"
    using assms(1) by (simp_all add: tracks_def implements_def)
  let ?ev = "map_event evt"
  obtain cid m where mp: "mapContainerId e (ag_mapper a) (cgroupId ?ev) (pid ?ev) = (cid, m)" by fastforce
  show ?thesis
  proof (cases "filtered_out e c cid")
    case True
    with mp a(2) assms(3) show ?thesis by (simp add: reported_def accepted_event_def handleEvent_def)
  next
    case False
    obtain b n d where be: "buffer_event e c cid (buffer_of a cid) ?ev (ag_net a, ag_disk a) = (b, n, d)" by (metis prod_cases3)
    define a1 where "a1 = a\<lparr>ag_mapper := m, buffers := um_set cid b (buffers a), ag_net := n, ag_disk := d\<rparr>"
    have a': "handleEvent e a evt = cleanupInactiveBuffers (tsNs ?ev) (stopExpiredLongDumps e (tsNs ?ev) a1)"
      using mp be False a(2) by (simp add: handleEvent_def a1_def Let_def)
    have acc: "accepted_event e a evt = [(cid, ?ev)]" using mp False a(2) by (simp add: accepted_event_def)
    have bufs: "buffer_of a1 k = (if k = cid then b else buffer_of a k)" for k by (simp add: a1_def)
    have dist: "distinct (map fst (buffers a1))" using a(1) by (simp add: a1_def agent_inv_def distinct_um_set)
    let ?own = "logged ?ev (ended (tsNs ?ev) (D cid))"
    have "finishing c (tsNs ?ev) cid ?own = []"
      by (cases "(tsNs ?ev, D cid)" rule: ended.cases) (auto simp: finishing_def logged_def d_end_def)
    moreover note dump_rel_own [OF a(3) be apart_nil(1) [OF assms(2)]]
    ultimately have own: "\<not> expired (tsNs ?ev) b"
      using finishing_buffer [of c d cid b ?own "tsNs ?ev"] by (auto split: if_splits)
    let ?rest = "\<lambda>k. if k = cid then [] else finishing c (tsNs ?ev) k (D k)"
    have rest: "(if expired (tsNs ?ev) (buffer_of a1 k) then [buffer_report c (buffer_of a1 k)] else []) = ?rest k" for k
      using own finishing_buffer [OF a(3), of "tsNs ?ev" k] by (simp add: bufs)
    have running: "fst (D k) \<noteq> None \<Longrightarrow> k \<in> K" for k using assms(3) by (simp add: reported_def)
    have inK: "k \<in> K" if "expired (tsNs ?ev) (buffer_of a1 k)" for k
      using rest [of k] that running [of k] by (auto simp: finishing_def split: if_splits option.splits)
    have "dump_posts c (ag_net (handleEvent e a evt)) = dump_posts c n @
        concat (map (\<lambda>(k, b). if expired (tsNs ?ev) b then [buffer_report c b] else []) (buffers a1))"
      using dump_posts_stop_expired [of "ae_curl e" c "tsNs ?ev" "buffers a1" n] assms(4) a(2)
      by (simp add: a' stopExpiredLongDumps_def case_prod_unfold Let_def working_def a1_def)
    moreover have "dump_posts c n = dump_posts c (ag_net a) @ finishing c (tsNs ?ev) cid (D cid)"
      using own_report [OF a(3) be assms(4)] .
    moreover have "mset (concat (map (\<lambda>(k, b). if expired (tsNs ?ev) b then [buffer_report c b] else []) (buffers a1))) =
        (\<Sum>k \<in> K. mset (?rest k))"
      using expired_reports [OF dist assms(5), of "tsNs ?ev" c] inK unfolding rest by blast
    moreover have "mset (finishing c (tsNs ?ev) cid (D cid)) + (\<Sum>k \<in> K. mset (?rest k)) =
        (\<Sum>k \<in> K. mset (finishing c (tsNs ?ev) k (D k)))"
    proof -
      have "finishing c (tsNs ?ev) cid (D cid) = []" if "cid \<notin> K"
        using running [of cid] that by (auto simp: finishing_def split: option.split)
      then show ?thesis
        using sum_split_one [OF assms(5), of cid "\<lambda>k. mset (finishing c (tsNs ?ev) k (D k))"]
        by (simp add: if_distrib [of mset] cong: if_cong)
    qed
    ultimately have "mset (dump_posts c (ag_net (handleEvent e a evt))) =
        (\<Sum>k \<in> K. mset (reports c k (D k)) + mset (finishing c (tsNs ?ev) k (D k)))"
      using assms(3) by (simp add: reported_def sum.distrib add.assoc)
    then show ?thesis
      using running seen_running unfolding reported_def acc by (simp add: reports_seen del: dump_step.simps)
  qed
qed

subsection \<open>Whole runs\<close>

fun starts_in :: "string set \<Rightarrow> action \<Rightarrow> bool" where
  "starts_in K (Started cid p t secs) = (cid \<in> K)"
| "starts_in K (Seen cid ev) = True"

lemma request_reported:
  assumes "reported c K a D" "list_all (starts_in K) (request_actions e a received)" "ag_net a' = ag_net a"
  shows "reported c K a' (\<lambda>k. fold (dump_step k) (request_actions e a received) (D k))"
proof (cases "requested_dump received")
  case None
  with assms(1,3) show ?thesis by (simp add: request_actions_def reported_def)
next
  case (Some p)
  obtain cid secs where p: "p = (cid, secs)" by (cases p)
  obtain q t where st: "dump_started e a cid secs = Started cid q t secs" by (simp add: dump_started_def)
  have "cid \<in> K" using assms(2) Some p st by (simp add: request_actions_def)
  moreover have "reports c k (dump_step k (Started cid q t secs) s) = reports c k s" for k s by (simp add: reports_def)
  ultimately show ?thesis
    using assms(1,3) Some p st by (auto simp: request_actions_def reported_def split: if_splits)
qed

interpretation report_run: dump_observer c working "starts_in (set ks)" "reported c (set ks)" for c ks
  by unfold_locales (auto intro: event_reported request_reported)

text \<open>C5: Every finished dump is reported to the server exactly once. Under the conditions of the dump
  files, and on a working network: the completion messages posted by the agent are, as a multiset,
  exactly one message per finished dump of every container, naming the agent, the container, the
  file, the start, the duration and the number of events the file holds.\<close>

theorem dumps_reported:
  assumes "Agent_new e0 c = Some a" "feed is a = Some (a', xs)"
    and "\<forall>e r p. Request e r \<in> set is \<longrightarrow> ae_can_open e p" "\<forall>e evt. Event e evt \<in> set is \<longrightarrow> working e"
    and "distinct (concat (map any_path (dump_actions is a)))"
    and "\<forall>k. orderly k (dump_actions is a) (None, [])"
    and "\<forall>x \<in> set (dump_actions is a). starts_in (set ks) x"
  shows "mset (dump_posts c (ag_net a')) =
    (\<Sum>k \<in> set ks. mset (map (report c k) (snd (fold (dump_step k) (dump_actions is a) (None, [])))))"
proof -
  have "reported c (set ks) a (\<lambda>k. (None, []))"
    using assms(1) by (auto simp: reported_def reports_def dump_posts_def Agent_new_def net0_def)
  from report_run.feed_observed [OF fresh_tracks [OF assms(1)] this assms(2-4) apart_init [OF assms(5)] assms(6)] assms(7)
  show ?thesis by (simp add: reported_def reports_def list_all_iff)
qed

definition late_event :: KernelSyscallEvent where
  "late_event = host_event\<lparr>k_ts_ns := 70000000000\<rparr>"

theorem dumps_reported_witness:
  "\<exists>a' xs. feed [Request quiet_env host_dump_request, Event quiet_env late_event] fresh_agent = Some (a', xs) \<and>
     mset (dump_posts default_config (ag_net a')) = {#report default_config ''host-9''
       \<lparr>d_path = dump_path default_config ''host-9'' ''20250101-000000'', d_start = 1000, d_secs = 60, d_events = []\<rparr>#}"
proof -
  let ?is = "[Request quiet_env host_dump_request, Event quiet_env late_event]"
  let ?p = "dump_path default_config ''host-9'' ''20250101-000000''"
  have env: "ae_mkdir_ok quiet_env" "ae_can_open quiet_env p" "nowTimestampForFile quiet_env = ''20250101-000000''"
    "monotonicNowNs quiet_env = 1000" "working quiet_env" for p by (simp_all add: quiet_env_stamp) (simp_all add: quiet_env_def working_def)
  have fresh: "lastEventTsNs (buffer_of fresh_agent ''host-9'') = 0" "ag_config fresh_agent = default_config"
    by (simp_all add: fresh_agent_def Agent_new_def PolicyEnforcer_new_def quiet_env_def um_get_def ContainerBuffer_new_def)
  obtain a1 where a1: "requestLongDump quiet_env fresh_agent ''host-9'' 60 = Some a1"
    "ag_mapper a1 = ag_mapper fresh_agent" "ag_config a1 = ag_config fresh_agent"
    using env(1) by (simp add: requestLongDump_def case_prod_unfold Let_def)
  have acc: "accepted_event quiet_env a1 late_event = [(''host-9'', map_event late_event)]"
    by (rule host_accepted) (simp_all add: a1 fresh_agent_config quiet_env_def late_event_def host_event_def)
  have acts: "dump_actions ?is fresh_agent = [Started ''host-9'' ?p 1000 60, Seen ''host-9'' (map_event late_event)]"
    using acc a1 fresh env by (simp add: host_dump_request_read dump_started_def)
  have run: "feed ?is fresh_agent = Some (handleEvent quiet_env a1 late_event, [(''host-9'', map_event late_event)])"
    using acc a1 by (simp add: host_dump_request_read)
  have final: "fold (dump_step ''host-9'') (dump_actions ?is fresh_agent) (None, []) =
      (None, [\<lparr>d_path = ?p, d_start = 1000, d_secs = 60, d_events = []\<rparr>])"
    unfolding acts by (simp add: logged_def d_end_def secs_ns_def late_event_def map_event_def)
  have "\<forall>e r p. Request e r \<in> set ?is \<longrightarrow> ae_can_open e p" "\<forall>e evt. Event e evt \<in> set ?is \<longrightarrow> working e"
    using env by simp_all
  moreover have "distinct (concat (map any_path (dump_actions ?is fresh_agent)))"
    "\<forall>k. orderly k (dump_actions ?is fresh_agent) (None, [])"
    "\<forall>x \<in> set (dump_actions ?is fresh_agent). starts_in (set [''host-9'']) x" unfolding acts by simp_all
  ultimately have "mset (dump_posts default_config (ag_net (handleEvent quiet_env a1 late_event))) =
      (\<Sum>k \<in> set [''host-9'']. mset (map (report default_config k)
        (snd (fold (dump_step k) (dump_actions ?is fresh_agent) (None, [])))))"
    by (rule dumps_reported [OF fresh_agent_new run])
  then show ?thesis unfolding run by (simp add: final del: dump_actions.simps)
qed

end
