(* ===== verification/Control_Loop.thy ===== *)
theory Control_Loop
  imports Server_Ingest Agent_Reports
begin

text \<open>
  From the server to the agent: what becomes of the requests that \<^verbatim>\<open>HttpAgentAdapter\<close> posts when the agent's
  control endpoint receives them. The text of a request is any text of the adapter's map.
\<close>

lemma plain_not_blank: "\<not> isBlank s \<Longrightarrow> s \<noteq> []"
  by (auto simp: isBlank_def)

subsection \<open>Dumps\<close>


lemma json_eqv_refl: "json_eqv j j"
proof (induction j)
  case (JArr js)
  then show ?case by (auto intro!: json_eqv.arr simp: list_all2_same)
next
  case (JObj ms)
  then have "list_all2 (\<lambda>p m. fst p = fst m \<and> json_eqv (snd p) (snd m)) ms ms"
    by (force simp: list_all2_same snds.simps)
  then show ?case by (rule json_eqv.obj [OF refl])
qed (auto intro: json_eqv.intros)

lemma text_of_json_text: "text_of j (json_text j)"
  using json_eqv_refl by (auto simp: text_of_def)


subsection \<open>Policies\<close>

text \<open>The request for a generated policy, with members in any order, is enforced by an agent in any
  reachable state that can create the profile file.\<close>

lemma policy_request_enforced:
  assumes "equalsIgnoreCase ''THREAT'' (tg_verdict triage)" "generatePolicy readTree q now (Some cid) triage = Some p"
    and "json_plain (po_spec p)" "json_keys (po_spec p) \<inter> {''container_id'', ''policy_id'', ''type''} = {}"
    and "text_of (policy_body uuid (Some cid) p) body" "\<not> isBlank cid" "\<not> isBlank q" "plain_string cid" "plain_string q"
    and "agent_reachable cfg a" "list_all header_line headers"
    and "received = http_request ''POST'' ''/policies'' headers body" "length received \<le> 8191"
    and "path = path_append (AgentConfig.policyDir cfg) (q @ ''.json'')" "can_create (ae_policy e) path"
  shows "\<exists>a' profile. handleClient (agent_handlers e) a received = Some (a', Some (sendResponse 200 ''OK''
      (''{'' @ quoted ''status'' @ '':'' @ quoted ''APPLIED'' @ '','' @ quoted ''policy_id'' @ '':'' @ quoted q @ ''}''))) \<and>
    isPolicyApplied (policyEnforcer a') q \<and> files (ag_world a') = (files (ag_world a))(path \<mapsto> profile) \<and>
    pe_extractJsonString profile ''defaultAction'' = ''SCMP_ACT_ALLOW'' \<and>
    pe_extractJsonString profile ''action'' = (if policyEnforcementMode cfg = ''LOG'' then ''SCMP_ACT_LOG'' else ''SCMP_ACT_ERRNO'') \<and>
    commands (ag_world a') = commands (ag_world a) @ apply_commands (ae_policy e) (policyEnforcer a) cid q ''SECCOMP'' \<and>
    buffers a' = buffers a \<and> ag_net a' = ag_net a \<and> ag_disk a' = ag_disk a"
proof -
  let ?pe = "policyEnforcer a"
  have p: "po_id p = Some q" "po_type p = SECCOMP" using assms(1,2) by (auto simp: generatePolicy_def)
  have "text_of (JObj [(''container_id'', JStr cid), (''policy_id'', JStr q), (''type'', JStr ''SECCOMP''), (''spec'', po_spec p)]) body"
    using assms(5-7) p by (simp add: policy_body_def)
  moreover have "''SECCOMP'' \<noteq> []" "plain_string ''SECCOMP''" by (simp_all add: plain_string_def)
  ultimately have read: "as_extractJsonString body ''container_id'' = cid" "as_extractJsonString body ''policy_id'' = q"
    "as_extractJsonString body ''type'' = ''SECCOMP''" "lf \<notin> set body"
    using policy_text_read assms(3,4,8,9) plain_not_blank [OF assms(6)] plain_not_blank [OF assms(7)] by blast+
  have set: "enforcer_set (AgentConfig.policyDir cfg) (if policyEnforcementMode cfg = ''LOG'' then ''LOG'' else ''ERRNO'') a"
    using assms(10) by (rule reachable_enforcer)
  then have path: "profile_path ?pe q = path" by (simp add: enforcer_set_def profile_path_def assms(14))
  have mode: "enforcementMode ?pe = (if policyEnforcementMode cfg = ''LOG'' then ''LOG'' else ''ERRNO'')"
    using set by (simp add: enforcer_set_def)
  obtain ok pe' w' where ap: "pe_apply (ae_policy e) ?pe (ag_world a) cid q ''SECCOMP'' body = (ok, pe', w')" by (metis prod_cases3)
  have res: "ok" "isPolicyApplied pe' q" "files w' = (files (ag_world a))(path \<mapsto> generateSeccompProfile ?pe body)"
    "commands w' = commands (ag_world a) @ apply_commands (ae_policy e) ?pe cid q ''SECCOMP''"
    using ap assms(15) path by (auto simp: pe_apply_cases accepted_def isPolicyApplied_def)
  have handler: "policyHandler (agent_handlers e) = Some (handlePolicy e)" by (simp add: agent_handlers_def)
  have "handlePolicy e a cid q ''SECCOMP'' body = (True, a\<lparr>policyEnforcer := pe', ag_world := w'\<rparr>)"
    using ap res(1) by (simp add: handlePolicy_def)
  from policy_body_handled [OF assms(11-13) read(4) handler read(1) plain_not_blank [OF assms(6)] read(2)
      plain_not_blank [OF assms(7)] read(3) this]
  have client: "handleClient (agent_handlers e) a received = Some (a\<lparr>policyEnforcer := pe', ag_world := w'\<rparr>, Some (sendResponse 200 ''OK''
      (''{'' @ quoted ''status'' @ '':'' @ quoted ''APPLIED'' @ '','' @ quoted ''policy_id'' @ '':'' @ quoted q @ ''}'')))"
    by simp
  have "enforcementMode ?pe \<in> {''ERRNO'', ''LOG''}" using mode by simp
  note fields = profile_fields [OF this, of body]
  show ?thesis
    using client res fields mode
    by (intro exI [of _ "a\<lparr>policyEnforcer := pe', ag_world := w'\<rparr>"] exI [of _ "generateSeccompProfile ?pe body"]) simp
qed



end
