(* ===== verification/Agent_To_Server.thy ===== *)
theory Agent_To_Server
  imports Control_Loop Ebpf_Probe
begin

text \<open>
  From the agent to the server: which endpoint a request of the agent reaches and what becomes of it
  there. Spring and Jackson are not part of the program. Spring's matching of paths is a parameter with the
  documented laws of \<open>path_matching\<close>; Jackson's reading of a request body is a parameter with
  the laws of \<open>window_binding\<close>: a JSON number is refused for a Java \<^verbatim>\<open>int\<close> or \<^verbatim>\<open>long\<close>
  component it does not fit in. The handlers of the other endpoints are a parameter as well.
\<close>

subsection \<open>Routing\<close>

datatype endpoint =
    EWindows | EDumpComplete | EClearContainers | EClearEvents | ESyncModels | EClearModels
  | ETriageEnabled | ETrain | EDemoPolicy | EChangeContext | EDemoTriage

text \<open>The mappings for \<^verbatim>\<open>POST\<close>, controller by controller.\<close>

definition agent_posts :: "(string \<times> endpoint) list" where
  "agent_posts = [(''/api/v1/agent'' @ ''/windows'', EWindows), (''/api/v1/agent'' @ ''/dump-complete'', EDumpComplete)]"

definition admin_posts :: "(string \<times> endpoint) list" where
  "admin_posts =
     [(''/api/admin'' @ ''/containers/clear'', EClearContainers), (''/api/admin'' @ ''/events/clear'', EClearEvents),
      (''/api/admin'' @ ''/models/sync'', ESyncModels), (''/api/admin'' @ ''/models/clear'', EClearModels),
      (''/api/admin'' @ ''/triage/enabled'', ETriageEnabled)]"

definition train_posts :: "(string \<times> endpoint) list" where
  "train_posts = [(''/api/ui/train'' @ ''/{containerId}'', ETrain)]"

definition policy_posts :: "(string \<times> endpoint) list" where
  "policy_posts = [(''/api'' @ ''/demo/policies'', EDemoPolicy)]"

definition context_posts :: "(string \<times> endpoint) list" where
  "context_posts = [(''/api/ui/demo/change-context'', EChangeContext)]"

definition triage_posts :: "(string \<times> endpoint) list" where
  "triage_posts = [(''/api/ui/demo/triage'', EDemoTriage)]"

definition post_mappings :: "(string \<times> endpoint) list" where
  "post_mappings = agent_posts @ admin_posts @ train_posts @ policy_posts @ context_posts @ triage_posts"

lemmas mapping_defs = post_mappings_def agent_posts_def admin_posts_def train_posts_def policy_posts_def
  context_posts_def triage_posts_def

definition dispatch :: "(string \<Rightarrow> string \<Rightarrow> bool) \<Rightarrow> string \<Rightarrow> endpoint option" where
  "dispatch matches path = map_option snd (find (\<lambda>(pat, ep). matches pat path) post_mappings)"

definition literal_part :: "string \<Rightarrow> string" where
  "literal_part pat = takeWhile (\<lambda>c. c \<noteq> CHR ''{'') pat"

locale path_matching =
  fixes matches :: "string \<Rightarrow> string \<Rightarrow> bool"
  assumes literal: "CHR ''{'' \<notin> set pat \<Longrightarrow> matches pat path \<longleftrightarrow> path = pat"
    and pattern: "matches pat path \<Longrightarrow> prefix (literal_part pat) path"
begin

lemma dispatch_windows: "dispatch matches ''/api/v1/agent/windows'' = Some EWindows"
  by (simp add: dispatch_def mapping_defs literal)

lemma dispatch_dump_complete: "dispatch matches ''/api/v1/agent/dump-complete'' = Some EDumpComplete"
  by (simp add: dispatch_def mapping_defs literal)

lemma dispatch_long_dump_complete: "dispatch matches ''/api/v1/agent/long-dump-complete'' = None"
proof -
  have "\<not> prefix (literal_part ''/api/ui/train/{containerId}'') ''/api/v1/agent/long-dump-complete''"
    by (simp add: literal_part_def)
  then have "\<not> matches ''/api/ui/train/{containerId}'' ''/api/v1/agent/long-dump-complete''" using pattern by blast
  then show ?thesis by (simp add: dispatch_def mapping_defs literal)
qed

end

text \<open>One segment for the variable at the end of a pattern.\<close>

definition segment_matches :: "string \<Rightarrow> string \<Rightarrow> bool" where
  "segment_matches pat path =
     (if CHR ''{'' \<in> set pat
      then prefix (literal_part pat) path \<and> drop (length (literal_part pat)) path \<noteq> [] \<and>
        CHR ''/'' \<notin> set (drop (length (literal_part pat)) path)
      else path = pat)"

interpretation segments: path_matching segment_matches
proof
  fix pat path assume "segment_matches pat path"
  then show "prefix (literal_part pat) path"
    by (auto simp: segment_matches_def literal_part_def takeWhile_is_prefix split: if_splits)
qed (simp add: segment_matches_def)

subsection \<open>Reading a window\<close>

type_synonym window_reader = "string \<Rightarrow> java_exn + ShortWindowPayload"

definition record_fits :: "window_record \<Rightarrow> bool" where
  "record_fits r \<longleftrightarrow> (case r of (d, n, c, b) \<Rightarrow> d < 2147483648 \<and> n < 2147483648 \<and> c < 2147483648 \<and> b < 2147483648)"

definition record_dto :: "window_record \<Rightarrow> TraceRecordDto" where
  "record_dto r = (case r of (d, n, c, b) \<Rightarrow>
     \<lparr>jt_deltaTsUs = of_nat d, jt_syscallId = of_nat n, jt_argClass = of_nat c, jt_argBucket = of_nat b\<rparr>)"

definition window_payload :: "string \<Rightarrow> string \<Rightarrow> nat \<Rightarrow> window_record list \<Rightarrow> ShortWindowPayload" where
  "window_payload agent cid start recs = \<lparr>sw_version = 1, sw_agentId = Some agent, sw_containerId = Some cid,
     sw_windowStartTsNs = of_nat start, sw_records = Some (map record_dto recs)\<rparr>"

locale window_binding =
  fixes bind :: window_reader
  assumes fitting: "parse_window t = Some (agent, cid, start, recs) \<Longrightarrow> plain_string agent \<Longrightarrow> plain_string cid \<Longrightarrow>
      start < 9223372036854775808 \<Longrightarrow> list_all record_fits recs \<Longrightarrow> bind t = Inr (window_payload agent cid start recs)"
    and too_large: "parse_window t = Some (agent, cid, start, recs) \<Longrightarrow>
      \<not> (start < 9223372036854775808 \<and> list_all record_fits recs) \<Longrightarrow> \<exists>ex. bind t = Inl ex"
begin

lemma bind_window:
  assumes "plain_string agent" "plain_string cid"
  shows "if unat start < 9223372036854775808 \<and> list_all (\<lambda>ev. unat (nsToUs (tsNs ev - start)) < 2147483648) evs
    then bind (buildWindowJson agent cid start evs) = Inr (window_payload agent cid (unat start) (map (record_of start) evs))
    else \<exists>ex. bind (buildWindowJson agent cid start evs) = Inl ex"
proof -
  have "CHR 0x22 \<notin> set agent" "CHR 0x22 \<notin> set cid" using assms by (simp_all add: plain_string_quote)
  note parsed = parse_window_json [OF this, of start evs]
  have small: "unat (syscallId ev) < 2147483648" "unat (argClass ev) < 2147483648" "unat (argBucket ev) < 2147483648" for ev
    using unsigned_less [of "syscallId ev", where 'a = nat] unsigned_less [of "argClass ev", where 'a = nat]
      unsigned_less [of "argBucket ev", where 'a = nat] by simp_all
  have fits: "list_all record_fits (map (record_of start) evs) \<longleftrightarrow> list_all (\<lambda>ev. unat (nsToUs (tsNs ev - start)) < 2147483648) evs"
    by (simp add: list_all_iff record_fits_def record_of_def small)
  show ?thesis using fitting [OF parsed assms] too_large [OF parsed] fits by auto
qed

end

definition strict_reader :: window_reader where
  "strict_reader t =
     (case parse_window t of
        None \<Rightarrow> Inl PortException
      | Some (agent, cid, start, recs) \<Rightarrow>
          if start < 9223372036854775808 \<and> list_all record_fits recs then Inr (window_payload agent cid start recs)
          else Inl PortException)"

interpretation strict: window_binding strict_reader
  by unfold_locales (auto simp: strict_reader_def)

subsection \<open>The server as the agent sees it\<close>

record server_io =
  io_matches :: "string \<Rightarrow> string \<Rightarrow> bool"
  io_window :: window_reader
  io_dump :: "string \<Rightarrow> java_exn + LongDumpComplete"
  io_other :: "endpoint \<Rightarrow> string \<Rightarrow> Server \<Rightarrow> nat \<times> Server"
  io_env :: ingest_env
  io_now :: int

text \<open>Status and new state for a posted request.\<close>

definition server_post :: "server_io \<Rightarrow> string \<Rightarrow> string \<Rightarrow> Server \<Rightarrow> nat \<times> Server" where
  "server_post io path body s =
     (case dispatch (io_matches io) path of
        None \<Rightarrow> (404, s)
      | Some ep \<Rightarrow>
          if ep = EWindows then
            (case io_window io body of
               Inl _ \<Rightarrow> (400, s)
             | Inr payload \<Rightarrow>
                 (case ingestWindow (io_env io) payload s of (Inr _, s) \<Rightarrow> (202, s) | (Inl _, s) \<Rightarrow> (500, s)))
          else if ep = EDumpComplete then
            (case io_dump io body of
               Inl _ \<Rightarrow> (400, s)
             | Inr completion \<Rightarrow>
                 (case handleDumpComplete (io_now io) completion s of (Inr _, s) \<Rightarrow> (200, s) | (Inl _, s) \<Rightarrow> (500, s)))
          else io_other io ep body s)"

text \<open>A transfer of the agent reaches the server at \<open>base\<close> when its URL starts with it.\<close>

definition receive :: "server_io \<Rightarrow> string \<Rightarrow> transfer \<Rightarrow> Server \<Rightarrow> nat \<times> Server" where
  "receive io base t s =
     (if prefix base (tr_url t) then server_post io (drop (length base) (tr_url t)) (tr_body t) s else (0, s))"

lemma receive_at: "receive io base \<lparr>tr_url = base @ path, tr_body = body, tr_timeout = n\<rparr> s = server_post io path body s"
  by (simp add: receive_def)

subsection \<open>What the agent posts\<close>

definition agent_urls :: "AgentConfig \<Rightarrow> net \<Rightarrow> bool" where
  "agent_urls c n \<longleftrightarrow> list_all (\<lambda>t. tr_url t \<in> {windows_url c, dumps_url c}) (sent n)"

lemma urls_retry:
  assumes "agent_urls c n" "url \<in> {windows_url c, dumps_url c}"
  shows "agent_urls c (snd (postJsonWithRetry curl url body m t n))"
  using assms by (rule_tac post_copies [of m curl url body t n]) (auto simp: agent_urls_def list_all_iff)

lemma urls_notify: "agent_urls c n \<Longrightarrow> agent_urls c (snd (notifyDumpComplete curl c b n))"
  by (simp add: notifyDumpComplete_def Let_def case_prod_unfold urls_retry dumps_url_def)

lemma urls_process: "agent_urls c n \<Longrightarrow> agent_urls c (snd (processShortWindow curl c b n))"
  by (simp add: processShortWindow_def Let_def case_prod_unfold urls_retry windows_url_def)

lemma urls_append:
  assumes "agent_urls c (fst nd)" "appendLongDump curl c b ev nd = (b', nd')"
  shows "agent_urls c (fst nd')"
  using assms(2)
proof (cases rule: appendLongDump_cases)
  case ended
  then show ?thesis using urls_notify [OF assms(1)] by (metis snd_conv)
qed (use assms(1) in simp_all)

lemma urls_stop: "agent_urls c n \<Longrightarrow> agent_urls c (snd (stop_expired curl c now bs n))"
proof (induction bs arbitrary: n)
  case (Cons p bs)
  obtain k b where p: "p = (k, b)" by (cases p)
  from Cons show ?case
    unfolding p stop_expired.simps Let_def by (simp add: case_prod_unfold urls_notify)
qed simp

lemma urls_event:
  assumes "agent_urls c (ag_net a)" "ag_config a = c"
  shows "agent_urls c (ag_net (handleEvent e a evt))"
proof -
  obtain cid m where cid: "mapContainerId e (ag_mapper a) (cgroupId (map_event evt)) (pid (map_event evt)) = (cid, m)" by fastforce
  have "agent_urls c (fst (snd (buffer_event e c cid b ev (ag_net a, d))))" for b ev d
  proof -
    define b1 where "b1 = (let b = b\<lparr>b_containerId := cid\<rparr>; b = (if currentShortWindow b = [] then b\<lparr>windowStartTsNs := tsNs ev\<rparr> else b)
      in b\<lparr>lastEventTsNs := tsNs ev, currentShortWindow := currentShortWindow b @ [ev]\<rparr>)"
    obtain b2 n2 d2 where ap: "appendLongDump (ae_curl e) c b1 ev (ag_net a, d) = (b2, n2, d2)" by (metis prod_cases3)
    then have "agent_urls c n2" using urls_append [of c "(ag_net a, d)" "ae_curl e" b1 ev b2 "(n2, d2)"] assms(1) by simp
    then have "agent_urls c (snd (if window_complete c b2 ev then processShortWindow (ae_curl e) c b2 n2 else (b2, n2)))"
      by (simp add: urls_process)
    moreover have "fst (snd (buffer_event e c cid b ev (ag_net a, d))) =
        snd (if window_complete c b2 ev then processShortWindow (ae_curl e) c b2 n2 else (b2, n2))"
      using ap unfolding b1_def buffer_event_def Let_def by (simp split: prod.split)
    ultimately show ?thesis by simp
  qed
  then show ?thesis
    using assms cid
    by (simp add: handleEvent_def Let_def case_prod_unfold stopExpiredLongDumps_def urls_stop)
qed

lemma reachable_urls: "agent_reachable c a \<Longrightarrow> agent_urls c (ag_net a)"
proof (induction rule: agent_reachable.induct)
  case (new e a)
  then show ?case by (auto simp: Agent_new_def agent_urls_def net0_def split: if_splits)
next
  case (step a a')
  have cfg: "ag_config a = c" using reachable_config [OF step.hyps(1)] .
  have still: "unmoved c (pending_of a) (ag_net a) a" using reachable_inv [OF step.hyps(1)] cfg by (simp add: unmoved_def)
  from step.hyps(2) show ?case
  proof (cases rule: agent_step.cases)
    case (event e data)
    then show ?thesis using urls_event [OF step.IH cfg] step.IH by (simp add: handleEventThunk_def)
  next
    case (client e received resp)
    from window_control.client_inv [OF still this [unfolded agent_handlers_def]] step.IH show ?thesis by (simp add: unmoved_def)
  next
    case (baseline e dur)
    with requestLongDump_unmoved [OF still] step.IH show ?thesis by (auto simp: unmoved_def)
  qed
qed

subsection \<open>Records of the agent's events\<close>

definition events_dto :: "SyscallEvent list \<Rightarrow> TraceRecordDto list" where
  "events_dto w = map (\<lambda>ev. record_dto (record_of (tsNs (hd w)) ev)) w"

definition events_with :: "u8 \<Rightarrow> SyscallEvent list \<Rightarrow> nat" where
  "events_with k w = length (filter (\<lambda>ev. argClass ev = k) w)"

lemma class_of_dto: "(ucast (x :: u8) :: i32) = ucast y \<longleftrightarrow> x = y"
proof
  have keep: "unat (ucast z :: i32) = unat z" for z :: u8
    using unsigned_less [of z, where 'a = nat] by (simp add: unsigned_ucast_eq take_bit_nat_eq_self)
  assume "(ucast x :: i32) = ucast y"
  then have "unat x = unat y" using keep by metis
  then show "x = y" by (simp add: word_unat_eq_iff)
qed simp

lemma class_seen_dto: "class_seen (events_dto w) (ucast (k :: u8)) = events_with k w"
proof -
  have "length (filter (\<lambda>r. jt_argClass r = ucast k) (map (\<lambda>ev. record_dto (record_of start ev)) evs)) =
      length (filter (\<lambda>ev. argClass ev = k) evs)" for start evs
    by (induction evs) (simp_all add: record_dto_def record_of_def class_of_dto)
  then show ?thesis by (simp add: class_seen_def events_with_def events_dto_def)
qed

lemma class_count_seen: "class_count k rs = int (class_seen rs k)"
proof -
  have "fold (\<lambda>r n. if jt_argClass r = k then n + 1 else n) rs n = n + int (class_seen rs k)" for n
    by (induction rs arbitrary: n) (simp_all add: class_seen_def)
  then show ?thesis by (simp add: class_count_def)
qed

definition window_fits :: "SyscallEvent list \<Rightarrow> bool" where
  "window_fits w \<longleftrightarrow> unat (tsNs (hd w)) < 9223372036854775808 \<and>
     list_all (\<lambda>ev. unat (tsNs ev - tsNs (hd w)) < 2147483648000) w"

lemma us_fits: "unat (nsToUs x) < 2147483648 \<longleftrightarrow> unat x < 2147483648000"
proof -
  have "unat (nsToUs x) = unat x div 1000" by (simp add: nsToUs_def unat_div)
  then show ?thesis by (simp add: div_less_iff_less_mult)
qed

subsection \<open>Properties\<close>

text \<open>C20: Which windows of an agent the server processes. A posted window reaches the ingestion of
  the server, as exactly the container and records that were observed, if its first timestamp fits
  in a signed 64-bit number and every event is less than 2147483648 microseconds after the first.
  Any other window, in particular one with an event older than its first, is refused as a whole with
  status 400 and leaves the server unchanged.\<close>

theorem posted_window_received:
  assumes "path_matching (io_matches io)" "window_binding (io_window io)"
    and "plain_string (agentId cfg)" "plain_string cid"
  shows "receive io (serverUrl cfg) (post_of cfg (cid, w)) s =
   (if window_fits w then
      (case ingestWindow (io_env io) \<lparr>sw_version = 1, sw_agentId = Some (agentId cfg), sw_containerId = Some cid,
           sw_windowStartTsNs = tsNs (hd w), sw_records = Some (events_dto w)\<rparr> s of
         (Inr _, s') \<Rightarrow> (202, s') | (Inl _, s') \<Rightarrow> (500, s'))
    else (400, s))"
proof -
  have at: "receive io (serverUrl cfg) (post_of cfg (cid, w)) s =
      server_post io ''/api/v1/agent/windows'' (buildWindowJson (agentId cfg) cid (tsNs (hd w)) w) s"
    using receive_at by (simp add: post_of_def windows_url_def)
  have "dispatch (io_matches io) ''/api/v1/agent/windows'' = Some EWindows"
    using assms(1) by (rule path_matching.dispatch_windows)
  moreover have "window_payload (agentId cfg) cid (unat (tsNs (hd w))) (map (record_of (tsNs (hd w))) w) =
      \<lparr>sw_version = 1, sw_agentId = Some (agentId cfg), sw_containerId = Some cid,
       sw_windowStartTsNs = tsNs (hd w), sw_records = Some (events_dto w)\<rparr>"
    by (simp add: window_payload_def events_dto_def comp_def)
  ultimately show ?thesis
    using window_binding.bind_window [OF assms(2-4), of "tsNs (hd w)" w]
    unfolding at by (auto simp: server_post_def us_fits window_fits_def split: if_splits)
qed

definition demo_io :: server_io where
  "demo_io = \<lparr>io_matches = segment_matches, io_window = strict_reader, io_dump = (\<lambda>_. Inl PortException),
     io_other = (\<lambda>_ _ s. (500, s)), io_env = demo_env, io_now = 0\<rparr>"

definition observed :: "u64 \<Rightarrow> SyscallEvent" where
  "observed t = \<lparr>tsNs = t, pid = 1, tid = 1, cgroupId = 9, syscallId = 42, argClass = 2, argBucket = 0\<rparr>"

theorem posted_window_received_witness:
  "receive demo_io (serverUrl default_config) (post_of default_config (''web'', [observed 7000, observed 6000])) (Server_new 0) = (400, Server_new 0)"
proof -
  have laws: "path_matching (io_matches demo_io)" "window_binding (io_window demo_io)"
    using segments.path_matching_axioms strict.window_binding_axioms by (simp_all add: demo_io_def)
  have ids: "plain_string (agentId default_config)" "plain_string ''web''"
    by (simp_all add: default_config_def plain_string_def)
  have "\<not> window_fits [observed 7000, observed 6000]" by (simp add: window_fits_def observed_def)
  with posted_window_received [OF laws ids, of "[observed 7000, observed 6000]" "Server_new 0"] show ?thesis by simp
qed

text \<open>The ratios the detector uses are shifted by one class. In the features of an agent's window the
  entry called file ratio is the share of the events the probe classes as other, and the entry
  called net ratio is the share of those it classes as file accesses; network events enter neither. The summary
  for the language model counts the same events by their proper classes.\<close>

theorem ratios_shifted:
  assumes "w \<noteq> []" "length w < 2147483648" "sw_records p = Some (events_dto w)"
  shows "\<exists>vec. fe_extract jlog p = Inr vec \<and>
    vec ! 578 = share (events_with ARG_CLASS_OTHER w) (length w) \<and>
    vec ! 579 = share (events_with ARG_CLASS_FILE w) (length w) \<and>
    class_count 1 (events_dto w) = int (events_with ARG_CLASS_FILE w) \<and>
    class_count 2 (events_dto w) = int (events_with ARG_CLASS_NET w)"
proof -
  have len: "length (events_dto w) = length w" "events_dto w \<noteq> []" using assms(1) by (simp_all add: events_dto_def)
  then obtain secs where v: "fe_extract jlog p = Inr (vector_of jlog secs (events_dto w))"
    using extract_vector [OF assms(3)] assms(2) by auto
  have "class_seen (events_dto w) 0 = events_with ARG_CLASS_OTHER w" "class_seen (events_dto w) 1 = events_with ARG_CLASS_FILE w"
    "class_seen (events_dto w) 2 = events_with ARG_CLASS_NET w"
    using class_seen_dto [of w ARG_CLASS_OTHER] class_seen_dto [of w ARG_CLASS_FILE] class_seen_dto [of w ARG_CLASS_NET]
    by (simp_all add: arg_class_defs)
  with v len show ?thesis
    by (intro exI [of _ "vector_of jlog secs (events_dto w)"]) (simp add: vector_nth class_count_seen)
qed

theorem ratios_shifted_witness:
  "\<exists>vec. fe_extract (\<lambda>x. x - 1) (window_payload ''agent-1'' ''web'' 7000 (map (record_of 7000) [observed 7000])) = Inr vec \<and> vec ! 579 = 0 \<and>
    class_count 2 (events_dto [observed 7000]) = 1"
proof -
  have p: "[observed 7000] \<noteq> []" "length [observed 7000] < 2147483648"
    "sw_records (window_payload ''agent-1'' ''web'' 7000 (map (record_of 7000) [observed 7000])) = Some (events_dto [observed 7000])"
    by (simp_all add: window_payload_def events_dto_def observed_def)
  have "events_with ARG_CLASS_FILE [observed 7000] = 0" "events_with ARG_CLASS_NET [observed 7000] = 1"
    by (simp_all add: events_with_def observed_def arg_class_defs)
  with ratios_shifted [OF p, of "\<lambda>x. x - 1"] show ?thesis by (auto simp: share_def f32_def round_fp_def)
qed

text \<open>C21: Training that is started through the user interface is never reported back. The
  request is answered with status 202 and the container's model is in training; whatever transfers
  an agent in any reachable state has made, its completion reports included, and in whatever order and how
  often they reach the server, afterwards the model is still in training and the job still waits:
  the path the agent reports to has no mapping.\<close>

theorem training_never_reported:
  assumes "path_matching matches" "agent_reachable cfg a"
    and "triggerTraining rest url det now cid secs s = (code, s1)"
    and "list_all (\<lambda>(io, t). io_matches io = matches \<and> t \<in> set (sent (ag_net a))) deliveries"
    and "s2 = fold (\<lambda>(io, t) s. snd (receive io (serverUrl cfg) t s)) deliveries s1"
  shows "code = 202 \<and> map_option mv_status (latest (tr_versions (sv_training s2)) cid) = Some TRAINING \<and>
    tr_jobs (sv_training s2) cid \<noteq> None"
proof -
  have one: "sv_training (snd (receive io (serverUrl cfg) t s)) = sv_training s"
    if "io_matches io = matches" "t \<in> set (sent (ag_net a))" for io t s
  proof -
    have "tr_url t \<in> {windows_url cfg, dumps_url cfg}"
      using that(2) reachable_urls [OF assms(2)] by (auto simp: agent_urls_def list_all_iff)
    then consider "tr_url t = serverUrl cfg @ ''/api/v1/agent/windows''" | "tr_url t = serverUrl cfg @ ''/api/v1/agent/long-dump-complete''"
      by (auto simp: windows_url_def dumps_url_def)
    then show ?thesis
    proof cases
      case 1
      have "sv_training s' = sv_training s" if "ingestWindow e p s = (r, s')" for e p r s'
        using that apart.keeps_ingest [of s "sv_training s" "sv_deployments s"] by blast
      then show ?thesis
        using 1 that(1) path_matching.dispatch_windows [OF assms(1)]
        by (auto simp: receive_def server_post_def split: sum.splits prod.splits)
    next
      case 2
      then show ?thesis
        using that(1) path_matching.dispatch_long_dump_complete [OF assms(1)] by (simp add: receive_def server_post_def)
    qed
  qed
  have "sv_training (fold (\<lambda>(io, t) s. snd (receive io (serverUrl cfg) t s)) ds s0) = sv_training s0"
    if "list_all (\<lambda>(io, t). io_matches io = matches \<and> t \<in> set (sent (ag_net a))) ds" for ds s0
    using that by (induction ds arbitrary: s0) (auto simp: one)
  then have same: "sv_training s2 = sv_training s1" using assms(4,5) by blast
  have "code = 202" "\<exists>t. startOrchestratedTraining det now (Inr ()) (sv_training s) cid = (Inr (), t) \<and> sv_training s1 = t"
    using assms(3) by (auto simp: triggerTraining_def adapter_never_fails startOrchestratedTraining_def case_prod_unfold Let_def)
  then show ?thesis using started_latest [OF _ refl] same by (metis option.distinct(1) option.simps(9))
qed

theorem training_never_reported_witness:
  "map_option mv_status (latest (tr_versions (sv_training
     (snd (triggerTraining (\<lambda>_ _. Inr ()) ''http://localhost:8082'' None 5 ''web'' 60 (Server_new 0))))) ''web'') = Some TRAINING"
proof -
  let ?s1 = "snd (triggerTraining (\<lambda>_ _. Inr ()) ''http://localhost:8082'' None 5 ''web'' 60 (Server_new 0))"
  have reach: "agent_reachable default_config fresh_agent" using fresh_agent_new by (rule agent_reachable.new)
  have trig: "triggerTraining (\<lambda>_ _. Inr ()) ''http://localhost:8082'' None 5 ''web'' 60 (Server_new 0) =
      (fst (triggerTraining (\<lambda>_ _. Inr ()) ''http://localhost:8082'' None 5 ''web'' 60 (Server_new 0)), ?s1)" by simp
  have del: "list_all (\<lambda>(io, t). io_matches io = segment_matches \<and> t \<in> set (sent (ag_net fresh_agent))) []" by simp
  have "?s1 = fold (\<lambda>(io, t) s. snd (receive io (serverUrl default_config) t s)) [] ?s1" by simp
  from training_never_reported [OF segments.path_matching_axioms reach trig del this] show ?thesis by simp
qed

end
