(* ===== verification/Ml_Dump.thy ===== *)
theory Ml_Dump
  imports Agent_Buffers
begin

text \<open>
  Reading dump files for training: the first half of \<^verbatim>\<open>ml-service/tools/train_from_dump.py\<close>, which parses
  the binary file a long dump left behind and cuts its records into windows of time. Python integers
  are unbounded (\<open>int\<close>), a \<^verbatim>\<open>str\<close> is its list of code points, a file is its bytes, and \<^verbatim>\<open>f.read(n)\<close> takes
  at most \<open>n\<close> of those left. The loop that closes windows may run forever, so it is a partial function
  into \<open>option\<close> and \<open>None\<close> means that it does not return.
\<close>

subsection \<open>Little-endian fields\<close>

datatype py_exn = ValueError | NotFittedError | OtherException

fun le_int :: "bytes \<Rightarrow> int" where  \<comment> \<open>\<^verbatim>\<open>struct.unpack\<close> of an unsigned field with \<^verbatim>\<open><\<close>\<close>
  "le_int [] = 0"
| "le_int (b # bs) = uint b + 256 * le_int bs"

lemma le_bytes_Suc: "le_bytes (Suc n) w = ucast w # le_bytes n (drop_bit 8 w)"
proof -
  have "drop_bit (8 * Suc i) w = drop_bit (8 * i) (drop_bit 8 w)" for i
    by (simp add: drop_bit_drop_bit add.commute)
  then show ?thesis
    by (simp add: le_bytes_def upt_conv_Cons map_Suc_upt [symmetric] comp_def del: upt_Suc mult_Suc_right)
qed

lemma le_int_le_bytes: "le_int (le_bytes n w) = take_bit (8 * n) (uint w)"
proof (induction n arbitrary: w)
  case (Suc n)
  have "take_bit (8 * Suc n) (uint w) = take_bit 8 (uint w) + 256 * take_bit (8 * n) (drop_bit 8 (uint w))"
    by (simp add: take_bit_eq_mod drop_bit_eq_div power_add zmod_zmult2_eq)
  with Suc [of "drop_bit 8 w"] show ?case by (simp add: le_bytes_Suc unsigned_ucast_eq unsigned_drop_bit_eq take_bit_int_eq_self)
qed (simp add: le_bytes_def)

lemma le_int_word [simp]: "LENGTH('a) \<le> 8 * n \<Longrightarrow> le_int (le_bytes n (w :: 'a::len word)) = uint w"
  using le_int_le_bytes [of n w] take_bit_tightened [of "LENGTH('a)"]
  by (simp add: take_bit_int_eq_self order_less_le_trans [OF unsigned_less])

subsection \<open>Text\<close>

text \<open>\<^verbatim>\<open>decode('utf-8', errors='replace')\<close>: number of continuation bytes and range of the first one for a lead
  byte; a sequence that breaks off is replaced by one U+FFFD up to where it breaks off.\<close>

definition utf8_lead :: "u8 \<Rightarrow> (nat \<times> nat \<times> nat) option" where
  "utf8_lead b = (let n = unat b in
     if 0xC2 \<le> n \<and> n \<le> 0xDF then Some (1, 0x80, 0xBF)
     else if n = 0xE0 then Some (2, 0xA0, 0xBF)
     else if n = 0xED then Some (2, 0x80, 0x9F)
     else if 0xE1 \<le> n \<and> n \<le> 0xEF then Some (2, 0x80, 0xBF)
     else if n = 0xF0 then Some (3, 0x90, 0xBF)
     else if 0xF1 \<le> n \<and> n \<le> 0xF3 then Some (3, 0x80, 0xBF)
     else if n = 0xF4 then Some (3, 0x80, 0x8F)
     else None)"

fun continuation :: "nat \<Rightarrow> nat \<times> nat \<Rightarrow> bytes \<Rightarrow> bytes" where  \<comment> \<open>the continuation bytes that are there\<close>
  "continuation 0 r bs = []"
| "continuation (Suc k) r [] = []"
| "continuation (Suc k) (lo, hi) (b # bs) =
     (if lo \<le> unat b \<and> unat b \<le> hi then b # continuation k (0x80, 0xBF) bs else [])"

definition utf8_value :: "nat \<Rightarrow> u8 \<Rightarrow> bytes \<Rightarrow> nat" where
  "utf8_value k b bs = foldl (\<lambda>a c. 64 * a + unat c mod 64) (unat b mod 2 ^ (6 - k)) bs"

function utf8_decode :: "bytes \<Rightarrow> nat list" where
  "utf8_decode [] = []"
| "utf8_decode (b # bs) =
     (if unat b < 0x80 then unat b # utf8_decode bs
      else case utf8_lead b of
          None \<Rightarrow> 0xFFFD # utf8_decode bs
        | Some (k, lo, hi) \<Rightarrow>
            let cs = continuation k (lo, hi) bs in
            (if length cs = k then utf8_value k b cs else 0xFFFD) # utf8_decode (drop (length cs) bs))"
  by pat_completeness auto
termination
  by (relation "measure length") auto

lemma utf8_decode_ascii: "list_all (\<lambda>b. unat b < 128) bs \<Longrightarrow> utf8_decode bs = map unat bs"
  by (induction bs) auto

definition rstrip_nul :: "bytes \<Rightarrow> bytes" where  \<comment> \<open>\<^verbatim>\<open>rstrip(b'\x00')\<close>\<close>
  "rstrip_nul bs = rev (dropWhile (\<lambda>b. b = 0) (rev bs))"

lemma rstrip_nul_padded: "0 \<notin> set bs \<Longrightarrow> rstrip_nul (bs @ replicate n 0) = bs"
proof -
  assume "0 \<notin> set bs"
  moreover have "dropWhile (\<lambda>b. b = 0) (replicate n 0 @ rev bs) = dropWhile (\<lambda>b. b = 0) (rev bs)"
    by (induction n) auto
  moreover have "dropWhile (\<lambda>b. b = 0) (rev bs) = rev bs"
    using calculation(1) by (cases "rev bs") (auto simp: dropWhile_eq_self_iff in_set_conv_decomp)
  ultimately show ?thesis by (simp add: rstrip_nul_def)
qed

subsection \<open>The dump file\<close>

record PyHeader =
  py_version :: int
  py_vocab_size :: int
  py_container_id :: "nat list"
  py_start_ts_ns :: int

record PyRecord =
  py_delta_ts_us :: int
  py_syscall_id :: int
  py_arg_class :: int
  py_arg_bucket :: int

definition unpack_header :: "bytes \<Rightarrow> PyHeader" where  \<comment> \<open>\<open><II64sQ\<close>\<close>
  "unpack_header bs =
     \<lparr>py_version = le_int (take 4 bs), py_vocab_size = le_int (take 4 (drop 4 bs)),
      py_container_id = utf8_decode (rstrip_nul (take 64 (drop 8 bs))), py_start_ts_ns = le_int (take 8 (drop 72 bs))\<rparr>"

definition unpack_record :: "bytes \<Rightarrow> PyRecord" where  \<comment> \<open>\<open><IHBB\<close>\<close>
  "unpack_record bs =
     \<lparr>py_delta_ts_us = le_int (take 4 bs), py_syscall_id = le_int (take 2 (drop 4 bs)),
      py_arg_class = le_int (take 1 (drop 6 bs)), py_arg_bucket = le_int (take 1 (drop 7 bs))\<rparr>"

function read_records :: "bytes \<Rightarrow> PyRecord list" where
  "read_records f =
     (let record_bytes = take 8 f in
      if length record_bytes < 8 then [] else unpack_record record_bytes # read_records (drop 8 f))"
  by pat_completeness auto
termination
  by (relation "measure length") auto

declare read_records.simps [simp del]

definition parse_dump_file :: "bytes \<Rightarrow> py_exn + PyHeader \<times> PyRecord list" where
  "parse_dump_file f =
     (let header_bytes = take 80 f in
      if length header_bytes < 80 then Inl ValueError
      else Inr (unpack_header header_bytes, read_records (drop 80 f)))"

subsection \<open>What the reader makes of the agent's files\<close>

definition py_record :: "TraceRecord \<Rightarrow> PyRecord" where
  "py_record r = \<lparr>py_delta_ts_us = uint (delta_ts_us r), py_syscall_id = uint (r_syscall_id r),
     py_arg_class = uint (r_arg_class r), py_arg_bucket = uint (r_arg_bucket r)\<rparr>"

definition py_header :: "AgentConfig \<Rightarrow> string \<Rightarrow> u64 \<Rightarrow> PyHeader" where
  "py_header c cid start = \<lparr>py_version = 1, py_vocab_size = uint (syscallVocabSize c),
     py_container_id = utf8_decode (map of_char (take 63 (c_str cid))), py_start_ts_ns = uint start\<rparr>"

lemma unpack_record_enc: "unpack_record (TraceRecord_enc r) = py_record r"
  by (simp add: unpack_record_def TraceRecord_enc_def py_record_def)

lemma read_records_short: "length f < 8 \<Longrightarrow> read_records f = []"
  by (simp add: read_records.simps [of f])

lemma read_records_Cons: "length bs = 8 \<Longrightarrow> read_records (bs @ f) = unpack_record bs # read_records f"
  by (simp add: read_records.simps [of "bs @ f"])

lemma read_records_enc:
  "read_records (take m (concat (map TraceRecord_enc rs))) = map py_record (take (m div 8) rs)"
proof (induction rs arbitrary: m)
  case (Cons r rs)
  have len: "length (TraceRecord_enc r) = 8" by (simp add: TraceRecord_enc_def)
  show ?case
  proof (cases "m < 8")
    case True
    then show ?thesis by (simp add: read_records_short)
  next
    case False
    then have "take m (concat (map TraceRecord_enc (r # rs))) = TraceRecord_enc r @ take (m - 8) (concat (map TraceRecord_enc rs))"
      by (simp add: len)
    moreover have "m div 8 = Suc ((m - 8) div 8)" using False by (simp add: div_if)
    ultimately show ?thesis by (simp add: read_records_Cons [OF len] unpack_record_enc Cons.IH)
  qed
qed (simp add: read_records_short)

lemma unat_of_char: "unat (of_char ch :: u8) = of_char ch"
proof -
  have "(of_char ch :: u8) = of_nat (of_char ch)" by (cases ch) simp
  then show ?thesis by (simp add: unsigned_of_nat take_bit_eq_mod)
qed

lemma of_char_zero: "(of_char ch :: u8) = 0 \<longleftrightarrow> ch = CHR 0x00"
proof
  assume "(of_char ch :: u8) = 0"
  then have "(of_char ch :: nat) = of_char (CHR 0x00)" using unat_of_char [of ch] by simp
  then show "ch = CHR 0x00" by (simp only: of_char_eq_iff)
qed simp

lemma unpack_header_enc: "unpack_header (TraceHeader_enc (dump_header c cid start)) = py_header c cid start"
proof -
  have "CHR 0x00 \<notin> set (take 63 (c_str cid))"
    using set_takeWhileD [of "CHR 0x00" "\<lambda>c. c \<noteq> CHR 0x00" cid] by (auto simp: c_str_def dest: in_set_takeD)
  then have "0 \<notin> set (map of_char (take 63 (c_str cid)) :: bytes)" by (auto simp: of_char_zero)
  then have "rstrip_nul (container_field cid) = map of_char (take 63 (c_str cid))"
    by (simp add: container_field_def Let_def rstrip_nul_padded)
  then show ?thesis
    by (simp add: unpack_header_def TraceHeader_enc_def dump_header_def py_header_def length_container_field)
qed

lemma parse_dump_prefix:
  "parse_dump_file (take n (dump_file c cid start evs)) =
     (if n < 80 then Inl ValueError
      else Inr (py_header c cid start, map py_record (take ((n - 80) div 8) (dump_records start 0 evs))))"
proof -
  have len: "length (TraceHeader_enc (dump_header c cid start)) = 80"
    by (rule TraceHeader_enc_length) (simp add: dump_header_def length_container_field)
  then have "take 80 (take n (dump_file c cid start evs)) = TraceHeader_enc (dump_header c cid start)" if "80 \<le> n"
    using that by (simp add: dump_file_def)
  moreover have "drop 80 (take n (dump_file c cid start evs)) =
      take (n - 80) (concat (map TraceRecord_enc (dump_records start 0 evs)))"
    using len by (cases "80 \<le> n") (simp_all add: dump_file_def)
  ultimately show ?thesis
    using len by (auto simp: parse_dump_file_def unpack_header_enc read_records_enc dump_file_def)
qed

subsection \<open>Cutting records into windows\<close>

text \<open>The inner loop closes windows until the time \<open>cum\<close> falls into the current one.\<close>

partial_function (option) close_windows ::
  "int \<Rightarrow> int \<Rightarrow> PyRecord list list \<Rightarrow> PyRecord list \<Rightarrow> int \<Rightarrow> (PyRecord list list \<times> PyRecord list \<times> int) option" where
  "close_windows dur cum windows current_window window_start =
     (if cum - window_start \<ge> dur
      then close_windows dur cum (if current_window \<noteq> [] then windows @ [current_window] else windows) [] (window_start + dur)
      else Some (windows, current_window, window_start))"

declare close_windows.simps [code]

fun split_loop ::
  "int \<Rightarrow> PyRecord list \<Rightarrow> int \<Rightarrow> PyRecord list list \<Rightarrow> PyRecord list \<Rightarrow> int \<Rightarrow> (PyRecord list list \<times> PyRecord list) option" where
  "split_loop dur [] cum windows current_window window_start = Some (windows, current_window)"
| "split_loop dur (r # rs) cum windows current_window window_start =
     (case close_windows dur (cum + py_delta_ts_us r) windows current_window window_start of
        None \<Rightarrow> None
      | Some (windows, current_window, window_start) \<Rightarrow>
          split_loop dur rs (cum + py_delta_ts_us r) windows (current_window @ [r]) window_start)"

definition split_into_windows :: "PyRecord list \<Rightarrow> int \<Rightarrow> PyRecord list list option" where
  "split_into_windows records dur =
     (if records = [] then Some []
      else case split_loop dur records 0 [] [] 0 of
          None \<Rightarrow> None
        | Some (windows, current_window) \<Rightarrow> Some (if current_window \<noteq> [] then windows @ [current_window] else windows))"

text \<open>Records with their times since the start of the dump, and those whose time lies in the window number \<open>k\<close>.\<close>

fun stamped :: "int \<Rightarrow> PyRecord list \<Rightarrow> (int \<times> PyRecord) list" where
  "stamped cum [] = []"
| "stamped cum (r # rs) = (cum + py_delta_ts_us r, r) # stamped (cum + py_delta_ts_us r) rs"

definition in_window :: "int \<Rightarrow> (int \<times> PyRecord) list \<Rightarrow> nat \<Rightarrow> PyRecord list" where
  "in_window dur ts k = map snd (filter (\<lambda>(t, _). t div dur = int k) ts)"

definition windows_upto :: "int \<Rightarrow> (int \<times> PyRecord) list \<Rightarrow> nat \<Rightarrow> PyRecord list list" where
  "windows_upto dur ts n = filter (\<lambda>w. w \<noteq> []) (map (in_window dur ts) [0..<n])"

lemma windows_upto_Suc:
  "windows_upto dur ts (Suc n) = (if in_window dur ts n \<noteq> [] then windows_upto dur ts n @ [in_window dur ts n] else windows_upto dur ts n)"
  by (simp add: windows_upto_def)

lemma div_bounds: "0 < (d :: int) \<Longrightarrow> k * d \<le> t \<Longrightarrow> t < (k + 1) * d \<Longrightarrow> t div d = k"
  by (rule int_div_pos_eq [where r = "t - k * d"]) (simp_all add: algebra_simps)

lemma le_div_iff: "0 < (d :: int) \<Longrightarrow> k \<le> t div d \<longleftrightarrow> k * d \<le> t"
proof -
  assume d: "0 < d"
  have t: "t div d * d \<le> t" "t < (t div d + 1) * d"
    using pos_mod_bound [OF d, of t] pos_mod_sign [OF d, of t] div_mult_mod_eq [of t d]
    unfolding distrib_right mult_1_left by linarith+
  show ?thesis
  proof
    assume "k \<le> t div d"
    then have "k * d \<le> t div d * d" using d by simp
    with t(1) show "k * d \<le> t" by linarith
  next
    assume "k * d \<le> t"
    with t(2) have "k * d < (t div d + 1) * d" by linarith
    then show "k \<le> t div d" using d by simp
  qed
qed

lemma close_windows_spec:
  assumes "0 < dur" "int k * dur \<le> cum" "\<forall>(t, _) \<in> set ts. t div dur \<le> int k"
  shows "close_windows dur cum (windows_upto dur ts k) (in_window dur ts k) (int k * dur) =
    Some (windows_upto dur ts (nat (cum div dur)), in_window dur ts (nat (cum div dur)), int (nat (cum div dur)) * dur)"
  using assms(2,3)
proof (induction "nat (cum div dur) - k" arbitrary: k)
  case 0
  then have "cum div dur \<le> int k" by simp
  then have "cum < (int k + 1) * dur" using le_div_iff [of dur "int k + 1" cum] assms(1) by simp
  then show ?case
    using 0 assms(1) div_bounds [of dur "int k" cum] by (simp add: close_windows.simps algebra_simps)
next
  case (Suc n)
  then have lt: "int k + 1 \<le> cum div dur" by linarith
  then have le: "int (Suc k) * dur \<le> cum"
    using le_div_iff [of dur "int k + 1" cum] assms(1) by (simp add: add.commute)
  have none: "in_window dur ts (Suc k) = []" using Suc.prems(2) by (auto simp: in_window_def filter_empty_conv)
  have "close_windows dur cum (windows_upto dur ts k) (in_window dur ts k) (int k * dur) =
      close_windows dur cum (windows_upto dur ts (Suc k)) (in_window dur ts (Suc k)) (int (Suc k) * dur)"
    using le by (subst close_windows.simps) (simp add: windows_upto_Suc none algebra_simps)
  also have "\<dots> = Some (windows_upto dur ts (nat (cum div dur)), in_window dur ts (nat (cum div dur)), int (nat (cum div dur)) * dur)"
    using Suc le by (intro Suc.hyps(1)) auto
  finally show ?case .
qed

definition total_us :: "PyRecord list \<Rightarrow> int" where
  "total_us rs = sum_list (map py_delta_ts_us rs)"

definition forward :: "PyRecord list \<Rightarrow> bool" where
  "forward rs \<longleftrightarrow> list_all (\<lambda>r. 0 \<le> py_delta_ts_us r) rs"

lemma split_loop_spec:
  assumes "0 < dur" "forward rs" "0 \<le> cum" "\<forall>(t, _) \<in> set ts. t \<le> cum" "k = nat (cum div dur)"
  shows "\<exists>k'. k' = nat ((cum + total_us rs) div dur) \<and>
    split_loop dur rs cum (windows_upto dur ts k) (in_window dur ts k) (int k * dur) =
      Some (windows_upto dur (ts @ stamped cum rs) k', in_window dur (ts @ stamped cum rs) k')"
  using assms(2-5)
proof (induction rs arbitrary: cum ts k)
  case (Cons r rs)
  define cum1 where "cum1 = cum + py_delta_ts_us r"
  define k1 where "k1 = nat (cum1 div dur)"
  define ts1 where "ts1 = ts @ [(cum1, r)]"
  have le: "cum \<le> cum1" "0 \<le> cum1" using Cons.prems by (simp_all add: cum1_def forward_def)
  have k: "int k = cum div dur" "int k1 = cum1 div dur"
    using Cons.prems(2,4) le assms(1) by (simp_all add: k1_def pos_imp_zdiv_nonneg_iff)
  have "\<forall>(t, _) \<in> set ts. t div dur \<le> int k"
    using Cons.prems(3) assms(1) unfolding k by (auto intro: zdiv_mono1)
  moreover have "int k * dur \<le> cum1" using le_div_iff [of dur "int k" cum] assms(1) k le by simp
  ultimately have close: "close_windows dur cum1 (windows_upto dur ts k) (in_window dur ts k) (int k * dur) =
      Some (windows_upto dur ts k1, in_window dur ts k1, int k1 * dur)"
    unfolding k1_def by (intro close_windows_spec assms(1))
  have "in_window dur ts j = in_window dur ts1 j" if "j < k1" for j
    using that k(2) by (auto simp: in_window_def ts1_def)
  then have "windows_upto dur ts k1 = windows_upto dur ts1 k1"
    unfolding windows_upto_def by (intro arg_cong [where f = "filter _"] map_cong) auto
  moreover have "in_window dur ts k1 @ [r] = in_window dur ts1 k1" using k(2) by (simp add: in_window_def ts1_def)
  moreover have "forward rs" "0 \<le> cum1" "\<forall>(t, _) \<in> set ts1. t \<le> cum1"
    using Cons.prems le by (auto simp: forward_def ts1_def)
  then obtain k' where "k' = nat ((cum1 + total_us rs) div dur)"
    "split_loop dur rs cum1 (windows_upto dur ts1 k1) (in_window dur ts1 k1) (int k1 * dur) =
      Some (windows_upto dur (ts1 @ stamped cum1 rs) k', in_window dur (ts1 @ stamped cum1 rs) k')"
    using Cons.IH [of cum1 ts1 k1] k1_def by blast
  ultimately show ?case using close by (simp add: cum1_def ts1_def total_us_def add.assoc)
qed (simp add: total_us_def)

lemma concat_nonempty: "concat (filter (\<lambda>w. w \<noteq> []) ws) = concat ws"
  by (induction ws) auto

lemma concat_in_windows:
  assumes "sorted (map (\<lambda>(t, _). t div dur) ts)" "\<forall>(t, _) \<in> set ts. 0 \<le> t div dur \<and> t div dur < int n"
  shows "concat (map (in_window dur ts) [0..<n]) = map snd ts"
  using assms
proof (induction ts)
  case (Cons x ts)
  obtain t r where x: "x = (t, r)" by (cases x)
  define j where "j = nat (t div dur)"
  have j: "j < n" "int j = t div dur" using Cons.prems(2) by (auto simp: x j_def)
  have other: "in_window dur (x # ts) k = in_window dur ts k" if "k \<noteq> j" for k
    using that j(2) by (auto simp: x in_window_def)
  have "in_window dur ts k = []" if "k < j" for k
    using Cons.prems(1) that j(2) by (fastforce simp: x in_window_def filter_empty_conv)
  then have front: "concat (map (in_window dur ts) [0..<j]) = []" "concat (map (in_window dur (x # ts)) [0..<j]) = []"
    using other by simp_all
  have behind: "map (in_window dur (x # ts)) [Suc j..<n] = map (in_window dur ts) [Suc j..<n]"
    using other by simp
  have here: "in_window dur (x # ts) j = r # in_window dur ts j" using j by (simp add: x in_window_def)
  have all: "[0..<n] = [0..<j] @ j # [Suc j..<n]"
    using j(1) by (metis le_add_diff_inverse less_imp_le upt_add_eq_append upt_conv_Cons zero_le)
  have "concat (map (in_window dur (x # ts)) [0..<n]) = r # concat (map (in_window dur ts) [0..<n])"
    by (simp only: all map_append list.map concat_append concat.simps front behind here append_Nil append_Cons)
  then show ?case using Cons.IH Cons.prems by (simp add: x)
qed (simp add: in_window_def)

lemma total_us_nonneg: "forward rs \<Longrightarrow> 0 \<le> total_us rs"
  by (induction rs) (auto simp: forward_def total_us_def)

lemma stamped_times: "forward rs \<Longrightarrow> x \<in> set (stamped cum rs) \<Longrightarrow> cum \<le> fst x \<and> fst x \<le> cum + total_us rs"
proof (induction rs arbitrary: cum)
  case (Cons r rs)
  have r: "forward rs" "0 \<le> py_delta_ts_us r" using Cons.prems by (simp_all add: forward_def)
  have "0 \<le> total_us rs" by (rule total_us_nonneg [OF r(1)])
  moreover have "x = (cum + py_delta_ts_us r, r) \<or> x \<in> set (stamped (cum + py_delta_ts_us r) rs)"
    using Cons.prems(2) by simp
  moreover have "total_us (r # rs) = py_delta_ts_us r + total_us rs" by (simp add: total_us_def)
  ultimately show ?case using Cons.IH [OF r(1), of "cum + py_delta_ts_us r"] r(2) by fastforce
qed simp

lemma stamped_sorted: "forward rs \<Longrightarrow> sorted_wrt (\<lambda>x y. fst x \<le> fst y) (stamped cum rs)"
proof (induction rs arbitrary: cum)
  case (Cons r rs)
  then have "forward rs" by (simp add: forward_def)
  with Cons.IH [OF this] stamped_times [OF this] show ?case by simp
qed simp

lemma snd_stamped: "map snd (stamped cum rs) = rs"
  by (induction rs arbitrary: cum) auto

lemma split_into_windows_spec:
  assumes "0 < dur" "forward rs"
  shows "split_into_windows rs dur = Some (windows_upto dur (stamped 0 rs) (Suc (nat (total_us rs div dur))))"
proof (cases "rs = []")
  case False
  have "windows_upto dur [] 0 = []" "in_window dur [] 0 = []" by (simp_all add: windows_upto_def in_window_def)
  then show ?thesis
    using split_loop_spec [OF assms, of 0 "[]" 0] False by (simp add: split_into_windows_def windows_upto_Suc)
qed (simp add: split_into_windows_def windows_upto_def in_window_def)

lemma windows_lossless:
  assumes "0 < dur" "forward rs"
  shows "concat (windows_upto dur (stamped 0 rs) (Suc (nat (total_us rs div dur)))) = rs"
proof -
  have "sorted_wrt (\<lambda>x y. fst x div dur \<le> fst y div dur) (stamped 0 rs)"
    using assms(1) by (intro sorted_wrt_mono_rel [OF _ stamped_sorted [OF assms(2)]] zdiv_mono1)
  then have "sorted (map (\<lambda>(t, _). t div dur) (stamped 0 rs))" by (simp add: sorted_map case_prod_unfold)
  moreover have "0 \<le> fst x div dur \<and> fst x div dur < int (Suc (nat (total_us rs div dur)))" if "x \<in> set (stamped 0 rs)" for x
    using stamped_times [OF assms(2) that] assms(1) zdiv_mono1 [of "fst x" "total_us rs" dur]
    by (simp add: pos_imp_zdiv_nonneg_iff)
  then have "\<forall>(t, _) \<in> set (stamped 0 rs). 0 \<le> t div dur \<and> t div dur < int (Suc (nat (total_us rs div dur)))" by fastforce
  ultimately show ?thesis
    by (simp only: windows_upto_def concat_nonempty concat_in_windows snd_stamped)
qed

subsection \<open>When the loop does not return\<close>

lemma close_windows_diverges:
  assumes "dur \<le> 0" "window_start \<le> cum"
  shows "close_windows dur cum windows current_window window_start = None"
proof -
  have "\<not> (dur \<le> 0 \<and> window_start \<le> cum)" if "close_windows dur cum windows current_window window_start = Some y" for y
    by (rule close_windows.raw_induct [where P = "\<lambda>dur cum _ _ window_start _. \<not> (dur \<le> 0 \<and> window_start \<le> cum)", OF _ that])
      (fastforce split: if_splits)
  with assms show ?thesis by (metis not_None_eq)
qed

lemma le_int_nonneg: "0 \<le> le_int bs"
  by (induction bs) auto

lemma read_records_forward: "forward (read_records f)"
proof (induction f rule: read_records.induct)
  case (1 f)
  then show ?case
    by (subst read_records.simps) (auto simp: forward_def Let_def unpack_record_def le_int_nonneg)
qed

lemma parsed_forward: "parse_dump_file f = Inr (h, rs) \<Longrightarrow> forward rs"
  by (auto simp: parse_dump_file_def Let_def read_records_forward split: if_splits)

lemma split_into_windows_diverges:
  assumes "dur \<le> 0" "forward rs" "rs \<noteq> []"
  shows "split_into_windows rs dur = None"
  using assms close_windows_diverges by (cases rs) (simp_all add: split_into_windows_def forward_def)

subsection \<open>Time in a dump\<close>

lemma dump_delta:
  assumes "prev \<le> tsNs ev" "unat (tsNs ev) - unat prev < 4294967296000"
  shows "1000 * uint (delta_ts_us (makeTraceRecord ev prev)) \<le> int (unat (tsNs ev)) - int (unat prev)"
    "int (unat (tsNs ev)) - int (unat prev) \<le> 1000 * uint (delta_ts_us (makeTraceRecord ev prev)) + 999"
proof -
  define g where "g = unat (tsNs ev) - unat prev"
  have "unat (delta_ts_us (makeTraceRecord ev prev)) = g div 1000"
    using trace_delta [OF assms(1)] assms(2) unfolding g_def
    by (simp add: mod_less less_mult_imp_div_less)
  then have "uint (delta_ts_us (makeTraceRecord ev prev)) = int (g div 1000)" by (metis uint_nat)
  moreover have "int (unat (tsNs ev)) - int (unat prev) = int g"
    using assms(1) by (simp add: g_def word_le_nat_alt of_nat_diff)
  moreover have "1000 * (g div 1000) \<le> g" "g \<le> 1000 * (g div 1000) + 999" by linarith+
  ultimately show "1000 * uint (delta_ts_us (makeTraceRecord ev prev)) \<le> int (unat (tsNs ev)) - int (unat prev)"
    "int (unat (tsNs ev)) - int (unat prev) \<le> 1000 * uint (delta_ts_us (makeTraceRecord ev prev)) + 999" by linarith+
qed

lemma length_dump_records: "length (dump_records start t evs) = length evs"
  by (induction evs arbitrary: t) auto

lemma length_dump_file: "length (dump_file c cid start evs) = 80 + 8 * length evs"
proof -
  have "length (concat (map TraceRecord_enc rs)) = 8 * length rs" for rs
    by (induction rs) (simp_all add: TraceRecord_enc_def)
  then show ?thesis
    by (simp add: dump_file_def TraceHeader_enc_length dump_header_def length_container_field length_dump_records)
qed

lemma dump_clock_from:
  assumes "sorted (map tsNs evs)" "list_all (\<lambda>ev. prev \<le> tsNs ev \<and> unat (tsNs ev) - unat start < 4294967296000) evs"
    and "start \<le> prev" "prev = (if t = 0 then start else t)" "i < length evs"
  shows "1000 * (fst (stamped cum (map py_record (dump_records start t evs)) ! i) - cum) \<le> int (unat (tsNs (evs ! i))) - int (unat prev) \<and>
    int (unat (tsNs (evs ! i))) - int (unat prev) \<le>
      1000 * (fst (stamped cum (map py_record (dump_records start t evs)) ! i) - cum) + 999 * (int i + 1)"
  using assms
proof (induction evs arbitrary: t prev cum i)
  case (Cons ev evs)
  define d where "d = uint (delta_ts_us (makeTraceRecord ev prev))"
  have ev: "prev \<le> tsNs ev" "unat (tsNs ev) - unat prev < 4294967296000"
    using Cons.prems(2,3) by (auto simp: word_le_nat_alt)
  have rec: "map py_record (dump_records start t (ev # evs)) =
      py_record (makeTraceRecord ev prev) # map py_record (dump_records start (tsNs ev) evs)"
    using Cons.prems(4) by simp
  show ?case
  proof (cases i)
    case 0
    with dump_delta [OF ev] show ?thesis unfolding rec by (simp add: py_record_def d_def)
  next
    case (Suc j)
    have "start \<le> tsNs ev" using Cons.prems(3) ev(1) by (rule order.trans)
    then have "tsNs ev = (if tsNs ev = 0 then start else tsNs ev)" by (auto simp: word_le_nat_alt unat_eq_0)
    moreover have "sorted (map tsNs evs)" "j < length evs" "start \<le> tsNs ev"
      "list_all (\<lambda>e. tsNs ev \<le> tsNs e \<and> unat (tsNs e) - unat start < 4294967296000) evs"
      using Cons.prems Suc \<open>start \<le> tsNs ev\<close> by (auto simp: list_all_iff)
    ultimately have "1000 * (fst (stamped (cum + d) (map py_record (dump_records start (tsNs ev) evs)) ! j) - (cum + d))
          \<le> int (unat (tsNs (evs ! j))) - int (unat (tsNs ev)) \<and>
        int (unat (tsNs (evs ! j))) - int (unat (tsNs ev))
          \<le> 1000 * (fst (stamped (cum + d) (map py_record (dump_records start (tsNs ev) evs)) ! j) - (cum + d)) + 999 * (int j + 1)"
      by (intro Cons.IH)
    moreover have "fst (stamped cum (map py_record (dump_records start t (ev # evs))) ! i) =
        fst (stamped (cum + d) (map py_record (dump_records start (tsNs ev) evs)) ! j)"
      unfolding rec by (simp add: Suc py_record_def d_def)
    ultimately show ?thesis using dump_delta [OF ev, folded d_def] Suc by simp
  qed
qed simp

subsection \<open>Properties\<close>

text \<open>C13: The training tool reads back what the agent wrote. Take the file of a long dump at any moment, cut off
  anywhere (the agent died, or the file was copied while the dump ran): with fewer than 80 bytes the
  tool reports an error, otherwise it returns version 1, the configured vocabulary size, the start time and, for
  an id of ASCII characters, the container id up to its 63rd character, and exactly the complete
  records, in order, with every field's value as the agent had it; a torn record at the end is dropped.\<close>

theorem agent_dump_parsed:
  assumes "can (dump_path c (b_containerId b) stamp)" "\<not> is_open (longDumpStream b)"
    and "open_dump can stamp now c b dur d = (b1, d1)"
    and "\<forall>ev \<in> set evs. tsNs ev < longDumpEndTsNs b1"
    and "append_all curl c b1 evs (n, d1) = (b2, n2, d2)"
    and "\<forall>ch \<in> set (b_containerId b). of_char ch < (128 :: nat)"
  shows "\<exists>f. d2 (dump_path c (b_containerId b) stamp) = Some f \<and> length f = 80 + 8 * length evs \<and>
    (\<forall>m. parse_dump_file (take m f) =
       (if m < 80 then Inl ValueError
        else Inr (\<lparr>py_version = 1, py_vocab_size = uint (syscallVocabSize c),
               py_container_id = map of_char (take 63 (c_str (b_containerId b))), py_start_ts_ns = uint (longDumpStartTsNs b1)\<rparr>,
             map py_record (take ((m - 80) div 8) (dump_records (longDumpStartTsNs b1) 0 evs)))))"
proof -
  note start = open_dump_dumping [OF assms(1-3)]
  let ?f = "dump_file c (b_containerId b) (longDumpStartTsNs b1) evs"
  have "dumping c d2 (dump_path c (b_containerId b) stamp) ([] @ evs) b2 \<and> n2 = n \<and>
     b_containerId b2 = b_containerId b1 \<and> longDumpStartTsNs b2 = longDumpStartTsNs b1"
    using start assms(4,5) by (intro append_all_dumping) auto
  then have "d2 (dump_path c (b_containerId b) stamp) = Some ?f" using start by (simp add: dumping_def)
  moreover have "length ?f = 80 + 8 * length evs" by (rule length_dump_file)
  moreover have small: "of_char ch < (128 :: nat)" if "ch \<in> set (take 63 (c_str (b_containerId b)))" for ch
    using assms(6) that set_takeWhileD [of ch] by (auto simp: c_str_def dest: in_set_takeD)
  then have "utf8_decode (map of_char (take 63 (c_str (b_containerId b)))) = map of_char (take 63 (c_str (b_containerId b)))"
    by (subst utf8_decode_ascii) (simp_all add: list_all_iff unat_of_char)
  ultimately show ?thesis by (simp add: parse_dump_prefix py_header_def)
qed

theorem agent_dump_parsed_witness:
  "\<exists>b1 d1 b2 n2 d2 f h.
     open_dump (\<lambda>_. True) ''20250101-000000'' 1000 default_config (ContainerBuffer_new\<lparr>b_containerId := ''web''\<rparr>) 60 Map.empty = (b1, d1) \<and>
     append_all (\<lambda>_. CurlInitFailed) default_config b1 [sample_event 5000, sample_event 9000] (net0, d1) = (b2, n2, d2) \<and>
     d2 (dump_path default_config ''web'' ''20250101-000000'') = Some f \<and>
     parse_dump_file (take 79 f) = Inl ValueError \<and>
     parse_dump_file (take 95 f) = Inr (h, [\<lparr>py_delta_ts_us = 4, py_syscall_id = 42, py_arg_class = 2, py_arg_bucket = 0\<rparr>])"
proof -
  let ?c = default_config and ?b = "ContainerBuffer_new\<lparr>b_containerId := ''web''\<rparr>" and ?curl = "\<lambda>_. CurlInitFailed"
  let ?evs = "[sample_event 5000, sample_event 9000]"
  have closed: "\<not> is_open (longDumpStream ?b)" by (simp add: ContainerBuffer_new_def Ofstream_new_def is_open_def)
  obtain b1 d1 where op: "open_dump (\<lambda>_. True) ''20250101-000000'' 1000 ?c ?b 60 Map.empty = (b1, d1)" by fastforce
  obtain b2 n2 d2 where ap: "append_all ?curl ?c b1 ?evs (net0, d1) = (b2, n2, d2)" by (metis prod_cases3)
  have start: "longDumpStartTsNs b1 = 1000" "longDumpEndTsNs b1 = 1000 + secs_ns 60"
    using open_dump_dumping [OF _ closed op] by (simp_all add: ContainerBuffer_new_def)
  then have before: "\<forall>ev \<in> set ?evs. tsNs ev < longDumpEndTsNs b1" by (simp add: sample_event_def secs_ns_def)
  have ascii: "\<forall>ch \<in> set (b_containerId ?b). of_char ch < (128 :: nat)" by simp
  obtain f where f: "d2 (dump_path ?c ''web'' ''20250101-000000'') = Some f"
    "parse_dump_file (take m f) = (if m < 80 then Inl ValueError
        else Inr (\<lparr>py_version = 1, py_vocab_size = uint (syscallVocabSize ?c),
               py_container_id = map of_char (take 63 (c_str ''web'')), py_start_ts_ns = uint (longDumpStartTsNs b1)\<rparr>,
             map py_record (take ((m - 80) div 8) (dump_records (longDumpStartTsNs b1) 0 ?evs))))" for m
    using agent_dump_parsed [OF _ closed op before ap ascii] by auto
  have "map py_record (take ((95 - 80) div 8) (dump_records (longDumpStartTsNs b1) 0 ?evs)) =
      [\<lparr>py_delta_ts_us = 4, py_syscall_id = 42, py_arg_class = 2, py_arg_bucket = 0\<rparr>]"
    unfolding start by (simp add: py_record_def makeTraceRecord_def nsToUs_def sample_event_def)
  with op ap f(1) f(2) [of 79] f(2) [of 95] show ?thesis by simp
qed

text \<open>C14: Cutting into windows. For every file that parses and every window length: the tool returns exactly when
  the length is positive or the file has no record. It then returns, in order of time, the nonempty
  groups of records whose accumulated time falls into the same multiple of the length, so that no
  window is empty and the windows put together are the records of the file. With \<^verbatim>\<open>--window-sec 0\<close> or a
  negative number it runs forever.\<close>

theorem windows_returned:
  assumes "parse_dump_file f = Inr (h, rs)"
  shows "((\<exists>ws. split_into_windows rs dur = Some ws) \<longleftrightarrow> rs = [] \<or> 0 < dur) \<and>
    (0 < dur \<longrightarrow> (\<exists>n ws. split_into_windows rs dur = Some ws \<and>
       ws = filter (\<lambda>w. w \<noteq> []) (map (\<lambda>k. map snd (filter (\<lambda>(t, _). t div dur = int k) (stamped 0 rs))) [0..<n]) \<and>
       concat ws = rs \<and> [] \<notin> set ws))"
proof -
  note fw = parsed_forward [OF assms]
  have "rs = [] \<or> 0 < dur" if "split_into_windows rs dur = Some ws" for ws
    using split_into_windows_diverges [OF _ fw, of dur] that by force
  moreover have "split_into_windows [] dur = Some []" by (simp add: split_into_windows_def)
  moreover have "\<exists>n ws. split_into_windows rs dur = Some ws \<and>
       ws = filter (\<lambda>w. w \<noteq> []) (map (\<lambda>k. map snd (filter (\<lambda>(t, _). t div dur = int k) (stamped 0 rs))) [0..<n]) \<and>
       concat ws = rs \<and> [] \<notin> set ws" if "0 < dur"
  proof (intro exI conjI)
    let ?n = "Suc (nat (total_us rs div dur))" and ?ws = "windows_upto dur (stamped 0 rs) (Suc (nat (total_us rs div dur)))"
    show "split_into_windows rs dur = Some ?ws" by (rule split_into_windows_spec [OF that fw])
    show "?ws = filter (\<lambda>w. w \<noteq> []) (map (\<lambda>k. map snd (filter (\<lambda>(t, _). t div dur = int k) (stamped 0 rs))) [0..<?n])"
      unfolding windows_upto_def in_window_def ..
    show "concat ?ws = rs" by (rule windows_lossless [OF that fw])
    show "[] \<notin> set ?ws" unfolding windows_upto_def by simp
  qed
  ultimately show ?thesis by blast
qed

theorem windows_returned_witness:
  "\<exists>h rs ws. parse_dump_file (dump_file default_config ''web'' 1000 [sample_event 5000, sample_event 9000000000]) = Inr (h, rs) \<and>
     length rs = 2 \<and> split_into_windows rs 5000000 = Some ws \<and> concat ws = rs \<and> [] \<notin> set ws \<and>
     split_into_windows rs 0 = None"
proof -
  let ?f = "dump_file default_config ''web'' 1000 [sample_event 5000, sample_event 9000000000]"
  obtain h rs where p: "parse_dump_file ?f = Inr (h, rs)" "length rs = 2"
    using parse_dump_prefix [of 96 default_config "''web''" 1000 "[sample_event 5000, sample_event 9000000000]"]
    by (simp add: dump_file_def TraceHeader_enc_length dump_header_def length_container_field TraceRecord_enc_def)
  then have "rs \<noteq> []" by auto
  with windows_returned [OF p(1), of 5000000] windows_returned [OF p(1), of 0] p show ?thesis
    by (metis (no_types, lifting) less_irrefl not_None_eq zero_less_numeral)
qed

text \<open>The clock of a dump runs behind. When the events' times do not decrease and stay within about 71 minutes
  of the start, the time the tool accumulates for the record number \<open>i\<close> is never ahead of the event's true
  distance from the start and at most \<open>999 * (i + 1)\<close> nanoseconds behind it, since every delta is cut to whole
  microseconds.\<close>

theorem dump_clock:
  assumes "sorted (map tsNs evs)" "\<forall>ev \<in> set evs. start \<le> tsNs ev \<and> unat (tsNs ev) - unat start < 4294967296000"
    and "i < length evs" "t = fst (stamped 0 (map py_record (dump_records start 0 evs)) ! i)"
  shows "1000 * t \<le> int (unat (tsNs (evs ! i)) - unat start) \<and>
    int (unat (tsNs (evs ! i)) - unat start) \<le> 1000 * t + 999 * (int i + 1)"
proof -
  have "unat start \<le> unat (tsNs (evs ! i))" using assms(2,3) nth_mem by (simp add: word_le_nat_alt)
  then have "int (unat (tsNs (evs ! i)) - unat start) = int (unat (tsNs (evs ! i))) - int (unat start)" by (rule of_nat_diff)
  with dump_clock_from [of evs start start 0 i 0] assms show ?thesis by (simp add: list_all_iff)
qed

theorem dump_clock_witness:
  "fst (stamped 0 (map py_record (dump_records 1000 0 [sample_event 1999, sample_event 2998])) ! 1) = 0 \<and>
   int (unat (tsNs ([sample_event 1999, sample_event 2998] ! 1)) - unat (1000 :: u64)) \<le> 1000 * 0 + 999 * (int 1 + 1)"
proof -
  let ?evs = "[sample_event 1999, sample_event 2998]"
  have "sorted (map tsNs ?evs)" "\<forall>ev \<in> set ?evs. 1000 \<le> tsNs ev \<and> unat (tsNs ev) - unat (1000 :: u64) < 4294967296000" "1 < length ?evs"
    by (simp_all add: sample_event_def)
  moreover have "0 = fst (stamped 0 (map py_record (dump_records 1000 0 ?evs)) ! 1)"
    by (simp add: py_record_def makeTraceRecord_def nsToUs_def sample_event_def)
  ultimately show ?thesis using dump_clock [of ?evs 1000 1 0] by simp
qed

end
