(* ===== verification/Ml_Features.thy ===== *)
theory Ml_Features
  imports Ml_Dump Server_Features
begin

text \<open>
  The second half of \<^verbatim>\<open>ml-service/tools/train_from_dump.py\<close>: the feature extractor, written as a port of
  \<^verbatim>\<open>FeatureExtractor.java\<close>. Models are trained on its vectors and asked to score the vectors of the Java
  original, so the two are compared entry by entry. Python floats are doubles, rounded by \<open>f64\<close> after
  every operation (the quotient of two integers is rounded once); \<^verbatim>\<open>math.log\<close> is the parameter \<open>jlog\<close>. List
  indices are always in range (\<open>alphabet_less\<close>, \<open>map_bucket_less\<close>), so no step raises.
\<close>

subsection \<open>Alphabet and buckets\<close>

definition alphabet_table :: "(int \<times> nat) list" where
  "alphabet_table =
     [(59, 0), (2, 1), (257, 1), (0, 2), (1, 3), (3, 4), (4, 5), (5, 5), (42, 6), (43, 7), (44, 8), (46, 8),
      (45, 9), (47, 9), (41, 10), (49, 10), (50, 10), (57, 11), (56, 11), (9, 12), (10, 12), (90, 13), (91, 13),
      (87, 14), (84, 14), (82, 15), (102, 16), (105, 16), (160, 17), (101, 18), (165, 19), (166, 19), (12, 20),
      (78, 21), (162, 22)]"

definition map_syscall_to_alphabet :: "int \<Rightarrow> nat" where
  "map_syscall_to_alphabet syscall_id = (case map_of alphabet_table syscall_id of None \<Rightarrow> 23 | Some k \<Rightarrow> k)"

definition map_bucket :: "int \<Rightarrow> int \<Rightarrow> nat" where
  "map_bucket arg_class arg_bucket = nat (max 0 (min ((arg_class * 4 + arg_bucket) mod 12) (12 - 1)))"

subsection \<open>Counting\<close>

record PyCounts =
  pc_transitions :: "rat list list"
  pc_outgoing :: "int list"
  pc_bucket_counts :: "int list"
  pc_file_ops :: int
  pc_net_ops :: int
  pc_proc_ops :: int
  pc_other_ops :: int
  pc_last_ts :: int

definition py_counts_new :: "int \<Rightarrow> PyCounts" where
  "py_counts_new first_ts = \<lparr>pc_transitions = replicate 24 (replicate 24 0), pc_outgoing = replicate 24 0,
     pc_bucket_counts = replicate 12 0, pc_file_ops = 0, pc_net_ops = 0, pc_proc_ops = 0, pc_other_ops = 0,
     pc_last_ts = first_ts\<rparr>"

definition py_count_class :: "int \<Rightarrow> PyCounts \<Rightarrow> PyCounts" where
  "py_count_class k c =
     (if k = 1 then c\<lparr>pc_file_ops := pc_file_ops c + 1\<rparr>
      else if k = 2 then c\<lparr>pc_net_ops := pc_net_ops c + 1\<rparr>
      else if k = 3 then c\<lparr>pc_proc_ops := pc_proc_ops c + 1\<rparr>
      else c\<lparr>pc_other_ops := pc_other_ops c + 1\<rparr>)"

definition py_count_transition :: "PyRecord option \<Rightarrow> nat \<Rightarrow> PyCounts \<Rightarrow> PyCounts" where
  "py_count_transition prev curr_id c =
     (case prev of
        None \<Rightarrow> c
      | Some prev \<Rightarrow>
          let prev_id = map_syscall_to_alphabet (py_syscall_id prev);
              row = pc_transitions c ! prev_id
          in c\<lparr>pc_transitions := (pc_transitions c)[prev_id := row[curr_id := f64 (row ! curr_id + 1)]],
               pc_outgoing := (pc_outgoing c)[prev_id := pc_outgoing c ! prev_id + 1]\<rparr>)"

definition py_count_record :: "int \<Rightarrow> PyRecord option \<Rightarrow> PyRecord \<Rightarrow> PyCounts \<Rightarrow> PyCounts" where
  "py_count_record window_start prev r c =
     (let curr_id = map_syscall_to_alphabet (py_syscall_id r);
          bucket = map_bucket (py_arg_class r) (py_arg_bucket r);
          c = c\<lparr>pc_bucket_counts := (pc_bucket_counts c)[bucket := pc_bucket_counts c ! bucket + 1]\<rparr>;
          c = py_count_class (py_arg_class r) c;
          c = c\<lparr>pc_last_ts := window_start + py_delta_ts_us r\<rparr>
      in py_count_transition prev curr_id c)"

fun py_count_loop :: "int \<Rightarrow> PyRecord option \<Rightarrow> PyRecord list \<Rightarrow> PyCounts \<Rightarrow> PyCounts" where
  "py_count_loop window_start prev [] c = c"
| "py_count_loop window_start prev (r # rs) c =
     py_count_loop window_start (Some r) rs (py_count_record window_start prev r c)"

subsection \<open>The vector\<close>

definition py_normalize :: "rat list list \<Rightarrow> int list \<Rightarrow> rat list list" where
  "py_normalize transitions outgoing =
     map (\<lambda>(row, n). if n > 0 then map (\<lambda>v. f64 (v / of_int n)) row else row) (zip transitions outgoing)"

definition py_entropy_step :: "(rat \<Rightarrow> rat) \<Rightarrow> int \<Rightarrow> rat \<times> int \<Rightarrow> int \<times> rat \<Rightarrow> int \<times> rat" where
  "py_entropy_step jlog total_transitions = (\<lambda>(v, n) (unique_two_grams, entropy).
     if v > 0 then
       let count = f64 (v * of_int n);
           p = f64 (count / of_int total_transitions)
       in (unique_two_grams + 1, f64 (entropy - f64 (p * jlog (f64 (p + f64 (1 / 10 ^ 12))))))
     else (unique_two_grams, entropy))"

definition py_feature_values :: "(rat \<Rightarrow> rat) \<Rightarrow> int \<Rightarrow> int \<Rightarrow> PyCounts \<Rightarrow> rat list" where
  "py_feature_values jlog first_ts size_n c =
     (let transitions = py_normalize (pc_transitions c) (pc_outgoing c);
          total_transitions = max (size_n - 1) 1;
          visited = concat (map (\<lambda>(row, n). map (\<lambda>v. (v, n)) row) (zip transitions (pc_outgoing c)));
          (unique_two_grams, entropy) = fold (py_entropy_step jlog total_transitions) visited (0, 0);
          file_ratio = (if size_n > 0 then f64 (of_int (pc_file_ops c) / of_int size_n) else 0);
          net_ratio = (if size_n > 0 then f64 (of_int (pc_net_ops c) / of_int size_n) else 0);
          duration_sec = f64 (f64 (of_int (pc_last_ts c - first_ts)) / 1000000);
          mean_inter_arrival = (if size_n > 0 then f64 (duration_sec / of_int size_n) else 0);
          bucket_total = max size_n 1
      in pad (map fst visited @
           [of_int unique_two_grams, entropy, file_ratio, net_ratio, duration_sec, mean_inter_arrival] @
           map (\<lambda>n. f64 (of_int n / of_int bucket_total)) (pc_bucket_counts c)))"

definition extract_features :: "(rat \<Rightarrow> rat) \<Rightarrow> PyRecord list \<Rightarrow> int \<Rightarrow> rat list" where
  "extract_features jlog records window_start_ts_us =
     (if records = [] then replicate 594 0
      else py_feature_values jlog window_start_ts_us (int (length records))
        (py_count_loop window_start_ts_us None records (py_counts_new window_start_ts_us)))"

subsection \<open>The two alphabets\<close>

definition dto_of :: "PyRecord \<Rightarrow> TraceRecordDto" where
  "dto_of r = \<lparr>jt_deltaTsUs = of_int (py_delta_ts_us r), jt_syscallId = of_int (py_syscall_id r),
     jt_argClass = of_int (py_arg_class r), jt_argBucket = of_int (py_arg_bucket r)\<rparr>"

definition agent_range :: "PyRecord \<Rightarrow> bool" where
  "agent_range r \<longleftrightarrow> 0 \<le> py_delta_ts_us r \<and> py_delta_ts_us r < 2147483648 \<and> 0 \<le> py_syscall_id r \<and> py_syscall_id r < 65536 \<and>
     0 \<le> py_arg_class r \<and> py_arg_class r < 256 \<and> 0 \<le> py_arg_bucket r \<and> py_arg_bucket r < 256"

lemma sint_i32: "0 \<le> n \<Longrightarrow> n < 2147483648 \<Longrightarrow> sint (of_int n :: i32) = n"
  by (simp add: signed_of_int signed_take_bit_int_eq_self)

lemma alphabet_agree:
  assumes "agent_range r"
  shows "map_syscall_to_alphabet (py_syscall_id r) = letter (dto_of r)"
proof -
  have "sint (of_int (py_syscall_id r) :: i32) = py_syscall_id r"
    using assms by (intro sint_i32) (simp_all add: agent_range_def)
  then show ?thesis
    by (simp add: letter_def dto_of_def mapSyscallToAlphabet_def map_syscall_to_alphabet_def alphabet_table_def Let_def)
qed

lemma alphabet_less: "map_syscall_to_alphabet n < 24"
  by (simp add: map_syscall_to_alphabet_def alphabet_table_def)

lemma map_bucket_less: "map_bucket a b < 12"
  by (simp add: map_bucket_def)

lemma bucket_agree:
  assumes "agent_range r"
  shows "map_bucket (py_arg_class r) (py_arg_bucket r) = mapBucket (jt_argClass (dto_of r)) (jt_argBucket (dto_of r))"
proof -
  let ?n = "py_arg_class r * 4 + py_arg_bucket r"
  have "jt_argClass (dto_of r) * 4 + jt_argBucket (dto_of r) = of_int ?n" by (simp add: dto_of_def)
  moreover have "sint (of_int ?n :: i32) = ?n" using assms by (intro sint_i32) (simp_all add: agent_range_def)
  moreover have "?n smod 12 = ?n mod 12" using assms by (simp add: agent_range_def signed_modulo_int_def sgn_if)
  moreover have "\<not> ?n mod 12 < 0" "\<not> 12 \<le> ?n mod 12" "nat (max 0 (min (?n mod 12) (12 - 1))) = nat (?n mod 12)" by linarith+
  ultimately show ?thesis unfolding map_bucket_def mapBucket_def Let_def by (simp only: if_False simp_thms)
qed

subsection \<open>The tool's counting follows the server's\<close>

text \<open>The counters that both keep in the same way.\<close>

definition same_counts :: "Counts \<Rightarrow> PyCounts \<Rightarrow> bool" where
  "same_counts jc c \<longleftrightarrow> fc_transitions jc = pc_transitions c \<and> fc_outgoing jc = pc_outgoing c \<and> fc_buckets jc = pc_bucket_counts c"

lemma same_counts_transition:
  assumes "same_counts jc c" "agent_range r" "\<forall>q. prev = Some q \<longrightarrow> agent_range q"
    and "count_transition (map_option dto_of prev) (letter (dto_of r)) jc = Inr jc'"
  shows "same_counts jc' (py_count_transition prev (map_syscall_to_alphabet (py_syscall_id r)) c)"
proof (cases prev)
  case None
  with assms show ?thesis by (simp add: count_transition_def py_count_transition_def)
next
  case (Some q)
  then have "mapSyscallToAlphabet (jt_syscallId (dto_of q)) = map_syscall_to_alphabet (py_syscall_id q)"
    using alphabet_agree assms(3) by (simp add: letter_def)
  moreover note alphabet_agree [OF assms(2)]
  ultimately show ?thesis
    using assms(1,4) Some
    by (auto simp: count_transition_def py_count_transition_def same_counts_def array_get_def array_upd_def bind_exn_def Let_def
        split: if_splits)
qed

lemma py_count_class_keeps [simp]:
  "pc_transitions (py_count_class k c) = pc_transitions c" "pc_outgoing (py_count_class k c) = pc_outgoing c"
  "pc_bucket_counts (py_count_class k c) = pc_bucket_counts c"
  by (simp_all add: py_count_class_def)

lemma count_class_keeps [simp]:
  "fc_transitions (count_class k c) = fc_transitions c" "fc_outgoing (count_class k c) = fc_outgoing c"
  "fc_buckets (count_class k c) = fc_buckets c"
  by (simp_all add: count_class_def)

lemma same_counts_record:
  assumes "same_counts jc c" "agent_range r" "\<forall>q. prev = Some q \<longrightarrow> agent_range q"
    and "count_record start (map_option dto_of prev) (dto_of r) jc = Inr jc'"
  shows "same_counts jc' (py_count_record window_start prev r c)"
proof -
  let ?b = "map_bucket (py_arg_class r) (py_arg_bucket r)"
  let ?bs = "(pc_bucket_counts c)[?b := pc_bucket_counts c ! ?b + 1]"
  let ?jc = "(count_class (jt_argClass (dto_of r)) (jc\<lparr>fc_buckets := ?bs\<rparr>))\<lparr>fc_lastTs := start + scast (jt_deltaTsUs (dto_of r)) * 1000\<rparr>"
  let ?c = "(py_count_class (py_arg_class r) (c\<lparr>pc_bucket_counts := ?bs\<rparr>))\<lparr>pc_last_ts := window_start + py_delta_ts_us r\<rparr>"
  have "same_counts ?jc ?c" using assms(1) by (simp add: same_counts_def)
  moreover have "count_transition (map_option dto_of prev) (letter (dto_of r)) ?jc = Inr jc'"
    using assms(1,4) by (simp add: count_record_def same_counts_def bucket_agree [OF assms(2), symmetric] array_upd_def
        bind_exn_def letter_def Let_def split: if_splits)
  ultimately show ?thesis
    using same_counts_transition [OF _ assms(2,3)] by (simp add: py_count_record_def Let_def)
qed

lemma same_counts_loop:
  assumes "same_counts jc c" "list_all agent_range rs" "\<forall>q. prev = Some q \<longrightarrow> agent_range q"
    and "count_loop start (map_option dto_of prev) (map dto_of rs) jc = Inr jc'"
  shows "same_counts jc' (py_count_loop window_start prev rs c)"
  using assms
proof (induction rs arbitrary: jc c prev)
  case (Cons r rs)
  obtain jc1 where jc1: "count_record start (map_option dto_of prev) (dto_of r) jc = Inr jc1"
    "count_loop start (map_option dto_of (Some r)) (map dto_of rs) jc1 = Inr jc'"
    using Cons.prems(4) by (auto simp: bind_exn_def split: sum.splits)
  have "same_counts jc1 (py_count_record window_start prev r c)"
    using Cons.prems jc1(1) by (intro same_counts_record) auto
  with Cons jc1(2) show ?case by simp
qed simp

subsection \<open>What only the tool counts\<close>

definition py_class_seen :: "PyRecord list \<Rightarrow> int \<Rightarrow> nat" where
  "py_class_seen rs k = length (filter (\<lambda>r. py_arg_class r = k) rs)"

lemma py_count_transition_keeps [simp]:
  "pc_file_ops (py_count_transition prev i c) = pc_file_ops c" "pc_net_ops (py_count_transition prev i c) = pc_net_ops c"
  "pc_last_ts (py_count_transition prev i c) = pc_last_ts c"
  by (simp_all add: py_count_transition_def Let_def split: option.split)

lemma py_count_record_classes:
  "pc_file_ops (py_count_record w prev r c) = pc_file_ops c + (if py_arg_class r = 1 then 1 else 0)"
  "pc_net_ops (py_count_record w prev r c) = pc_net_ops c + (if py_arg_class r = 2 then 1 else 0)"
  "pc_last_ts (py_count_record w prev r c) = w + py_delta_ts_us r"
  by (simp_all add: py_count_record_def py_count_class_def Let_def)

lemma py_count_loop_classes:
  "pc_file_ops (py_count_loop w prev rs c) = pc_file_ops c + int (py_class_seen rs 1) \<and>
   pc_net_ops (py_count_loop w prev rs c) = pc_net_ops c + int (py_class_seen rs 2) \<and>
   pc_last_ts (py_count_loop w prev rs c) = (if rs = [] then pc_last_ts c else w + py_delta_ts_us (last rs))"
  by (induction rs arbitrary: prev c) (auto simp: py_class_seen_def py_count_record_classes)

subsection \<open>The vector of the tool\<close>

lemma share_f64: "m \<le> n \<Longrightarrow> 0 < n \<Longrightarrow> n < 16777216 \<Longrightarrow> share m n = f32 (f64 (of_nat m / of_nat n))"
proof (cases "m = 0")
  case True
  then show ?thesis by (simp add: share_def f32_def f64_def round_fp_def)
next
  case False
  assume "m \<le> n" "0 < n" "n < 16777216"
  with False f32_f64_quotient [of m n] show ?thesis by (simp add: share_def f32_nat)
qed

lemma duration_of_dto:
  assumes "rs \<noteq> []" "list_all agent_range rs"
  shows "duration_of (map dto_of rs) = f64 (of_int (py_delta_ts_us (last rs)) / 1000000)"
proof -
  define d where "d = py_delta_ts_us (last rs)"
  have d: "0 \<le> d" "d < 2147483648" using assms by (auto simp: d_def agent_range_def list_all_iff)
  have "(scast (jt_deltaTsUs (last (map dto_of rs))) :: u64) = of_int d"
    using assms(1) d by (simp add: dto_of_def d_def last_map scast_eq sint_i32)
  then have "sint (scast (jt_deltaTsUs (last (map dto_of rs))) * 1000 :: u64) = sint (of_int (d * 1000) :: u64)" by simp
  also have "\<dots> = d * 1000" using d by (simp add: signed_of_int signed_take_bit_int_eq_self del: of_int_mult)
  finally have "duration_of (map dto_of rs) = f64 (f64 (of_int (d * 1000)) / 1000000000)" by (simp add: duration_of_def)
  moreover have "f64 (of_int (d * 1000)) = of_int (d * 1000)"
    using f64_nat [of "nat (d * 1000)"] d by simp
  ultimately show ?thesis by (simp add: d_def field_simps)
qed

lemma py_entropy_same: "py_entropy_step = entropy_step"
  by (simp add: fun_eq_iff py_entropy_step_def entropy_step_def)

lemma normalize_same: "list_all (\<lambda>n. 0 \<le> n) outgoing \<Longrightarrow> py_normalize transitions outgoing = normalize transitions outgoing"
  unfolding py_normalize_def normalize_def by (intro map_cong refl) (auto simp: list_all_iff dest!: set_zip_rightD)

definition py_vector_of :: "(rat \<Rightarrow> rat) \<Rightarrow> PyRecord list \<Rightarrow> rat list" where
  "py_vector_of jlog rs =
     (let ds = map dto_of rs; n = length rs; secs = duration_of ds;
          (u, h) = fold (entropy_step jlog (max (int n - 1) 1)) (cells ds) (0, 0)
      in map fst (cells ds) @
         [of_int u, h, f64 (of_nat (py_class_seen rs 1) / of_nat n), f64 (of_nat (py_class_seen rs 2) / of_nat n),
          secs, f64 (secs / of_nat n)] @
         map (\<lambda>b. f64 (of_nat (bucket_seen ds b) / of_nat n)) [0..<12])"

lemma length_py_vector: "length (py_vector_of jlog rs) = 594"
  by (simp add: py_vector_of_def cells_def length_grid Let_def case_prod_unfold)

lemma extract_features_vector:
  assumes "rs \<noteq> []" "list_all agent_range rs" "length rs < 2147483648"
  shows "extract_features jlog rs w = py_vector_of jlog rs"
proof -
  let ?ds = "map dto_of rs" and ?n = "length rs"
  obtain jc where loop: "count_loop 0 None ?ds (Counts_new 0) = Inr jc" and jc: "counted_pairs ?ds jc" "counted_single ?ds jc"
    using count_loop_counted [OF counted_new, of ?ds None 0 0] assms(3) by auto
  define c where "c = py_count_loop w None rs (py_counts_new w)"
  have "same_counts (Counts_new 0) (py_counts_new w)" by (simp add: same_counts_def Counts_new_def py_counts_new_def)
  with loop assms(2) have same: "same_counts jc c"
    unfolding c_def by (intro same_counts_loop [where prev = None and start = 0]) simp_all
  have "list_all (\<lambda>n. 0 \<le> n) (pc_outgoing c)" using same jc(1) by (auto simp: same_counts_def counted_pairs_def list_all_iff)
  then have norm: "py_normalize (pc_transitions c) (pc_outgoing c) = map (\<lambda>i. map (markov_cell ?ds i) [0..<24]) [0..<24]"
    using normalize_counted [OF jc(1)] same by (simp add: normalize_same same_counts_def)
  have visited: "concat (map (\<lambda>(row, n). map (\<lambda>v. (v, n)) row)
      (zip (py_normalize (pc_transitions c) (pc_outgoing c)) (pc_outgoing c))) = cells ?ds"
    unfolding norm using same jc(1)
    by (simp add: same_counts_def counted_pairs_def cells_def zip_map_map zip_same_conv_map comp_def)
  have cls: "pc_file_ops c = int (py_class_seen rs 1)" "pc_net_ops c = int (py_class_seen rs 2)"
    "pc_last_ts c - w = py_delta_ts_us (last rs)"
    unfolding c_def using py_count_loop_classes [of w None rs "py_counts_new w"] assms(1) by (simp_all add: py_counts_new_def)
  have "agent_range (last rs)" using assms(1,2) by (simp add: list_all_iff)
  then have "f64 (of_int (py_delta_ts_us (last rs))) = of_int (py_delta_ts_us (last rs))"
    using f64_nat [of "nat (py_delta_ts_us (last rs))"] by (simp add: agent_range_def nat_less_iff)
  then have secs: "f64 (f64 (of_int (pc_last_ts c - w)) / 1000000) = duration_of ?ds"
    unfolding cls by (simp add: duration_of_dto [OF assms(1,2)])
  have n: "0 < int ?n" "max (int ?n) 1 = int ?n" using assms(1) by (cases rs; simp)+
  have bs: "pc_bucket_counts c = map (\<lambda>b. int (bucket_seen ?ds b)) [0..<12]"
    using same jc(2) by (simp add: same_counts_def counted_single_def)
  have "py_feature_values jlog w (int ?n) c = pad (py_vector_of jlog rs)"
    unfolding py_feature_values_def py_vector_of_def visited secs py_entropy_same Let_def bs cls(1,2) n(2)
    using n(1) by (simp add: case_prod_unfold comp_def)
  then show ?thesis using assms(1) length_py_vector pad_id by (simp add: extract_features_def c_def)
qed

subsection \<open>Properties\<close>

lemma py_class_seen_dto:
  assumes "list_all agent_range rs" "0 \<le> k" "k < 256"
  shows "py_class_seen rs k = class_seen (map dto_of rs) (of_int k)"
proof -
  have "py_arg_class r = k \<longleftrightarrow> jt_argClass (dto_of r) = of_int k" if "r \<in> set rs" for r
  proof
    assume "jt_argClass (dto_of r) = of_int k"
    then have "sint (of_int (py_arg_class r) :: i32) = sint (of_int k :: i32)" by (simp add: dto_of_def)
    then show "py_arg_class r = k"
      using assms that by (auto simp: list_all_iff agent_range_def sint_i32)
  qed (simp add: dto_of_def)
  then have "length (filter (\<lambda>r. py_arg_class r = k) rs) = length (filter (\<lambda>r. jt_argClass (dto_of r) = of_int k) rs)"
    by (metis (mono_tags, lifting) filter_cong)
  then show ?thesis by (simp add: py_class_seen_def class_seen_def filter_map comp_def)
qed

lemma vectors_related:
  assumes "rs \<noteq> []" "list_all agent_range rs" "length rs < 16777216"
  shows "vector_of jlog (duration_of (map dto_of rs)) (map dto_of rs) =
    (map f32 (py_vector_of jlog rs))[578 := share (class_seen (map dto_of rs) 0) (length rs),
       579 := share (class_seen (map dto_of rs) 1) (length rs)]"
proof -
  have len: "length (cells ds) = 576" for ds by (simp add: cells_def length_grid)
  have "share (bucket_seen ds b) (length rs) = f32 (f64 (of_nat (bucket_seen ds b) / of_nat (length rs)))"
    if "length ds = length rs" for ds b
    using seen_le(2) [of ds b] that assms(1,3) by (intro share_f64) auto
  then show ?thesis
    unfolding vector_of_def py_vector_of_def Let_def
    by (simp add: case_prod_unfold list_update_append len eval_nat_numeral comp_def)
qed



end
