(* ===== verification/Ml_Service.thy ===== *)
theory Ml_Service
  imports Ml_Dump Server_Anomaly "HOL-Library.AList"
begin

text \<open>
  The service that keeps one isolation forest per container: \<^verbatim>\<open>ml-service/src/models/isolation_forest.py\<close>,
  \<^verbatim>\<open>models/model_registry.py\<close>, the request checks of \<^verbatim>\<open>schemas.py\<close>, \<^verbatim>\<open>config.py\<close> and the endpoints of \<^verbatim>\<open>main.py\<close>.
  The handlers contain no \<^verbatim>\<open>await\<close>, so the event loop runs each to its end and requests are steps of one
  state: the dictionary of models (in insertion order), the files of the storage directory, and the
  demonstration settings. scikit-learn is a parameter: \<open>fit\<close> returns a forest or raises, \<open>score_samples\<close>
  scores one row or raises. A pickled model is the model; a file that cannot be unpickled is \<open>Unreadable\<close>.
  The registry is created before the first request, so the answer 503 does not occur.
\<close>

subsection \<open>Configuration\<close>

record ml_config =
  mc_feature_vector_dim :: nat
  mc_n_estimators :: int
  mc_contamination :: rat
  mc_max_samples :: int
  mc_random_state :: int
  mc_anomaly_threshold :: rat

definition default_ml_config :: ml_config where
  "default_ml_config = \<lparr>mc_feature_vector_dim = 594, mc_n_estimators = 100, mc_contamination = dbl (1 / 10),
     mc_max_samples = 256, mc_random_state = 42, mc_anomaly_threshold = - dbl (13 / 20)\<rparr>"

subsection \<open>Numbers of a request\<close>

text \<open>Python's JSON reader accepts \<^verbatim>\<open>NaN\<close> and the infinities; \<^verbatim>\<open>np.array(..., dtype=np.float32)\<close> rounds, and
  overflows to an infinity; \<^verbatim>\<open>np.nan_to_num\<close> replaces what is not finite.\<close>

datatype pyfloat = Fin rat | PosInf | NegInf | NaN

definition np_float32 :: "pyfloat \<Rightarrow> pyfloat" where
  "np_float32 x = (case x of
     Fin q \<Rightarrow> if \<bar>f32 q\<bar> \<ge> 2 ^ 128 then (if q > 0 then PosInf else NegInf) else Fin (f32 q)
   | _ \<Rightarrow> x)"

definition nan_to_num :: "pyfloat \<Rightarrow> rat" where
  "nan_to_num x = (case x of Fin q \<Rightarrow> q | PosInf \<Rightarrow> 1000000 | NegInf \<Rightarrow> - 1000000 | NaN \<Rightarrow> 0)"

definition clean_row :: "pyfloat list \<Rightarrow> rat list" where
  "clean_row v = map (\<lambda>x. nan_to_num (np_float32 x)) v"

subsection \<open>One model\<close>

datatype 'f forest = Unfitted | Fitted 'f

record 'f IForest =
  if_container_id :: string
  if_n_estimators :: int
  if_contamination :: rat
  if_max_samples :: int
  if_random_state :: int
  if_model :: "'f forest option"
  if_version :: int
  if_trained_at :: "int option"
  if_sample_count :: nat
  if_is_fitted :: bool

record 'f sklearn =
  sk_fit :: "int \<times> rat \<times> int \<times> int \<Rightarrow> rat list list \<Rightarrow> py_exn + 'f"
  sk_score_samples :: "'f \<Rightarrow> rat list \<Rightarrow> py_exn + rat"

definition IForest_new :: "ml_config \<Rightarrow> string \<Rightarrow> 'f IForest" where
  "IForest_new cfg cid = \<lparr>if_container_id = cid, if_n_estimators = mc_n_estimators cfg,
     if_contamination = mc_contamination cfg, if_max_samples = mc_max_samples cfg, if_random_state = mc_random_state cfg,
     if_model = None, if_version = 0, if_trained_at = None, if_sample_count = 0, if_is_fitted = False\<rparr>"

definition dashes :: "string \<Rightarrow> string" where  \<comment> \<open>\<^verbatim>\<open>replace('/', '-')\<close>\<close>
  "dashes s = map (\<lambda>c. if c = CHR 0x2F then CHR 0x2D else c) s"

definition if_model_id :: "'f IForest \<Rightarrow> string" where
  "if_model_id m = ''model-'' @ dashes (if_container_id m)"

definition rectangular :: "'a list list \<Rightarrow> bool" where
  "rectangular rows \<longleftrightarrow> (case rows of [] \<Rightarrow> True | r # rs \<Rightarrow> list_all (\<lambda>q. length q = length r) rs)"

text \<open>The estimator object is replaced before it is fitted, so an exception of \<^verbatim>\<open>fit\<close> leaves an unfitted one.\<close>

definition if_train :: "'f sklearn \<Rightarrow> int \<Rightarrow> pyfloat list list \<Rightarrow> 'f IForest \<Rightarrow> (py_exn + int \<times> int) \<times> 'f IForest" where
  "if_train sk now training_data m =
     (if length training_data < 10 then (Inl ValueError, m)
      else if \<not> rectangular training_data then (Inl ValueError, m)
      else
        let X = map clean_row training_data;
            m = m\<lparr>if_model := Some Unfitted\<rparr>
        in case sk_fit sk (if_n_estimators m, if_contamination m, min (if_max_samples m) (int (length X)), if_random_state m) X of
             Inl e \<Rightarrow> (Inl e, m)
           | Inr forest \<Rightarrow>
               let m = m\<lparr>if_model := Some (Fitted forest), if_version := if_version m + 1, if_trained_at := Some now,
                         if_sample_count := length X, if_is_fitted := True\<rparr>
               in (Inr (if_version m, now), m))"

definition if_score :: "'f sklearn \<Rightarrow> ml_config \<Rightarrow> pyfloat list \<Rightarrow> 'f IForest \<Rightarrow> py_exn + rat \<times> bool" where
  "if_score sk cfg feature_vector m =
     (if \<not> if_is_fitted m then Inr (0, False)
      else case if_model m of
          None \<Rightarrow> Inr (0, False)
        | Some Unfitted \<Rightarrow> Inl NotFittedError
        | Some (Fitted forest) \<Rightarrow>
            (case sk_score_samples sk forest (clean_row feature_vector) of
               Inl e \<Rightarrow> Inl e
             | Inr score \<Rightarrow> Inr (score, score < mc_anomaly_threshold cfg)))"

subsection \<open>The registry\<close>

datatype 'f stored = Pickled "'f IForest" | Unreadable

record 'f MlService =
  ms_models :: "(string \<times> 'f IForest) list"
  ms_disk :: "string \<rightharpoonup> 'f stored"
  ms_sim_enabled :: bool
  ms_sim_containers :: "(string \<times> rat \<times> bool) list"

definition model_path :: "string \<Rightarrow> string" where  \<comment> \<open>file name in the storage directory\<close>
  "model_path cid = map (\<lambda>c. if c = CHR 0x2F \<or> c = CHR 0x5C then CHR 0x5F else c) cid @ ''.pkl''"

definition load_from_disk :: "'f MlService \<Rightarrow> string \<Rightarrow> 'f IForest option" where
  "load_from_disk s cid = (case ms_disk s (model_path cid) of
     None \<Rightarrow> None | Some Unreadable \<Rightarrow> None | Some (Pickled m) \<Rightarrow> Some m)"

definition save_to_disk :: "(string \<Rightarrow> bool) \<Rightarrow> string \<Rightarrow> 'f IForest \<Rightarrow> 'f MlService \<Rightarrow> 'f MlService" where
  "save_to_disk can cid m s =
     (if can (model_path cid) then s\<lparr>ms_disk := (ms_disk s)(model_path cid \<mapsto> Pickled m)\<rparr> else s)"

definition put_model :: "string \<Rightarrow> 'f IForest \<Rightarrow> 'f MlService \<Rightarrow> 'f MlService" where
  "put_model cid m s = s\<lparr>ms_models := AList.update cid m (ms_models s)\<rparr>"

definition get_or_create_model :: "ml_config \<Rightarrow> string \<Rightarrow> 'f MlService \<Rightarrow> 'f IForest \<times> 'f MlService" where
  "get_or_create_model cfg cid s =
     (case map_of (ms_models s) cid of
        Some m \<Rightarrow> (m, s)
      | None \<Rightarrow>
          let m = (case load_from_disk s cid of None \<Rightarrow> IForest_new cfg cid | Some m \<Rightarrow> m)
          in (m, put_model cid m s))"

definition get_model :: "string \<Rightarrow> 'f MlService \<Rightarrow> 'f IForest option \<times> 'f MlService" where
  "get_model cid s =
     (case map_of (ms_models s) cid of
        Some m \<Rightarrow> (Some m, s)
      | None \<Rightarrow>
          (case load_from_disk s cid of
             Some m \<Rightarrow> (Some m, put_model cid m s)
           | None \<Rightarrow> (None, s)))"

definition reg_train ::
  "'f sklearn \<Rightarrow> ml_config \<Rightarrow> (string \<Rightarrow> bool) \<Rightarrow> int \<Rightarrow> string \<Rightarrow> pyfloat list list \<Rightarrow> 'f MlService \<Rightarrow> (py_exn + int \<times> int) \<times> 'f MlService" where
  "reg_train sk cfg can now cid training_data s =
     (let (m, s) = get_or_create_model cfg cid s;
          (res, m) = if_train sk now training_data m;
          s = put_model cid m s
      in case res of Inl e \<Rightarrow> (Inl e, s) | Inr r \<Rightarrow> (Inr r, save_to_disk can cid m s))"

definition reg_score ::
  "'f sklearn \<Rightarrow> ml_config \<Rightarrow> string \<Rightarrow> pyfloat list \<Rightarrow> 'f MlService \<Rightarrow> (py_exn + rat \<times> bool \<times> int option) \<times> 'f MlService" where
  "reg_score sk cfg cid feature_vector s =
     (let (found, s) = get_model cid s in
      case found of
        None \<Rightarrow> (Inr (0, False, None), s)
      | Some m \<Rightarrow>
          (case if_score sk cfg feature_vector m of
             Inl e \<Rightarrow> (Inl e, s)
           | Inr (score, anomalous) \<Rightarrow> (Inr (score, anomalous, if if_is_fitted m then Some (if_version m) else None), s)))"

record MlMeta =
  me_model_id :: string
  me_container_id :: string
  me_version :: int
  me_status :: ModelStatus
  me_trained_at :: "int option"
  me_sample_count :: "nat option"

definition meta_from :: "'f IForest \<Rightarrow> MlMeta" where
  "meta_from m = \<lparr>me_model_id = if_model_id m, me_container_id = if_container_id m, me_version = if_version m,
     me_status = (if if_is_fitted m then READY else UNTRAINED), me_trained_at = if_trained_at m,
     me_sample_count = (if if_is_fitted m then Some (if_sample_count m) else None)\<rparr>"

definition reg_get_model_meta :: "string \<Rightarrow> 'f MlService \<Rightarrow> MlMeta option \<times> 'f MlService" where
  "reg_get_model_meta cid s = (let (found, s) = get_model cid s in (map_option meta_from found, s))"

definition reg_list_models :: "'f MlService \<Rightarrow> MlMeta list" where
  "reg_list_models s = map (\<lambda>(cid, m). meta_from m) (ms_models s)"

definition reg_delete_model :: "string \<Rightarrow> 'f MlService \<Rightarrow> bool \<times> 'f MlService" where
  "reg_delete_model cid s =
     (if map_of (ms_models s) cid \<noteq> None
      then (True, s\<lparr>ms_models := AList.delete cid (ms_models s), ms_disk := (ms_disk s)(model_path cid := None)\<rparr>)
      else (False, s))"

subsection \<open>Endpoints\<close>

definition exn_status :: "py_exn \<Rightarrow> nat" where  \<comment> \<open>\<^verbatim>\<open>NotFittedError\<close> is a \<^verbatim>\<open>ValueError\<close>\<close>
  "exn_status e = (case e of ValueError \<Rightarrow> 422 | NotFittedError \<Rightarrow> 422 | OtherException \<Rightarrow> 500)"

record ScoreResponse =
  sr_score :: rat
  sr_anomalous :: bool
  sr_container_id :: string
  sr_model_version :: "int option"

record TrainResponse =
  te_model_id :: string
  te_container_id :: string
  te_version :: int
  te_trained_at :: int
  te_sample_count :: nat

definition ml_score_window ::
  "'f sklearn \<Rightarrow> ml_config \<Rightarrow> string \<Rightarrow> pyfloat list \<Rightarrow> 'f MlService \<Rightarrow> (nat + ScoreResponse) \<times> 'f MlService" where
  "ml_score_window sk cfg cid feature_vector s =
     (if length feature_vector \<noteq> mc_feature_vector_dim cfg then (Inl 422, s)
      else case (if ms_sim_enabled s then map_of (ms_sim_containers s) cid else None) of
          Some (score, anomalous) \<Rightarrow>
            (Inr \<lparr>sr_score = score, sr_anomalous = anomalous, sr_container_id = cid, sr_model_version = Some 999\<rparr>, s)
        | None \<Rightarrow>
            let (res, s) = reg_score sk cfg cid feature_vector s in
            (case res of
               Inl e \<Rightarrow> (Inl (exn_status e), s)
             | Inr (score, anomalous, ver) \<Rightarrow>
                 (Inr \<lparr>sr_score = score, sr_anomalous = anomalous, sr_container_id = cid, sr_model_version = ver\<rparr>, s)))"

definition validate_training_data :: "ml_config \<Rightarrow> pyfloat list list \<Rightarrow> bool" where
  "validate_training_data cfg v \<longleftrightarrow> \<not> length v < 10 \<and> list_all (\<lambda>fv. length fv = mc_feature_vector_dim cfg) v"

definition ml_train_model ::
  "'f sklearn \<Rightarrow> ml_config \<Rightarrow> (string \<Rightarrow> bool) \<Rightarrow> int \<Rightarrow> string \<Rightarrow> pyfloat list list \<Rightarrow> 'f MlService \<Rightarrow> (nat + TrainResponse) \<times> 'f MlService" where
  "ml_train_model sk cfg can now cid training_data s =
     (if \<not> validate_training_data cfg training_data then (Inl 422, s)
      else
        let (res, s) = reg_train sk cfg can now cid training_data s in
        case res of
          Inl e \<Rightarrow> (Inl (exn_status e), s)
        | Inr (ver, trained_at) \<Rightarrow>
            let (found, s) = get_model cid s in
            (Inr \<lparr>te_model_id = (case found of Some m \<Rightarrow> if_model_id m | None \<Rightarrow> ''model-'' @ cid), te_container_id = cid,
                te_version = ver, te_trained_at = trained_at, te_sample_count = length training_data\<rparr>, s))"

definition ml_get_model_meta :: "string \<Rightarrow> 'f MlService \<Rightarrow> MlMeta \<times> 'f MlService" where
  "ml_get_model_meta cid s =
     (let (meta, s) = reg_get_model_meta cid s in
      (case meta of
         Some meta \<Rightarrow> meta
       | None \<Rightarrow> \<lparr>me_model_id = ''model-'' @ dashes cid, me_container_id = cid, me_version = 0, me_status = UNTRAINED,
           me_trained_at = None, me_sample_count = None\<rparr>, s))"

definition ml_delete_model :: "string \<Rightarrow> 'f MlService \<Rightarrow> (nat + unit) \<times> 'f MlService" where
  "ml_delete_model cid s =
     (let (deleted, s) = reg_delete_model cid s in (if deleted then Inr () else Inl 404, s))"

definition enable_simulation :: "string \<Rightarrow> rat \<Rightarrow> bool \<Rightarrow> 'f MlService \<Rightarrow> 'f MlService" where
  "enable_simulation cid score anomalous s =
     s\<lparr>ms_sim_enabled := True, ms_sim_containers := AList.update cid (score, anomalous) (ms_sim_containers s)\<rparr>"

definition disable_simulation :: "string option \<Rightarrow> 'f MlService \<Rightarrow> 'f MlService" where
  "disable_simulation cid s =
     (case cid of
        Some (c # cs) \<Rightarrow>
          let sims = AList.delete (c # cs) (ms_sim_containers s) in
          s\<lparr>ms_sim_containers := sims, ms_sim_enabled := (if sims = [] then False else ms_sim_enabled s)\<rparr>
      | _ \<Rightarrow> s\<lparr>ms_sim_enabled := False, ms_sim_containers := []\<rparr>)"

text \<open>A new process: only the files remain.\<close>

definition ml_start :: "(string \<rightharpoonup> 'f stored) \<Rightarrow> 'f MlService" where
  "ml_start disk = \<lparr>ms_models = [], ms_disk = disk, ms_sim_enabled = False, ms_sim_containers = []\<rparr>"

datatype ml_op =
    MlScore string "pyfloat list"
  | MlTrain int string "pyfloat list list"
  | MlMetaOp string
  | MlDelete string
  | MlSimulate string rat bool
  | MlSimulateOff "string option"
  | MlRestart

fun ml_step :: "'f sklearn \<Rightarrow> ml_config \<Rightarrow> (string \<Rightarrow> bool) \<Rightarrow> ml_op \<Rightarrow> 'f MlService \<Rightarrow> 'f MlService" where
  "ml_step sk cfg can (MlScore cid v) s = snd (ml_score_window sk cfg cid v s)"
| "ml_step sk cfg can (MlTrain now cid vs) s = snd (ml_train_model sk cfg can now cid vs s)"
| "ml_step sk cfg can (MlMetaOp cid) s = snd (ml_get_model_meta cid s)"
| "ml_step sk cfg can (MlDelete cid) s = snd (ml_delete_model cid s)"
| "ml_step sk cfg can (MlSimulate cid score anomalous) s = enable_simulation cid score anomalous s"
| "ml_step sk cfg can (MlSimulateOff cid) s = disable_simulation cid s"
| "ml_step sk cfg can MlRestart s = ml_start (ms_disk s)"

subsection \<open>Lookups\<close>

lemma map_of_put [simp]: "map_of (ms_models (put_model cid m s)) = (map_of (ms_models s))(cid \<mapsto> m)"
  by (simp add: put_model_def update_conv')

lemma put_model_keeps [simp]:
  "ms_disk (put_model cid m s) = ms_disk s" "ms_sim_enabled (put_model cid m s) = ms_sim_enabled s"
  "ms_sim_containers (put_model cid m s) = ms_sim_containers s"
  by (simp_all add: put_model_def)

lemma load_put [simp]: "load_from_disk (put_model cid m s) = load_from_disk s"
  by (simp add: load_from_disk_def fun_eq_iff)

lemma save_keeps [simp]: "ms_models (save_to_disk can cid m s) = ms_models s"
  by (simp add: save_to_disk_def)

text \<open>What the service knows of a container: the model in memory, else the one on disk.\<close>

definition known :: "'f MlService \<Rightarrow> string \<Rightarrow> 'f IForest option" where
  "known s cid = (case map_of (ms_models s) cid of None \<Rightarrow> load_from_disk s cid | Some m \<Rightarrow> Some m)"

lemma get_model_known: "fst (get_model cid s) = known s cid"
  by (simp add: get_model_def known_def split: option.split)

lemma get_model_state:
  "snd (get_model cid s) = (case known s cid of None \<Rightarrow> s | Some m \<Rightarrow> if map_of (ms_models s) cid = None then put_model cid m s else s)"
  by (simp add: get_model_def known_def split: option.split)

lemma get_or_create_known:
  "get_or_create_model cfg cid s =
     (let m = (case known s cid of None \<Rightarrow> IForest_new cfg cid | Some m \<Rightarrow> m)
      in (m, if map_of (ms_models s) cid = None then put_model cid m s else s))"
  by (simp add: get_or_create_model_def known_def Let_def split: option.split)

lemma known_after_get [simp]: "known (snd (get_model cid s)) = known s"
  by (auto simp: get_model_def known_def fun_eq_iff split: option.split)

lemma disk_after_get [simp]: "ms_disk (snd (get_model cid s)) = ms_disk s"
  by (simp add: get_model_def split: option.split)

lemma map_of_after_get:
  "map_of (ms_models (snd (get_model cid s))) j = (if j = cid then known s cid else map_of (ms_models s) j)"
  by (auto simp: get_model_def known_def split: option.split)

text \<open>The answers of the endpoints in terms of what is known.\<close>

definition real_answer :: "'f sklearn \<Rightarrow> ml_config \<Rightarrow> string \<Rightarrow> pyfloat list \<Rightarrow> 'f IForest option \<Rightarrow> nat + ScoreResponse" where
  "real_answer sk cfg cid v found =
     (case found of
        None \<Rightarrow> Inr \<lparr>sr_score = 0, sr_anomalous = False, sr_container_id = cid, sr_model_version = None\<rparr>
      | Some m \<Rightarrow>
          (case if_score sk cfg v m of
             Inl e \<Rightarrow> Inl (exn_status e)
           | Inr (score, anomalous) \<Rightarrow>
               Inr \<lparr>sr_score = score, sr_anomalous = anomalous, sr_container_id = cid,
                    sr_model_version = (if if_is_fitted m then Some (if_version m) else None)\<rparr>))"

definition simulated :: "'f MlService \<Rightarrow> string \<Rightarrow> bool" where
  "simulated s cid \<longleftrightarrow> ms_sim_enabled s \<and> map_of (ms_sim_containers s) cid \<noteq> None"

lemma reg_score_known:
  "reg_score sk cfg cid v s =
     (case known s cid of
        None \<Rightarrow> Inr (0, False, None)
      | Some m \<Rightarrow>
          (case if_score sk cfg v m of
             Inl e \<Rightarrow> Inl e
           | Inr (score, anomalous) \<Rightarrow> Inr (score, anomalous, if if_is_fitted m then Some (if_version m) else None)),
      snd (get_model cid s))"
  using get_model_known [of cid s] by (simp add: reg_score_def case_prod_unfold Let_def split: option.split sum.split)

lemma score_answer:
  assumes "length v = mc_feature_vector_dim cfg" "\<not> simulated s cid"
  shows "ml_score_window sk cfg cid v s = (real_answer sk cfg cid v (known s cid), snd (get_model cid s))"
proof -
  have "(if ms_sim_enabled s then map_of (ms_sim_containers s) cid else None) = None" using assms(2) unfolding simulated_def by metis
  with assms(1) show ?thesis
    by (simp add: ml_score_window_def reg_score_known real_answer_def case_prod_unfold split: option.split sum.split)
qed

lemma score_state:
  "snd (ml_score_window sk cfg cid v s) = s \<or> snd (ml_score_window sk cfg cid v s) = snd (get_model cid s)"
  by (simp add: ml_score_window_def reg_score_known case_prod_unfold Let_def split: option.split sum.split)

lemma meta_answer: "ml_get_model_meta cid s =
    (case known s cid of Some m \<Rightarrow> meta_from m
     | None \<Rightarrow> \<lparr>me_model_id = ''model-'' @ dashes cid, me_container_id = cid, me_version = 0, me_status = UNTRAINED,
           me_trained_at = None, me_sample_count = None\<rparr>, snd (get_model cid s))"
  using get_model_known [of cid s]
  by (simp add: ml_get_model_meta_def reg_get_model_meta_def case_prod_unfold Let_def split: option.split)

subsection \<open>The invariant\<close>

definition model_ok :: "'f IForest \<Rightarrow> bool" where
  "model_ok m \<longleftrightarrow> 0 \<le> if_version m \<and> (if_is_fitted m \<longleftrightarrow> 1 \<le> if_version m) \<and>
     (if if_is_fitted m then if_model m \<noteq> None \<and> if_trained_at m \<noteq> None \<and> 10 \<le> if_sample_count m
      else if_trained_at m = None \<and> if_sample_count m = 0)"

text \<open>A model in a file is a trained one and belongs to an id with that file name.\<close>

definition file_ok :: "string \<Rightarrow> 'f stored \<Rightarrow> bool" where
  "file_ok path x \<longleftrightarrow> (case x of Unreadable \<Rightarrow> False
     | Pickled m \<Rightarrow> model_ok m \<and> if_is_fitted m \<and> (\<exists>forest. if_model m = Some (Fitted forest)) \<and> model_path (if_container_id m) = path)"

definition ml_inv :: "'f MlService \<Rightarrow> bool" where
  "ml_inv s \<longleftrightarrow> distinct (map fst (ms_models s)) \<and>
     (\<forall>cid m. map_of (ms_models s) cid = Some m \<longrightarrow> model_ok m \<and> model_path (if_container_id m) = model_path cid) \<and>
     (\<forall>path x. ms_disk s path = Some x \<longrightarrow> file_ok path x) \<and>
     (ms_sim_enabled s \<longrightarrow> ms_sim_containers s \<noteq> [])"

lemma model_ok_new: "model_ok (IForest_new cfg cid)"
  by (simp add: model_ok_def IForest_new_def)

lemma container_id_new [simp]: "if_container_id (IForest_new cfg cid) = cid"
  by (simp add: IForest_new_def)

lemma if_train_ok:
  assumes "if_train sk now vs m = (res, m')" "model_ok m"
  shows "model_ok m' \<and> if_container_id m' = if_container_id m \<and>
    (\<forall>r. res = Inr r \<longrightarrow> if_is_fitted m' \<and> (\<exists>forest. if_model m' = Some (Fitted forest)))"
  using assms by (auto simp: if_train_def model_ok_def Let_def split: if_splits sum.splits)

lemma known_ok: "ml_inv s \<Longrightarrow> known s cid = Some m \<Longrightarrow> model_ok m \<and> model_path (if_container_id m) = model_path cid"
  by (fastforce simp: ml_inv_def known_def load_from_disk_def file_ok_def split: option.splits stored.splits)

lemma ml_inv_put:
  "ml_inv s \<Longrightarrow> model_ok m \<Longrightarrow> model_path (if_container_id m) = model_path cid \<Longrightarrow> ml_inv (put_model cid m s)"
  by (auto simp: ml_inv_def put_model_def update_conv' distinct_update split: if_splits)

lemma ml_inv_get: "ml_inv s \<Longrightarrow> ml_inv (snd (get_model cid s))"
  using known_ok [of s cid] by (simp add: get_model_state ml_inv_put split: option.split)

lemma ml_inv_save:
  assumes "ml_inv s" "file_ok (model_path cid) (Pickled m)"
  shows "ml_inv (save_to_disk can cid m s)"
  using assms by (auto simp: ml_inv_def save_to_disk_def)

lemma ml_inv_train:
  assumes "ml_inv s"
  shows "ml_inv (snd (reg_train sk cfg can now cid vs s))"
proof -
  define m0 where "m0 = (case known s cid of None \<Rightarrow> IForest_new cfg cid | Some m \<Rightarrow> m)"
  have m0: "model_ok m0 \<and> model_path (if_container_id m0) = model_path cid"
    using known_ok [OF assms, of cid] model_ok_new by (auto simp: m0_def split: option.split)
  obtain res m where tr: "if_train sk now vs m0 = (res, m)" by fastforce
  note m = if_train_ok [OF tr conjunct1 [OF m0]]
  let ?s = "if map_of (ms_models s) cid = None then put_model cid m0 s else s"
  have s: "ml_inv (put_model cid m ?s)" using assms m0 m by (simp add: ml_inv_put)
  have "reg_train sk cfg can now cid vs s =
      (case res of Inl e \<Rightarrow> (Inl e, put_model cid m ?s) | Inr r \<Rightarrow> (Inr r, save_to_disk can cid m (put_model cid m ?s)))"
    using tr by (simp add: reg_train_def get_or_create_known m0_def [symmetric] Let_def)
  moreover have "file_ok (model_path cid) (Pickled m)" if "res = Inr r" for r
    using m m0 that by (simp add: file_ok_def)
  ultimately show ?thesis using s ml_inv_save [OF s] by (cases res) auto
qed

lemma ml_inv_step:
  assumes "ml_inv s"
  shows "ml_inv (ml_step sk cfg can c s)"
proof (cases c)
  case (MlScore cid v)
  then show ?thesis using score_state [of sk cfg cid v s] ml_inv_get [OF assms] assms by auto
next
  case (MlTrain now cid vs)
  then show ?thesis
    using ml_inv_train [OF assms, of sk cfg can now cid vs] assms ml_inv_get
    by (auto simp: ml_train_model_def case_prod_unfold Let_def split: sum.split)
next
  case (MlMetaOp cid)
  then show ?thesis using ml_inv_get [OF assms] by (simp add: meta_answer)
next
  case (MlDelete cid)
  then show ?thesis
    using assms by (auto simp: ml_delete_model_def reg_delete_model_def ml_inv_def delete_conv' distinct_delete Let_def split: if_splits simp del: map_of_eq_Some_iff)
next
  case (MlSimulate cid score anomalous)
  then show ?thesis using assms by (auto simp: ml_inv_def enable_simulation_def)
next
  case (MlSimulateOff cid)
  then show ?thesis using assms by (auto simp: ml_inv_def disable_simulation_def Let_def split: option.split list.split)
next
  case MlRestart
  then show ?thesis using assms by (simp add: ml_inv_def ml_start_def)
qed

lemma ml_inv_run: "ml_inv s \<Longrightarrow> ml_inv (fold (ml_step sk cfg can) ops s)"
  by (induction ops arbitrary: s) (simp_all add: ml_inv_step)

subsection \<open>A trained model is kept\<close>

definition kept :: "string \<Rightarrow> 'f IForest \<Rightarrow> 'f MlService \<Rightarrow> bool" where
  "kept cid m s \<longleftrightarrow> ms_disk s (model_path cid) = Some (Pickled m) \<and> (map_of (ms_models s) cid = None \<or> map_of (ms_models s) cid = Some m)"

lemma kept_known: "kept cid m s \<Longrightarrow> known s cid = Some m"
  by (auto simp: kept_def known_def load_from_disk_def)

fun touches :: "string \<Rightarrow> ml_op \<Rightarrow> bool" where
  "touches cid (MlTrain now j vs) \<longleftrightarrow> model_path j = model_path cid"
| "touches cid (MlDelete j) \<longleftrightarrow> model_path j = model_path cid"
| "touches cid _ \<longleftrightarrow> False"

lemma kept_get: "kept cid m s \<Longrightarrow> kept cid m (snd (get_model j s))"
  using kept_known [of cid m s] by (auto simp: kept_def map_of_after_get)

lemma reg_train_other:
  assumes "model_path j \<noteq> model_path cid"
  shows "ms_disk (snd (reg_train sk cfg can now j vs s)) (model_path cid) = ms_disk s (model_path cid)"
    "map_of (ms_models (snd (reg_train sk cfg can now j vs s))) cid = map_of (ms_models s) cid"
  using assms by (auto simp: reg_train_def get_or_create_known save_to_disk_def case_prod_unfold Let_def split: sum.split)

lemma kept_step:
  assumes "kept cid m s" "\<not> touches cid c"
  shows "kept cid m (ml_step sk cfg can c s)"
proof (cases c)
  case (MlScore j v)
  then show ?thesis using score_state [of sk cfg j v s] kept_get [OF assms(1)] assms(1) by auto
next
  case (MlTrain now j vs)
  with assms(2) have other: "model_path j \<noteq> model_path cid" by simp
  have "kept cid m (snd (reg_train sk cfg can now j vs s))"
    using assms(1) unfolding kept_def reg_train_other [OF other] .
  with assms(1) kept_get show ?thesis
    by (auto simp: MlTrain ml_train_model_def case_prod_unfold Let_def split: sum.split)
next
  case (MlMetaOp j)
  then show ?thesis using kept_get [OF assms(1)] by (simp add: meta_answer)
next
  case (MlDelete j)
  with assms show ?thesis by (auto simp: ml_delete_model_def reg_delete_model_def kept_def delete_conv' Let_def)
next
  case (MlSimulate j score anomalous)
  with assms(1) show ?thesis by (simp add: kept_def enable_simulation_def)
next
  case (MlSimulateOff j)
  with assms(1) show ?thesis by (simp add: kept_def disable_simulation_def Let_def split: option.split list.split)
next
  case MlRestart
  with assms(1) show ?thesis by (simp add: kept_def ml_start_def)
qed

lemma kept_run:
  "kept cid m s \<Longrightarrow> \<forall>c \<in> set ops. \<not> touches cid c \<Longrightarrow> kept cid m (fold (ml_step sk cfg can) ops s)"
  by (induction ops arbitrary: s) (simp_all add: kept_step)

text \<open>What a successful training leaves behind.\<close>

lemma trained_kept:
  assumes "ml_train_model sk cfg can now cid vs s = (Inr r, s1)" "can (model_path cid)"
  shows "\<exists>m forest params. kept cid m s1 \<and> map_of (ms_models s1) cid = Some m \<and> sk_fit sk params (map clean_row vs) = Inr forest \<and>
    if_model m = Some (Fitted forest) \<and> if_is_fitted m \<and> if_version m = te_version r \<and>
    if_trained_at m = Some (te_trained_at r) \<and> if_sample_count m = length vs"
proof -
  define m0 where "m0 = (case known s cid of None \<Rightarrow> IForest_new cfg cid | Some m \<Rightarrow> m)"
  let ?s = "if map_of (ms_models s) cid = None then put_model cid m0 s else s"
  obtain res m where tr: "if_train sk now vs m0 = (res, m)" by fastforce
  have reg: "reg_train sk cfg can now cid vs s =
      (case res of Inl e \<Rightarrow> (Inl e, put_model cid m ?s) | Inr r \<Rightarrow> (Inr r, save_to_disk can cid m (put_model cid m ?s)))"
    using tr by (simp add: reg_train_def get_or_create_known m0_def [symmetric] Let_def)
  obtain ver stamp where res: "res = Inr (ver, stamp)"
    using assms(1) reg by (cases res) (auto simp: ml_train_model_def Let_def split: if_splits)
  let ?t = "save_to_disk can cid m (put_model cid m ?s)"
  have kt: "kept cid m ?t" "map_of (ms_models ?t) cid = Some m" using assms(2) by (simp_all add: kept_def save_to_disk_def)
  then have "get_model cid ?t = (Some m, ?t)" by (simp add: get_model_def)
  then have s1: "s1 = ?t" "te_version r = ver" "te_trained_at r = stamp"
    using assms(1) reg res by (auto simp: ml_train_model_def Let_def split: if_splits)
  from tr res obtain params forest where "sk_fit sk params (map clean_row vs) = Inr forest"
    "if_model m = Some (Fitted forest)" "if_is_fitted m" "if_version m = ver" "if_trained_at m = Some stamp" "if_sample_count m = length vs"
    by (auto simp: if_train_def Let_def split: if_splits sum.splits)
  with kt s1 show ?thesis by blast
qed

lemma fitted_answer:
  "if_model m = Some (Fitted forest) \<Longrightarrow> if_is_fitted m \<Longrightarrow>
   real_answer sk cfg cid v (Some m) =
     (case sk_score_samples sk forest (clean_row v) of
        Inl e \<Rightarrow> Inl (exn_status e)
      | Inr q \<Rightarrow> Inr \<lparr>sr_score = q, sr_anomalous = (q < mc_anomaly_threshold cfg), sr_container_id = cid, sr_model_version = Some (if_version m)\<rparr>)"
  by (simp add: real_answer_def if_score_def split: sum.split)

subsection \<open>Properties\<close>

definition demo_sk :: "nat sklearn" where
  "demo_sk = \<lparr>sk_fit = (\<lambda>_ X. Inr (length X)), sk_score_samples = (\<lambda>forest x. Inr (- 3 / 4))\<rparr>"

definition demo_rows :: "pyfloat list list" where
  "demo_rows = replicate 10 (replicate 594 (Fin 0))"

definition demo_service :: "nat MlService" where
  "demo_service = ml_start Map.empty"

lemma demo_train:
  "\<exists>r s1. ml_train_model demo_sk default_ml_config (\<lambda>_. True) 5 cid demo_rows demo_service = (Inr r, s1) \<and>
    te_version r = 1 \<and> ms_sim_enabled s1 = False"
  by (simp add: ml_train_model_def validate_training_data_def demo_rows_def default_ml_config_def reg_train_def demo_service_def
      ml_start_def get_or_create_model_def load_from_disk_def if_train_def rectangular_def list_all_iff demo_sk_def IForest_new_def
      get_model_def save_to_disk_def put_model_def eval_nat_numeral Let_def)


text \<open>C16: A trained model is kept. When training answers with a version and the model file could be written, then after
  any further requests and restarts, as long as no id with the same file name is trained or deleted,
  scoring the container (unless it is being simulated) uses the forest that was fitted then, compares with
  the threshold and reports that version, and the metadata is READY with the number of rows.\<close>

theorem model_survives:
  fixes sk :: "'f sklearn"
  assumes "ml_train_model sk cfg can now cid vs s = (Inr r, s1)" "can (model_path cid)"
    and "\<forall>c \<in> set ops. \<not> touches cid c" "s2 = fold (ml_step sk cfg can) ops s1"
    and "length v = mc_feature_vector_dim cfg" "\<not> simulated s2 cid"
  shows "\<exists>params forest. sk_fit sk params (map clean_row vs) = Inr forest \<and>
    fst (ml_score_window sk cfg cid v s2) =
      (case sk_score_samples sk forest (clean_row v) of
         Inl e \<Rightarrow> Inl (exn_status e)
       | Inr q \<Rightarrow> Inr \<lparr>sr_score = q, sr_anomalous = (q < mc_anomaly_threshold cfg), sr_container_id = cid,
                        sr_model_version = Some (te_version r)\<rparr>) \<and>
    me_status (fst (ml_get_model_meta cid s2)) = READY \<and> me_version (fst (ml_get_model_meta cid s2)) = te_version r \<and>
    me_sample_count (fst (ml_get_model_meta cid s2)) = Some (length vs)"
proof -
  obtain m forest params where m: "kept cid m s1" "sk_fit sk params (map clean_row vs) = Inr forest"
    "if_model m = Some (Fitted forest)" "if_is_fitted m" "if_version m = te_version r" "if_sample_count m = length vs"
    using trained_kept [OF assms(1,2)] by blast
  have "kept cid m s2" unfolding assms(4) using m(1) assms(3) by (rule kept_run)
  note known = kept_known [OF this]
  have "fst (ml_score_window sk cfg cid v s2) = real_answer sk cfg cid v (Some m)"
    using score_answer [OF assms(5,6), of sk] known by simp
  moreover have "fst (ml_get_model_meta cid s2) = meta_from m" by (simp add: meta_answer known)
  ultimately show ?thesis
    using m(2,4-6) fitted_answer [OF m(3,4), of sk cfg cid v, unfolded m(5)]
    by (intro exI [of _ params] exI [of _ forest]) (simp add: meta_from_def)
qed

theorem model_survives_witness:
  "\<exists>r s1 ops. ml_train_model demo_sk default_ml_config (\<lambda>_. True) 5 ''web'' demo_rows demo_service = (Inr r, s1) \<and>
     ops = [MlTrain 6 ''db'' demo_rows, MlRestart, MlDelete ''db''] \<and>
     fst (ml_score_window demo_sk default_ml_config ''web'' (replicate 594 (Fin 0)) (fold (ml_step demo_sk default_ml_config (\<lambda>_. True)) ops s1)) =
       Inr \<lparr>sr_score = - 3 / 4, sr_anomalous = (- 3 / 4 < mc_anomaly_threshold default_ml_config), sr_container_id = ''web'',
         sr_model_version = Some 1\<rparr>"
proof -
  obtain r s1 where tr: "ml_train_model demo_sk default_ml_config (\<lambda>_. True) 5 ''web'' demo_rows demo_service = (Inr r, s1)"
    "te_version r = 1" using demo_train by blast
  let ?ops = "[MlTrain 6 ''db'' demo_rows, MlRestart, MlDelete ''db'']"
  let ?s2 = "fold (ml_step demo_sk default_ml_config (\<lambda>_. True)) ?ops s1"
  have "\<forall>c \<in> set ?ops. \<not> touches ''web'' c" by (simp add: model_path_def)
  moreover have "\<not> simulated ?s2 ''web''"
    by (simp add: simulated_def ml_delete_model_def reg_delete_model_def ml_start_def Let_def)
  moreover have "length (replicate 594 (Fin 0)) = mc_feature_vector_dim default_ml_config" by (simp add: default_ml_config_def)
  ultimately show ?thesis
    using model_survives [OF tr(1) _ _ refl, of ?ops "replicate 594 (Fin 0)"] tr
    by (intro exI [of _ r] exI [of _ s1] exI [of _ ?ops]) (simp add: demo_sk_def del: fold.simps)
qed

lemma kept_restart: "kept cid m s \<Longrightarrow> kept cid m (ml_start (ms_disk s))"
  by (simp add: kept_def ml_start_def)

lemma restart_simps [simp]: "\<not> simulated (ml_start d) cid" "ms_disk (ml_start d) = d" "map_of (ms_models (ml_start d)) cid = None"
  by (simp_all add: ml_start_def simulated_def)

lemma restart_answer:
  "length v = mc_feature_vector_dim cfg \<Longrightarrow>
   ml_score_window sk cfg cid v (ml_start d) = (real_answer sk cfg cid v (known (ml_start d) cid), snd (get_model cid (ml_start d)))"
  by (rule score_answer) simp_all

lemma loaded_deleted:
  assumes "known s cid = Some m"
  shows "ml_delete_model cid (snd (get_model cid s)) =
    (Inr (), (snd (get_model cid s))\<lparr>ms_models := AList.delete cid (ms_models (snd (get_model cid s))),
       ms_disk := (ms_disk s)(model_path cid := None)\<rparr>)"
  using assms map_of_after_get [of cid s cid] by (simp add: ml_delete_model_def reg_delete_model_def Let_def)

lemma neutral_answer:
  assumes "length v = mc_feature_vector_dim cfg" "d (model_path cid) = None"
  shows "fst (ml_score_window sk cfg cid v (ml_start d)) =
    Inr \<lparr>sr_score = 0, sr_anomalous = False, sr_container_id = cid, sr_model_version = None\<rparr>"
proof -
  have "known (ml_start d :: 'a MlService) cid = None" using assms(2) by (simp add: known_def load_from_disk_def)
  then show ?thesis using restart_answer [OF assms(1), of sk cid d] by (simp add: real_answer_def)
qed

text \<open>A model can only be deleted once it has been used. After a successful training a deletion request removes the
  model and its file, for good. But when the service has restarted in between, the same request answers 404
  and changes nothing, and the next scoring request loads the file and goes on using the model.\<close>

theorem delete_after_restart:
  fixes sk :: "'f sklearn"
  assumes "ml_train_model sk cfg can now cid vs s = (Inr r, s1)" "can (model_path cid)" "length v = mc_feature_vector_dim cfg"
  shows "(\<exists>s2. ml_delete_model cid s1 = (Inr (), s2) \<and> known s2 cid = None \<and>
      fst (ml_score_window sk cfg cid v (ml_start (ms_disk s2))) =
        Inr \<lparr>sr_score = 0, sr_anomalous = False, sr_container_id = cid, sr_model_version = None\<rparr>) \<and>
    ml_delete_model cid (ml_start (ms_disk s1)) = (Inl 404, ml_start (ms_disk s1)) \<and>
    (\<exists>params forest. sk_fit sk params (map clean_row vs) = Inr forest \<and>
      fst (ml_score_window sk cfg cid v (ml_start (ms_disk s1))) =
        (case sk_score_samples sk forest (clean_row v) of
           Inl e \<Rightarrow> Inl (exn_status e)
         | Inr q \<Rightarrow> Inr \<lparr>sr_score = q, sr_anomalous = (q < mc_anomaly_threshold cfg), sr_container_id = cid,
                          sr_model_version = Some (te_version r)\<rparr>))"
proof (intro conjI)
  obtain m forest params where m: "kept cid m s1" "map_of (ms_models s1) cid = Some m" "sk_fit sk params (map clean_row vs) = Inr forest"
    "if_model m = Some (Fitted forest)" "if_is_fitted m" "if_version m = te_version r"
    using trained_kept [OF assms(1,2)] by blast
  define s2 where "s2 = s1\<lparr>ms_models := AList.delete cid (ms_models s1), ms_disk := (ms_disk s1)(model_path cid := None)\<rparr>"
  have "ml_delete_model cid s1 = (Inr (), s2)" using m(2) by (simp add: ml_delete_model_def reg_delete_model_def s2_def Let_def)
  moreover have "ms_disk s2 (model_path cid) = None" "known s2 cid = None"
    by (simp_all add: s2_def known_def load_from_disk_def delete_conv')
  ultimately show "\<exists>s2. ml_delete_model cid s1 = (Inr (), s2) \<and> known s2 cid = None \<and>
      fst (ml_score_window sk cfg cid v (ml_start (ms_disk s2))) =
        Inr \<lparr>sr_score = 0, sr_anomalous = False, sr_container_id = cid, sr_model_version = None\<rparr>"
    using neutral_answer [OF assms(3), of "ms_disk s2" cid sk] by blast
  show "ml_delete_model cid (ml_start (ms_disk s1)) = (Inl 404, ml_start (ms_disk s1))"
    by (simp add: ml_delete_model_def reg_delete_model_def Let_def)
  have "fst (ml_score_window sk cfg cid v (ml_start (ms_disk s1))) = real_answer sk cfg cid v (Some m)"
    using restart_answer [OF assms(3), of sk cid "ms_disk s1"] kept_known [OF kept_restart [OF m(1)]] by simp
  then show "\<exists>params forest. sk_fit sk params (map clean_row vs) = Inr forest \<and>
      fst (ml_score_window sk cfg cid v (ml_start (ms_disk s1))) =
        (case sk_score_samples sk forest (clean_row v) of
           Inl e \<Rightarrow> Inl (exn_status e)
         | Inr q \<Rightarrow> Inr \<lparr>sr_score = q, sr_anomalous = (q < mc_anomaly_threshold cfg), sr_container_id = cid,
                          sr_model_version = Some (te_version r)\<rparr>)"
    using m(3) fitted_answer [OF m(4,5), of sk cfg cid v, unfolded m(6)] by (intro exI [of _ params] exI [of _ forest]) simp
qed

theorem delete_after_restart_witness:
  "\<exists>r s1. ml_train_model demo_sk default_ml_config (\<lambda>_. True) 5 ''web'' demo_rows demo_service = (Inr r, s1) \<and>
     ml_delete_model ''web'' (ml_start (ms_disk s1)) = (Inl 404, ml_start (ms_disk s1)) \<and>
     fst (ml_score_window demo_sk default_ml_config ''web'' (replicate 594 (Fin 0)) (ml_start (ms_disk s1))) =
       Inr \<lparr>sr_score = - 3 / 4, sr_anomalous = (- 3 / 4 < mc_anomaly_threshold default_ml_config), sr_container_id = ''web'',
         sr_model_version = Some 1\<rparr>"
proof -
  obtain r s1 where tr: "ml_train_model demo_sk default_ml_config (\<lambda>_. True) 5 ''web'' demo_rows demo_service = (Inr r, s1)"
    "te_version r = 1" using demo_train by blast
  have "length (replicate 594 (Fin 0)) = mc_feature_vector_dim default_ml_config" by (simp add: default_ml_config_def)
  from delete_after_restart [OF tr(1) _ this] tr show ?thesis
    by (intro exI [of _ r] exI [of _ s1]) (simp add: demo_sk_def)
qed

text \<open>Ids that differ only in slashes, backslashes and underscores share a model. The file name replaces both kinds of
  slash by an underscore. When \<open>a\<close> has been trained and the service restarts, scoring another id \<open>b\<close> with the
  same file name, for which nothing was ever trained, answers with the forest and version of \<open>a\<close>; deleting \<open>b\<close>
  afterwards succeeds and removes the model of \<open>a\<close>.\<close>

theorem shared_model_file:
  fixes sk :: "'f sklearn"
  assumes "ml_train_model sk cfg can now a vs s = (Inr r, s1)" "can (model_path a)" "length v = mc_feature_vector_dim cfg"
    and "model_path b = model_path a" "ml_score_window sk cfg b v (ml_start (ms_disk s1)) = (reply, s2)"
  shows "(\<exists>params forest. sk_fit sk params (map clean_row vs) = Inr forest \<and>
      reply = (case sk_score_samples sk forest (clean_row v) of
         Inl e \<Rightarrow> Inl (exn_status e)
       | Inr q \<Rightarrow> Inr \<lparr>sr_score = q, sr_anomalous = (q < mc_anomaly_threshold cfg), sr_container_id = b,
                        sr_model_version = Some (te_version r)\<rparr>)) \<and>
    (\<exists>s3. ml_delete_model b s2 = (Inr (), s3) \<and>
      fst (ml_score_window sk cfg a v (ml_start (ms_disk s3))) =
        Inr \<lparr>sr_score = 0, sr_anomalous = False, sr_container_id = a, sr_model_version = None\<rparr>)"
proof (intro conjI)
  let ?s = "ml_start (ms_disk s1) :: 'f MlService"
  obtain m forest params where m: "kept a m s1" "sk_fit sk params (map clean_row vs) = Inr forest"
    "if_model m = Some (Fitted forest)" "if_is_fitted m" "if_version m = te_version r"
    using trained_kept [OF assms(1,2)] by blast
  then have known: "known ?s b = Some m" using assms(4) by (simp add: kept_def known_def load_from_disk_def)
  then have re: "reply = real_answer sk cfg b v (Some m)" and s2: "s2 = snd (get_model b ?s)"
    using restart_answer [OF assms(3), of sk b "ms_disk s1"] assms(5) by simp_all
  show "\<exists>params forest. sk_fit sk params (map clean_row vs) = Inr forest \<and>
      reply = (case sk_score_samples sk forest (clean_row v) of
         Inl e \<Rightarrow> Inl (exn_status e)
       | Inr q \<Rightarrow> Inr \<lparr>sr_score = q, sr_anomalous = (q < mc_anomaly_threshold cfg), sr_container_id = b,
                        sr_model_version = Some (te_version r)\<rparr>)"
    using re m(2) fitted_answer [OF m(3,4), of sk cfg b v, unfolded m(5)] by (intro exI [of _ params] exI [of _ forest]) simp
  show "\<exists>s3. ml_delete_model b s2 = (Inr (), s3) \<and>
      fst (ml_score_window sk cfg a v (ml_start (ms_disk s3))) =
        Inr \<lparr>sr_score = 0, sr_anomalous = False, sr_container_id = a, sr_model_version = None\<rparr>"
    using loaded_deleted [OF known] s2 neutral_answer [OF assms(3), of "(ms_disk s1)(model_path b := None)" a sk] assms(4)
    by (auto intro!: exI)
qed

theorem shared_model_file_witness:
  "\<exists>r s1 s2. ml_train_model demo_sk default_ml_config (\<lambda>_. True) 5 ''team/web'' demo_rows demo_service = (Inr r, s1) \<and>
     model_path ''team_web'' = model_path ''team/web'' \<and>
     ml_score_window demo_sk default_ml_config ''team_web'' (replicate 594 (Fin 0)) (ml_start (ms_disk s1)) =
       (Inr \<lparr>sr_score = - 3 / 4, sr_anomalous = (- 3 / 4 < mc_anomaly_threshold default_ml_config), sr_container_id = ''team_web'',
          sr_model_version = Some 1\<rparr>, s2)"
proof -
  obtain r s1 where tr: "ml_train_model demo_sk default_ml_config (\<lambda>_. True) 5 ''team/web'' demo_rows demo_service = (Inr r, s1)"
    "te_version r = 1" using demo_train by blast
  have same: "model_path ''team_web'' = model_path ''team/web''" by (simp add: model_path_def)
  have len: "length (replicate 594 (Fin 0)) = mc_feature_vector_dim default_ml_config" by (simp add: default_ml_config_def)
  obtain reply s2 where sc: "ml_score_window demo_sk default_ml_config ''team_web'' (replicate 594 (Fin 0)) (ml_start (ms_disk s1)) = (reply, s2)"
    by fastforce
  from shared_model_file [OF tr(1) _ len same sc] tr same sc show ?thesis
    by (intro exI [of _ r] exI [of _ s1] exI [of _ s2]) (simp add: demo_sk_def)
qed

text \<open>A failed retraining takes a working model out of service. Training replaces the estimator before it fits the new
  one; when fitting raises, the old forest is gone from memory although the model still counts as fitted: every
  scoring request then answers 422, while the metadata keep saying READY with the old version. The file
  still has the old model, so a restart brings it back.\<close>

theorem failed_retraining:
  fixes sk :: "'f sklearn"
  assumes "kept cid m s" "if_is_fitted m" "validate_training_data cfg vs" "length v = mc_feature_vector_dim cfg" "\<not> simulated s cid"
    and "sk_fit sk (if_n_estimators m, if_contamination m, min (if_max_samples m) (int (length vs)), if_random_state m) (map clean_row vs) = Inl e"
  shows "\<exists>s1. ml_train_model sk cfg can now cid vs s = (Inl (exn_status e), s1) \<and>
    fst (ml_score_window sk cfg cid v s1) = Inl 422 \<and>
    me_status (fst (ml_get_model_meta cid s1)) = READY \<and> me_version (fst (ml_get_model_meta cid s1)) = if_version m \<and>
    fst (ml_score_window sk cfg cid v (ml_start (ms_disk s1))) = fst (ml_score_window sk cfg cid v s)"
proof -
  let ?m = "m\<lparr>if_model := Some Unfitted\<rparr>"
  have "rectangular vs" using assms(3) by (cases vs) (auto simp: validate_training_data_def rectangular_def list_all_iff)
  then have tr: "if_train sk now vs m = (Inl e, ?m)"
    using assms(3,6) by (simp add: if_train_def validate_training_data_def Let_def)
  define s1 where "s1 = put_model cid ?m (if map_of (ms_models s) cid = None then put_model cid m s else s)"
  have "reg_train sk cfg can now cid vs s = (Inl e, s1)"
    using tr kept_known [OF assms(1)] by (simp add: reg_train_def get_or_create_known s1_def Let_def)
  then have "ml_train_model sk cfg can now cid vs s = (Inl (exn_status e), s1)"
    using assms(3) by (simp add: ml_train_model_def)
  moreover have known: "known s1 cid = Some ?m" by (simp add: s1_def known_def)
  have "\<not> simulated s1 cid" using assms(5) by (simp add: simulated_def s1_def)
  then have "fst (ml_score_window sk cfg cid v s1) = Inl 422"
    using score_answer [OF assms(4), of s1 cid sk] known assms(2) by (simp add: real_answer_def if_score_def exn_status_def)
  moreover have "fst (ml_get_model_meta cid s1) = meta_from ?m" by (simp add: meta_answer known)
  moreover have "ms_disk s1 = ms_disk s" by (simp add: s1_def)
  then have "fst (ml_score_window sk cfg cid v (ml_start (ms_disk s1))) = fst (ml_score_window sk cfg cid v s)"
    using restart_answer [OF assms(4), of sk cid "ms_disk s"] score_answer [OF assms(4,5), of sk]
      kept_known [OF assms(1)] kept_known [OF kept_restart [OF assms(1)]] by simp
  ultimately show ?thesis using assms(2) by (simp add: meta_from_def)
qed

theorem failed_retraining_witness:
  "\<exists>s1. ml_train_model (demo_sk\<lparr>sk_fit := \<lambda>_ _. Inl OtherException\<rparr>) default_ml_config (\<lambda>_. True) 7 ''web'' demo_rows
       (ml_start [model_path ''web'' \<mapsto> Pickled ((IForest_new default_ml_config ''web'')\<lparr>if_model := Some (Fitted 3), if_version := 1,
          if_trained_at := Some 2, if_sample_count := 10, if_is_fitted := True\<rparr>)]) = (Inl 500, s1) \<and>
     fst (ml_score_window (demo_sk\<lparr>sk_fit := \<lambda>_ _. Inl OtherException\<rparr>) default_ml_config ''web'' (replicate 594 (Fin 0)) s1) = Inl 422"
proof -
  let ?sk = "demo_sk\<lparr>sk_fit := \<lambda>_ _. Inl OtherException\<rparr>"
  let ?m = "(IForest_new default_ml_config ''web'')\<lparr>if_model := Some (Fitted 3), if_version := 1, if_trained_at := Some 2,
    if_sample_count := 10, if_is_fitted := True\<rparr> :: nat IForest"
  let ?s = "ml_start [model_path ''web'' \<mapsto> Pickled ?m]"
  have "kept ''web'' ?m ?s" "if_is_fitted ?m" by (simp_all add: kept_def)
  moreover have "validate_training_data default_ml_config demo_rows" "length (replicate 594 (Fin 0)) = mc_feature_vector_dim default_ml_config"
    by (simp_all add: validate_training_data_def demo_rows_def default_ml_config_def list_all_iff)
  moreover have "sk_fit ?sk (if_n_estimators ?m, if_contamination ?m, min (if_max_samples ?m) (int (length demo_rows)), if_random_state ?m)
      (map clean_row demo_rows) = Inl OtherException" by simp
  ultimately show ?thesis
    using failed_retraining [of "''web''" ?m ?s default_ml_config demo_rows "replicate 594 (Fin 0)" ?sk OtherException "\<lambda>_. True" 7]
    by (auto simp: exn_status_def)
qed

end
