(* ===== verification/Ml_Remote.thy ===== *)
theory Ml_Remote
  imports Ml_Service Server_Control
begin

text \<open>
  How the management server uses the service: \<^verbatim>\<open>RemoteMlAdapter.java\<close>, and the hybrid adapter with the service
  of \<open>Ml_Service\<close> behind it. A reply is \<open>None\<close> when the service cannot be reached, otherwise a status of at
  least 400, for which \<^verbatim>\<open>RestTemplate\<close> raises \<^verbatim>\<open>RestClientException\<close>, or the response; a response has all the fields
  its schema declares, so the defaults of \<^verbatim>\<open>path(...).asDouble(0.0)\<close> and its like are never used. \<open>wire\<close> is what the service
  reads for a \<^verbatim>\<open>float\<close> that the server printed.
\<close>

subsection \<open>The adapter\<close>

definition remote_url :: "string \<Rightarrow> string" where  \<comment> \<open>one trailing slash is removed\<close>
  "remote_url url = (if url \<noteq> [] \<and> last url = CHR 0x2F then butlast url else url)"

definition remote_scoreWindow :: "(nat + ScoreResponse) option \<Rightarrow> java_exn + rat \<times> bool" where
  "remote_scoreWindow reply =
     (case reply of Some (Inr r) \<Rightarrow> Inr (sr_score r, sr_anomalous r) | _ \<Rightarrow> Inl PortException)"

definition remote_trainModel :: "(nat + TrainResponse) option \<Rightarrow> java_exn + unit" where
  "remote_trainModel reply = (case reply of Some (Inr r) \<Rightarrow> Inr () | _ \<Rightarrow> Inl PortException)"

definition remote_getModelMeta :: "string \<Rightarrow> MlMeta option \<Rightarrow> ModelMeta" where
  "remote_getModelMeta cid reply =
     (case reply of
        Some meta \<Rightarrow> \<lparr>mm_modelId = me_model_id meta, mm_containerId = cid, mm_version = of_int (me_version meta),
          mm_featureVersion = ''v1'', mm_status = me_status meta\<rparr>
      | None \<Rightarrow> \<lparr>mm_modelId = ''unset'', mm_containerId = cid, mm_version = 0, mm_featureVersion = ''v1'',
          mm_status = UNTRAINED\<rparr>)"

definition remote_isAvailable :: "string option \<Rightarrow> bool" where  \<comment> \<open>the member \<open>status\<close> of the health answer\<close>
  "remote_isAvailable status = (status = Some ''ok'')"

subsection \<open>The configured port\<close>

datatype port_choice = LocalPort | HybridPort

text \<open>The mode \<^verbatim>\<open>REMOTE\<close>, too, gives the hybrid adapter; \<open>env\<close> is \<^verbatim>\<open>ANOMALY_ENGINE_MODE\<close>.\<close>

definition anomalyDetectionPort :: "string option \<Rightarrow> string \<Rightarrow> port_choice" where
  "anomalyDetectionPort env anomalyMode =
     (let mode = (case env of None \<Rightarrow> anomalyMode | Some e \<Rightarrow> if isBlank e then anomalyMode else e)
      in if map ascii_upper mode = ''LOCAL'' then LocalPort else HybridPort)"

subsection \<open>The hybrid adapter in front of the service\<close>

record 'f detector =
  dt_hybrid :: Hybrid
  dt_service :: "'f MlService"

definition health_status :: "bool \<Rightarrow> string option" where  \<comment> \<open>\<^verbatim>\<open>/health\<close> of a running service\<close>
  "health_status up = (if up then Some ''ok'' else None)"

text \<open>\<open>up\<close> says whether the service can be reached during the call.\<close>

definition detect_window ::
  "'f sklearn \<Rightarrow> ml_config \<Rightarrow> (rat \<Rightarrow> pyfloat) \<Rightarrow> bool \<Rightarrow> int \<Rightarrow> int \<Rightarrow> string \<Rightarrow> rat list \<Rightarrow> 'f detector \<Rightarrow> (rat \<times> bool) \<times> bool \<times> 'f detector" where
  "detect_window sk cfg wire up now now' cid values d =
     (let (reply, service) = ml_score_window sk cfg cid (map wire values) (dt_service d);
          (score, asked, h) = hybrid_scoreWindow now now' (Inr (remote_isAvailable (health_status up)))
            (remote_scoreWindow (if up then Some reply else None)) (dt_hybrid d) cid values
      in (score, asked, d\<lparr>dt_hybrid := h, dt_service := (if asked \<and> up then service else dt_service d)\<rparr>))"

lemma should_use:
  assumes "hy_preferRemote h" "hy_remoteAvailable h \<or> 300000 < now - hy_lastHealthCheck h"
  shows "\<exists>h'. shouldUseRemote now now' (Inr True) h = (True, h') \<and> hy_local h' = hy_local h"
  using assms by (auto simp: shouldUseRemote_def checkRemoteHealth_def Let_def)

subsection \<open>Properties\<close>

text \<open>C10: Windows of a trained container are judged by its forest. When the server prefers the service, the service is up
  (and was found available, or is due for a health check) and holds a trained model for the
  container, then for every window with records the verdict is the forest's: the score of the
  extracted vector, anomalous exactly below the configured threshold. If the forest library fails on the vector,
  the verdict is the local heuristic's and the server stops asking.\<close>

theorem forest_decides:
  fixes sk :: "'f sklearn"
  assumes "sw_records p = Some rs" "rs \<noteq> []" "length rs < 2147483648" "mc_feature_vector_dim cfg = 594"
    and "kept cid m (dt_service d)" "if_is_fitted m" "if_model m = Some (Fitted forest)" "\<not> simulated (dt_service d) cid"
    and "hy_preferRemote (dt_hybrid d)" "hy_remoteAvailable (dt_hybrid d) \<or> 300000 < now - hy_lastHealthCheck (dt_hybrid d)"
  shows "\<exists>vec d'. fe_extract jlog p = Inr vec \<and> length vec = 594 \<and>
    detect_window sk cfg wire True now now' cid vec d =
      (case sk_score_samples sk forest (clean_row (map wire vec)) of
         Inr q \<Rightarrow> (q, q < mc_anomaly_threshold cfg)
       | Inl e \<Rightarrow> local_scoreWindow (hy_local (dt_hybrid d)) cid vec, True, d') \<and>
    kept cid m (dt_service d') \<and>
    (hy_remoteAvailable (dt_hybrid d') \<longleftrightarrow> (case sk_score_samples sk forest (clean_row (map wire vec)) of Inr q \<Rightarrow> True | Inl e \<Rightarrow> False))"
proof -
  let ?vec = "vector_of jlog (duration_of rs) rs"
  have ex: "fe_extract jlog p = Inr ?vec" using assms(1-3) by (rule extract_vector_duration)
  have len: "length ?vec = 594" by (rule length_vector)
  obtain h where h: "shouldUseRemote now now' (Inr True) (dt_hybrid d) = (True, h)" "hy_local h = hy_local (dt_hybrid d)"
    using should_use [OF assms(9,10)] by blast
  then have avail: "hy_remoteAvailable h" by (auto simp: shouldUseRemote_def Let_def split: if_splits)
  have reply: "ml_score_window sk cfg cid (map wire ?vec) (dt_service d) =
      (real_answer sk cfg cid (map wire ?vec) (Some m), snd (get_model cid (dt_service d)))"
    using score_answer [of "map wire ?vec" cfg "dt_service d" cid sk] kept_known [OF assms(5)] assms(4,8) len by simp
  have k: "kept cid m (snd (get_model cid (dt_service d)))" by (rule kept_get [OF assms(5)])
  show ?thesis
  proof (cases "sk_score_samples sk forest (clean_row (map wire ?vec))")
    case (Inr q)
    then show ?thesis
      using ex len reply h avail k
      by (simp add: detect_window_def hybrid_scoreWindow_def remote_scoreWindow_def remote_isAvailable_def health_status_def
          fitted_answer [OF assms(7,6)])
  next
    case (Inl e)
    then show ?thesis
      using ex len reply h k
      by (simp add: detect_window_def hybrid_scoreWindow_def remote_scoreWindow_def remote_isAvailable_def health_status_def
          fitted_answer [OF assms(7,6)])
  qed
qed

definition demo_forest :: "nat IForest" where
  "demo_forest = (IForest_new default_ml_config ''web'')\<lparr>if_model := Some (Fitted 3), if_version := 1, if_trained_at := Some 2,
     if_sample_count := 10, if_is_fitted := True\<rparr>"

definition demo_detector :: "nat detector" where
  "demo_detector = \<lparr>dt_hybrid = demo_hybrid, dt_service = ml_start [model_path ''web'' \<mapsto> Pickled demo_forest]\<rparr>"

theorem forest_decides_witness:
  "\<exists>vec d'. fe_extract (\<lambda>x. x) reverse_shell = Inr vec \<and>
     detect_window demo_sk default_ml_config Fin True 1500 1500 ''web'' vec demo_detector = ((- 3 / 4, True), True, d')"
proof -
  obtain rs where rs: "sw_records reverse_shell = Some rs" "rs \<noteq> []" "length rs < 2147483648" by (simp add: reverse_shell_def)
  have "kept ''web'' demo_forest (dt_service demo_detector)" by (simp add: kept_def demo_detector_def)
  moreover have "hy_preferRemote (dt_hybrid demo_detector)" "hy_remoteAvailable (dt_hybrid demo_detector)"
    by (simp_all add: demo_detector_def demo_hybrid_def Hybrid_new_def checkRemoteHealth_def)
  moreover have "if_is_fitted demo_forest" "if_model demo_forest = Some (Fitted 3)" "mc_feature_vector_dim default_ml_config = 594"
    by (simp_all add: demo_forest_def default_ml_config_def)
  moreover have "\<not> simulated (dt_service demo_detector) ''web''" by (simp add: demo_detector_def)
  ultimately obtain vec d' where vec: "fe_extract (\<lambda>x. x) reverse_shell = Inr vec"
    "detect_window demo_sk default_ml_config Fin True 1500 1500 ''web'' vec demo_detector =
      (case sk_score_samples demo_sk 3 (clean_row (map Fin vec)) of
         Inr q \<Rightarrow> (q, q < mc_anomaly_threshold default_ml_config)
       | Inl e \<Rightarrow> local_scoreWindow (hy_local (dt_hybrid demo_detector)) ''web'' vec, True, d')"
    using forest_decides [OF rs, of default_ml_config "''web''" demo_forest demo_detector 3 1500 "\<lambda>x. x" demo_sk Fin 1500] by blast
  moreover have "- 3 / 4 < mc_anomaly_threshold default_ml_config"
    using f64_grid_le [of "13 / 20" 666] by (simp add: default_ml_config_def dbl_def)
  ultimately show ?thesis by (simp add: demo_sk_def)
qed

text \<open>C18: One empty window switches the forests off. A window without records has an empty vector, which the service
  rejects with 422 because it does not have 594 entries. The server takes the rejection for an outage: the window
  counts as normal, and no call for any container that starts within five minutes of the last
  health check reaches the service again, although it never stopped working.\<close>

theorem empty_window_blinds:
  fixes sk :: "'f sklearn"
  assumes "sw_records p = None \<or> sw_records p = Some []" "mc_feature_vector_dim cfg = 594"
    and "hy_preferRemote (dt_hybrid d)" "hy_remoteAvailable (dt_hybrid d)" "now - hy_lastHealthCheck (dt_hybrid d) \<le> 300000"
    and "list_all (\<lambda>c. op_time c \<le> hy_lastHealthCheck (dt_hybrid d) + 300000) cs"
  shows "\<exists>d'. fe_extract jlog p = Inr [] \<and> detect_window sk cfg wire True now now' cid [] d = ((0, False), True, d') \<and>
    dt_service d' = dt_service d \<and>
    fst (hybrid_run cs (dt_hybrid d')) = replicate (length cs) False \<and> getCurrentMode (snd (hybrid_run cs (dt_hybrid d'))) = ''LOCAL''"
proof -
  let ?h = "(dt_hybrid d)\<lparr>hy_remoteAvailable := False\<rparr>"
  have "fe_extract jlog p = Inr []" using assms(1) by (auto simp: fe_extract_def)
  moreover have "detect_window sk cfg wire True now now' cid [] d = ((0, False), True, d\<lparr>dt_hybrid := ?h\<rparr>)"
    using assms(2-5)
    by (simp add: detect_window_def ml_score_window_def hybrid_scoreWindow_def shouldUseRemote_def remote_scoreWindow_def local_scoreWindow_def)
  moreover obtain bs h2 where run: "hybrid_run cs ?h = (bs, h2)" by fastforce
  moreover have "\<not> hy_remoteAvailable ?h" "list_all (\<lambda>c. op_time c \<le> hy_lastHealthCheck ?h + 300000) cs" using assms(6) by simp_all
  then have "bs = replicate (length cs) False \<and> getCurrentMode h2 = ''LOCAL''" using run by (rule hybrid_run_local)
  ultimately show ?thesis by (intro exI [of _ "d\<lparr>dt_hybrid := ?h\<rparr>"]) simp
qed

theorem empty_window_blinds_witness:
  "fst (hybrid_run [HScore 2000 2000 (Inr True) (Inr (1, True)) ''web'' (replicate 594 0)]
     (dt_hybrid (snd (snd (detect_window demo_sk default_ml_config Fin True 1500 1500 ''probe'' [] demo_detector))))) = [False]"
proof -
  let ?p = "\<lparr>sw_version = 1, sw_agentId = None, sw_containerId = Some ''probe'', sw_windowStartTsNs = 0, sw_records = Some []\<rparr>"
  let ?cs = "[HScore 2000 2000 (Inr True) (Inr (1, True)) ''web'' (replicate 594 0)]"
  have h: "hy_preferRemote (dt_hybrid demo_detector)" "hy_remoteAvailable (dt_hybrid demo_detector)"
    "hy_lastHealthCheck (dt_hybrid demo_detector) = 1000"
    by (simp_all add: demo_detector_def demo_hybrid_def Hybrid_new_def checkRemoteHealth_def)
  have "sw_records ?p = None \<or> sw_records ?p = Some []" "mc_feature_vector_dim default_ml_config = 594"
    "1500 - hy_lastHealthCheck (dt_hybrid demo_detector) \<le> 300000"
    "list_all (\<lambda>c. op_time c \<le> hy_lastHealthCheck (dt_hybrid demo_detector) + 300000) ?cs"
    by (simp_all add: h default_ml_config_def)
  from empty_window_blinds [OF this(1,2) h(1,2) this(3,4), of "\<lambda>x. x" demo_sk Fin 1500 "''probe''"] show ?thesis by force
qed

end
