(* ===== verification/Ml_Training.thy ===== *)
theory Ml_Training
  imports Ml_Features Ml_Remote Agent_To_Server
begin

text \<open>
  Training from a dump, end to end: \<^verbatim>\<open>main\<close> of \<^verbatim>\<open>ml-service/tools/train_from_dump.py\<close> between the file an agent
  left behind and the service that fits a forest, and the comparison of what a forest is trained on with what
  it is asked to score. The tool's JSON prints a double so that it reads back as itself. \<open>None\<close> stands
  for a run that does not end.
\<close>

subsection \<open>The tool\<close>

record tool_args =
  ta_container_id :: string
  ta_window_sec :: int
  ta_min_records :: int
  ta_dry_run :: bool
  ta_verbose :: bool

datatype main_result = Exit1 | Traceback | DryRun | Trained TrainResponse

definition tool_defaults :: "string \<Rightarrow> tool_args" where
  "tool_defaults cid = \<lparr>ta_container_id = cid, ta_window_sec = 5, ta_min_records = 20, ta_dry_run = False, ta_verbose = False\<rparr>"

definition valid_windows :: "tool_args \<Rightarrow> PyRecord list list \<Rightarrow> PyRecord list list" where
  "valid_windows args windows = filter (\<lambda>w. int (length w) \<ge> ta_min_records args) windows"

text \<open>The statistics of a verbose run take the minimum of all values, which raises when there is none.\<close>

definition train_main ::
  "'f sklearn \<Rightarrow> ml_config \<Rightarrow> (string \<Rightarrow> bool) \<Rightarrow> int \<Rightarrow> bool \<Rightarrow> (rat \<Rightarrow> rat) \<Rightarrow> tool_args \<Rightarrow> bytes option \<Rightarrow> 'f MlService \<Rightarrow>
   (main_result \<times> 'f MlService) option" where
  "train_main sk cfg can now up jlog args dump s =
     (case dump of
        None \<Rightarrow> Some (Exit1, s)
      | Some f \<Rightarrow>
          (case parse_dump_file f of
             Inl _ \<Rightarrow> Some (Exit1, s)
           | Inr (header, records) \<Rightarrow>
               if records = [] then Some (Exit1, s)
               else case split_into_windows records (ta_window_sec args * 1000000) of
                   None \<Rightarrow> None
                 | Some windows \<Rightarrow>
                     let valid = valid_windows args windows in
                     if length valid < 10 \<and> \<not> ta_dry_run args then Some (Exit1, s)
                     else
                       let training_data = map (\<lambda>window. extract_features jlog window 0) valid in
                       if ta_verbose args \<and> training_data = [] then Some (Traceback, s)
                       else if ta_dry_run args then Some (DryRun, s)
                       else if \<not> up then Some (Exit1, s)
                       else case ml_train_model sk cfg can now (ta_container_id args) (map (map Fin) training_data) s of
                           (Inl _, s) \<Rightarrow> Some (Exit1, s)
                         | (Inr r, s) \<Rightarrow> Some (Trained r, s)))"

subsection \<open>Records of a dump and of a window\<close>

text \<open>What both extractors compute depends on the deltas only through the duration.\<close>

definition without_delta :: "TraceRecordDto \<Rightarrow> TraceRecordDto" where
  "without_delta r = r\<lparr>jt_deltaTsUs := 0\<rparr>"

lemma pairs_map: "pairs (map f xs) = map (map_prod f f) (pairs xs)"
  by (induction xs rule: pairs.induct) auto

lemma letter_without [simp]: "letter (without_delta r) = letter r"
  by (simp add: letter_def without_delta_def)

lemma seen_without:
  "transitions_seen (map without_delta rs) = transitions_seen rs" "outgoing_seen (map without_delta rs) = outgoing_seen rs"
  "bucket_seen (map without_delta rs) = bucket_seen rs" "class_seen (map without_delta rs) = class_seen rs"
  by (simp_all add: fun_eq_iff transitions_seen_def outgoing_seen_def bucket_seen_def class_seen_def pairs_map filter_map comp_def
      case_prod_unfold without_delta_def [of "_"] letter_without [unfolded without_delta_def])

lemma vector_without: "vector_of jlog secs (map without_delta rs) = vector_of jlog secs rs"
proof -
  have "markov_cell (map without_delta rs) = markov_cell rs" by (simp add: fun_eq_iff markov_cell_def seen_without)
  then have "cells (map without_delta rs) = cells rs" by (simp add: cells_def seen_without)
  then show ?thesis by (simp add: vector_of_def seen_without)
qed

lemma vector_secs:
  "vector_of jlog secs rs = (vector_of jlog secs' rs)[580 := f32 secs, 581 := f32 (f64 (secs / of_nat (length rs)))]"
proof -
  have len: "length (cells rs) = 576" by (simp add: cells_def length_grid)
  show ?thesis
    unfolding vector_of_def Let_def by (simp add: case_prod_unfold list_update_append len eval_nat_numeral)
qed

definition short_record :: "u64 \<Rightarrow> SyscallEvent \<Rightarrow> PyRecord" where
  "short_record start ev = \<lparr>py_delta_ts_us = int (unat (nsToUs (tsNs ev - start))), py_syscall_id = uint (syscallId ev),
     py_arg_class = uint (argClass ev), py_arg_bucket = uint (argBucket ev)\<rparr>"

lemma events_dto_short: "events_dto w = map dto_of (map (short_record (tsNs (hd w))) w)"
  by (simp add: events_dto_def dto_of_def short_record_def record_dto_def record_of_def flip: uint_nat)

lemma fields_range:
  "0 \<le> uint (x :: u16)" "uint (x :: u16) < 65536" "0 \<le> uint (b :: u8)" "uint (b :: u8) < 256"
  using unsigned_less [of x, where 'a = int] unsigned_less [of b, where 'a = int] by simp_all

lemma elapsed_us:
  assumes "start \<le> tsNs ev" "unat (tsNs ev) - unat start < 2147483648000"
  shows "unat (nsToUs (tsNs ev - start)) = (unat (tsNs ev) - unat start) div 1000"
    "unat (nsToUs (tsNs ev - start)) < 2147483648"
proof -
  show eq: "unat (nsToUs (tsNs ev - start)) = (unat (tsNs ev) - unat start) div 1000"
    using assms(1) by (simp add: nsToUs_def unat_div unat_sub)
  show "unat (nsToUs (tsNs ev - start)) < 2147483648" unfolding eq using assms(2) by (simp add: less_mult_imp_div_less)
qed

lemma short_record_range:
  assumes "start \<le> tsNs ev" "unat (tsNs ev) - unat start < 2147483648000"
  shows "agent_range (short_record start ev)"
  using elapsed_us [OF assms] fields_range by (simp add: agent_range_def short_record_def)

lemma dump_record_short:
  assumes "start \<le> tsNs ev" "unat (tsNs ev) - unat start < 2147483648000"
  shows "py_record (makeTraceRecord ev start) = short_record start ev"
proof -
  have "uint (ucast (nsToUs (tsNs ev - start)) :: u32) = int (unat (nsToUs (tsNs ev - start)))"
    using elapsed_us(2) [OF assms] unfolding unsigned_ucast_eq uint_nat by (simp add: take_bit_nat_eq_self)
  then show ?thesis by (simp add: py_record_def makeTraceRecord_def short_record_def)
qed

text \<open>The times from which the deltas of a dump are counted.\<close>

fun dump_bases :: "u64 \<Rightarrow> SyscallEvent list \<Rightarrow> u64 list" where
  "dump_bases t [] = []"
| "dump_bases t (ev # evs) = t # dump_bases (tsNs ev) evs"

lemma length_bases: "length (dump_bases t evs) = length evs"
  by (induction evs arbitrary: t) auto

lemma last_bases: "evs \<noteq> [] \<Longrightarrow> last (dump_bases t evs) = last (t # map tsNs (butlast evs))"
proof (induction evs arbitrary: t)
  case (Cons ev evs)
  then show ?case using length_bases [of "tsNs ev" evs] by (cases evs) auto
qed simp

lemma dump_short_from:
  assumes "sorted (map tsNs evs)" "list_all (\<lambda>ev. t \<le> tsNs ev \<and> unat (tsNs ev) - unat start < 2147483648000) evs"
    and "start \<le> t" "t = (if l = 0 then start else l)"
  shows "map py_record (dump_records start l evs) = map2 short_record (dump_bases t evs) evs \<and>
    list_all agent_range (map2 short_record (dump_bases t evs) evs)"
  using assms
proof (induction evs arbitrary: l t)
  case (Cons ev evs)
  have ev: "t \<le> tsNs ev" "unat (tsNs ev) - unat t < 2147483648000" using Cons.prems(2,3) by (auto simp: word_le_nat_alt)
  have "start \<le> tsNs ev" using Cons.prems(3) ev(1) by (rule order.trans)
  then have "tsNs ev = (if tsNs ev = 0 then start else tsNs ev)" by (auto simp: word_le_nat_alt unat_eq_0)
  moreover have "sorted (map tsNs evs)" "list_all (\<lambda>e. tsNs ev \<le> tsNs e \<and> unat (tsNs e) - unat start < 2147483648000) evs"
    using Cons.prems(1,2) by (auto simp: list_all_iff)
  ultimately have "map py_record (dump_records start (tsNs ev) evs) = map2 short_record (dump_bases (tsNs ev) evs) evs \<and>
      list_all agent_range (map2 short_record (dump_bases (tsNs ev) evs) evs)"
    using \<open>start \<le> tsNs ev\<close> by (intro Cons.IH)
  moreover have "dump_records start l (ev # evs) = makeTraceRecord ev t # dump_records start (tsNs ev) evs"
    using Cons.prems(4) by simp
  ultimately show ?case
    using short_record_range [OF ev] dump_record_short [OF ev] by simp
qed simp

lemma last_base_before:
  assumes "evs \<noteq> []" "sorted (map tsNs evs)"
    and "\<forall>ev \<in> set evs. start \<le> tsNs ev \<and> unat (tsNs ev) - unat start < 2147483648000"
  shows "last (start # map tsNs (butlast evs)) \<le> tsNs (last evs)"
    "unat (tsNs (last evs)) - unat (last (start # map tsNs (butlast evs))) < 2147483648000"
proof -
  let ?b = "last (start # map tsNs (butlast evs))"
  have "sorted (map tsNs (butlast evs @ [last evs]))" using assms(1,2) by simp
  then have before: "tsNs ev \<le> tsNs (last evs)" if "ev \<in> set (butlast evs)" for ev
    using that unfolding map_append sorted_append by simp
  have "?b = start \<or> (\<exists>ev \<in> set (butlast evs). ?b = tsNs ev)"
    using last_in_set [of "butlast evs"] by (cases "butlast evs = []") (auto simp: last_map)
  then show "?b \<le> tsNs (last evs)" using before assms(1,3) last_in_set by metis
  have "start \<le> ?b" using \<open>?b = start \<or> _\<close> assms(3) by (auto dest: in_set_butlastD)
  then show "unat (tsNs (last evs)) - unat ?b < 2147483648000"
    using assms(1,3) last_in_set [OF assms(1)] by (fastforce simp: word_le_nat_alt)
qed

lemma without_short: "without_delta (dto_of (short_record t ev)) = without_delta (dto_of (short_record t' ev))"
  by (simp add: without_delta_def dto_of_def short_record_def)

lemma map2_without:
  "length ts = length evs \<Longrightarrow>
   map without_delta (map dto_of (map2 short_record ts evs)) = map without_delta (map dto_of (map (short_record t) evs))"
proof (induction ts evs rule: list_induct2)
  case (Cons b bs ev evs)
  with without_short [of b ev t] show ?case by simp
qed simp

subsection \<open>Properties\<close>

lemma last_map2: "length xs = length ys \<Longrightarrow> ys \<noteq> [] \<Longrightarrow> last (map2 f xs ys) = f (last xs) (last ys)"
  by (induction xs ys rule: list_induct2) (auto simp: neq_Nil_conv)



lemma length_pad: "length (pad vec) = 594"
  by (simp add: pad_def)

lemma length_features: "length (extract_features jlog w t) = 594"
  by (simp add: extract_features_def py_feature_values_def length_pad Let_def case_prod_unfold)

text \<open>A request with at least ten rows of the right length is accepted whenever the forest can be fitted.\<close>

lemma training_accepted:
  fixes sk :: "'f sklearn"
  assumes "validate_training_data cfg vs" "\<And>params X. 10 \<le> length X \<Longrightarrow> \<exists>forest. sk_fit sk params X = Inr forest"
  shows "\<exists>r s1. ml_train_model sk cfg can now cid vs s = (Inr r, s1) \<and> te_container_id r = cid \<and> te_sample_count r = length vs \<and>
    te_version r = (case known s cid of None \<Rightarrow> 1 | Some m \<Rightarrow> if_version m + 1)"
proof -
  define m0 where "m0 = (case known s cid of None \<Rightarrow> IForest_new cfg cid | Some m \<Rightarrow> m)"
  have rect: "rectangular vs" "10 \<le> length vs"
    using assms(1) by (cases vs; auto simp: validate_training_data_def rectangular_def list_all_iff)+
  obtain forest where fit: "sk_fit sk (if_n_estimators m0, if_contamination m0, min (if_max_samples m0) (int (length vs)), if_random_state m0)
      (map clean_row vs) = Inr forest" using assms(2) [of "map clean_row vs"] rect(2) by fastforce
  obtain m where tr: "if_train sk now vs m0 = (Inr (if_version m0 + 1, now), m)"
    using fit rect by (simp add: if_train_def Let_def)
  have "if_version m0 + 1 = (case known s cid of None \<Rightarrow> 1 | Some m \<Rightarrow> if_version m + 1)"
    by (simp add: m0_def IForest_new_def split: option.split)
  then show ?thesis
    using assms(1) tr by (simp add: ml_train_model_def reg_train_def get_or_create_known m0_def [symmetric] get_model_def Let_def)
qed


definition ten_events :: "SyscallEvent list" where  \<comment> \<open>one per second\<close>
  "ten_events = [sample_event 2000000000, sample_event 3000000000, sample_event 4000000000, sample_event 5000000000, sample_event 6000000000,
     sample_event 7000000000, sample_event 8000000000, sample_event 9000000000, sample_event 10000000000, sample_event 11000000000]"


end
