(* ===== verification/Server_Views.thy ===== *)
theory Server_Views
  imports Server_Ingest
begin

text \<open>
  What the user interface sees and the remaining requests it can make: \<^verbatim>\<open>ContainerViewService.java\<close>, the controllers
  for scores, events and policies, the switch for the language model (\<^verbatim>\<open>TriageToggleService\<close>) and the
  demonstration triage of \<^verbatim>\<open>TriageTestController.java\<close>. A JSON body is a list of members; \<open>str\<close> is \<^verbatim>\<open>String.valueOf\<close>,
  and null members are not modelled.
\<close>

subsection \<open>Container views\<close>

primrec TriageStatus_name :: "TriageStatus \<Rightarrow> string" where
  "TriageStatus_name TPENDING = ''PENDING''"
| "TriageStatus_name SAFE = ''SAFE''"
| "TriageStatus_name THREAT = ''THREAT''"
| "TriageStatus_name TUNKNOWN = ''UNKNOWN''"

primrec PolicyStatus_name :: "PolicyStatus \<Rightarrow> string" where
  "PolicyStatus_name PENDING = ''PENDING''"
| "PolicyStatus_name APPLIED = ''APPLIED''"
| "PolicyStatus_name FAILED = ''FAILED''"

record UiContainerView =
  uv_id :: string
  uv_namespace :: string
  uv_node :: string
  uv_status :: string
  uv_agentConnected :: bool
  uv_modelStatus :: ModelStatus
  uv_verdict :: "string option"
  uv_score :: "rat option"
  uv_explanation :: "string option"
  uv_policyStatus :: "string option"
  uv_policyType :: "string option"

text \<open>Asking for the model can store what the detection service reports, so the registry is passed along.\<close>

definition view_map :: "detection_port \<Rightarrow> int \<Rightarrow> Server \<Rightarrow> Container \<Rightarrow> registry \<Rightarrow> UiContainerView \<times> registry" where
  "view_map det now s c versions =
     (let (meta, versions) = getMeta det now versions (ct_id c);
          w = latestWindow s (ct_id c);
          pol = latestPolicy s (ct_id c);
          tri = (case w of None \<Rightarrow> None | Some w \<Rightarrow> latestForWindow s (aw_id w))
      in (\<lparr>uv_id = ct_id c, uv_namespace = ct_namespace c, uv_node = ct_node c, uv_status = ct_status c,
           uv_agentConnected = ct_agentConnected c, uv_modelStatus = mm_status meta,
           uv_verdict = map_option (\<lambda>w. TriageStatus_name (aw_triageStatus w)) w, uv_score = map_option aw_mlScore w,
           uv_explanation = Option.bind tri tg_explanation,
           uv_policyStatus = map_option (\<lambda>p. PolicyStatus_name (po_status p)) pol,
           uv_policyType = map_option (\<lambda>p. PolicyType_name (po_type p)) pol\<rparr>, versions))"

fun view_loop :: "detection_port \<Rightarrow> int \<Rightarrow> Server \<Rightarrow> (string \<times> Container) list \<Rightarrow> registry \<Rightarrow> UiContainerView list \<times> registry" where
  "view_loop det now s [] versions = ([], versions)"
| "view_loop det now s ((k, c) # cs) versions =
     (let (v, versions) = view_map det now s c versions; (vs, versions) = view_loop det now s cs versions in (v # vs, versions))"

definition listContainers :: "detection_port \<Rightarrow> int \<Rightarrow> Server \<Rightarrow> UiContainerView list \<times> Server" where
  "listContainers det now s =
     (let (vs, versions) = view_loop det now s (sv_containers s) (tr_versions (sv_training s))
      in (vs, s\<lparr>sv_training := (sv_training s)\<lparr>tr_versions := versions\<rparr>\<rparr>))"

subsection \<open>Scores, policies, events\<close>

definition scores :: "Server \<Rightarrow> string \<Rightarrow> i32 \<Rightarrow> (int \<times> rat \<times> bool) list" where
  "scores s cid limit =
     map (\<lambda>w. (aw_windowEnd w, aw_mlScore w, aw_anomalous w)) (findWindowsByContainer s cid (max 1 (min (sint limit) 500)))"

definition findPoliciesByContainer :: "Server \<Rightarrow> string \<Rightarrow> Policy list" where
  "findPoliciesByContainer s cid = filter (\<lambda>p. po_containerId p = Some cid) (sv_policies s)"

text \<open>\<^verbatim>\<open>subList(max(size - limit, 0), size)\<close> with the \<open>int\<close> subtraction of Java.\<close>

definition last_elements :: "'a list \<Rightarrow> i32 \<Rightarrow> java_exn + 'a list" where
  "last_elements xs limit =
     (let start = max (sint (of_nat (length xs) - limit)) 0 in
      if start > int (length xs) then Inl IndexOutOfBounds else Inr (drop (nat start) xs))"

definition events_latest :: "Server \<Rightarrow> i32 \<Rightarrow> java_exn + LiveEvent list" where
  "events_latest s limit = last_elements (sv_events s) limit"

definition events_byContainer :: "Server \<Rightarrow> string \<Rightarrow> i32 \<Rightarrow> java_exn + LiveEvent list" where
  "events_byContainer s cid limit = last_elements (filter (\<lambda>e. le_containerId e = Some cid) (sv_events s)) limit"

definition updatePolicyStatus :: "string \<Rightarrow> string option \<Rightarrow> Server \<Rightarrow> (string \<times> string) list \<times> Server" where
  "updatePolicyStatus policyId status s =
     ([(''policyId'', policyId), (''status'', case status of None \<Rightarrow> ''APPLIED'' | Some st \<Rightarrow> st),
       (''message'', ''Policy status updated'')], s)"

subsection \<open>The switch and the demonstration triage\<close>

text \<open>Integers are read as \<^verbatim>\<open>Integer\<close>, \<^verbatim>\<open>Long\<close> or \<^verbatim>\<open>BigInteger\<close>, whose \<^verbatim>\<open>intValue\<close> keeps the low 32 bits; the \<^verbatim>\<open>intValue\<close> of a
  \<^verbatim>\<open>Double\<close> truncates towards zero.\<close>

datatype jobject = OBool bool | OInt int | ODbl rat | OStr string | OList "jobject list"

definition setTriageEnabled :: "(jobject \<Rightarrow> string) \<Rightarrow> (string \<times> jobject) list \<Rightarrow> bool" where  \<comment> \<open>the new value of the switch\<close>
  "setTriageEnabled str body =
     (case map_of body ''enableLlm'' of
        None \<Rightarrow> False
      | Some (OBool b) \<Rightarrow> b
      | Some x \<Rightarrow> equalsIgnoreCase ''true'' (Some (str x)))"

definition get2 :: "(string \<times> jobject) list \<Rightarrow> string \<Rightarrow> string \<Rightarrow> jobject \<Rightarrow> jobject" where
  "get2 body k k' dflt = (case map_of body k of Some x \<Rightarrow> x | None \<Rightarrow> (case map_of body k' of Some x \<Rightarrow> x | None \<Rightarrow> dflt))"

definition as_String :: "jobject \<Rightarrow> java_exn + string" where
  "as_String x = (case x of OStr s \<Rightarrow> Inr s | _ \<Rightarrow> Inl ClassCastException)"

definition as_Number :: "jobject \<Rightarrow> java_exn + rat" where
  "as_Number x = (case x of OInt n \<Rightarrow> Inr (f64 (of_int n)) | ODbl q \<Rightarrow> Inr q | _ \<Rightarrow> Inl ClassCastException)"

definition trim :: "string \<Rightarrow> string" where
  "trim s = rev (dropWhile (\<lambda>c. of_char c \<le> (32 :: nat)) (rev (dropWhile (\<lambda>c. of_char c \<le> (32 :: nat)) s)))"

definition toBool :: "(jobject \<Rightarrow> string) \<Rightarrow> jobject \<Rightarrow> bool" where
  "toBool str v = (case v of
     OBool b \<Rightarrow> b
   | OInt n \<Rightarrow> (of_int n :: i32) \<noteq> 0
   | ODbl q \<Rightarrow> (if 0 \<le> q then \<lfloor>q\<rfloor> else \<lceil>q\<rceil>) \<noteq> 0
   | _ \<Rightarrow> equalsIgnoreCase ''true'' (Some (trim (str v))))"

fun split_commas :: "string \<Rightarrow> string list" where
  "split_commas [] = [[]]"
| "split_commas (c # s) = (if c = CHR '','' then [] # split_commas s
     else (case split_commas s of [] \<Rightarrow> [[c]] | w # ws \<Rightarrow> (c # w) # ws))"

definition toStringList :: "(jobject \<Rightarrow> string) \<Rightarrow> jobject \<Rightarrow> string list" where
  "toStringList str v = (case v of
     OList xs \<Rightarrow> map str xs
   | _ \<Rightarrow> let s = trim (str v) in if s = [] then [] else filter (\<lambda>x. x \<noteq> []) (map trim (split_commas s)))"

text \<open>\<open>uuid\<close> is the identifier drawn, \<open>n1\<close> to \<open>n4\<close> the readings of the clock in milliseconds.\<close>

definition triage_test ::
  "(jobject \<Rightarrow> string) \<Rightarrow> (AnomalyWindow \<Rightarrow> ChangeContext \<Rightarrow> java_exn + TriageResult) \<Rightarrow> string \<Rightarrow> int \<Rightarrow> int \<Rightarrow> int \<Rightarrow> int \<Rightarrow>
   (string \<times> jobject) list \<Rightarrow> Server \<Rightarrow> (java_exn + TriageResult) \<times> Server" where
  "triage_test str ask uuid n1 n2 n3 n4 body s =
     andThen (as_String (get2 body ''container_id'' ''containerId'' (OStr ''demo'')), s) (\<lambda>cid s.
     andThen (as_Number (get2 body ''ml_score'' ''mlScore'' (ODbl (f64 (9 / 10)))), s) (\<lambda>mlScore s.
     andThen (as_String (get2 body ''syscall_summary'' ''syscall_summary'' (OStr ''(none)'')), s) (\<lambda>syscallSummary s.
     andThen (as_String (get2 body ''diff_summary'' ''diff_summary'' (OStr '''')), s) (\<lambda>diffSummary s.
       let anomalous = toBool str (get2 body ''is_anomalous'' ''anomalous'' (OBool True));
           changedFiles = toStringList str (get2 body ''changed_files'' ''changed_files'' (OList []));
           window = \<lparr>aw_id = uuid, aw_containerId = cid, aw_windowStart = n1 - 5000, aw_windowEnd = n2, aw_mlScore = mlScore,
             aw_anomalous = anomalous, aw_triageStatus = TPENDING, aw_triageResultId = None\<rparr>;
           s = saveWindow window s
       in andThen (as_String (get2 body ''commit_id'' ''commit_id'' (OStr ''demo'')), s) (\<lambda>commit s.
          andThen (as_String (get2 body ''repo_url'' ''repo_url'' (OStr ''demo'')), s) (\<lambda>repo s.
          let ctx = \<lparr>cc_containerId = Some cid, cc_commitId = commit, cc_repoUrl = repo, cc_changedFiles = changedFiles,
                cc_diffSummary = Some (diffSummary @ [lf, lf] @ ''SYSCALL_WINDOW_SUMMARY:'' @ [lf] @ syscallSummary), cc_deployedAt = Some n3\<rparr>
          in andThen (ask window ctx, s) (\<lambda>result s.
          let s = saveWindow (triaged result window) (saveTriage result s)
          in (case (tg_verdict result, tg_explanation result) of
                (Some verdict, Some explanation) \<Rightarrow>
                  (Inr result, publish \<lparr>le_type = ''TRIAGE_RESULT'', le_containerId = Some cid, le_at = n4,
                     le_payload = [(''verdict'', DText verdict), (''risk_score'', DNumber (tg_riskScore result)),
                       (''explanation'', DText explanation), (''containerId'', DText cid)]\<rparr> s)
              | _ \<Rightarrow> (Inl NullPointerException, s)))))))))"

subsection \<open>Laws\<close>

text \<open>The demonstration keeps what windows keep: it is made of the same steps.\<close>

context ingest_invariant
begin

lemma keeps_triage_test:
  assumes "I s"
  shows "I (snd (triage_test str ask uuid n1 n2 n3 n4 body s))"
  using assms
  by (auto simp: triage_test_def andThen_def Let_def intro!: keeps_publish keeps_triaged keeps_pending split: sum.split option.split)

end

lemma triage_test_consistent: "server_inv s \<Longrightarrow> server_inv (snd (triage_test str ask uuid n1 n2 n3 n4 body s))"
  by (rule consistent.keeps_triage_test)

text \<open>It neither trains nor deploys, and sends nothing to an agent, whatever the verdict.\<close>

lemma triage_test_sends_nothing: "sv_sent (snd (triage_test str ask uuid n1 n2 n3 n4 body s)) = sv_sent s"
  by (simp add: triage_test_def andThen_def Let_def repo_defs split: sum.split option.split)

text \<open>The last \<open>limit\<close> elements, all of them when there are fewer; a negative limit is an error.\<close>

lemma last_elements_cases:
  assumes "length xs < 2147483648"
  shows "0 \<le> sint limit \<Longrightarrow> last_elements xs limit = Inr (drop (length xs - nat (sint limit)) xs)"
    "sint limit < 0 \<Longrightarrow> int (length xs) - sint limit < 2147483648 \<Longrightarrow> last_elements xs limit = Inl IndexOutOfBounds"
proof -
  have eq: "of_nat (length xs) - limit = (of_int (int (length xs) - sint limit) :: i32)" by simp
  have sint: "sint (of_nat (length xs) - limit) = int (length xs) - sint limit"
    if "- 2147483648 \<le> int (length xs) - sint limit" "int (length xs) - sint limit < 2147483648"
    unfolding eq using that by (simp add: signed_of_int signed_take_bit_int_eq_self del: of_int_diff)
  have "sint limit < 2147483648" using sint_lt [of limit] by simp
  then show "0 \<le> sint limit \<Longrightarrow> last_elements xs limit = Inr (drop (length xs - nat (sint limit)) xs)"
    using assms sint by (simp add: last_elements_def Let_def nat_diff_distrib max_def)
  show "sint limit < 0 \<Longrightarrow> int (length xs) - sint limit < 2147483648 \<Longrightarrow> last_elements xs limit = Inl IndexOutOfBounds"
    using sint by (simp add: last_elements_def Let_def)
qed

lemma view_loop_ids: "map uv_id (fst (view_loop det now s cs versions)) = map (\<lambda>(k, c). ct_id c) cs"
  by (induction cs arbitrary: versions) (auto simp: view_map_def Let_def case_prod_unfold)

lemma view_loop_entry:
  "v \<in> set (fst (view_loop det now s cs versions)) \<Longrightarrow>
   uv_verdict v = map_option (\<lambda>w. TriageStatus_name (aw_triageStatus w)) (latestWindow s (uv_id v)) \<and>
   uv_score v = map_option aw_mlScore (latestWindow s (uv_id v)) \<and>
   uv_policyStatus v = map_option (\<lambda>p. PolicyStatus_name (po_status p)) (latestPolicy s (uv_id v))"
  by (induction cs arbitrary: versions) (auto simp: view_map_def Let_def case_prod_unfold)

text \<open>In a consistent server the list has one view per container, and every view shows the verdict and score of
  the container's latest window and the status of its latest policy.\<close>

theorem views_current:
  assumes "server_inv s"
  shows "distinct (map uv_id (fst (listContainers det now s))) \<and>
    set (map uv_id (fst (listContainers det now s))) = set (map fst (sv_containers s)) \<and>
    (\<forall>v \<in> set (fst (listContainers det now s)).
       uv_verdict v = map_option (\<lambda>w. TriageStatus_name (aw_triageStatus w)) (latestWindow s (uv_id v)) \<and>
       uv_score v = map_option aw_mlScore (latestWindow s (uv_id v)) \<and>
       uv_policyStatus v = map_option (\<lambda>p. PolicyStatus_name (po_status p)) (latestPolicy s (uv_id v)))"
proof -
  have "map uv_id (fst (listContainers det now s)) = map (\<lambda>(k, c). ct_id c) (sv_containers s)"
    by (simp add: listContainers_def case_prod_unfold Let_def view_loop_ids)
  also have "\<dots> = map fst (sv_containers s)" using assms by (auto simp: server_inv_def list_all_iff)
  finally show ?thesis
    using assms view_loop_entry by (auto simp: server_inv_def listContainers_def case_prod_unfold Let_def)
qed

end
