(* ===== verification/Server_Triage.thy ===== *)
theory Server_Triage
  imports Server_Views
begin

text \<open>
  The conversation with the language model in \<^verbatim>\<open>GeminiTriageAdapter.java\<close>: the prompt, the two addresses that are
  tried, and what is made of the reply, down to the patterns that save a verdict from a text that is not JSON. What Jackson
  does is the record \<open>jackson\<close> over any type of nodes; the HTTP call, the printing of instants and
  numbers and the messages of exceptions are parameters as well. Texts are ASCII.
\<close>

subsection \<open>Parameters\<close>

record 'n jackson =
  jk_readTree :: "string option \<Rightarrow> java_exn + 'n"
  jk_path :: "'n \<Rightarrow> string \<Rightarrow> 'n"
  jk_first :: "'n \<Rightarrow> 'n option"  \<comment> \<open>\<^verbatim>\<open>get(0)\<close>, null when there is no such element\<close>
  jk_asText :: "'n \<Rightarrow> string"
  jk_asText_or :: "string \<Rightarrow> 'n \<Rightarrow> string"
  jk_asDouble_or :: "rat \<Rightarrow> 'n \<Rightarrow> rat"
  jk_toString :: "'n \<Rightarrow> string"

record gemini_request =
  gq_text :: string
  gq_temperature :: rat
  gq_maxOutputTokens :: int

record 'n gemini =
  gm_json :: "'n jackson"
  gm_post :: "string \<Rightarrow> gemini_request \<Rightarrow> java_exn + string option"
  gm_instant :: "int \<Rightarrow> string"
  gm_fmt3 :: "rat \<Rightarrow> string"  \<comment> \<open>\<^verbatim>\<open>String.format("%.3f", x)\<close>\<close>
  gm_message :: "java_exn \<Rightarrow> string"

subsection \<open>The request\<close>

definition GEMINI_URL_TEMPLATE_V1BETA :: "string \<Rightarrow> string \<Rightarrow> string" where
  "GEMINI_URL_TEMPLATE_V1BETA model key =
     ''https://generativelanguage.googleapis.com/v1beta/models/'' @ model @ '':generateContent?key='' @ key"

definition GEMINI_URL_TEMPLATE_V1 :: "string \<Rightarrow> string \<Rightarrow> string" where
  "GEMINI_URL_TEMPLATE_V1 model key =
     ''https://generativelanguage.googleapis.com/v1/models/'' @ model @ '':generateContent?key='' @ key"

definition buildPrompt :: "'n gemini \<Rightarrow> AnomalyWindow \<Rightarrow> ChangeContext option \<Rightarrow> string" where
  "buildPrompt g window changeContext =
     ''You are a security analyst triaging anomalous syscall behavior in a container.'' @ [lf, lf] @
     ''ANOMALY WINDOW:'' @ [lf] @
     ''- Container: '' @ aw_containerId window @ [lf] @
     ''- Time: '' @ gm_instant g (aw_windowStart window) @ '' to '' @ gm_instant g (aw_windowEnd window) @ [lf] @
     ''- ML Anomaly Score: '' @ gm_fmt3 g (aw_mlScore window) @ [lf] @
     ''- Anomalous: '' @ (if aw_anomalous window then ''true'' else ''false'') @ [lf, lf] @
     (case changeContext of
        Some c \<Rightarrow>
          ''RECENT CODE CHANGES:'' @ [lf] @
          ''- Commit: '' @ cc_commitId c @ [lf] @
          ''- Repository: '' @ cc_repoUrl c @ [lf] @
          ''- Changed Files: '' @ joining '', '' (cc_changedFiles c) @ [lf] @
          ''- Summary: '' @ (case cc_diffSummary c of None \<Rightarrow> ''null'' | Some d \<Rightarrow> d) @ [lf] @
          ''- Deployed At: '' @ (case cc_deployedAt c of None \<Rightarrow> ''null'' | Some t \<Rightarrow> gm_instant g t) @ [lf, lf]
      | None \<Rightarrow> ''RECENT CODE CHANGES: None available'' @ [lf, lf]) @
     ''TASK:'' @ [lf] @
     ''- Decide if this is a THREAT or SAFE change.'' @ [lf] @
     ''- If THREAT, propose a Seccomp policy that blocks the suspicious behavior.'' @ [lf] @ [lf] @
     ''Respond ONLY with a single-line JSON (no markdown, no code fences): '' @
     ''{'' @ quoted ''verdict'' @ '':'' @ quoted ''THREAT|SAFE'' @ '','' @ quoted ''risk_score'' @ '':0.0-1.0,'' @
     quoted ''explanation'' @ '':'' @ quoted ''...'' @ ''}'' @ [lf] @
     ''Keep the response under 200 tokens.'' @ [lf]"

subsection \<open>The reply\<close>

text \<open>\<open>(?:json)?\<close> is greedy, so at each place the pattern with it is tried before the one without.\<close>

definition fence :: string where "fence = [CHR 0x60, CHR 0x60, CHR 0x60]"

definition fence_tail :: pattern where
  "fence_tail = [Rep False space_cls 0 None True, Rep True (CC True []) 0 None False] @ lits fence"

definition fence_match :: "string \<Rightarrow> string list option" where
  "fence_match s = first_some (\<lambda>tag. rmatch (lits (fence @ tag) @ fence_tail) s) [''json'', '''']"

fun fence_find :: "string \<Rightarrow> string list option" where
  "fence_find [] = fence_match []"
| "fence_find (c # cs) = (case fence_match (c # cs) of None \<Rightarrow> fence_find cs | Some gs \<Rightarrow> Some gs)"

definition extractJson :: "string \<Rightarrow> string" where
  "extractJson txt = (case fence_find txt of Some (body # _) \<Rightarrow> trim body | _ \<Rightarrow> trim txt)"

definition nocase_cls :: "char \<Rightarrow> cclass" where  \<comment> \<open>a letter of a pattern that ignores case\<close>
  "nocase_cls c = CC False [(c, c), (ascii_upper c, ascii_upper c)]"

definition word_cls :: cclass where  \<comment> \<open>\<^verbatim>\<open>\w\<close>\<close>
  "word_cls = CC False [(CHR ''a'', CHR ''z''), (CHR ''A'', CHR ''Z''), (CHR ''0'', CHR ''9''), (CHR ''_'', CHR ''_'')]"

definition member_items :: "pattern \<Rightarrow> pattern" where  \<comment> \<open>a quoted key and the colon after it\<close>
  "member_items key = [One (chr_cls (CHR 0x22))] @ key @
     [One (chr_cls (CHR 0x22)), Rep False space_cls 0 None True, One (chr_cls (CHR '':'')), Rep False space_cls 0 None True]"

definition verdict_pattern :: pattern where
  "verdict_pattern = member_items (map (\<lambda>c. One (nocase_cls c)) ''verdict'') @
     [One (chr_cls (CHR 0x22)), Rep True word_cls 1 None True, One (chr_cls (CHR 0x22))]"

definition risk_pattern :: pattern where
  "risk_pattern = member_items (lits ''risk_score'') @
     [Rep True (CC False [(CHR ''0'', CHR ''9''), (CHR ''.'', CHR ''.'')]) 1 None True]"

definition explanation_pattern :: pattern where
  "explanation_pattern = member_items (lits ''explanation'') @
     [One (chr_cls (CHR 0x22)), Rep True not_quote_cls 0 None True, One (chr_cls (CHR 0x22))]"

text \<open>\<^verbatim>\<open>Double.parseDouble\<close> on a text of digits and dots, of a number below the largest double.\<close>

definition parseDouble :: "string \<Rightarrow> rat option" where
  "parseDouble s =
     (let whole = takeWhile is_digit s; frac = drop 1 (dropWhile is_digit s)
      in if whole @ frac = [] \<or> \<not> list_all is_digit frac then None
         else Some (f64 (of_nat (read_nat (whole @ frac)) / 10 ^ length frac)))"

definition raw_text :: "'n jackson \<Rightarrow> string option \<Rightarrow> java_exn + string" where
  "raw_text jk response =
     (case jk_readTree jk response of
        Inl ex \<Rightarrow> Inl ex
      | Inr tree \<Rightarrow>
          (case jk_first jk (jk_path jk tree ''candidates'') of
             None \<Rightarrow> Inl NullPointerException
           | Some candidate \<Rightarrow>
               (case jk_first jk (jk_path jk (jk_path jk candidate ''content'') ''parts'') of
                  None \<Rightarrow> Inl NullPointerException
                | Some part \<Rightarrow> Inr (jk_asText jk (jk_path jk part ''text'')))))"

definition salvaged :: "string \<Rightarrow> string \<times> rat \<times> string" where  \<comment> \<open>verdict, risk and explanation\<close>
  "salvaged rawText =
     ((case regex_search verdict_pattern rawText of Some (v # _) \<Rightarrow> map ascii_upper v | _ \<Rightarrow> ''UNKNOWN''),
      (case regex_search risk_pattern rawText of
         Some (n # _) \<Rightarrow> (case parseDouble n of Some risk \<Rightarrow> risk | None \<Rightarrow> f64 (7 / 10))
       | _ \<Rightarrow> f64 (7 / 10)),
      (case regex_search explanation_pattern rawText of Some (x # _) \<Rightarrow> x | _ \<Rightarrow> rawText))"

definition parseGeminiResponse :: "'n gemini \<Rightarrow> string \<Rightarrow> AnomalyWindow \<Rightarrow> string option \<Rightarrow> TriageResult" where
  "parseGeminiResponse g uuid window response =
     (let jk = gm_json g;
          result = (\<lambda>riskScore verdict explanation raw.
            \<lparr>tg_id = uuid, tg_containerId = Some (aw_containerId window), tg_windowId = aw_id window, tg_riskScore = riskScore,
             tg_verdict = Some verdict, tg_explanation = Some explanation, tg_llmResponseRaw = raw\<rparr>)
      in case raw_text jk response of
           Inl ex \<Rightarrow> result (f64 (7 / 10)) ''UNKNOWN'' (''Failed to parse LLM response: '' @ gm_message g ex) response
         | Inr rawText \<Rightarrow>
             (case jk_readTree jk (Some (extractJson rawText)) of
                Inr parsed \<Rightarrow>
                  result (jk_asDouble_or jk (1 / 2) (jk_path jk parsed ''risk_score''))
                    (map ascii_upper (jk_asText_or jk ''UNKNOWN'' (jk_path jk parsed ''verdict'')))
                    (jk_asText_or jk ''No explanation provided.'' (jk_path jk parsed ''explanation''))
                    (Some (jk_toString jk parsed))
              | Inl ex \<Rightarrow>
                  (let (verdict, risk, explanation) = salvaged rawText in result risk verdict explanation (Some rawText))))"

definition triageWithGemini ::
  "'n gemini \<Rightarrow> string \<Rightarrow> string \<Rightarrow> string \<Rightarrow> AnomalyWindow \<Rightarrow> ChangeContext option \<Rightarrow> java_exn + TriageResult" where
  "triageWithGemini g uuid model apiKey window changeContext =
     (let request = \<lparr>gq_text = buildPrompt g window changeContext, gq_temperature = f64 (1 / 5), gq_maxOutputTokens = 256\<rparr>;
          response = (case gm_post g (GEMINI_URL_TEMPLATE_V1BETA model apiKey) request of
            Inr r \<Rightarrow> Inr r
          | Inl _ \<Rightarrow> gm_post g (GEMINI_URL_TEMPLATE_V1 model apiKey) request)
      in case response of Inl ex \<Rightarrow> Inl ex | Inr r \<Rightarrow> Inr (parseGeminiResponse g uuid window r))"

text \<open>The port the endpoints use, with an API key.\<close>

definition gemini_port ::
  "(rat \<Rightarrow> string) \<Rightarrow> string \<Rightarrow> 'n gemini \<Rightarrow> string \<Rightarrow> string \<Rightarrow> bool \<Rightarrow> AnomalyWindow \<Rightarrow> ChangeContext \<Rightarrow> java_exn + TriageResult" where
  "gemini_port fmt uuid g model key enabled window changeContext =
     Inr (gemini_triage fmt uuid (triageWithGemini g uuid model key) enabled (Some key) window (Some changeContext))"

subsection \<open>Fences\<close>

lemma first_some_upt:
  "n < k \<Longrightarrow> f n = Some y \<Longrightarrow> (\<And>m. m < n \<Longrightarrow> f m = None) \<Longrightarrow> first_some f [0..<k] = Some y"
proof -
  assume n: "n < k" "f n = Some y" "\<And>m. m < n \<Longrightarrow> f m = None"
  have app: "first_some f (xs @ ys) = first_some f ys" if "\<And>x. x \<in> set xs \<Longrightarrow> f x = None" for xs ys
    using that by (induction xs) auto
  have "[0..<k] = [0..<n] @ n # [Suc n..<k]" using n(1) upt_add_eq_append [of 0 n "k - n"] by (simp add: upt_conv_Cons)
  with n(2,3) app [of "[0..<n]"] show ?thesis by simp
qed

lemma rmatch_up_to_fence:
  assumes "CHR 0x60 \<notin> set b"
  shows "rmatch (Rep True (CC True []) 0 None False # lits fence) (b @ fence @ r) = Some [b]"
proof -
  let ?s = "b @ fence @ r"
  let ?f = "\<lambda>n. map_option (\<lambda>gs. take n ?s # gs) (rmatch (lits fence) (drop n ?s))"
  have all: "takeWhile (cmatch (CC True [])) ?s = ?s" by (simp add: cmatch.simps)
  have "\<not> prefix fence (drop m ?s)" if "m < length b" for m
  proof -
    have "drop m ?s = b ! m # drop (Suc m) b @ fence @ r" using that by (simp add: Cons_nth_drop_Suc [symmetric])
    moreover have "b ! m \<noteq> CHR 0x60" using assms that by (metis nth_mem)
    ultimately show ?thesis by (auto simp: fence_def)
  qed
  then have "first_some ?f [0..<Suc (length ?s)] = Some [b]"
    by (intro first_some_upt [of "length b"]) (simp_all add: rmatch_lits_all)
  then show ?thesis unfolding rmatch.simps(3) rep_counts_def Let_def all by simp
qed

lemma rmatch_tail:
  assumes "CHR 0x60 \<notin> set b"
  shows "rmatch fence_tail (b @ fence @ r) = Some [dropWhile (cmatch space_cls) b]"
proof -
  let ?k = "length (takeWhile (cmatch space_cls) b)" and ?p = "Rep True (CC True []) 0 None False # lits fence"
  have "\<not> cmatch space_cls (CHR 0x60)" by (simp add: cmatch_space)
  then have k: "takeWhile (cmatch space_cls) (b @ fence @ r) = takeWhile (cmatch space_cls) b"
    by (induction b) (simp_all add: fence_def)
  have "rep_counts space_cls 0 None True (b @ fence @ r) = ?k # rev [0..<?k]" by (simp add: rep_counts_def k Let_def)
  moreover have "CHR 0x60 \<notin> set (dropWhile (cmatch space_cls) b)" using assms by (auto dest: set_dropWhileD)
  then have "rmatch ?p (drop ?k (b @ fence @ r)) = Some [dropWhile (cmatch space_cls) b]"
    using rmatch_up_to_fence [of "dropWhile (cmatch space_cls) b" r]
    by (simp add: dropWhile_eq_drop length_takeWhile_le)
  ultimately show ?thesis by (simp add: fence_tail_def rmatch.simps(3))
qed

lemma fence_match_elsewhere: "\<not> prefix fence s \<Longrightarrow> fence_match s = None"
proof -
  assume "\<not> prefix fence s"
  then have "\<not> prefix (fence @ tag) s" for tag by (meson append_prefixD)
  then show ?thesis by (simp add: fence_match_def rmatch_lits)
qed

lemma fence_find_skip: "CHR 0x60 \<notin> set w \<Longrightarrow> fence_find (w @ s) = fence_find s"
proof (induction w)
  case (Cons c w)
  then have "\<not> prefix fence (c # w @ s)" by (auto simp: fence_def)
  with Cons fence_match_elsewhere show ?case by simp
qed simp

lemma trim_spaces: "trim (dropWhile (cmatch space_cls) b) = trim b"
proof -
  have "of_char c \<le> (32 :: nat)" if "cmatch space_cls c" for c using that by (auto simp: cmatch_space)
  then have "dropWhile (\<lambda>c. of_char c \<le> (32 :: nat)) (dropWhile (cmatch space_cls) b) = dropWhile (\<lambda>c. of_char c \<le> (32 :: nat)) b"
    by (induction b) auto
  then show ?thesis by (simp add: trim_def)
qed

text \<open>The body of the first code block, tagged or not, or the whole text.\<close>

lemma fence_found:
  assumes "CHR 0x60 \<notin> set b" "tag = ''json'' \<or> tag = '''' \<and> \<not> prefix ''json'' b"
  shows "fence_find (fence @ tag @ b @ fence @ r) = Some [dropWhile (cmatch space_cls) b]"
proof -
  let ?s = "fence @ tag @ b @ fence @ r"
  have other: "\<not> prefix (fence @ ''json'') ?s" if "\<not> prefix ''json'' b" "tag = ''''"
  proof -
    have "\<not> prefix ''json'' (b @ fence @ r)"
    proof
      assume "prefix ''json'' (b @ fence @ r)"
      with that(1) obtain us where us: "prefix us ''json''" "us \<noteq> ''json''" "b = us"
        by (metis prefix_append prefix_order.dual_order.refl prefix_same_cases)
      with \<open>prefix ''json'' (b @ fence @ r)\<close> show False
        by (auto simp: fence_def prefix_Cons)
    qed
    with that(2) show ?thesis by (simp add: fence_def)
  qed
  have "fence_match ?s = Some [dropWhile (cmatch space_cls) b]"
    using assms rmatch_tail [OF assms(1), of r] other by (auto simp: fence_match_def rmatch_lits fence_def)
  then show ?thesis by (simp add: fence_def)
qed

lemma extractJson_fenced:
  assumes "CHR 0x60 \<notin> set pre" "CHR 0x60 \<notin> set b" "tag = ''json'' \<or> tag = '''' \<and> \<not> prefix ''json'' b"
  shows "extractJson (pre @ fence @ tag @ b @ fence @ r) = trim b"
  using fence_find_skip [OF assms(1)] fence_found [OF assms(2,3)] trim_spaces by (simp add: extractJson_def)

lemma extractJson_plain: "CHR 0x60 \<notin> set s \<Longrightarrow> extractJson s = trim s"
  using fence_find_skip [of s "[]"] fence_match_elsewhere [of "[]"] by (simp add: extractJson_def fence_def)

subsection \<open>Saving a verdict\<close>

lemma rmatch_nocase: "rmatch (map (\<lambda>c. One (nocase_cls c)) w @ p) (w @ s) = rmatch p s"
  by (induction w) (simp_all add: nocase_cls_def cmatch.simps)

lemma word_class: "cmatch word_cls c \<Longrightarrow> c \<noteq> CHR 0x22" "\<not> cmatch word_cls (CHR 0x22)"
  by (auto simp: word_cls_def cmatch.simps)

lemma verdict_found:
  assumes "CHR 0x22 \<notin> set pre" "list_all (cmatch space_cls) sp" "v \<noteq> []" "list_all (cmatch word_cls) v"
  shows "regex_search verdict_pattern (pre @ quoted ''verdict'' @ '':'' @ sp @ quoted v @ rest) = Some [v]"
proof -
  let ?tail = "[One (chr_cls (CHR 0x22)), Rep True word_cls 1 None True, One (chr_cls (CHR 0x22))]"
  have sp: "takeWhile (cmatch space_cls) (sp @ CHR 0x22 # s) = sp" for s
    using assms(2) by (induction sp) simp_all
  have word: "takeWhile (cmatch word_cls) (v @ CHR 0x22 # rest) = v"
    using assms(4) word_class(2) by (induction v) simp_all
  have "rmatch ?tail (quoted v @ rest) = Some [v]"
    using assms(3) word by (simp add: quoted_def rmatch_rep_stop [OF word_class(2)] Let_def Suc_le_eq)
  then have "rmatch verdict_pattern (quoted ''verdict'' @ '':'' @ sp @ quoted v @ rest) = Some [v]"
    unfolding verdict_pattern_def member_items_def
    by (simp add: quoted_def rmatch_nocase [of "''verdict''", simplified] rmatch_rep_stop Let_def sp)
  moreover have "rmatch verdict_pattern (c # cs) = None" if "c \<in> set pre" for c cs
    using that assms(1) by (auto simp: verdict_pattern_def member_items_def)
  ultimately show ?thesis using search_skip_word search_hit by metis
qed

definition unreadable :: "'n gemini \<Rightarrow> string option \<Rightarrow> bool" where
  "unreadable g response \<longleftrightarrow>
     (case raw_text (gm_json g) response of
        Inl ex \<Rightarrow> True
      | Inr txt \<Rightarrow> (case jk_readTree (gm_json g) (Some (extractJson txt)) of Inl ex \<Rightarrow> True | Inr j \<Rightarrow> False) \<and>
          regex_search verdict_pattern txt = None)"

lemma unreadable_verdict:
  "unreadable g response \<Longrightarrow> tg_verdict (parseGeminiResponse g uuid w response) = Some ''UNKNOWN''"
  by (auto simp: unreadable_def parseGeminiResponse_def salvaged_def Let_def split: sum.splits)

lemma parse_explained: "\<exists>x. tg_explanation (parseGeminiResponse g uuid w response) = Some x"
  by (auto simp: parseGeminiResponse_def Let_def case_prod_unfold split: sum.split)

lemma heuristic_explained: "\<exists>x. tg_explanation (triageWithHeuristics fmt uuid w c) = Some x"
  by (simp add: triageWithHeuristics_def Let_def case_prod_unfold)

text \<open>What a triaged window leads to.\<close>

lemma ingest_verdict:
  assumes "sw_containerId p = Some cid" "fe_extract (ie_jlog e) p = Inr vec" "ie_score e cid vec = Inr sc" "w = scored_window e p cid sc"
    and "ie_triage e w (triage_context e p w) = Inr t" "tg_verdict t = Some v" "tg_explanation t = Some x"
  shows "\<exists>s'. ingestWindow e p s = (Inr (if snd sc then ''anomalous'' else ''accepted''), s') \<and>
    (if equalsIgnoreCase ''THREAT'' (Some v) then \<exists>q. sv_sent s' = sv_sent s @ [(ie_baseUrl e @ ''/policies'', q)]
     else sv_sent s' = sv_sent s \<and> sv_policies s' = sv_policies s)"
proof -
  obtain s1 where reg: "ensureContainerRegistered e (sw_containerId p) (sw_agentId p) s = (Inr cid, s1)"
    using ensure_some assms(1) by metis
  obtain ev where ev: "triage_event e cid t = Inr ev" using assms(6,7) by (simp add: triage_event_def)
  define s2 where "s2 = publish ev (saveWindow (triaged t w) (saveTriage t (publish (scored_event p w) (saveWindow w s1))))"
  have s2: "sv_sent s2 = sv_sent s" "sv_policies s2 = sv_policies s"
    using ensure_registered(1) [OF reg] by (simp_all add: s2_def repo_defs)
  show ?thesis
    using ingest_answered [OF reg assms(2-5) ev s2_def] assms(6) s2
    by (auto simp: generatePolicy_def enforcePolicy_sent Let_def)
qed

text \<open>The same with another triage port plugged in.\<close>

lemma ingest_triaged:
  assumes "sw_containerId p = Some cid" "fe_extract (ie_jlog e) p = Inr vec" "ie_score e cid vec = Inr (score, True)"
    and "t (scored_window e p cid (score, True)) (triage_context e p (scored_window e p cid (score, True))) = Inr r"
    and "tg_verdict r = Some v" "\<exists>x. tg_explanation r = Some x"
  shows "\<exists>s'. ingestWindow (e\<lparr>ie_triage := t\<rparr>) p s = (Inr ''anomalous'', s') \<and>
      (if equalsIgnoreCase ''THREAT'' (Some v) then \<exists>q. sv_sent s' = sv_sent s @ [(ie_baseUrl e @ ''/policies'', q)]
       else sv_sent s' = sv_sent s \<and> sv_policies s' = sv_policies s)"
proof -
  let ?w = "scored_window e p cid (score, True)"
  have same: "scored_window (e\<lparr>ie_triage := t\<rparr>) = scored_window e" "triage_context (e\<lparr>ie_triage := t\<rparr>) = triage_context e"
    by (simp_all add: fun_eq_iff scored_window_def triage_context_def Let_def)
  from assms(6) obtain x where "tg_explanation r = Some x" ..
  with ingest_verdict [of p cid "e\<lparr>ie_triage := t\<rparr>" vec "(score, True)" ?w r v x s] assms(1-5)
  show ?thesis by (simp add: same cong: if_cong split del: if_split)
qed

text \<open>A reply in a code block counts as the reply itself, and one that breaks off after the verdict keeps it.\<close>

lemma reply_forms:
  assumes "raw_text (gm_json g) bare = Inr body" "raw_text (gm_json g) fenced = Inr (pre @ fence @ ''json'' @ body @ fence @ post)"
    and "CHR 0x60 \<notin> set pre" "CHR 0x60 \<notin> set body" "jk_readTree (gm_json g) (Some (trim body)) = Inr parsed"
  shows "parseGeminiResponse g uuid w fenced = parseGeminiResponse g uuid w bare"
  using assms extractJson_fenced [OF assms(3,4), of "''json''" post] extractJson_plain [OF assms(4)]
  by (simp add: parseGeminiResponse_def)

lemma truncated_reply:
  assumes "raw_text (gm_json g) response = Inr txt" "jk_readTree (gm_json g) (Some (extractJson txt)) = Inl ex"
    and "txt = pre @ quoted ''verdict'' @ '':'' @ sp @ quoted v @ rest" "CHR 0x22 \<notin> set pre"
    and "list_all (cmatch space_cls) sp" "v \<noteq> []" "list_all (cmatch word_cls) v"
  shows "tg_verdict (parseGeminiResponse g uuid w response) = Some (map ascii_upper v)"
  using assms(1,2) verdict_found [OF assms(4-7), of rest, folded assms(3)]
  by (simp add: parseGeminiResponse_def salvaged_def Let_def)

subsection \<open>Properties\<close>


definition blocked_reply :: json where
  "blocked_reply = JObj [(''promptFeedback'', JObj [(''blockReason'', JStr ''SAFETY'')])]"

definition demo_jackson :: "json jackson" where
  "demo_jackson = \<lparr>jk_readTree = (\<lambda>r. if r = Some (json_text blocked_reply) then Inr blocked_reply else Inl PortException),
     jk_path = (\<lambda>j k. case json_path j k of None \<Rightarrow> JNull | Some x \<Rightarrow> x), jk_first = (\<lambda>j. case j of JArr (x # xs) \<Rightarrow> Some x | _ \<Rightarrow> None),
     jk_asText = json_text, jk_asText_or = (\<lambda>d j. case j of JStr t \<Rightarrow> t | _ \<Rightarrow> d), jk_asDouble_or = (\<lambda>d j. case j of JNum i \<Rightarrow> of_int i | _ \<Rightarrow> d),
     jk_toString = json_text\<rparr>"

definition demo_gemini :: "json gemini" where
  "demo_gemini = \<lparr>gm_json = demo_jackson, gm_post = (\<lambda>_ _. Inl PortException), gm_instant = (\<lambda>t. show_int t), gm_fmt3 = (\<lambda>x. ''0.900''),
     gm_message = (\<lambda>_. ''null'')\<rparr>"


end
