(* ===== verification/Spec2Isabelle.thy ===== *)
theory Spec2Isabelle
  imports Kernel_Abi Pod_Names Agent_To_Server Ml_Training Server_Triage
begin

text \<open>
  DeepKernel watches the system calls of containers. A BPF program in the kernel
  (\<^verbatim>\<open>src/agent/ebpf\<close>) classifies every system call and puts a 24-byte record into a ring buffer.
  The agent (\<^verbatim>\<open>src/agent/src\<close>, \<^verbatim>\<open>src/agent/include\<close>) reads the ring buffer, finds the container a
  record belongs to, collects records into short windows that it posts to a management server, writes
  long dumps to disk on request, and turns policies it receives over HTTP into seccomp profiles.
  The management server (\<^verbatim>\<open>src/server\<close>) scores the windows, has suspicious ones triaged, and sends
  policies and dump requests back to the agent. The ML service (\<^verbatim>\<open>src/ml-service\<close>) keeps one isolation forest per
  container, trained from dumps by a command line tool, and scores windows for the server. This library models the
  agent, the BPF program, the server and the ML service with that tool; the theories follow the source files.

  \<^bold>\<open>The kernel side.\<close> \<open>C_Layout\<close> computes sizes, alignments and member offsets of C types on x86-64.
  \<open>Kernel_Trace\<close>, \<open>Kernel_Task\<close>, \<open>Kernel_Cgroup\<close>, \<open>Kernel_Ns\<close> and \<open>Kernel_Bpf\<close> are the declarations of
  \<^verbatim>\<open>vmlinux.h\<close> for the tracepoint context, tasks, cgroups, namespaces and the BPF machinery, with
  everything they embed by value. \<open>Event_Types\<close> holds the structures of \<^verbatim>\<open>event_types.h\<close> with their
  byte encodings, through one locale of wire formats. \<open>Ebpf_Probe\<close> is \<^verbatim>\<open>deepkernel.bpf.c\<close>: the
  classifier and the tracepoint handler, over a record of helper results. \<open>Kernel_Abi\<close> relates the two
  sides: equal layouts, map type, helper numbers, ring buffer pages, no overlapping members.

  \<^bold>\<open>Names of containers.\<close> \<open>Name_Resolver\<close> states as a locale what the agent relies on in a name
  resolver: what a look-up returns, that it keeps the cache's invariant, and that a cached name is
  stable until it expires. \<open>Docker_Mapper\<close> (\<^verbatim>\<open>docker_mapper.cpp\<close>) and \<open>Container_Mapper\<close>
  (\<^verbatim>\<open>container_mapper.cpp\<close>) interpret it; \<open>Pod_Names\<close> follows a look-up on a Kubernetes
  node from the cgroup file to the name of the pod. Regular expressions of \<^verbatim>\<open>std::regex\<close> are matched by the
  function of \<open>Std_Regex\<close>; \<^verbatim>\<open>/proc\<close>, Docker's socket, \<^verbatim>\<open>crictl\<close> and the clock are parameters.

  \<^bold>\<open>Talking to the server.\<close> \<open>Serialization\<close> (\<^verbatim>\<open>serialization.cpp\<close>) builds trace records and JSON
  payloads and reads them back; \<open>Http_Client\<close> (\<^verbatim>\<open>http_client.cpp\<close>) posts with retries over an oracle
  for libcurl; \<open>Agent_Config\<close> (\<^verbatim>\<open>config.cpp\<close>) reads the environment. \<open>Agent_Server\<close>
  (\<^verbatim>\<open>agent_server.cpp\<close>) parses and routes requests; the locale \<open>control_handlers\<close> says what it needs of its two
  callbacks. \<open>Policy_Enforcer\<close> (\<^verbatim>\<open>policy_enforcer.cpp\<close>) applies policies to a world of files
  and shell commands.

  \<^bold>\<open>The agent.\<close> \<open>Dump_Names\<close> names dump files; \<open>Agent_Buffers\<close> is the state per container and the operations on it, with a model of
  \<^verbatim>\<open>std::ofstream\<close> over a disk; \<open>Agent_Core\<close> is \<^verbatim>\<open>agent.cpp\<close>: the event handler with expiry and
  clean-up, the control callbacks, BPF set-up, the poll loop and \<^verbatim>\<open>main\<close>. \<open>Agent_Safety\<close> makes it a transition
  system, proves its invariant for every reachable state and interprets the control contract on it.
  \<open>Agent_Windows\<close> specifies short windows by an abstract machine and proves that the agent refines it
  on every network; \<open>Agent_Dumps\<close> does the same for long dumps and their files, and \<open>Agent_Reports\<close> for
  the messages that announce finished dumps, both through the locale \<open>dump_observer\<close> of observations kept by runs.

  \<^bold>\<open>The server.\<close> \<open>Server_Training\<close> is the model registry and the training service, \<open>Server_Control\<close>
  the policy generator and the adapter that posts to the agent, with JSON values and their texts from
  \<open>Json_Text\<close>, which also says what the agent's pattern searches find in such a text (locale \<open>key_search\<close>,
  interpreted for strings and for numbers). \<open>Server_Features\<close> turns a window into the 594 numbers of \<^verbatim>\<open>FeatureExtractor.java\<close> and
  \<open>Server_Anomaly\<close> scores them with the local heuristic, or with the remote service while it answers; both
  compute with \<^verbatim>\<open>float\<close> and \<^verbatim>\<open>double\<close> rounded after every operation as in \<open>Java_Float\<close>.
  \<open>Server_State\<close> holds the repositories, the window summary, the deployment contexts and the heuristic triage;
  \<open>Server_Ingest\<close> the endpoints that change state, with the locale \<open>ingest_invariant\<close> of what processing a
  window keeps. Scoring, triage and change context reach the endpoints as ports, which are parameters. \<open>Server_Views\<close> adds the
  views of the user interface and the demo triage endpoint, which keeps what windows keep, and \<open>Server_Triage\<close> the
  prompt for the language model and the reading of its reply, with Jackson as the record \<open>jackson\<close>.

  \<^bold>\<open>The ML service.\<close> \<open>Ml_Dump\<close> and \<open>Ml_Features\<close> are \<^verbatim>\<open>tools/train_from_dump.py\<close>: reading a dump file, cutting it into
  windows and extracting features in double precision. \<open>Ml_Service\<close> is \<^verbatim>\<open>models/isolation_forest.py\<close>,
  \<^verbatim>\<open>models/model_registry.py\<close> and the endpoints of \<^verbatim>\<open>main.py\<close> that score, train, describe, delete and simulate, with model files
  and restarts; scikit-learn's \<^verbatim>\<open>fit\<close> and \<^verbatim>\<open>score_samples\<close> are the record \<open>sklearn\<close>. \<open>Ml_Remote\<close> is the server's client of it
  (\<^verbatim>\<open>RemoteMlAdapter.java\<close>), with the hybrid adapter in front, and \<open>Ml_Training\<close> the tool's \<^verbatim>\<open>main\<close> from the agent's dump to the
  trained model.

  \<^bold>\<open>The loop.\<close> This theory, \<open>Control_Loop\<close> and \<open>Agent_To_Server\<close> join the parts: what the probe records
  is what the agent handles, what the agent posts is what the server reads, and what the server sends over
  HTTP is what the agent does. Spring's path matching and Jackson's reading of numbers are parameters with their
  documented laws as locales (\<open>path_matching\<close>, \<open>window_binding\<close>), interpreted on concrete functions.

  \<^bold>\<open>What is shown.\<close> No accepted event is lost, duplicated or reordered between the ring buffer and the
  server while the network works; what happens to windows when it does not; dump files read back to
  exactly the events of their dump, and each finished dump is announced once; policies and dump
  requests sent over HTTP take effect and are answered with a well-formed response; names and
  identifiers have their documented shape; layouts agree across the kernel boundary. On the server: feature
  extraction never fails and has its layout; the repositories stay consistent through any sequence of requests; a window
  that is judged a threat leads, through server and agent, to a seccomp profile on disk; a failing
  remote detector is replaced and left alone; training that is reported back finishes. Of the ML service: the tool reads
  back every dump of the agent, cut off anywhere; cutting it into windows ends for every positive length and loses nothing; its
  feature extractor computes what the server's does, up to the argument classes; a dump with ten good
  windows trains a model; the registry and its files stay consistent, a saved model survives restarts, and the
  server's verdicts are those of the forest. Where the code falls short,
  the theorem says so: a second dump request during a dump, an event between the two halves of opening a
  dump, time stamps out of order, windows that meet an outage, control requests that arrive in two segments, and
  pods that are given the name of the agent's own pod; windows the server refuses because of one time stamp, a
  training whose completion the server has no endpoint for, policies recorded as applied whatever the agent
  says, ratios that count the wrong argument class, and a fallback detector that cannot flag a reverse shell; training
  rows whose duration is the last gap only, an empty window that turns remote scoring off, container ids that
  share a model file, and replies of the language model that cannot be read and so suppress a policy.

  \<^bold>\<open>Choices.\<close> Machine integers are words of their width, so differences of time stamps wrap as in the
  code. An exception nobody catches is \<open>None\<close>. Loops over observations (the poll loop, the accept
  loop) take the finite list of what the calls return, one entry per iteration. The readers of JSON lists take the
  length of the text as fuel: each step consumes at least one character. The loop of the training tool that closes windows may run
  forever and is a partial function with \<open>None\<close> for that. The event thread and the
  server thread interleave at the granularity of whole handlers, except that opening a dump is also
  given in two halves. A written byte counts as on disk; a file that could be opened takes what is written to it.

  \<^bold>\<open>Not modelled.\<close> Log output; thread interleavings inside other handlers, and the data races on
  the buffer table that come with them; signal delivery beyond the stop flag; the clocks and the conversion
  to local time, which are parameters; the kernel's ring buffer itself; the declarations of \<^verbatim>\<open>vmlinux.h\<close> the
  program does not use. Of the server: the language model itself, web sockets, the wiring of the
  framework, the health and information pages, and concurrency of requests (a handler is one step); the
  sign of a floating-point zero. Of the ML service: the statistics page, the demonstration scripts beside the training
  tool, and scikit-learn itself. The browser front end, the demo applications, scripts and tests are left out.

  \<^bold>\<open>Further work.\<close> Finer interleavings of the two threads of the agent and of
  concurrent requests to the server; the cases of the unit tests as evaluations of the model.
\<close>

section \<open>From the kernel to the agent\<close>

text \<open>C6: A record the probe submits for a system call is, byte for byte, what the agent's ring buffer
  callback handles: the callback behaves as the event handler on the event with the probe's
  time stamp, process, thread, truncated cgroup id, system call number and class.\<close>

theorem probe_record_handled:
  assumes "bpf_ringbuf_reserve h 24 = Some slot" "length slot = 24"
    and "i = le_word (member_bytes struct_trace_event_raw_sys_enter ''id'' ctx)"
  shows "foldl (handleEventThunk e) a (snd (handle_sys_enter h ctx [])) = handleEvent e a (probe_event h i) \<and>
    tsNs (map_event (probe_event h i)) = bpf_ktime_get_ns h \<and>
    argClass (map_event (probe_event h i)) = classify_arg_class (sint i)"
proof -
  have "snd (handle_sys_enter h ctx []) = [KernelSyscallEvent_enc (probe_event h i)]"
    using handle_sys_enter_slot [OF assms(1,2), of i ctx "[]"] assms(3) by (simp add: ctx_id_bytes)
  then show ?thesis
    by (simp add: handleEventThunk_def kernel_event.enc_length kernel_event.dec_enc map_event_def probe_event_def)
qed

theorem probe_record_handled_witness:
  "foldl (handleEventThunk quiet_env) fresh_agent
     (snd (handle_sys_enter sample_helpers (replicate 8 0 @ [42, 0, 0, 0, 0, 0, 0, 0] @ replicate 48 0) [])) =
   handleEvent quiet_env fresh_agent (probe_event sample_helpers 42)"
proof -
  let ?ctx = "replicate 8 0 @ [42, 0, 0, 0, 0, 0, 0, 0] @ replicate 48 (0 :: u8)"
  have "(42 :: 64 word) = le_word (member_bytes struct_trace_event_raw_sys_enter ''id'' ?ctx)"
    by (simp add: ctx_id_bytes)
  from probe_record_handled [of sample_helpers "replicate 24 0xFF" 42 ?ctx quiet_env fresh_agent] this show ?thesis
    by (simp add: sample_helpers_def)
qed

section \<open>From the agent to the server\<close>

lemma post_of_read:
  assumes "CHR 0x22 \<notin> set (agentId c)" "CHR 0x22 \<notin> set (fst x)"
  shows "parse_window (tr_body (post_of c x)) =
    Some (agentId c, fst x, unat (tsNs (hd (snd x))), map (record_of (tsNs (hd (snd x)))) (snd x))"
  using parse_window_json [OF assms] by (cases x) (simp add: post_of_def)

lemma collect_ids: "fst ` set (snd (fold (collect c) xs (P, []))) \<subseteq> fst ` set xs"
proof -
  have "fst ` set (snd (fold (collect c) xs (P, out))) \<subseteq> fst ` set xs \<union> fst ` set out" for P out
  proof (induction xs arbitrary: P out)
    case (Cons x xs)
    have "fst ` set (snd (collect c x (P, out))) \<subseteq> insert (fst x) (fst ` set out)"
      by (cases x) (auto simp: collect_def Let_def)
    moreover have "fst ` set (snd (fold (collect c) xs (collect c x (P, out)))) \<subseteq>
        fst ` set xs \<union> fst ` set (snd (collect c x (P, out)))"
      using Cons [of "fst (collect c x (P, out))" "snd (collect c x (P, out))"] by simp
    ultimately have "fst ` set (snd (fold (collect c) xs (collect c x (P, out)))) \<subseteq>
        fst ` set xs \<union> insert (fst x) (fst ` set out)" by (meson Un_mono order_refl order_trans)
    then show ?case by auto
  qed simp
  from this [of P "[]"] show ?thesis by simp
qed

text \<open>C1: What the server learns. From a fresh agent, on a working network, whatever else happens in
  between: reading the posted windows back gives, window by window, the agent's id, the
  container and the microsecond time, number, class and bucket of every event, and for each
  container the windows in order followed by the events still pending are exactly the events
  accepted for it.\<close>

theorem server_sees_all_events:
  assumes "Agent_new e0 c = Some a" "\<forall>e evt. Event e evt \<in> set is \<longrightarrow> working e" "feed is a = Some (a', xs)"
    and "CHR 0x22 \<notin> set (agentId c)" "\<forall>x \<in> set xs. CHR 0x22 \<notin> set (fst x)"
  shows "\<exists>ws. map (\<lambda>t. parse_window (tr_body t)) (window_posts c (ag_net a')) =
      map (\<lambda>(cid, w). Some (agentId c, cid, unat (tsNs (hd w)), map (record_of (tsNs (hd w))) w)) ws \<and>
    (\<forall>k. delivered k ws @ pending_of a' k = events_of k xs)"
proof -
  obtain P ws where f: "fold (collect c) xs (pending_of a, []) = (P, ws)" by fastforce
  have reach: "agent_reachable c a" using assms(1) by (rule agent_reachable.new)
  have fresh: "window_posts c (ag_net a) = []" "pending_of a k = []" for k
    using assms(1) by (auto simp: Agent_new_def window_posts_def net0_def pending_of_def um_get_def ContainerBuffer_new_def)
  have P: "pending_of a' = P" and posts: "window_posts c (ag_net a') = map (post_of c) ws"
    using feed_working [OF reachable_inv [OF reach] reachable_config [OF reach] assms(2,3)] by (simp_all add: f fresh)
  have "fst ` set ws \<subseteq> fst ` set xs" using collect_ids [of c xs "pending_of a"] f by simp
  with assms(5) have quotes: "\<forall>x \<in> set ws. CHR 0x22 \<notin> set (fst x)" by fastforce
  have "delivered k ws @ P k = events_of k xs" for k
    using fold_collect_lossless [of k c xs "(pending_of a, [])"] f fresh by (simp add: delivered_def)
  moreover have "map (\<lambda>t. parse_window (tr_body t)) (map (post_of c) ws) =
      map (\<lambda>(cid, w). Some (agentId c, cid, unat (tsNs (hd w)), map (record_of (tsNs (hd w))) w)) ws"
    using quotes post_of_read [OF assms(4)] by (auto simp: case_prod_unfold)
  ultimately show ?thesis unfolding posts P by blast
qed

theorem server_sees_all_events_witness:
  "\<exists>ws. map (\<lambda>t. parse_window (tr_body t)) (window_posts default_config (ag_net (handleEvent quiet_env fresh_agent host_event))) =
      map (\<lambda>(cid, w). Some (''node-1'', cid, unat (tsNs (hd w)), map (record_of (tsNs (hd w))) w)) ws \<and>
    delivered ''host-9'' ws @ pending_of (handleEvent quiet_env fresh_agent host_event) ''host-9'' = [map_event host_event]"
proof -
  have run: "feed [Event quiet_env host_event] fresh_agent =
      Some (handleEvent quiet_env fresh_agent host_event, [(''host-9'', map_event host_event)])"
    by (simp add: host_event_accepted)
  have name: "agentId default_config = ''node-1''" by (simp add: default_config_def)
  have quotes: "CHR 0x22 \<notin> set (agentId default_config)"
    "\<forall>x \<in> set [(''host-9'', map_event host_event)]. CHR 0x22 \<notin> set (fst x)"
    by (simp_all add: name)
  have own: "events_of ''host-9'' [(''host-9'', map_event host_event)] = [map_event host_event]" by (simp add: events_of_def)
  show ?thesis
    using server_sees_all_events [OF fresh_agent_new quiet_env_working run quotes] unfolding name
    by (elim exE conjE, intro exI conjI) (assumption, simp only: own)
qed

end
